(* ===== verification/IdleSession.thy ===== *)
theory IdleSession
  imports Main "HOL-Library.Word"
begin

text \<open>
  src/pkg/admin/ui-v2/src/lib/adminIdleSession.ts: \<open>useAdminIdleLogout\<close>. The hook keeps a
  deadline and one browser timer; every activity event re-arms both, and the timer's
  callback calls \<open>onIdle\<close> when the deadline has passed. Times are milliseconds. The
  browser may run a timer late but never early, and it reads the delay as a signed 32 bit
  integer.
\<close>

datatype activity_event = MouseDown | KeyDown | Scroll | TouchStart

record idle_opts =
  enabled :: bool
  idleTimeoutSeconds :: int

record idle_st =
  deadline :: int
  timer :: "int option"
  lastBump :: int
  idleCalls :: "int list"

text \<open>The delay \<open>setTimeout\<close> really waits: a signed 32 bit value, negative ones count as 0.\<close>

definition timeout_delay :: "int \<Rightarrow> int" where
  "timeout_delay ms = max 0 (sint (word_of_int ms :: 32 word))"

text \<open>
  \<open>bump\<close>: the new deadline, the old timer cleared, a new one armed. \<open>lastBump\<close> records
  the time of the call for the statements below; the code does not read it.
\<close>

definition bump :: "int \<Rightarrow> int \<Rightarrow> idle_st \<Rightarrow> idle_st" where
  "bump secs now s =
     s\<lparr>deadline := now + secs * 1000, timer := Some (now + timeout_delay (secs * 1000)), lastBump := now\<rparr>"

text \<open>The effect: returns without doing anything when the hook is off, else arms the timer.\<close>

definition idle_mount :: "idle_opts \<Rightarrow> int \<Rightarrow> idle_st \<Rightarrow> idle_st" where
  "idle_mount opts now s =
     (if \<not> enabled opts \<or> idleTimeoutSeconds opts \<le> 0 then s
      else bump (idleTimeoutSeconds opts) now s)"

text \<open>The clean-up: the timer is cleared and the listeners are gone.\<close>

definition idle_unmount :: "idle_st \<Rightarrow> idle_st" where
  "idle_unmount s = s\<lparr>timer := None\<rparr>"

text \<open>The timer's callback, run at \<open>now\<close>.\<close>

definition idle_fire :: "int \<Rightarrow> idle_st \<Rightarrow> idle_st" where
  "idle_fire now s =
     (let s' = s\<lparr>timer := None\<rparr>
      in if deadline s \<le> now then s'\<lparr>idleCalls := idleCalls s' @ [now]\<rparr> else s')"

definition idle_initial :: idle_st where
  "idle_initial = \<lparr>deadline = 0, timer = None, lastBump = 0, idleCalls = []\<rparr>"

text \<open>
  The runs of the mounted hook: time passes, an activity event of any of the four kinds
  bumps, and a due timer fires, possibly late.
\<close>

inductive idle_step :: "int \<Rightarrow> int \<times> idle_st \<Rightarrow> int \<times> idle_st \<Rightarrow> bool" for secs :: int where
  wait: "t \<le> t' \<Longrightarrow> idle_step secs (t, s) (t', s)"
| activity: "idle_step secs (t, s) (t, bump secs t s)"
| fire: "timer s = Some due \<Longrightarrow> due \<le> t \<Longrightarrow> idle_step secs (t, s) (t, idle_fire t s)"

inductive idle_run :: "int \<Rightarrow> int \<Rightarrow> int \<times> idle_st \<Rightarrow> bool" for secs t0 :: int where
  start: "idle_run secs t0 (t0, bump secs t0 idle_initial)"
| step: "idle_run secs t0 c \<Longrightarrow> idle_step secs c d \<Longrightarrow> idle_run secs t0 d"

inductive_cases idle_stepE: "idle_step secs (t, s) d"

section \<open>Safety: never early\<close>

definition idle_inv :: "int \<Rightarrow> int \<times> idle_st \<Rightarrow> bool" where
  "idle_inv secs c =
     (let t = fst c; s = snd c in
      deadline s = lastBump s + secs * 1000 \<and> lastBump s \<le> t \<and>
      (timer s = None \<or> timer s = Some (lastBump s + timeout_delay (secs * 1000))))"

lemma idle_inv_step: "idle_step secs c d \<Longrightarrow> idle_inv secs c \<Longrightarrow> idle_inv secs d"
  by (induction rule: idle_step.induct)
    (auto simp: idle_inv_def bump_def idle_fire_def Let_def)

lemma idle_inv_run: "idle_run secs t0 c \<Longrightarrow> idle_inv secs c"
proof (induction rule: idle_run.induct)
  case start
  show ?case by (simp add: idle_inv_def bump_def)
next
  case (step c d)
  then show ?case by (blast intro: idle_inv_step)
qed

lemma idle_calls_step:
  assumes "idle_step secs (t, s) (t', s')" and "idle_inv secs (t, s)"
  shows "idleCalls s' = idleCalls s \<or>
    (idleCalls s' = idleCalls s @ [t] \<and> lastBump s + secs * 1000 \<le> t)"
proof -
  from assms(2) have inv: "deadline s = lastBump s + secs * 1000"
    by (simp add: idle_inv_def Let_def)
  have "idleCalls (idle_fire t s) = idleCalls s \<or>
      (idleCalls (idle_fire t s) = idleCalls s @ [t] \<and> lastBump s + secs * 1000 \<le> t)"
    by (simp add: idle_fire_def inv Let_def)
  with assms(1) show ?thesis
    by (elim idle_stepE) (auto simp: bump_def)
qed

section \<open>Delays the timer can represent\<close>

lemma timeout_delay_id:
  assumes "0 \<le> ms" and "ms < 2147483648"
  shows "timeout_delay ms = ms"
proof -
  have "sint (word_of_int ms :: 32 word) = ms"
    using assms by (simp add: signed_of_int signed_take_bit_int_eq_self)
  with assms show ?thesis by (simp add: timeout_delay_def)
qed

lemma timeout_delay_overflow:
  assumes "2147483648 \<le> ms" and "ms < 4294967296"
  shows "timeout_delay ms = 0"
proof -
  from assms have "ms div 2147483648 = 1"
    by (intro int_div_pos_eq [where r = "ms - 2147483648"]) simp_all
  then have "bit ms 31" by (simp add: bit_iff_odd)
  then have "signed_take_bit 31 ms < 0" by simp
  then show ?thesis by (simp add: timeout_delay_def signed_of_int)
qed

text \<open>
  With a delay the timer can represent the hook is never stuck: either the timer is armed
  for exactly the deadline, so that firing it calls \<open>onIdle\<close>, or \<open>onIdle\<close> has been
  called since the last activity.
\<close>

definition idle_live :: "int \<times> idle_st \<Rightarrow> bool" where
  "idle_live c =
     (let s = snd c in
      timer s = Some (deadline s) \<or>
      (timer s = None \<and> idleCalls s \<noteq> [] \<and> deadline s \<le> last (idleCalls s)))"

lemma idle_live_bump:
  "0 \<le> secs \<Longrightarrow> secs \<le> 2147483 \<Longrightarrow> idle_live (t, bump secs t s)"
  by (simp add: idle_live_def bump_def timeout_delay_id)

lemma idle_live_step:
  assumes "0 \<le> secs" and "secs \<le> 2147483"
  shows "idle_step secs c d \<Longrightarrow> idle_live c \<Longrightarrow> idle_live d"
proof (induction rule: idle_step.induct)
  case (fire s due t)
  then show ?case by (auto simp: idle_live_def idle_fire_def Let_def)
qed (auto simp: idle_live_bump [OF assms], simp add: idle_live_def)

lemma idle_live_run:
  assumes "0 \<le> secs" and "secs \<le> 2147483"
  shows "idle_run secs t0 c \<Longrightarrow> idle_live c"
proof (induction rule: idle_run.induct)
  case start
  show ?case by (rule idle_live_bump [OF assms])
next
  case (step c d)
  then show ?case by (blast intro: idle_live_step [OF assms])
qed

section \<open>Properties\<close>

text \<open>
  C15. The idle logout is never early: whatever the events and however late the timers,
  \<open>onIdle\<close> is called only when the full timeout has passed since the last activity.
\<close>

theorem idle_never_early:
  assumes "idle_run secs t0 (t, s)" and "idle_step secs (t, s) (t', s')" and "idleCalls s' \<noteq> idleCalls s"
  shows "lastBump s + secs * 1000 \<le> t \<and> idleCalls s' = idleCalls s @ [t]"
  using idle_calls_step [OF assms(2) idle_inv_run [OF assms(1)]] assms(3) by blast

theorem idle_never_early_witness:
  "lastBump (bump 60 0 idle_initial) + 60 * 1000 \<le> 60000"
proof -
  have d: "timeout_delay 60000 = 60000" by (rule timeout_delay_id) simp_all
  have r: "idle_run 60 0 (60000, bump 60 0 idle_initial)"
    by (rule idle_run.step [OF idle_run.start]) (rule idle_step.wait, simp)
  have f: "idle_step 60 (60000, bump 60 0 idle_initial) (60000, idle_fire 60000 (bump 60 0 idle_initial))"
    by (rule idle_step.fire [where due = 60000]) (simp_all add: bump_def d)
  have "idleCalls (idle_fire 60000 (bump 60 0 idle_initial)) \<noteq> idleCalls (bump 60 0 idle_initial)"
    by (simp add: idle_fire_def bump_def idle_initial_def)
  from idle_never_early [OF r f this] show ?thesis by simp
qed

text \<open>
  C16. The idle logout is never stuck: for a timeout the browser's timer can represent
  (up to 2147483 seconds), at every moment either the timer is armed for exactly the
  deadline, and running it calls \<open>onIdle\<close>, or \<open>onIdle\<close> has been called since the last
  activity.
\<close>

theorem idle_never_stuck:
  assumes "0 \<le> secs" and "secs \<le> 2147483" and "idle_run secs t0 (t, s)"
  shows "(\<exists>due. timer s = Some due \<and> deadline s = due \<and>
            (\<forall>now. due \<le> now \<longrightarrow> idleCalls (idle_fire now s) = idleCalls s @ [now])) \<or>
         (idleCalls s \<noteq> [] \<and> deadline s \<le> last (idleCalls s))"
  using idle_live_run [OF assms] by (auto simp: idle_live_def idle_fire_def Let_def)

theorem idle_never_stuck_witness:
  "timer (bump 900 0 idle_initial) = Some (deadline (bump 900 0 idle_initial))"
  using idle_never_stuck [of 900 0 0 "bump 900 0 idle_initial"]
  by (auto simp: idle_run.start) (simp add: bump_def idle_initial_def)

text \<open>
  C33. A longer timeout overflows the timer's 32 bit delay. From 2147484 to 4294967 seconds
  the timer is due at once; when it runs before the deadline, its callback finds the deadline
  in the future and gives up. The timer is then gone, no logout was made, and without further
  activity nothing but waiting can happen: the session does not time out.
\<close>

theorem idle_overflow_never_logs_out:
  assumes "2147484 \<le> secs" and "secs \<le> 4294967" and "t0 \<le> now" and "now < t0 + secs * 1000"
    and "idle_step secs (t, idle_fire now (bump secs t0 s)) (t', s')"
    and "s' \<noteq> bump secs t (idle_fire now (bump secs t0 s))"
  shows "timer (bump secs t0 s) = Some t0 \<and> s' = idle_fire now (bump secs t0 s) \<and>
    timer s' = None \<and> idleCalls s' = idleCalls s"
proof -
  from assms(1,2) have d: "timeout_delay (secs * 1000) = 0"
    by (intro timeout_delay_overflow) simp_all
  have s0: "timer (idle_fire now (bump secs t0 s)) = None"
      "idleCalls (idle_fire now (bump secs t0 s)) = idleCalls s"
    using assms(4) by (simp_all add: idle_fire_def bump_def)
  have "s' = idle_fire now (bump secs t0 s)"
    using assms(5) by (cases rule: idle_stepE) (use s0 assms(6) in auto)
  with s0 show ?thesis by (simp add: bump_def d)
qed

theorem idle_overflow_never_logs_out_witness:
  "timer (bump 2592000 0 idle_initial) = Some 0 \<and> idleCalls (idle_fire 0 (bump 2592000 0 idle_initial)) = []"
  using idle_overflow_never_logs_out [of 2592000 0 0 1 idle_initial 2 "idle_fire 0 (bump 2592000 0 idle_initial)"]
  by (simp add: idle_step.wait) (simp add: idle_fire_def bump_def idle_initial_def)

end
