(* ===== verification/JsValue.thy ===== *)
theory JsValue
  imports JsPrelude
begin

text \<open>
  The dynamic values the console handles: everything it reads from the network has type
  \<open>any\<close> in the source, so property reads, coercions and defaults are modelled with
  JavaScript's own rules. A read from \<open>undefined\<close> or \<open>null\<close> is a
  \<open>TypeError\<close>, a value of the result type. Numbers are integers: the console computes
  with counts, page numbers and percentages only. An object is an association list in
  insertion order; only own properties are modelled.
\<close>

datatype jv = JUndef | JNull | JBool bool | JNum int | JStr string | JArr "jv list"
  | JObj "(string \<times> jv) list"

type_synonym obj = "(string \<times> jv) list"

section \<open>Coercions and operators\<close>

fun truthy :: "jv \<Rightarrow> bool" where
  "truthy JUndef = False"
| "truthy JNull = False"
| "truthy (JBool b) = b"
| "truthy (JNum n) = (n \<noteq> 0)"
| "truthy (JStr s) = (s \<noteq> [])"
| "truthy _ = True"

definition is_nullish :: "jv \<Rightarrow> bool" where
  "is_nullish v = (v = JUndef \<or> v = JNull)"

text \<open>\<open>a || b\<close> and \<open>a ?? b\<close>.\<close>

definition js_or :: "jv \<Rightarrow> jv \<Rightarrow> jv" where
  "js_or a b = (if truthy a then a else b)"

definition js_nullish :: "jv \<Rightarrow> jv \<Rightarrow> jv" where
  "js_nullish a b = (if is_nullish a then b else a)"

fun is_array :: "jv \<Rightarrow> bool" where
  "is_array (JArr _) = True"
| "is_array _ = False"

fun arr_items :: "jv \<Rightarrow> jv list" where
  "arr_items (JArr xs) = xs"
| "arr_items _ = []"

text \<open>\<open>typeof v === 'object'\<close>, which holds of \<open>null\<close> and of arrays too.\<close>

fun is_object :: "jv \<Rightarrow> bool" where
  "is_object JNull = True"
| "is_object (JArr _) = True"
| "is_object (JObj _) = True"
| "is_object _ = False"

text \<open>\<open>String(v)\<close>, which template literals use as well.\<close>

fun js_string :: "jv \<Rightarrow> string" where
  "js_string JUndef = ''undefined''"
| "js_string JNull = ''null''"
| "js_string (JBool b) = (if b then ''true'' else ''false'')"
| "js_string (JNum n) = int_string n"
| "js_string (JStr s) = s"
| "js_string (JArr xs) = join_with '','' (map (\<lambda>x. if is_nullish x then [] else js_string x) xs)"
| "js_string (JObj _) = ''[object Object]''"

section \<open>Property access\<close>

fun jprop :: "jv \<Rightarrow> string \<Rightarrow> jv" where
  "jprop (JObj kvs) k = (case map_of kvs k of None \<Rightarrow> JUndef | Some v \<Rightarrow> v)"
| "jprop (JArr xs) k = (if k = ''length'' then JNum (int (length xs)) else JUndef)"
| "jprop (JStr s) k = (if k = ''length'' then JNum (int (length s)) else JUndef)"
| "jprop _ k = JUndef"

definition type_error :: "jv \<Rightarrow> string \<Rightarrow> string" where
  "type_error v k = ''Cannot read properties of '' @ js_string v @ '' (reading '' @ [CHR 39] @ k @ [CHR 39] @ '')''"

text \<open>\<open>v.k\<close> throws on \<open>undefined\<close> and \<open>null\<close>; \<open>v?.k\<close> does not.\<close>

definition js_get :: "jv \<Rightarrow> string \<Rightarrow> jv res" where
  "js_get v k = (if is_nullish v then Inl (type_error v k) else Inr (jprop v k))"

definition oget :: "jv \<Rightarrow> string \<Rightarrow> jv" where
  "oget v k = (if is_nullish v then JUndef else jprop v k)"

text \<open>\<open>o.k\<close> on a value known to be an object.\<close>

definition ofield :: "obj \<Rightarrow> string \<Rightarrow> jv" where
  "ofield kvs k = jprop (JObj kvs) k"

text \<open>\<open>caps?.includes(c)\<close> on a capability list; a list of strings or absent.\<close>

definition has_capability :: "jv \<Rightarrow> string \<Rightarrow> bool" where
  "has_capability provider c = (JStr c \<in> set (arr_items (oget provider ''capabilities'')))"

lemma map_of_size: "map_of kvs k = Some v \<Longrightarrow> size v < size_list (size_prod (\<lambda>_. 0) size) kvs"
  by (induction kvs) (auto split: if_splits)

lemma arr_items_mem: "c \<in> set (arr_items w) \<Longrightarrow> \<exists>xs. w = JArr xs \<and> c \<in> set xs"
  by (cases w) auto

lemma arr_items_oget_size:
  assumes "c \<in> set (arr_items (oget v k))"
  shows "size c < size v"
proof -
  from assms obtain kvs xs where v: "v = JObj kvs" and m: "map_of kvs k = Some (JArr xs)" and c: "c \<in> set xs"
    by (cases v) (auto simp: oget_def is_nullish_def split: if_splits option.splits dest: arr_items_mem)
  from c have "size c < size (JArr xs)"
    by (auto dest: size_list_estimation' [where f = size, OF _ order_refl])
  also have "\<dots> < size v"
    using map_of_size [OF m] by (simp add: v)
  finally show ?thesis .
qed

text \<open>\<open>v.length > 0\<close>.\<close>

definition has_items :: "jv \<Rightarrow> bool" where
  "has_items v = (case jprop v ''length'' of JNum n \<Rightarrow> 0 < n | _ \<Rightarrow> False)"

section \<open>Object literals and spread\<close>

definition obj_set :: "string \<Rightarrow> jv \<Rightarrow> obj \<Rightarrow> obj" where
  "obj_set k v kvs = AList.update k v kvs"

text \<open>The own enumerable properties \<open>...v\<close> copies.\<close>

fun entries_of :: "jv \<Rightarrow> obj" where
  "entries_of (JObj kvs) = kvs"
| "entries_of (JArr xs) = zip (map nat_digits [0..<length xs]) xs"
| "entries_of (JStr s) = zip (map nat_digits [0..<length s]) (map (\<lambda>c. JStr [c]) s)"
| "entries_of _ = []"

text \<open>\<open>{ ...a, ...b }\<close>: the entries of \<open>b\<close> are stored over those of \<open>a\<close>.\<close>

definition obj_spread :: "obj \<Rightarrow> obj \<Rightarrow> obj" where
  "obj_spread a b = foldl (\<lambda>acc (k, v). obj_set k v acc) a b"

text \<open>
  What \<open>JSON.stringify\<close> keeps of a value: a property that holds \<open>undefined\<close> is
  left out, an array element that is \<open>undefined\<close> is written as \<open>null\<close>.
\<close>

fun json_value :: "jv \<Rightarrow> jv" where
  "json_value (JArr xs) = JArr (map (\<lambda>x. if x = JUndef then JNull else json_value x) xs)"
| "json_value (JObj kvs) = JObj (map (\<lambda>(k, v). (k, json_value v)) (filter (\<lambda>(k, v). v \<noteq> JUndef) kvs))"
| "json_value v = v"

section \<open>Laws\<close>

lemma js_or_simps [simp]:
  "truthy a \<Longrightarrow> js_or a b = a"
  "\<not> truthy a \<Longrightarrow> js_or a b = b"
  by (simp_all add: js_or_def)

lemma truthy_js_or: "truthy (js_or a b) \<longleftrightarrow> truthy a \<or> truthy b"
  by (simp add: js_or_def)

lemma truthy_not_nullish: "truthy v \<Longrightarrow> \<not> is_nullish v"
  by (auto simp: is_nullish_def)

lemma js_get_obj [simp]: "js_get (JObj kvs) k = Inr (jprop (JObj kvs) k)"
  by (simp add: js_get_def is_nullish_def)

lemma oget_obj [simp]: "oget (JObj kvs) k = jprop (JObj kvs) k"
  by (simp add: oget_def is_nullish_def)

lemma oget_ofield: "oget (JObj kvs) k = ofield kvs k"
  by (simp add: ofield_def)

lemma oget_nullish [simp]: "oget JUndef k = JUndef" "oget JNull k = JUndef"
  by (simp_all add: oget_def is_nullish_def)

lemma js_get_InrD: "js_get v k = Inr w \<Longrightarrow> oget v k = w \<and> \<not> is_nullish v"
  by (auto simp: js_get_def oget_def split: if_splits)

lemma ofield_Nil [simp]: "ofield [] k = JUndef"
  by (simp add: ofield_def)

lemma ofield_set: "ofield (obj_set k v kvs) j = (if j = k then v else ofield kvs j)"
  by (simp add: ofield_def obj_set_def update_conv')

lemma ofield_set_same [simp]: "ofield (obj_set k v kvs) k = v"
  by (simp add: ofield_set)

lemma ofield_set_other [simp]: "j \<noteq> k \<Longrightarrow> ofield (obj_set k v kvs) j = ofield kvs j"
  by (simp add: ofield_set)

lemma map_of_spread:
  "map_of (obj_spread a b) = map_of a ++ map_of (rev b)"
proof (induction b arbitrary: a)
  case Nil
  then show ?case by (simp add: obj_spread_def)
next
  case (Cons kv b)
  obtain k v where kv: "kv = (k, v)" by (cases kv)
  have "obj_spread a (kv # b) = obj_spread (obj_set k v a) b"
    by (simp add: obj_spread_def kv)
  then have "map_of (obj_spread a (kv # b)) = (map_of a)(k \<mapsto> v) ++ map_of (rev b)"
    using Cons.IH [of "obj_set k v a"] by (simp only: obj_set_def update_conv')
  then show ?case by (simp add: kv map_add_assoc flip: map_add_assoc) (auto simp: map_add_def fun_eq_iff split: option.splits)
qed

lemma ofield_spread:
  "ofield (obj_spread a b) k = (case map_of (rev b) k of Some v \<Rightarrow> v | None \<Rightarrow> ofield a k)"
  by (simp add: ofield_def map_of_spread map_add_def split: option.splits)

lemma ofield_spread_absent: "k \<notin> fst ` set b \<Longrightarrow> ofield (obj_spread a b) k = ofield a k"
  by (auto simp: ofield_spread split: option.splits dest!: map_of_SomeD intro: rev_image_eqI)

lemma obj_spread_Nil [simp]: "obj_spread a [] = a"
  by (simp add: obj_spread_def)

lemma keys_obj_set [simp]: "fst ` set (obj_set k v kvs) = insert k (fst ` set kvs)"
  by (auto simp: obj_set_def update_conv' simp flip: dom_map_of_conv_image_fst split: if_splits)

lemma keys_obj_spread [simp]: "fst ` set (obj_spread a b) = fst ` set a \<union> fst ` set b"
proof (induction b arbitrary: a)
  case (Cons kv b)
  have "obj_spread a (kv # b) = obj_spread (obj_set (fst kv) (snd kv) a) b"
    by (cases kv) (simp add: obj_spread_def)
  then show ?case using Cons by auto
qed simp

lemma json_value_undef [simp]: "json_value v = JUndef \<longleftrightarrow> v = JUndef"
  by (cases v) auto

lemma ofield_json:
  assumes "json_value (JObj kvs) = JObj kvs'" and "distinct (map fst kvs)"
  shows "ofield kvs' k = json_value (ofield kvs k)"
proof -
  have "map_of (map (\<lambda>(k, v). (k, json_value v)) (filter (\<lambda>(k, v). v \<noteq> JUndef) kvs)) k =
      (case map_of kvs k of None \<Rightarrow> None | Some v \<Rightarrow> if v = JUndef then None else Some (json_value v))"
    using assms(2)
  proof (induction kvs)
    case (Cons kv kvs)
    then show ?case
      by (cases kv) (auto split: option.splits simp: map_of_eq_None_iff dest!: map_of_SomeD intro: rev_image_eqI)
  qed simp
  with assms(1) show ?thesis
    by (auto simp: ofield_def split: option.splits)
qed

end
