(* ===== verification/Ctx.thy ===== *)
theory Ctx
  imports JsValue
begin

text \<open>
  The execution context of a component and the promise chains that run in it.

  A fetch is a request put in the \<open>outbox\<close> together with a value of a continuation
  type: the closure of the callbacks chained on the promise. When the browser settles
  the promise, the continuation runs on the outcome: a reply, or a network failure.
  Callbacks are written with the combinators below, which follow \<open>then\<close>,
  \<open>catch\<close> and \<open>finally\<close>: a callback changes the state and returns or throws, and
  the changes made before a throw stay.
\<close>

section \<open>Requests, replies and contexts\<close>

datatype http_method = GET | POST | PUT | PATCH | DELETE

record request =
  rmethod :: http_method
  rurl :: string
  rbody :: "jv option"

text \<open>
  A reply. Reading its body as JSON or as text can fail; the message is then that of the
  error the promise is rejected with.
\<close>

record response =
  status :: int
  total_count :: "string option"
  body_text :: "string res"
  body_json :: "jv res"

definition res_ok :: "response \<Rightarrow> bool" where
  "res_ok r = (200 \<le> status r \<and> status r \<le> 299)"

datatype outcome = Reply response | NetErr string

definition unauthorized :: "outcome \<Rightarrow> bool" where
  "unauthorized out = (case out of Reply r \<Rightarrow> status r = 401 | NetErr _ \<Rightarrow> False)"

text \<open>The navigation state of App: the active page and what is selected on it.\<close>

record nav_st =
  activePage :: string
  selectedCollectionId :: string
  selectedScreenName :: "string option"
  selectedClusterName :: "string option"

text \<open>
  The context: the session flag, the form object shared by every dialogue, the navigation
  state, the alerts shown so far, the requests in flight, and the component's own data.
\<close>

record ('s, 'k) ctx =
  isAuthenticated :: bool
  formData :: obj
  nav :: nav_st
  alerts :: "string list"
  outbox :: "(request \<times> 'k) list"
  slice :: 's

type_synonym ('s, 'k, 'a) act = "('s, 'k) ctx \<Rightarrow> 'a res \<times> ('s, 'k) ctx"

section \<open>Promise chains\<close>

definition js_return :: "'a \<Rightarrow> ('s, 'k, 'a) act" where
  "js_return x = (\<lambda>c. (Inr x, c))"

definition js_throw :: "string \<Rightarrow> ('s, 'k, 'a) act" where
  "js_throw e = (\<lambda>c. (Inl e, c))"

definition js_modify :: "(('s, 'k) ctx \<Rightarrow> ('s, 'k) ctx) \<Rightarrow> ('s, 'k, unit) act" where
  "js_modify f = (\<lambda>c. (Inr (), f c))"

definition js_lift :: "'a res \<Rightarrow> ('s, 'k, 'a) act" where
  "js_lift r = (\<lambda>c. (r, c))"

definition js_then :: "('s, 'k, 'a) act \<Rightarrow> ('a \<Rightarrow> ('s, 'k, 'b) act) \<Rightarrow> ('s, 'k, 'b) act" where
  "js_then m f = (\<lambda>c. case m c of (Inl e, d) \<Rightarrow> (Inl e, d) | (Inr x, d) \<Rightarrow> f x d)"

definition js_catch :: "('s, 'k, 'a) act \<Rightarrow> (string \<Rightarrow> ('s, 'k, 'a) act) \<Rightarrow> ('s, 'k, 'a) act" where
  "js_catch m h = (\<lambda>c. case m c of (Inl e, d) \<Rightarrow> h e d | (Inr x, d) \<Rightarrow> (Inr x, d))"

definition js_finally :: "('s, 'k, 'a) act \<Rightarrow> (('s, 'k) ctx \<Rightarrow> ('s, 'k) ctx) \<Rightarrow> ('s, 'k, 'a) act" where
  "js_finally m f = (\<lambda>c. case m c of (r, d) \<Rightarrow> (r, f d))"

text \<open>Running a chain whose last result nobody reads.\<close>

definition run_chain :: "('s, 'k, 'a) act \<Rightarrow> ('s, 'k) ctx \<Rightarrow> ('s, 'k) ctx" where
  "run_chain m c = snd (m c)"

lemmas chain_defs = js_return_def js_throw_def js_modify_def js_lift_def js_then_def
  js_catch_def js_finally_def run_chain_def

definition fetched :: "outcome \<Rightarrow> ('s, 'k, response) act" where
  "fetched out = (case out of Reply r \<Rightarrow> js_return r | NetErr e \<Rightarrow> js_throw e)"

definition res_json :: "response \<Rightarrow> ('s, 'k, jv) act" where
  "res_json r = js_lift (body_json r)"

definition res_text :: "response \<Rightarrow> ('s, 'k, string) act" where
  "res_text r = js_lift (body_text r)"

definition when_act :: "bool \<Rightarrow> ('s, 'k, unit) act \<Rightarrow> ('s, 'k, unit) act" where
  "when_act b m = (if b then m else js_return ())"

text \<open>\<open>console.error\<close> leaves no trace in the state.\<close>

definition console_error :: "string \<Rightarrow> ('s, 'k, unit) act" where
  "console_error e = js_return ()"

definition alert :: "string \<Rightarrow> ('s, 'k) ctx \<Rightarrow> ('s, 'k) ctx" where
  "alert msg c = c\<lparr>alerts := alerts c @ [msg]\<rparr>"

definition issue :: "http_method \<Rightarrow> string \<Rightarrow> jv option \<Rightarrow> 'k \<Rightarrow> ('s, 'k) ctx \<Rightarrow> ('s, 'k) ctx" where
  "issue m u b k c =
     c\<lparr>outbox := outbox c @ [(\<lparr>rmethod = m, rurl = u, rbody = map_option json_value b\<rparr>, k)]\<rparr>"

definition set_slice :: "('s \<Rightarrow> 's) \<Rightarrow> ('s, 'k) ctx \<Rightarrow> ('s, 'k) ctx" where
  "set_slice f c = c\<lparr>slice := f (slice c)\<rparr>"

lemma chain_simps [js_chain]:
  "js_then (js_return x) f = f x"
  "js_then (js_throw e) f = js_throw e"
  "js_then (js_lift (Inr x)) f = f x"
  "js_then (js_lift (Inl e)) f = js_throw e"
  "js_catch (js_return x) h = js_return x"
  "js_catch (js_throw e) h = h e"
  "js_catch (js_modify g) h' = js_modify g"
  "run_chain (js_return x) c = c"
  "run_chain (js_throw e) c = c"
  "run_chain (js_modify g) c = g c"
  "run_chain (js_finally m fin) c = fin (run_chain m c)"
  by (auto simp: chain_defs split: prod.splits)

lemma js_then_assoc: "js_then (js_then m f) g = js_then m (\<lambda>x. js_then (f x) g)"
  by (auto simp: chain_defs split: prod.splits sum.splits)

lemma js_then_modify [js_chain]: "js_then (js_modify g) f c = f () (g c)"
  by (simp add: chain_defs)

lemma fetched_simps [simp, js_chain]:
  "fetched (Reply r) = js_return r"
  "fetched (NetErr e) = js_throw e"
  by (simp_all add: fetched_def)

lemma set_slice_simps [simp]:
  "slice (set_slice f c) = f (slice c)"
  "isAuthenticated (set_slice f c) = isAuthenticated c"
  "formData (set_slice f c) = formData c"
  "nav (set_slice f c) = nav c"
  "alerts (set_slice f c) = alerts c"
  "outbox (set_slice f c) = outbox c"
  by (simp_all add: set_slice_def)

lemma alert_simps [simp]:
  "slice (alert m c) = slice c"
  "isAuthenticated (alert m c) = isAuthenticated c"
  "formData (alert m c) = formData c"
  "nav (alert m c) = nav c"
  "alerts (alert m c) = alerts c @ [m]"
  "outbox (alert m c) = outbox c"
  by (simp_all add: alert_def)

lemma issue_simps [simp]:
  "slice (issue m u b k c) = slice c"
  "isAuthenticated (issue m u b k c) = isAuthenticated c"
  "formData (issue m u b k c) = formData c"
  "nav (issue m u b k c) = nav c"
  "alerts (issue m u b k c) = alerts c"
  "outbox (issue m u b k c) =
     outbox c @ [(\<lparr>rmethod = m, rurl = u, rbody = map_option json_value b\<rparr>, k)]"
  by (simp_all add: issue_def)

section \<open>The session guard\<close>

text \<open>
  \<open>clearAuthIfUnauthorized(res, setIsAuthenticated)\<close>: only a 401 clears the flag.
\<close>

definition clearAuthIfUnauthorized :: "response \<Rightarrow> ('s, 'k, unit) act" where
  "clearAuthIfUnauthorized r =
     js_modify (\<lambda>c. if status r = 401 then c\<lparr>isAuthenticated := False\<rparr> else c)"

text \<open>
  The two lines every guarded loader starts with: the guard, then
  \<open>if (res.status === 401) throw new Error('Unauthorized')\<close>.
\<close>

definition guard_session :: "response \<Rightarrow> ('s, 'k, unit) act" where
  "guard_session r =
     js_then (clearAuthIfUnauthorized r)
       (\<lambda>_. if status r = 401 then js_throw ''Unauthorized'' else js_return ())"

lemma guard_session_eval [js_chain]:
  "js_then (guard_session r) f c =
     (if status r = 401 then (Inl ''Unauthorized'', c\<lparr>isAuthenticated := False\<rparr>) else f () c)"
  by (simp add: guard_session_def clearAuthIfUnauthorized_def chain_defs)

section \<open>The contract of a guarded handler\<close>

text \<open>
  Most loaders of the console are the same chain around a last callback: fetch, guard,
  reject a failed reply when the loader checks \<open>res.ok\<close>, read the body as JSON, hand it
  to \<open>store\<close>, log whatever was thrown.
\<close>

definition load_json :: "(response \<Rightarrow> string) option \<Rightarrow> outcome \<Rightarrow> ('s, 'k, jv) act" where
  "load_json ok_check out =
     js_then (fetched out) (\<lambda>res.
       js_then (guard_session res) (\<lambda>_.
         case ok_check of
           Some msg \<Rightarrow> if \<not> res_ok res then js_throw (msg res) else res_json res
         | None \<Rightarrow> res_json res))"

definition guarded_loader ::
  "(response \<Rightarrow> string) option \<Rightarrow> (jv \<Rightarrow> ('s, 'k, unit) act) \<Rightarrow> outcome \<Rightarrow> ('s, 'k) ctx \<Rightarrow> ('s, 'k) ctx"
where
  "guarded_loader ok_check store out =
     run_chain (js_catch (js_then (load_json ok_check out) store) console_error)"

definition loaded :: "(response \<Rightarrow> string) option \<Rightarrow> outcome \<Rightarrow> jv option" where
  "loaded ok_check out =
     (case out of
        NetErr _ \<Rightarrow> None
      | Reply r \<Rightarrow>
          if status r = 401 \<or> (ok_check \<noteq> None \<and> \<not> res_ok r) then None
          else (case body_json r of Inl _ \<Rightarrow> None | Inr v \<Rightarrow> Some v))"

text \<open>What the chain comes to: a 401 ends the session, a body that arrives is stored.\<close>

lemma guarded_loader_eval:
  "guarded_loader ok_check store out c =
     (case loaded ok_check out of
        Some v \<Rightarrow> snd (store v c)
      | None \<Rightarrow> if unauthorized out then c\<lparr>isAuthenticated := False\<rparr> else c)"
proof (cases out)
  case (NetErr e)
  then show ?thesis
    by (simp add: guarded_loader_def load_json_def loaded_def unauthorized_def console_error_def chain_defs)
next
  case (Reply r)
  then show ?thesis
    by (cases "body_json r"; cases ok_check)
      (auto simp: guarded_loader_def load_json_def loaded_def unauthorized_def console_error_def
        guard_session_def clearAuthIfUnauthorized_def res_json_def chain_defs split: prod.splits sum.splits)
qed

lemma loaded_not_unauthorized: "loaded ok_check out = Some v \<Longrightarrow> \<not> unauthorized out"
  by (auto simp: loaded_def unauthorized_def split: outcome.splits if_splits)

text \<open>
  What every handler of a guarded request promises, whatever its component: a 401 and
  nothing else ends the session, and the shared form is left alone. The client proves
  the consequences for any run of replies once.
\<close>

locale session_guarded =
  fixes handler :: "outcome \<Rightarrow> ('s, 'k) ctx \<Rightarrow> ('s, 'k) ctx"
  assumes auth_law: "isAuthenticated (handler out c) = (isAuthenticated c \<and> \<not> unauthorized out)"
    and form_law: "formData (handler out c) = formData c"
begin

lemma session_survives:
  "isAuthenticated (fold handler outs c) = (isAuthenticated c \<and> (\<forall>out \<in> set outs. \<not> unauthorized out))"
  by (induction outs arbitrary: c) (auto simp: auth_law)

lemma form_untouched: "formData (fold handler outs c) = formData c"
  by (induction outs arbitrary: c) (auto simp: form_law)

lemma session_lost_stays_lost:
  "\<not> isAuthenticated c \<Longrightarrow> \<not> isAuthenticated (fold handler outs c)"
  by (simp add: session_survives)

end

text \<open>
  A quiet loader moreover changes its component's data only on a reply the guard lets
  through, and raises no alert and no request.
\<close>

locale quiet_loader = session_guarded handler
  for handler :: "outcome \<Rightarrow> ('s, 'k) ctx \<Rightarrow> ('s, 'k) ctx" +
  assumes failure_keeps: "unauthorized out \<or> (\<exists>e. out = NetErr e) \<Longrightarrow> slice (handler out c) = slice c"
    and quiet_alerts: "alerts (handler out c) = alerts c"
    and quiet_outbox: "outbox (handler out c) = outbox c"
    and quiet_nav: "nav (handler out c) = nav c"
begin

lemma net_failures_change_nothing:
  "(\<And>out. out \<in> set outs \<Longrightarrow> \<exists>e. out = NetErr e) \<Longrightarrow> fold handler outs c = c"
proof (induction outs)
  case (Cons out outs)
  then obtain e where e: "out = NetErr e" by auto
  have "handler (NetErr e) c = c"
    by (rule ctx.equality)
      (simp_all add: auth_law form_law quiet_alerts quiet_outbox quiet_nav failure_keeps unauthorized_def)
  with Cons e show ?case by simp
qed simp

end

text \<open>A guarded loader whose last callback only touches the component's data is quiet.\<close>

lemma quiet_guarded_loader:
  assumes "\<And>v c. isAuthenticated (snd (store v c)) = isAuthenticated c"
    and "\<And>v c. formData (snd (store v c)) = formData c"
    and "\<And>v c. alerts (snd (store v c)) = alerts c"
    and "\<And>v c. outbox (snd (store v c)) = outbox c"
    and "\<And>v c. nav (snd (store v c)) = nav c"
  shows "quiet_loader (guarded_loader ok_check store)"
  by unfold_locales
    (auto simp: guarded_loader_eval assms loaded_def unauthorized_def split: option.splits outcome.splits)

definition store_slice :: "(jv \<Rightarrow> bool) \<Rightarrow> (jv \<Rightarrow> 's \<Rightarrow> 's) \<Rightarrow> jv \<Rightarrow> ('s, 'k, unit) act" where
  "store_slice ok put v = when_act (ok v) (js_modify (set_slice (put v)))"

lemma store_slice_snd: "snd (store_slice ok put v c) = (if ok v then set_slice (put v) c else c)"
  by (simp add: store_slice_def when_act_def js_modify_def js_return_def)

lemma quiet_store_slice: "quiet_loader (guarded_loader ok_check (store_slice ok put))"
  by (rule quiet_guarded_loader) (simp_all add: store_slice_snd)

text \<open>\<open>fetch(url).then(guard, json).then(data => setX(g(data)))\<close> where \<open>g\<close> may throw.\<close>

definition store_res :: "(jv \<Rightarrow> bool) \<Rightarrow> (jv \<Rightarrow> 'a res) \<Rightarrow> ('a \<Rightarrow> 's \<Rightarrow> 's) \<Rightarrow> jv \<Rightarrow> ('s, 'k, unit) act" where
  "store_res ok g put v = when_act (ok v) (js_then (js_lift (g v)) (\<lambda>x. js_modify (set_slice (put x))))"

lemma store_res_snd:
  "snd (store_res ok g put v c) =
     (if ok v then (case g v of Inl _ \<Rightarrow> c | Inr x \<Rightarrow> set_slice (put x) c) else c)"
  by (auto simp: store_res_def when_act_def chain_defs split: sum.splits)

lemma quiet_store_res: "quiet_loader (guarded_loader ok_check (store_res ok g put))"
  by (rule quiet_guarded_loader) (auto simp: store_res_snd split: sum.splits)

section \<open>The browser the console runs in\<close>

text \<open>
  What the host supplies: where the API is, and the locale-dependent functions
  \<open>localeCompare\<close> (as \<open>a <= b\<close>), \<open>toLocaleDateString\<close>, \<open>toLocaleString\<close> on a date
  and \<open>toLocaleString\<close> on a number; and the floating point text \<open>((1.0 - v) * 100).toFixed(2)\<close>;
  and \<open>JSON.parse\<close>.
\<close>

record host =
  admin_api :: string
  locale_le :: "string \<Rightarrow> string \<Rightarrow> bool"
  date_str :: "jv \<Rightarrow> string"
  datetime_str :: "jv \<Rightarrow> string"
  num_str :: "int \<Rightarrow> string"
  uptime_str :: "jv \<Rightarrow> string"
  parse_json :: "string \<Rightarrow> jv res"

section \<open>Running a component inside a larger state\<close>

definition zoom_in :: "('b \<Rightarrow> 's) \<Rightarrow> ('b, 'q) ctx \<Rightarrow> ('s, 'k) ctx" where
  "zoom_in get c =
     \<lparr>isAuthenticated = isAuthenticated c, formData = formData c, nav = nav c, alerts = alerts c,
      outbox = [], slice = get (slice c)\<rparr>"

definition zoom_out :: "('s \<Rightarrow> 'b \<Rightarrow> 'b) \<Rightarrow> ('k \<Rightarrow> 'q) \<Rightarrow> ('b, 'q) ctx \<Rightarrow> ('s, 'k) ctx \<Rightarrow> ('b, 'q) ctx" where
  "zoom_out put wrap c d =
     \<lparr>isAuthenticated = isAuthenticated d, formData = formData d, nav = nav d, alerts = alerts d,
      outbox = outbox c @ map (\<lambda>(r, k). (r, wrap k)) (outbox d), slice = put (slice d) (slice c)\<rparr>"

definition zoom ::
  "('b \<Rightarrow> 's) \<Rightarrow> ('s \<Rightarrow> 'b \<Rightarrow> 'b) \<Rightarrow> ('k \<Rightarrow> 'q) \<Rightarrow> (('s, 'k) ctx \<Rightarrow> ('s, 'k) ctx) \<Rightarrow> ('b, 'q) ctx \<Rightarrow> ('b, 'q) ctx"
where
  "zoom get put wrap f c = zoom_out put wrap c (f (zoom_in get c))"

lemma zoom_in_simps [simp]:
  "isAuthenticated (zoom_in get c) = isAuthenticated c"
  "formData (zoom_in get c) = formData c"
  "nav (zoom_in get c) = nav c"
  "alerts (zoom_in get c) = alerts c"
  "outbox (zoom_in get c) = []"
  "slice (zoom_in get c) = get (slice c)"
  by (simp_all add: zoom_in_def)

lemma zoom_simps:
  "isAuthenticated (zoom get put wrap f c) = isAuthenticated (f (zoom_in get c))"
  "formData (zoom get put wrap f c) = formData (f (zoom_in get c))"
  "nav (zoom get put wrap f c) = nav (f (zoom_in get c))"
  "alerts (zoom get put wrap f c) = alerts (f (zoom_in get c))"
  "outbox (zoom get put wrap f c) = outbox c @ map (\<lambda>(r, k). (r, wrap k)) (outbox (f (zoom_in get c)))"
  "slice (zoom get put wrap f c) = put (slice (f (zoom_in get c))) (slice c)"
  by (simp_all add: zoom_def zoom_out_def)

text \<open>
  A host to evaluate the model on: the console mounted at \<open>/admin\<close>, strings compared by
  their bytes, dates not localised.
\<close>

definition byte_le :: "string \<Rightarrow> string \<Rightarrow> bool" where
  "byte_le a b = lexordp_eq (map char_code a) (map char_code b)"

lemma byte_le_total: "byte_le a b \<or> byte_le b a"
  by (simp add: byte_le_def lexordp_eq_linear)

lemma byte_le_trans: "byte_le a b \<Longrightarrow> byte_le b c \<Longrightarrow> byte_le a c"
  by (auto simp: byte_le_def intro: lexordp_eq_trans)

definition byte_host :: host where
  "byte_host = \<lparr>admin_api = ''/admin/api/admin'', locale_le = byte_le, date_str = js_string,
     datetime_str = js_string, num_str = int_string,
     uptime_str = (\<lambda>v. case v of JNum n \<Rightarrow> int_string ((1 - n) * 100) @ ''.00'' | _ \<Rightarrow> ''NaN''),
     parse_json = (\<lambda>s. case parseInt s of Some n \<Rightarrow> Inr (JNum n) | None \<Rightarrow> Inl ''Unexpected token'')\<rparr>"

lemma byte_host_simps [simp]:
  "admin_api byte_host = ''/admin/api/admin''"
  "locale_le byte_host = byte_le"
  "date_str byte_host = js_string"
  "datetime_str byte_host = js_string"
  "num_str byte_host = int_string"
  by (simp_all add: byte_host_def)

text \<open>A reply with a JSON body.\<close>

definition json_reply :: "int \<Rightarrow> jv \<Rightarrow> response" where
  "json_reply st v = \<lparr>status = st, total_count = None, body_text = Inr [], body_json = Inr v\<rparr>"

lemma json_reply_simps [simp]:
  "status (json_reply st v) = st"
  "total_count (json_reply st v) = None"
  "body_text (json_reply st v) = Inr []"
  "body_json (json_reply st v) = Inr v"
  by (simp_all add: json_reply_def)

lemma res_ok_status: "res_ok r \<Longrightarrow> status r \<noteq> 401"
  by (auto simp: res_ok_def)

end
