(* ===== verification/Session.thy ===== *)
theory Session
  imports Ctx
begin

text \<open>
  The session of the console (App.tsx): the bootstrap request that finds out whether the
  cookie is valid, the keepalive, the login form and logging out, and the gate that
  decides between the loading screen, the login form and the console itself.
\<close>

record session_st =
  authChecked :: bool
  loginError :: "string option"
  reloads :: nat

definition session_initial :: session_st where
  "session_initial = \<lparr>authChecked = False, loginError = None, reloads = 0\<rparr>"

datatype session_k = KBootstrap | KKeepalive | KLogin | KLogout

type_synonym session_ctx = "(session_st, session_k) ctx"

definition set_auth :: "bool \<Rightarrow> ('s, 'k, unit) act" where
  "set_auth b = js_modify (\<lambda>c. c\<lparr>isAuthenticated := b\<rparr>)"

section \<open>Bootstrap and keepalive\<close>

definition bootstrap :: "host \<Rightarrow> session_ctx \<Rightarrow> session_ctx" where
  "bootstrap h = issue GET (admin_api h @ ''/session'') None KBootstrap"

text \<open>A network error leaves the flag as it is; the check is over in any case.\<close>

definition on_bootstrap :: "outcome \<Rightarrow> session_ctx \<Rightarrow> session_ctx" where
  "on_bootstrap out =
     run_chain
       (js_finally
         (js_catch
           (js_then (fetched out) (\<lambda>res. set_auth (res_ok res)))
           (\<lambda>_. js_return ()))
         (set_slice (\<lambda>s. s\<lparr>authChecked := True\<rparr>)))"

text \<open>Every five minutes while the interval is armed.\<close>

definition keepalive :: "host \<Rightarrow> session_ctx \<Rightarrow> session_ctx" where
  "keepalive h = issue GET (admin_api h @ ''/session'') None KKeepalive"

definition on_keepalive :: "outcome \<Rightarrow> session_ctx \<Rightarrow> session_ctx" where
  "on_keepalive out = run_chain (js_then (fetched out) clearAuthIfUnauthorized)"

section \<open>Login and logout\<close>

text \<open>The inputs of the login form write into the form object of the dialogues.\<close>

definition login_form_change :: "string \<Rightarrow> string \<Rightarrow> session_ctx \<Rightarrow> session_ctx" where
  "login_form_change k v c =
     (if k = ''username'' \<or> k = ''password'' then c\<lparr>formData := obj_set k (JStr v) (formData c)\<rparr> else c)"

definition handleLogin :: "host \<Rightarrow> session_ctx \<Rightarrow> session_ctx" where
  "handleLogin h c =
     (let email = js_or (ofield (formData c) ''username'') (JStr []);
          password = js_or (ofield (formData c) ''password'') (JStr [])
      in issue POST (admin_api h @ ''/login'') (Some (JObj [(''email'', email), (''password'', password)])) KLogin c)"

definition login_forbidden_msg :: string where
  "login_forbidden_msg =
     ''This account cannot access the admin panel. Use admin@example.com (superadmin) from project bootstrap.''"

definition forbidden_message :: "response \<Rightarrow> string" where
  "forbidden_message res =
     (case body_json res of
        Inr body \<Rightarrow> (case oget body ''error'' of JStr e \<Rightarrow> e | _ \<Rightarrow> login_forbidden_msg)
      | Inl _ \<Rightarrow> login_forbidden_msg)"

definition set_login_error :: "string option \<Rightarrow> (session_st, session_k, unit) act" where
  "set_login_error e = js_modify (set_slice (\<lambda>s. s\<lparr>loginError := e\<rparr>))"

definition on_login :: "outcome \<Rightarrow> session_ctx \<Rightarrow> session_ctx" where
  "on_login out =
     run_chain
       (js_catch
         (js_then (fetched out) (\<lambda>res.
           if res_ok res then js_then (set_auth True) (\<lambda>_. set_login_error None)
           else if status res = 403 then set_login_error (Some (forbidden_message res))
           else set_login_error (Some ''Invalid admin credentials'')))
         (\<lambda>_. set_login_error (Some ''Network connection error'')))"

definition handleLogout :: "host \<Rightarrow> session_ctx \<Rightarrow> session_ctx" where
  "handleLogout h = issue POST (admin_api h @ ''/logout'') None KLogout"

text \<open>Whatever the outcome, the flag is cleared and the page is loaded again.\<close>

definition on_logout :: "outcome \<Rightarrow> session_ctx \<Rightarrow> session_ctx" where
  "on_logout out =
     run_chain
       (js_finally
         (js_catch (js_then (fetched out) (\<lambda>_. js_return ())) (\<lambda>_. js_return ()))
         (\<lambda>c. set_slice (\<lambda>s. s\<lparr>reloads := Suc (reloads s)\<rparr>) (c\<lparr>isAuthenticated := False\<rparr>)))"

definition session_resume :: "session_k \<Rightarrow> outcome \<Rightarrow> session_ctx \<Rightarrow> session_ctx" where
  "session_resume k out =
     (case k of
        KBootstrap \<Rightarrow> on_bootstrap out
      | KKeepalive \<Rightarrow> on_keepalive out
      | KLogin \<Rightarrow> on_login out
      | KLogout \<Rightarrow> on_logout out)"

section \<open>The gate\<close>

datatype screen_view = LoadingView | LoginView "string option" | ConsoleView

definition gate_view :: "bool \<Rightarrow> session_st \<Rightarrow> screen_view" where
  "gate_view auth s =
     (if \<not> authChecked s then LoadingView
      else if \<not> auth then LoginView (loginError s)
      else ConsoleView)"

section \<open>What the callbacks come to\<close>

lemma on_bootstrap_eval:
  "on_bootstrap (Reply r) c = set_slice (\<lambda>s. s\<lparr>authChecked := True\<rparr>) (c\<lparr>isAuthenticated := res_ok r\<rparr>)"
  "on_bootstrap (NetErr e) c = set_slice (\<lambda>s. s\<lparr>authChecked := True\<rparr>) c"
  by (simp_all add: on_bootstrap_def set_auth_def chain_defs fetched_def)

lemma on_keepalive_eval:
  "on_keepalive (Reply r) c = (if status r = 401 then c\<lparr>isAuthenticated := False\<rparr> else c)"
  "on_keepalive (NetErr e) c = c"
  by (simp_all add: on_keepalive_def clearAuthIfUnauthorized_def chain_defs fetched_def)

lemma on_login_eval:
  "on_login (Reply r) c =
     (if res_ok r then set_slice (\<lambda>s. s\<lparr>loginError := None\<rparr>) (c\<lparr>isAuthenticated := True\<rparr>)
      else if status r = 403 then set_slice (\<lambda>s. s\<lparr>loginError := Some (forbidden_message r)\<rparr>) c
      else set_slice (\<lambda>s. s\<lparr>loginError := Some ''Invalid admin credentials''\<rparr>) c)"
  "on_login (NetErr e) c = set_slice (\<lambda>s. s\<lparr>loginError := Some ''Network connection error''\<rparr>) c"
  by (simp_all add: on_login_def set_auth_def set_login_error_def chain_defs fetched_def)

lemma on_logout_eval:
  "on_logout out c = set_slice (\<lambda>s. s\<lparr>reloads := Suc (reloads s)\<rparr>) (c\<lparr>isAuthenticated := False\<rparr>)"
  by (cases out) (simp_all add: on_logout_def chain_defs fetched_def)

interpretation alive: quiet_loader on_keepalive
  by unfold_locales (case_tac [!] out, auto simp: on_keepalive_eval unauthorized_def)

section \<open>Properties\<close>

text \<open>
  C14. The keepalive never ends a live session: after any number of keepalive replies the
  session is still there unless one of them was a 401, and nothing else has changed: no alert, no
  request, no navigation, no form, no state of the page.
\<close>

theorem keepalive_only_401:
  "fold on_keepalive outs c = c\<lparr>isAuthenticated := (isAuthenticated c \<and> list_all (\<lambda>out. \<not> unauthorized out) outs)\<rparr>"
proof (induction outs arbitrary: c)
  case (Cons out outs)
  show ?case by (cases out) (simp_all add: on_keepalive_eval Cons unauthorized_def)
qed simp

definition live_ctx :: session_ctx where
  "live_ctx = \<lparr>isAuthenticated = True, formData = [],
     nav = \<lparr>activePage = ''dashboard'', selectedCollectionId = [], selectedScreenName = None, selectedClusterName = None\<rparr>,
     alerts = [], outbox = [], slice = session_initial\<lparr>authChecked := True\<rparr>\<rparr>"

text \<open>
  What the gate shows follows the server: after the bootstrap reply the console is shown
  exactly when the server accepted the session, the login form otherwise; a login opens the
  console exactly when the server accepts it and shows the reason of a refusal; before the
  bootstrap is settled neither is shown.
\<close>

lemma gate_follows_server:
  "gate_view (isAuthenticated (on_bootstrap (Reply r) c)) (slice (on_bootstrap (Reply r) c))
     = (if res_ok r then ConsoleView else LoginView (loginError (slice c))) \<and>
   (authChecked (slice c) \<and> \<not> isAuthenticated c \<longrightarrow>
     gate_view (isAuthenticated (on_login (Reply r) c)) (slice (on_login (Reply r) c))
     = (if res_ok r then ConsoleView
        else LoginView (Some (if status r = 403 then forbidden_message r else ''Invalid admin credentials'')))) \<and>
   (\<not> authChecked (slice c) \<longrightarrow> gate_view b (slice c) = LoadingView)"
  by (simp add: gate_view_def on_bootstrap_eval on_login_eval)

lemma gate_follows_server_instance:
  "gate_view (isAuthenticated (on_login (Reply (json_reply 403 (JObj [(''error'', JStr ''not an admin'')])))
       (live_ctx\<lparr>isAuthenticated := False\<rparr>)))
     (slice (on_login (Reply (json_reply 403 (JObj [(''error'', JStr ''not an admin'')])))
       (live_ctx\<lparr>isAuthenticated := False\<rparr>)))
   = LoginView (Some ''not an admin'')"
  using gate_follows_server [of "json_reply 403 (JObj [(''error'', JStr ''not an admin'')])" "live_ctx\<lparr>isAuthenticated := False\<rparr>"]
  by (simp add: live_ctx_def res_ok_def forbidden_message_def)

end
