(* ===== verification/Dashboard.thy ===== *)
theory Dashboard
  imports JsValue
begin

text \<open>
  The pure parts of the dashboard: lib/dashboardAnalytics.ts with its placeholder
  component, and the computations of the dashboard page in App.tsx (the metric cards, the
  window of performance samples, the response categories).
\<close>

section \<open>Analytics placeholders\<close>

record analytics_info =
  an_name :: "string option"
  an_display_name :: "string option"
  an_vendor_url :: "string option"

datatype analytics_widget = Regional | Push

record placeholder_copy =
  copy_title :: string
  copy_body :: string
  copy_vendorUrl :: "string option"
  copy_vendorLabel :: "string option"

text \<open>\<open>s?.trim()\<close> of an optional string, absent when the result is falsy.\<close>

definition trimmed :: "string option \<Rightarrow> string option" where
  "trimmed s = (case s of None \<Rightarrow> None | Some t \<Rightarrow> if trim t = [] then None else Some (trim t))"

definition usesBuiltInAnalytics :: "analytics_info option \<Rightarrow> bool" where
  "usesBuiltInAnalytics a =
     (let name = (case a of None \<Rightarrow> None | Some i \<Rightarrow> trimmed (an_name i))
      in name = None \<or> name = Some ''battery'')"

definition shouldShowAnalyticsPlaceholder :: "analytics_info option \<Rightarrow> bool" where
  "shouldShowAnalyticsPlaceholder a = True"

definition analytics_label :: "analytics_info option \<Rightarrow> string" where
  "analytics_label a =
     (case a of
        None \<Rightarrow> ''your analytics provider''
      | Some i \<Rightarrow>
          (case trimmed (an_display_name i) of
             Some d \<Rightarrow> d
           | None \<Rightarrow> (case trimmed (an_name i) of Some n \<Rightarrow> n | None \<Rightarrow> ''your analytics provider'')))"

definition analyticsPlaceholderCopy :: "analytics_info option \<Rightarrow> analytics_widget \<Rightarrow> placeholder_copy" where
  "analyticsPlaceholderCopy a widget =
     (if usesBuiltInAnalytics a then
        (if widget = Regional then
           \<lparr>copy_title = ''Regional Metrics Offline'',
            copy_body = ''Configure PostHog or an external analytics provider to map regional node ingress.'',
            copy_vendorUrl = None, copy_vendorLabel = None\<rparr>
         else
           \<lparr>copy_title = ''Push Metrics Offline'',
            copy_body = ''Configure a push notification adapter (e.g. Firebase Cloud Messaging) to track push telemetry.'',
            copy_vendorUrl = None, copy_vendorLabel = None\<rparr>)
      else
        (let label = analytics_label a;
             vendorUrl = (case a of None \<Rightarrow> None | Some i \<Rightarrow> trimmed (an_vendor_url i));
             vendorLabel = (if vendorUrl \<noteq> None then Some (''Open '' @ label) else None)
         in if widget = Regional then
              \<lparr>copy_title = ''Regional metrics in provider'',
               copy_body = ''Node distribution is not surfaced in the admin dashboard. Open '' @ label
                 @ '' for regional analytics.'',
               copy_vendorUrl = vendorUrl, copy_vendorLabel = vendorLabel\<rparr>
            else
              \<lparr>copy_title = ''Push metrics in provider'',
               copy_body = ''Push propagation is not surfaced in the admin dashboard. View delivery stats in ''
                 @ label @ '' or your push provider.'',
               copy_vendorUrl = vendorUrl, copy_vendorLabel = vendorLabel\<rparr>))"

text \<open>What \<open>AnalyticsWidgetPlaceholder\<close> renders: title, body and perhaps a link.\<close>

record placeholder_view =
  pv_title :: string
  pv_body :: string
  pv_link :: "(string \<times> string) option"

definition AnalyticsWidgetPlaceholder :: "analytics_widget \<Rightarrow> analytics_info option \<Rightarrow> placeholder_view" where
  "AnalyticsWidgetPlaceholder widget a =
     (let copy = analyticsPlaceholderCopy a widget in
      \<lparr>pv_title = copy_title copy, pv_body = copy_body copy,
       pv_link = (case (copy_vendorUrl copy, copy_vendorLabel copy) of
                    (Some u, Some l) \<Rightarrow> if u \<noteq> [] \<and> l \<noteq> [] then Some (u, l) else None
                  | _ \<Rightarrow> None)\<rparr>)"

lemma trimmed_Some: "trimmed s = Some t \<longleftrightarrow> (\<exists>u. s = Some u \<and> t = trim u \<and> t \<noteq> [])"
  by (auto simp: trimmed_def split: option.splits)

section \<open>The window of performance samples\<close>

definition perf_sample :: "string \<Rightarrow> int \<Rightarrow> int \<Rightarrow> int \<Rightarrow> int \<Rightarrow> int \<Rightarrow> int \<Rightarrow> int \<Rightarrow> jv" where
  "perf_sample t traffic load latency errors users cpu mem =
     JObj [(''time'', JStr t), (''traffic'', JNum traffic), (''load'', JNum load), (''latency'', JNum latency),
           (''errors'', JNum errors), (''users'', JNum users), (''cpu'', JNum cpu), (''mem'', JNum mem)]"

definition PERFORMANCE_DATA :: "jv list" where
  "PERFORMANCE_DATA =
     [perf_sample ''00:00'' 400 24 120 2 1500 12 45,
      perf_sample ''04:00'' 300 19 140 5 1200 8 42,
      perf_sample ''08:00'' 900 45 180 12 4500 34 58,
      perf_sample ''12:00'' 1200 39 150 8 5120 48 62,
      perf_sample ''16:00'' 800 48 165 15 3800 28 55,
      perf_sample ''20:00'' 1100 30 130 4 4800 38 59,
      perf_sample ''23:59'' 700 43 145 3 3200 22 51]"

text \<open>The updater of \<open>setPerfData\<close>: append, and drop the oldest when there are more than 7.\<close>

definition perf_push :: "jv \<Rightarrow> jv list \<Rightarrow> jv list" where
  "perf_push sample prev =
     (let updated = prev @ [sample] in if length updated > 7 then tl updated else updated)"

text \<open>\<open>eventSource.onmessage\<close> on the parsed data of the event; a parse error is only logged.\<close>

definition sse_message :: "jv res \<Rightarrow> jv list \<Rightarrow> jv list" where
  "sse_message data prev =
     (case data of
        Inl _ \<Rightarrow> prev
      | Inr sample \<Rightarrow>
          if truthy sample \<and> truthy (oget sample ''time'') then perf_push sample prev else prev)"

definition valid_sample :: "jv res \<Rightarrow> jv option" where
  "valid_sample data =
     (case data of Inl _ \<Rightarrow> None
      | Inr s \<Rightarrow> if truthy s \<and> truthy (oget s ''time'') then Some s else None)"

definition last7 :: "'a list \<Rightarrow> 'a list" where
  "last7 xs = drop (length xs - 7) xs"

lemma last7_id: "length xs \<le> 7 \<Longrightarrow> last7 xs = xs"
  by (simp add: last7_def)

lemma last7_length: "length (last7 xs) = min 7 (length xs)"
  by (auto simp: last7_def)

lemma perf_push_last7: "perf_push x (last7 xs) = last7 (xs @ [x])"
proof (cases "length xs < 7")
  case True
  then show ?thesis by (simp add: last7_def perf_push_def)
next
  case False
  then have "length (drop (length xs - 7) xs) = 7" by simp
  moreover from False have "Suc (length xs) - 7 = Suc (length xs - 7)" by simp
  moreover from False have "drop (length xs - 7) xs = xs ! (length xs - 7) # drop (Suc (length xs - 7)) xs"
    by (intro Cons_nth_drop_Suc [symmetric]) simp
  ultimately show ?thesis using False
    by (simp add: last7_def perf_push_def)
qed

lemma fold_perf_push: "fold perf_push xs (last7 prev) = last7 (prev @ xs)"
  by (induction xs rule: rev_induct) (simp_all add: perf_push_last7 flip: append_assoc)

lemma fold_sse_message:
  "fold sse_message datas prev = fold perf_push (List.map_filter valid_sample datas) prev"
  by (induction datas arbitrary: prev)
    (auto simp: sse_message_def valid_sample_def map_filter_simps split: sum.splits)

section \<open>Cards and response categories\<close>

text \<open>The text of a metric widget; numbers are written by the host.\<close>

definition metric_value :: "(int \<Rightarrow> string) \<Rightarrow> jv \<Rightarrow> string" where
  "metric_value num_string data =
     (if data \<noteq> JNull \<and> data \<noteq> JUndef
      then (case data of JNum n \<Rightarrow> num_string n | _ \<Rightarrow> js_string data) else ''0'')"

definition num_or_0 :: "jv \<Rightarrow> int" where
  "num_or_0 v = (case v of JNum n \<Rightarrow> n | _ \<Rightarrow> 0)"

text \<open>\<open>dynamicResponseData\<close>: the categories of the latest sample's traffic.\<close>

definition response_categories :: "jv list \<Rightarrow> (string \<times> int) list" where
  "response_categories perfData =
     (let latestSample = (if perfData = [] then JObj [(''traffic'', JNum 100), (''errors'', JNum 0)]
                          else js_or (last perfData) (JObj [(''traffic'', JNum 100), (''errors'', JNum 0)]));
          traffic = num_or_0 (oget latestSample ''traffic'');
          errors = num_or_0 (oget latestSample ''errors'');
          okRequests = max 0 (traffic - errors)
      in [(''2xx'', okRequests), (''4xx'', 0), (''5xx'', errors)])"

section \<open>Properties\<close>

text \<open>
  C29. The performance charts show the last seven samples: after any sequence of stream
  events the window is the last seven of the initial samples followed by the valid ones
  received, in order; malformed events and samples without a time leave no trace.
\<close>

theorem perf_window_last7:
  "fold sse_message events PERFORMANCE_DATA = last7 (PERFORMANCE_DATA @ List.map_filter valid_sample events)"
proof -
  have "fold perf_push xs PERFORMANCE_DATA = last7 (PERFORMANCE_DATA @ xs)" for xs
    using fold_perf_push [of xs PERFORMANCE_DATA]
    by (simp add: last7_id PERFORMANCE_DATA_def)
  then show ?thesis by (simp add: fold_sse_message)
qed

end
