(* ===== verification/WebUrl.thy ===== *)
theory WebUrl
  imports Ctx
begin

text \<open>
  How the console builds the URLs it calls: the location of the API below the page's own
  path (\<open>API_BASE\<close>, \<open>ADMIN_API\<close> in App.tsx), \<open>encodeURIComponent\<close> and
  \<open>encodeURI\<close> on path segments, and \<open>URLSearchParams\<close> on query strings. The laws
  say that an encoded segment never leaves its place in a path, that the encodings can
  be undone, and that a query string carries exactly the pairs appended to it.
\<close>

section \<open>Percent encoding\<close>

definition hex_digit :: "nat \<Rightarrow> char" where
  "hex_digit n = (if n < 10 then char_of (48 + n) else char_of (55 + n))"

definition hex_value :: "char \<Rightarrow> nat option" where
  "hex_value c = (let n = char_code c in
     if 48 \<le> n \<and> n \<le> 57 then Some (n - 48)
     else if 65 \<le> n \<and> n \<le> 70 then Some (n - 55) else None)"

definition percent :: "char \<Rightarrow> string" where
  "percent c = [CHR ''%'', hex_digit (char_code c div 16), hex_digit (char_code c mod 16)]"

definition is_alnum :: "char \<Rightarrow> bool" where
  "is_alnum c = (let n = char_code c in
     (48 \<le> n \<and> n \<le> 57) \<or> (65 \<le> n \<and> n \<le> 90) \<or> (97 \<le> n \<and> n \<le> 122))"

definition encode_with :: "(char \<Rightarrow> bool) \<Rightarrow> string \<Rightarrow> string" where
  "encode_with keep s = concat (map (\<lambda>c. if keep c then [c] else percent c) s)"

text \<open>The characters \<open>encodeURIComponent\<close> keeps: letters, digits and \<open>-_.!~*'()\<close>.\<close>

definition component_char :: "char \<Rightarrow> bool" where
  "component_char c = (is_alnum c \<or> char_code c \<in> {45, 95, 46, 33, 126, 42, 39, 40, 41})"

definition encodeURIComponent :: "string \<Rightarrow> string" where
  "encodeURIComponent = encode_with component_char"

text \<open>\<open>encodeURI\<close> keeps the reserved characters \<open>;,/?:@&=+$#\<close> as well.\<close>

definition encodeURI :: "string \<Rightarrow> string" where
  "encodeURI = encode_with
     (\<lambda>c. component_char c \<or> char_code c \<in> {59, 44, 47, 63, 58, 64, 38, 61, 43, 36, 35})"

fun percent_decode :: "string \<Rightarrow> string option" where
  "percent_decode [] = Some []"
| "percent_decode (c # s) =
     (if c = CHR ''%'' then
        (case s of
           a # b # t \<Rightarrow>
             (case (hex_value a, hex_value b) of
                (Some x, Some y) \<Rightarrow> map_option ((#) (char_of (16 * x + y))) (percent_decode t)
              | _ \<Rightarrow> None)
         | _ \<Rightarrow> None)
      else map_option ((#) c) (percent_decode s))"

lemma hex_value_digit [simp]: "n < 16 \<Longrightarrow> hex_value (hex_digit n) = Some n"
  by (auto simp: hex_value_def hex_digit_def Let_def)

lemma percent_decode_percent [simp]:
  "percent_decode (percent c @ s) = map_option ((#) c) (percent_decode s)"
proof -
  have "char_code c div 16 < 16" and "char_code c mod 16 < 16"
    using char_code_less [of c] by simp_all
  then show ?thesis
    by (simp add: percent_def)
qed

lemma decode_encode_with:
  assumes "\<not> keep (CHR ''%'')"
  shows "percent_decode (encode_with keep s @ t) = map_option ((@) s) (percent_decode t)"
proof (induction s)
  case Nil
  show ?case by (simp add: encode_with_def option.map_id0 [unfolded id_def])
next
  case (Cons c s)
  have "percent_decode (encode_with keep (c # s) @ t) =
      map_option ((#) c) (percent_decode (encode_with keep s @ t))"
    using assms by (auto simp: encode_with_def)
  with Cons show ?case by (simp add: option.map_comp o_def)
qed

lemma component_char_percent: "\<not> component_char (CHR ''%'')"
  by (simp add: component_char_def is_alnum_def char_code_def)

lemma decode_encodeURIComponent: "percent_decode (encodeURIComponent s) = Some s"
  using decode_encode_with [where keep = component_char and s = s and t = "[]"] component_char_percent
  by (simp add: encodeURIComponent_def)

lemma encodeURIComponent_inj: "encodeURIComponent a = encodeURIComponent b \<longleftrightarrow> a = b"
  by (metis decode_encodeURIComponent option.inject)

lemma hex_digit_component: "n < 16 \<Longrightarrow> component_char (hex_digit n)"
  by (auto simp: component_char_def is_alnum_def hex_digit_def Let_def)

lemma encode_with_chars:
  assumes "x \<in> set (encode_with keep s)"
  shows "keep x \<or> x = CHR ''%'' \<or> component_char x"
proof -
  from assms have "\<exists>c. x \<in> set (if keep c then [c] else percent c)"
    unfolding encode_with_def by (simp only: set_concat set_map) blast
  then obtain c where c: "x \<in> set (if keep c then [c] else percent c)" ..
  have "char_code c div 16 < 16" and "char_code c mod 16 < 16"
    using char_code_less [of c] by simp_all
  with c show ?thesis
    by (auto simp: percent_def hex_digit_component split: if_splits)
qed

text \<open>No character that delimits paths or queries survives in an encoded segment.\<close>

lemma encodeURIComponent_safe:
  assumes "char_code d \<in> {47, 63, 35, 38, 61, 32, 58}"
  shows "d \<notin> set (encodeURIComponent s)"
proof
  assume "d \<in> set (encodeURIComponent s)"
  then have "component_char d \<or> d = CHR ''%''"
    by (auto simp: encodeURIComponent_def dest: encode_with_chars)
  with assms show False
    by (auto simp: component_char_def is_alnum_def Let_def char_code_def)
qed

lemma encodeURIComponent_append:
  "encodeURIComponent (a @ b) = encodeURIComponent a @ encodeURIComponent b"
  by (simp add: encodeURIComponent_def encode_with_def)

lemma encode_with_id: "(\<And>c. c \<in> set s \<Longrightarrow> keep c) \<Longrightarrow> encode_with keep s = s"
  by (induction s) (auto simp: encode_with_def)

section \<open>Query strings\<close>

text \<open>
  \<open>URLSearchParams\<close> writes \<open>application/x-www-form-urlencoded\<close>: letters, digits and
  \<open>*-._\<close> are kept, a space becomes a plus sign, everything else is percent encoded.
\<close>

definition form_char :: "char \<Rightarrow> bool" where
  "form_char c = (is_alnum c \<or> char_code c \<in> {42, 45, 46, 95})"

definition form_encode :: "string \<Rightarrow> string" where
  "form_encode s = concat (map (\<lambda>c. if c = CHR '' '' then ''+'' else if form_char c then [c] else percent c) s)"

type_synonym params = "(string \<times> string) list"

definition params_append :: "params \<Rightarrow> string \<Rightarrow> string \<Rightarrow> params" where
  "params_append ps k v = ps @ [(k, v)]"

definition params_string :: "params \<Rightarrow> string" where
  "params_string ps = join_with ''&'' (map (\<lambda>(k, v). form_encode k @ ''='' @ form_encode v) ps)"

text \<open>The server's side of it: reading a query string back.\<close>

definition form_decode :: "string \<Rightarrow> string option" where
  "form_decode s = percent_decode (map (\<lambda>c. if c = CHR ''+'' then CHR '' '' else c) s)"

definition pair_decode :: "string \<Rightarrow> (string \<times> string) option" where
  "pair_decode s =
     (case form_decode (takeWhile (\<lambda>c. c \<noteq> CHR ''='') s) of
        None \<Rightarrow> None
      | Some k \<Rightarrow> map_option (Pair k) (form_decode (drop 1 (dropWhile (\<lambda>c. c \<noteq> CHR ''='') s))))"

definition query_decode :: "string \<Rightarrow> (string \<times> string) option list" where
  "query_decode s = (if s = [] then [] else map pair_decode (split_on (CHR ''&'') s))"

lemma percent_chars: "x \<in> set (percent c) \<Longrightarrow> component_char x \<or> x = CHR ''%''"
  using char_code_less [of c] by (auto simp: percent_def hex_digit_component)

lemma percent_no_plus: "CHR ''+'' \<notin> set (percent c)"
  by (auto dest!: percent_chars simp: component_char_def is_alnum_def char_code_def)

lemma map_plus_percent:
  "map (\<lambda>c. if c = CHR ''+'' then CHR '' '' else c) (percent c) = percent c"
  by (rule map_idI) (use percent_no_plus [of c] in auto)

lemma form_char_facts: "\<not> form_char (CHR ''%'')" "\<not> form_char (CHR ''+'')"
  "\<not> form_char (CHR ''&'')" "\<not> form_char (CHR ''='')"
  by (simp_all add: form_char_def is_alnum_def char_code_def)

lemma form_decode_encode: "form_decode (form_encode s) = Some s"
proof (induction s)
  case Nil
  show ?case by (simp add: form_decode_def form_encode_def)
next
  case (Cons c s)
  consider "c = CHR '' ''" | "c \<noteq> CHR '' ''" "form_char c" | "c \<noteq> CHR '' ''" "\<not> form_char c" by blast
  then show ?case
  proof cases
    case 2
    then have "c \<noteq> CHR ''%''" "c \<noteq> CHR ''+''" using form_char_facts by auto
    with 2 Cons show ?thesis by (simp add: form_decode_def form_encode_def)
  qed (use Cons in \<open>simp_all add: form_decode_def form_encode_def map_plus_percent\<close>)
qed

lemma form_encode_chars:
  "x \<in> set (form_encode s) \<Longrightarrow> x = CHR ''+'' \<or> form_char x \<or> component_char x \<or> x = CHR ''%''"
  by (auto simp: form_encode_def split: if_splits dest: percent_chars)

lemma form_encode_no_delim: "CHR ''&'' \<notin> set (form_encode s)" "CHR ''='' \<notin> set (form_encode s)"
  by (auto dest!: form_encode_chars simp: form_char_facts)
    (simp_all add: component_char_def is_alnum_def char_code_def)

lemma pair_decode_encode: "pair_decode (form_encode k @ ''='' @ form_encode v) = Some (k, v)"
proof -
  have "takeWhile (\<lambda>c. c \<noteq> CHR ''='') (form_encode k @ ''='' @ form_encode v) = form_encode k"
    and "dropWhile (\<lambda>c. c \<noteq> CHR ''='') (form_encode k @ ''='' @ form_encode v) = ''='' @ form_encode v"
    using form_encode_no_delim(2) [of k]
    by (auto simp: takeWhile_append dropWhile_append)
  then show ?thesis by (simp add: pair_decode_def form_decode_encode)
qed

lemma query_roundtrip: "query_decode (params_string ps) = map Some ps"
proof (cases "ps = []")
  case True
  then show ?thesis by (simp add: query_decode_def params_string_def)
next
  case False
  let ?ws = "map (\<lambda>(k, v). form_encode k @ ''='' @ form_encode v) ps"
  have sp: "split_on (CHR ''&'') (params_string ps) = ?ws"
    unfolding params_string_def
    by (rule split_join) (use False form_encode_no_delim(1) in auto)
  have "params_string ps \<noteq> []"
  proof
    assume "params_string ps = []"
    with sp have "?ws = [[]]" by simp
    then show False by (cases ps) auto
  qed
  with sp show ?thesis
    using pair_decode_encode by (auto simp: query_decode_def)
qed

section \<open>Where the API lives\<close>

text \<open>
  \<open>path.match(/^(.*\/admin)(\/.*)?$/)\<close>, by the backtracking matcher the language prescribes: a
  piece of the pattern takes what was matched before it, the rest of the input and the
  continuation that matches the pieces after it. A dot does not match a line terminator, a star
  and a question mark try the longer match first, and the dollar needs the end of the input.
\<close>

definition line_end :: "char \<Rightarrow> bool" where
  "line_end c = (char_code c = 10 \<or> char_code c = 13)"

fun re_dot_star :: "(string \<Rightarrow> string \<Rightarrow> 'm option) \<Rightarrow> string \<Rightarrow> string \<Rightarrow> 'm option" where
  "re_dot_star k seen [] = k seen []"
| "re_dot_star k seen (x # xs) =
     (case (if line_end x then None else re_dot_star k (seen @ [x]) xs) of
        Some m \<Rightarrow> Some m
      | None \<Rightarrow> k seen (x # xs))"

definition re_text :: "string \<Rightarrow> (string \<Rightarrow> string \<Rightarrow> 'm option) \<Rightarrow> string \<Rightarrow> string \<Rightarrow> 'm option" where
  "re_text t k seen input = (if startsWith input t then k (seen @ t) (drop (length t) input) else None)"

definition re_optional :: "((string \<Rightarrow> string \<Rightarrow> 'm option) \<Rightarrow> string \<Rightarrow> string \<Rightarrow> 'm option) \<Rightarrow>
    (string \<Rightarrow> string \<Rightarrow> 'm option) \<Rightarrow> string \<Rightarrow> string \<Rightarrow> 'm option" where
  "re_optional piece k seen input = (case piece k seen input of Some m \<Rightarrow> Some m | None \<Rightarrow> k seen input)"

definition re_end :: "'m \<Rightarrow> string \<Rightarrow> string \<Rightarrow> 'm option" where
  "re_end m seen input = (if input = [] then Some m else None)"

text \<open>The group ends after \<open>/admin\<close>; what was seen there is the match of the group.\<close>

definition admin_match :: "string \<Rightarrow> string option" where
  "admin_match path =
     re_dot_star
       (re_text ''/admin'' (\<lambda>group. re_optional (\<lambda>k. re_text ''/'' (re_dot_star k)) (re_end group) group))
       [] path"

definition API_BASE :: "string \<Rightarrow> string" where
  "API_BASE path = (case admin_match path of Some m \<Rightarrow> m | None \<Rightarrow> [])"

definition ADMIN_API :: "string \<Rightarrow> string" where
  "ADMIN_API path = API_BASE path @ ''/api/admin''"

lemma endsWith_append [simp]: "endsWith (s @ p) p"
  by (simp add: endsWith_def)

text \<open>The star takes the longest prefix after which the continuation succeeds.\<close>

lemma re_dot_star_None:
  "re_dot_star k seen input = None \<longleftrightarrow>
     (\<forall>a b. input = a @ b \<and> list_all (\<lambda>c. \<not> line_end c) a \<longrightarrow> k (seen @ a) b = None)"
proof (induction k seen input rule: re_dot_star.induct)
  case (2 k seen x xs)
  show ?case
  proof
    assume n: "re_dot_star k seen (x # xs) = None"
    then have here: "k seen (x # xs) = None" by (auto split: option.splits)
    from n have later: "\<not> line_end x \<Longrightarrow> re_dot_star k (seen @ [x]) xs = None" by (auto split: option.splits)
    show "\<forall>a b. x # xs = a @ b \<and> list_all (\<lambda>c. \<not> line_end c) a \<longrightarrow> k (seen @ a) b = None"
      using here later 2 by (auto simp: Cons_eq_append_conv)
  next
    assume all: "\<forall>a b. x # xs = a @ b \<and> list_all (\<lambda>c. \<not> line_end c) a \<longrightarrow> k (seen @ a) b = None"
    then have "k seen (x # xs) = None" by (metis append_Nil append_Nil2 list.pred_inject(1))
    moreover have "re_dot_star k (seen @ [x]) xs = None" if "\<not> line_end x"
      using all "2.IH" [OF that] that by (metis append.assoc append_Cons append_Nil list.pred_inject(2))
    ultimately show "re_dot_star k seen (x # xs) = None" by simp
  qed
qed simp

lemma re_dot_star_Some:
  "re_dot_star k seen input = Some m \<Longrightarrow>
     \<exists>a b. input = a @ b \<and> list_all (\<lambda>c. \<not> line_end c) a \<and> k (seen @ a) b = Some m \<and>
       (\<forall>a' b'. input = a' @ b' \<and> list_all (\<lambda>c. \<not> line_end c) a' \<and> k (seen @ a') b' \<noteq> None \<longrightarrow> length a' \<le> length a)"
proof (induction k seen input rule: re_dot_star.induct)
  case (2 k seen x xs)
  show ?case
  proof (cases "line_end x \<or> re_dot_star k (seen @ [x]) xs = None")
    case True
    have "\<not> (\<not> line_end x \<and> (\<exists>a' b'. xs = a' @ b' \<and> list_all (\<lambda>c. \<not> line_end c) a' \<and> k (seen @ x # a') b' \<noteq> None))"
      using True by (auto simp: re_dot_star_None)
    moreover from True "2.prems" have "k (seen @ []) (x # xs) = Some m" by (auto split: if_splits)
    ultimately show ?thesis
      by (intro exI [of _ "[]"] exI [of _ "x # xs"]) (auto simp: Cons_eq_append_conv)
  next
    case False
    with "2.prems" have "re_dot_star k (seen @ [x]) xs = Some m" by auto
    from "2.IH" [OF _ this] False obtain a b where ab: "xs = a @ b" "list_all (\<lambda>c. \<not> line_end c) a" "k (seen @ x # a) b = Some m"
      and max: "\<And>a' b'. xs = a' @ b' \<Longrightarrow> list_all (\<lambda>c. \<not> line_end c) a' \<Longrightarrow> k (seen @ x # a') b' \<noteq> None \<Longrightarrow> length a' \<le> length a"
      by auto
    show ?thesis
      using ab False max by (intro exI [of _ "x # a"] exI [of _ b]) (auto simp: Cons_eq_append_conv)
  qed
qed auto

text \<open>The tail of the pattern: nothing, or a slash and anything on the same line.\<close>

lemma re_end_iff [simp]: "re_end m seen input = Some n \<longleftrightarrow> input = [] \<and> n = m"
  by (auto simp: re_end_def)

lemma admin_tail:
  "re_optional (\<lambda>k. re_text ''/'' (re_dot_star k)) (re_end m) seen input =
     (if input = [] \<or> (\<exists>r. input = CHR ''/'' # r \<and> list_all (\<lambda>c. \<not> line_end c) r) then Some m else None)"
proof -
  have star: "re_dot_star (re_end m) g r = (if list_all (\<lambda>c. \<not> line_end c) r then Some m else None)" for g r
  proof (induction r arbitrary: g)
    case (Cons x xs)
    then show ?case by (simp add: re_end_def)
  qed (simp add: re_end_def)
  show ?thesis
    by (cases input) (auto simp: re_optional_def re_text_def star re_end_def startsWith_def split: option.split)
qed

section \<open>Segments of a path\<close>

text \<open>
  A URL made of a base and encoded segments determines the segments: two calls reach the
  same URL only if they name the same things.
\<close>

definition path_url :: "string \<Rightarrow> string list \<Rightarrow> string" where
  "path_url base segs = base @ concat (map (\<lambda>s. ''/'' @ encodeURIComponent s) segs)"

lemma path_url_Cons: "path_url base (s # ss) = path_url (base @ ''/'' @ encodeURIComponent s) ss"
  by (simp add: path_url_def)

lemma slash_notin_encoded: "CHR ''/'' \<notin> set (encodeURIComponent s)"
  by (rule encodeURIComponent_safe) (simp add: char_code_def)

lemma split_slash_segments:
  "split_on (CHR ''/'') (path_url [] segs) = [] # map encodeURIComponent segs"
proof (induction segs rule: rev_induct)
  case Nil
  show ?case by (simp add: path_url_def)
next
  case (snoc s segs)
  have gen: "split_on d (a @ d # w) = split_on d a @ split_on d w" for d :: char and a w
    by (induction a) (auto split: list.splits)
  have "path_url [] (segs @ [s]) = path_url [] segs @ CHR ''/'' # encodeURIComponent s"
    by (simp add: path_url_def)
  then show ?case
    using snoc by (simp add: gen split_on_id slash_notin_encoded)
qed

lemma path_url_inj: "path_url base a = path_url base b \<longleftrightarrow> a = b"
proof
  assume "path_url base a = path_url base b"
  then have "path_url [] a = path_url [] b" by (simp add: path_url_def)
  then have "map encodeURIComponent a = map encodeURIComponent b"
    using split_slash_segments [of a] split_slash_segments [of b] by simp
  then show "a = b"
    by (rule map_injective) (simp add: inj_def encodeURIComponent_inj)
qed simp

section \<open>The path on the wire\<close>

text \<open>
  \<open>fetch\<close> parses the URL it is given: the path ends before a question mark or a hash, its pieces
  between slashes are taken in turn, a piece \<open>.\<close> is dropped and a piece \<open>..\<close> takes away the piece
  before it, whether their dots are written out or percent-encoded.
\<close>

definition dot_piece :: "string \<Rightarrow> bool" where
  "dot_piece s = (s \<in> {''.'', ''%2e'', ''%2E''})"

definition dots_piece :: "string \<Rightarrow> bool" where
  "dots_piece s =
     (s \<in> {''..'', ''.%2e'', ''.%2E'', ''%2e.'', ''%2E.'', ''%2e%2e'', ''%2e%2E'', ''%2E%2e'', ''%2E%2E''})"

definition take_piece :: "string \<Rightarrow> string list \<Rightarrow> string list" where
  "take_piece s done = (if dots_piece s then tl done else if dot_piece s then done else s # done)"

definition take_last :: "string \<Rightarrow> string list \<Rightarrow> string list" where
  "take_last s done = (if dots_piece s then [] # tl done else if dot_piece s then [] # done else s # done)"

definition fetch_path :: "string \<Rightarrow> string list" where
  "fetch_path u =
     (let pieces = tl (split_on (CHR ''/'') (takeWhile (\<lambda>c. c \<noteq> CHR ''?'' \<and> c \<noteq> CHR ''#'') u)) in
      if pieces = [] then [] else rev (take_last (last pieces) (fold take_piece (butlast pieces) [])))"

definition plain_path :: "string \<Rightarrow> bool" where
  "plain_path s = (CHR ''?'' \<notin> set s \<and> CHR ''#'' \<notin> set s)"

definition plain_name :: "string \<Rightarrow> bool" where
  "plain_name s = (s \<noteq> ''.'' \<and> s \<noteq> ''..'')"

lemma encoded_dots:
  assumes "plain_name s"
  shows "\<not> dot_piece (encodeURIComponent s)" "\<not> dots_piece (encodeURIComponent s)"
proof -
  have keep: "encodeURIComponent ''.'' = ''.''" "encodeURIComponent ''..'' = ''..''" by code_simp+
  have "encodeURIComponent s \<noteq> w" if "percent_decode w = None \<or> percent_decode w = Some ''.'' \<or> percent_decode w = Some ''..''" for w
    using that assms decode_encodeURIComponent [of s] keep unfolding plain_name_def by auto
  moreover have "list_all (\<lambda>w. percent_decode w = None \<or> percent_decode w = Some ''.'' \<or> percent_decode w = Some ''..'')
     [''.'', ''%2e'', ''%2E'', ''..'', ''.%2e'', ''.%2E'', ''%2e.'', ''%2E.'', ''%2e%2e'', ''%2e%2E'', ''%2E%2e'', ''%2E%2E'']"
    by code_simp
  ultimately show "\<not> dot_piece (encodeURIComponent s)" "\<not> dots_piece (encodeURIComponent s)"
    by (auto simp: dot_piece_def dots_piece_def)
qed

lemma split_path_url:
  "segs \<noteq> [] \<Longrightarrow> split_on (CHR ''/'') (path_url base segs) = split_on (CHR ''/'') base @ map encodeURIComponent segs"
proof -
  assume "segs \<noteq> []"
  have gen: "split_on d (a @ d # w) = split_on d a @ split_on d w" for d :: char and a w
    by (induction a) (auto split: list.splits)
  obtain s ss where segs: "segs = s # ss" using \<open>segs \<noteq> []\<close> by (cases segs) auto
  have one: "split_on (CHR ''/'') (encodeURIComponent s @ path_url [] ss) = map encodeURIComponent (s # ss)" for s ss
  proof (induction ss arbitrary: s)
    case Nil
    then show ?case by (simp add: path_url_def split_on_id slash_notin_encoded)
  next
    case (Cons t ss)
    have "encodeURIComponent s @ path_url [] (t # ss) = encodeURIComponent s @ CHR ''/'' # (encodeURIComponent t @ path_url [] ss)"
      by (simp add: path_url_def)
    then show ?case using Cons by (simp only: gen split_on_id [OF slash_notin_encoded] list.map append_Cons append_Nil)
  qed
  have "path_url base segs = base @ CHR ''/'' # (encodeURIComponent s @ path_url [] ss)"
    by (simp add: path_url_def segs)
  then show ?thesis using one [of s ss] by (simp add: gen segs)
qed

lemma path_url_plain:
  "CHR ''?'' \<in> set (path_url base segs) \<longleftrightarrow> CHR ''?'' \<in> set base"
  "CHR ''#'' \<in> set (path_url base segs) \<longleftrightarrow> CHR ''#'' \<in> set base"
proof -
  have "CHR ''?'' \<notin> set (encodeURIComponent s)" "CHR ''#'' \<notin> set (encodeURIComponent s)" for s
    by (rule encodeURIComponent_safe; simp add: char_code_def)+
  then show "CHR ''?'' \<in> set (path_url base segs) \<longleftrightarrow> CHR ''?'' \<in> set base"
    "CHR ''#'' \<in> set (path_url base segs) \<longleftrightarrow> CHR ''#'' \<in> set base"
    by (induction segs arbitrary: base) (simp_all add: path_url_def)
qed

lemma fetch_path_url:
  assumes "plain_path base" and "list_all plain_name segs" and "segs \<noteq> []"
  shows "fetch_path (path_url base segs) =
    rev (fold take_piece (tl (split_on (CHR ''/'') base)) []) @ map encodeURIComponent segs"
proof -
  let ?b = "tl (split_on (CHR ''/'') base)"
  have "CHR ''?'' \<notin> set (path_url base segs)" "CHR ''#'' \<notin> set (path_url base segs)"
    using assms(1) by (simp_all add: plain_path_def path_url_plain)
  then have tw: "takeWhile (\<lambda>c. c \<noteq> CHR ''?'' \<and> c \<noteq> CHR ''#'') (path_url base segs) = path_url base segs"
    by (intro takeWhile_eq_all_conv [THEN iffD2] ballI) metis
  have "split_on (CHR ''/'') base \<noteq> []" by (cases base) (simp_all split: list.split)
  then have pieces: "tl (split_on (CHR ''/'') (takeWhile (\<lambda>c. c \<noteq> CHR ''?'' \<and> c \<noteq> CHR ''#'') (path_url base segs))) =
      ?b @ map encodeURIComponent segs"
    unfolding tw by (simp add: split_path_url [OF assms(3)])
  have names: "fold take_piece (map encodeURIComponent ss) acc = rev (map encodeURIComponent ss) @ acc" if "list_all plain_name ss" for ss acc
    using that by (induction ss arbitrary: acc) (simp_all add: take_piece_def encoded_dots)
  obtain ss s where segs: "segs = ss @ [s]" using assms(3) by (cases segs rule: rev_cases) auto
  then show ?thesis
    using assms(2) unfolding fetch_path_def pieces
    by (simp add: butlast_append names take_last_def encoded_dots)
qed

lemma fetch_path_inj:
  assumes "plain_path base" and "list_all plain_name a" and "list_all plain_name b" and "a \<noteq> []" and "b \<noteq> []"
  shows "fetch_path (path_url base a) = fetch_path (path_url base b) \<longleftrightarrow> a = b"
proof -
  have "map encodeURIComponent a = map encodeURIComponent b \<longleftrightarrow> a = b"
    by (rule inj_map_eq_map) (simp add: inj_def encodeURIComponent_inj)
  then show ?thesis using assms by (simp add: fetch_path_url)
qed

section \<open>Properties\<close>

text \<open>A path that has the console mounted after \<open>front\<close>.\<close>

definition mounted_at :: "string \<Rightarrow> string \<Rightarrow> bool" where
  "mounted_at path front =
     (\<exists>back. path = front @ ''/admin'' @ back \<and> (back = [] \<or> hd back = CHR ''/'') \<and> list_all (\<lambda>c. \<not> line_end c) path)"

lemma admin_front:
  "re_text ''/admin'' (\<lambda>group. re_optional (\<lambda>k. re_text ''/'' (re_dot_star k)) (re_end group) group) a b \<noteq> None \<longleftrightarrow>
     (\<exists>back. b = ''/admin'' @ back \<and> (back = [] \<or> hd back = CHR ''/'') \<and> list_all (\<lambda>c. \<not> line_end c) back)"
  "re_text ''/admin'' (\<lambda>group. re_optional (\<lambda>k. re_text ''/'' (re_dot_star k)) (re_end group) group) a b = Some m \<Longrightarrow>
     m = a @ ''/admin''"
  by (auto simp: re_text_def admin_tail startsWith_iff line_end_def char_code_def Cons_eq_append_conv neq_Nil_conv split: if_splits)

lemma mounted_at_iff:
  "mounted_at path front \<longleftrightarrow>
     (\<exists>b. path = front @ b \<and> list_all (\<lambda>c. \<not> line_end c) front \<and>
        re_text ''/admin'' (\<lambda>group. re_optional (\<lambda>k. re_text ''/'' (re_dot_star k)) (re_end group) group) front b \<noteq> None)"
  unfolding admin_front(1) mounted_at_def by (auto simp: line_end_def char_code_def)

text \<open>
  C30. Where the API is found: the base is the longest prefix of the page's path that ends in
  \<open>/admin\<close> and is followed by a slash or by nothing; without one, and for a path of several
  lines, it is empty.
\<close>

theorem API_BASE_longest:
  "(API_BASE path = [] \<and> (\<forall>front. \<not> mounted_at path front)) \<or>
   (\<exists>front. API_BASE path = front @ ''/admin'' \<and> mounted_at path front \<and>
      (\<forall>f. mounted_at path f \<longrightarrow> length f \<le> length front))"
proof (cases "admin_match path")
  case None
  then have "\<not> mounted_at path front" for front
    by (auto simp: admin_match_def re_dot_star_None mounted_at_iff)
  with None show ?thesis by (simp add: API_BASE_def)
next
  case (Some m)
  from re_dot_star_Some [OF this [unfolded admin_match_def]] obtain a b
    where ab: "path = a @ b" "list_all (\<lambda>c. \<not> line_end c) a"
      "re_text ''/admin'' (\<lambda>group. re_optional (\<lambda>k. re_text ''/'' (re_dot_star k)) (re_end group) group) a b = Some m"
      and max: "\<And>f. mounted_at path f \<Longrightarrow> length f \<le> length a"
    by (auto simp: mounted_at_iff)
  then have "mounted_at path a" "m = a @ ''/admin''" using admin_front(2) [OF ab(3)] by (auto simp: mounted_at_iff)
  with Some max show ?thesis by (auto simp: API_BASE_def)
qed

theorem API_BASE_longest_witness: "\<exists>front. API_BASE ''/shop/admin/users'' = front @ ''/admin''"
proof -
  have "mounted_at ''/shop/admin/users'' ''/shop''"
    by (simp add: mounted_at_def line_end_def char_code_def)
  with API_BASE_longest [of "''/shop/admin/users''"] show ?thesis by blast
qed

end
