(* ===== verification/Telemetry.thy ===== *)
theory Telemetry
  imports Ctx Dashboard WebUrl
begin

text \<open>
  The live data of the console in App.tsx: the metrics summary, the dashboard widgets,
  the provider table, the incidents and the stream of performance samples, with the
  requests that load them.
\<close>

record tel_st =
  metricsSummary :: jv
  dashboardWidgets :: "jv list"
  perfData :: "jv list"
  providers :: jv
  incidents :: "jv list"

definition capability_list :: "string list \<Rightarrow> jv" where
  "capability_list cs = JObj [(''name'', JStr ''battery''), (''capabilities'', JArr (map JStr cs))]"

text \<open>The \<open>useState\<close> defaults.\<close>

definition tel_initial :: tel_st where
  "tel_initial =
     \<lparr>metricsSummary = JObj [(''total_requests'', JNum 0), (''error_rate'', JNum 0), (''avg_latency_ms'', JNum 0),
        (''active_sessions'', JNum 0), (''uptime'', JStr ''0s'')],
      dashboardWidgets = [],
      perfData = PERFORMANCE_DATA,
      providers = JObj
        [(''telemetry'', capability_list [''write'', ''read.summary'', ''read.stream'']),
         (''incident'', capability_list [''write'', ''read.list'', ''read.summary'', ''resolve'']),
         (''analytics'', capability_list [''write'', ''read.list'', ''read.summary'']),
         (''audit'', capability_list [''write'', ''read.list'', ''read.summary''])],
      incidents = []\<rparr>"

text \<open>The continuations of this component's fetches.\<close>

datatype tel_k = KMetricsSummary | KDashboardData | KProviders | KIncidents | KResolveIncident jv

type_synonym tel_ctx = "(tel_st, tel_k) ctx"

section \<open>Loaders\<close>

definition fetchMetricsSummary :: "host \<Rightarrow> tel_ctx \<Rightarrow> tel_ctx" where
  "fetchMetricsSummary h = issue GET (admin_api h @ ''/metrics/summary'') None KMetricsSummary"

definition on_metrics_summary :: "outcome \<Rightarrow> tel_ctx \<Rightarrow> tel_ctx" where
  "on_metrics_summary =
     guarded_loader None
       (store_slice (\<lambda>data. truthy data \<and> is_object data) (\<lambda>data s. s\<lparr>metricsSummary := data\<rparr>))"

definition fetchDashboardData :: "host \<Rightarrow> tel_ctx \<Rightarrow> tel_ctx" where
  "fetchDashboardData h = issue GET (admin_api h @ ''/dashboard/data'') None KDashboardData"

definition on_dashboard_data :: "outcome \<Rightarrow> tel_ctx \<Rightarrow> tel_ctx" where
  "on_dashboard_data =
     guarded_loader (Some (\<lambda>_. ''Failed to fetch dashboard data''))
       (store_slice (\<lambda>data. truthy data \<and> is_array (oget data ''widgets''))
          (\<lambda>data s. s\<lparr>dashboardWidgets := arr_items (oget data ''widgets'')\<rparr>))"

definition fetchProviders :: "host \<Rightarrow> tel_ctx \<Rightarrow> tel_ctx" where
  "fetchProviders h = issue GET (admin_api h @ ''/providers'') None KProviders"

definition on_providers :: "outcome \<Rightarrow> tel_ctx \<Rightarrow> tel_ctx" where
  "on_providers =
     guarded_loader (Some (\<lambda>_. ''Failed to fetch providers''))
       (store_slice (\<lambda>data. truthy data \<and> is_object data) (\<lambda>data s. s\<lparr>providers := data\<rparr>))"

text \<open>\<open>fetchIncidents\<close>: only when the incident provider can list.\<close>

definition fetchIncidents :: "host \<Rightarrow> tel_ctx \<Rightarrow> tel_ctx" where
  "fetchIncidents h c =
     (if \<not> has_capability (oget (providers (slice c)) ''incident'') ''read.list'' then c
      else issue GET (admin_api h @ ''/incidents'') None KIncidents c)"

definition on_incidents :: "outcome \<Rightarrow> tel_ctx \<Rightarrow> tel_ctx" where
  "on_incidents =
     guarded_loader (Some (\<lambda>_. ''Failed to fetch incidents''))
       (store_slice is_array (\<lambda>data s. s\<lparr>incidents := arr_items data\<rparr>))"

section \<open>Resolving an incident\<close>

definition handleResolveIncident :: "host \<Rightarrow> jv \<Rightarrow> tel_ctx \<Rightarrow> tel_ctx" where
  "handleResolveIncident h iid c =
     (if \<not> has_capability (oget (providers (slice c)) ''incident'') ''resolve'' then c
      else issue POST (admin_api h @ ''/incidents/'' @ encodeURIComponent (js_string iid) @ ''/resolve'')
             None (KResolveIncident iid) c)"

definition on_resolve_incident :: "jv \<Rightarrow> outcome \<Rightarrow> tel_ctx \<Rightarrow> tel_ctx" where
  "on_resolve_incident iid out =
     run_chain
       (js_catch
         (js_then (fetched out) (\<lambda>res.
           if res_ok res
           then js_modify (set_slice (\<lambda>s. s\<lparr>incidents := filter (\<lambda>inc. oget inc ''id'' \<noteq> iid) (incidents s)\<rparr>))
           else js_modify (alert ''Failed to resolve incident'')))
         (\<lambda>e. js_modify (alert (''Error: '' @ e))))"

definition tel_resume :: "tel_k \<Rightarrow> outcome \<Rightarrow> tel_ctx \<Rightarrow> tel_ctx" where
  "tel_resume k out =
     (case k of
        KMetricsSummary \<Rightarrow> on_metrics_summary out
      | KDashboardData \<Rightarrow> on_dashboard_data out
      | KProviders \<Rightarrow> on_providers out
      | KIncidents \<Rightarrow> on_incidents out
      | KResolveIncident iid \<Rightarrow> on_resolve_incident iid out)"

section \<open>The contracts\<close>

interpretation metrics: quiet_loader on_metrics_summary
  unfolding on_metrics_summary_def by (rule quiet_store_slice)

interpretation dashboard: quiet_loader on_dashboard_data
  unfolding on_dashboard_data_def by (rule quiet_store_slice)

interpretation provs: quiet_loader on_providers
  unfolding on_providers_def by (rule quiet_store_slice)

interpretation incs: quiet_loader on_incidents
  unfolding on_incidents_def by (rule quiet_store_slice)

lemma on_resolve_incident_eval:
  "on_resolve_incident iid (Reply r) c =
     (if res_ok r then set_slice (\<lambda>s. s\<lparr>incidents := filter (\<lambda>inc. oget inc ''id'' \<noteq> iid) (incidents s)\<rparr>) c
      else alert ''Failed to resolve incident'' c)"
  "on_resolve_incident iid (NetErr e) c = alert (''Error: '' @ e) c"
  by (simp_all add: on_resolve_incident_def chain_defs fetched_def)

end
