(* ===== verification/Labels.thy ===== *)
theory Labels
  imports JsPrelude
begin

text \<open>
  src/pkg/admin/ui-v2/src/lib/labels.ts: turning manifest identifiers into the labels
  the console shows. The laws say what a label keeps of the identifier (everything but
  case and underscores), that a display name wins, and that labelling a label changes
  nothing.
\<close>

definition ACRONYMS :: "string list" where
  "ACRONYMS = [''ai'', ''api'', ''id'', ''jwt'', ''otp'', ''sms'', ''sso'', ''url'', ''uri'', ''ip'', ''ui'', ''os'', ''tz'']"

text \<open>
  \<open>s.replace(/_/g, ' ').split(/\\s+/).filter(Boolean)\<close>: splitting at every single blank
  gives more empty pieces than splitting at runs of blanks, and the filter drops them
  all.
\<close>

definition label_words :: "string \<Rightarrow> string list" where
  "label_words s =
     filter (\<lambda>w. w \<noteq> [])
       (split_on (CHR '' '') (map (\<lambda>c. if c = CHR ''_'' \<or> is_space c then CHR '' '' else c) s))"

definition title_word :: "string \<Rightarrow> string" where
  "title_word w =
     (if toLowerCase w \<in> set ACRONYMS then toUpperCase w
      else toUpperCase (take 1 w) @ toLowerCase (drop 1 w))"

definition humanizeResourceName :: "string \<Rightarrow> string option \<Rightarrow> string" where
  "humanizeResourceName name displayName =
     (case displayName of
        Some d \<Rightarrow>
          if d \<noteq> [] \<and> trim d \<noteq> [] then d
          else if name = [] then [] else join_with '' '' (map title_word (label_words name))
      | None \<Rightarrow>
          if name = [] then [] else join_with '' '' (map title_word (label_words name)))"

definition humanizeFieldName :: "string \<Rightarrow> string" where
  "humanizeFieldName name = humanizeResourceName name None"

section \<open>What a label keeps\<close>

lemma label_words_Nil [simp]: "label_words [] = []"
  by (simp add: label_words_def)

lemma humanize_plain: "humanizeResourceName name None = join_with '' '' (map title_word (label_words name))"
  by (simp add: humanizeResourceName_def)

lemma label_words_nonblank:
  assumes "w \<in> set (label_words s)"
  shows "w \<noteq> [] \<and> CHR '' '' \<notin> set w"
  using assms by (auto simp: label_words_def dest: split_on_no_sep)

lemma toLowerCase_title_word [simp]: "toLowerCase (title_word w) = toLowerCase w"
proof -
  have "toLowerCase (take 1 w) @ toLowerCase (drop 1 w) = toLowerCase w"
    by (simp flip: toLowerCase_append)
  then show ?thesis by (simp add: title_word_def toLowerCase_append)
qed

lemma toLowerCase_join: "toLowerCase (join_with [CHR '' ''] ws) = join_with [CHR '' ''] (map toLowerCase ws)"
  by (induction "[CHR '' '']" ws rule: join_with.induct)
    (auto simp: toLowerCase_def char_lower_def char_code_def)

lemma char_upper_idem [simp]: "char_upper (char_upper c) = char_upper c"
  by (auto simp: char_upper_def)

lemma char_upper_lower [simp]: "char_upper (char_lower c) = char_upper c"
  by (auto simp: char_lower_def char_upper_def)

lemma title_word_idem [simp]: "title_word (title_word w) = title_word w"
proof (cases "toLowerCase w \<in> set ACRONYMS")
  case True
  then have "toLowerCase (toUpperCase w) \<in> set ACRONYMS" by simp
  moreover have "toUpperCase (toUpperCase w) = toUpperCase w"
    by (simp add: toUpperCase_def)
  ultimately show ?thesis using True by (simp add: title_word_def)
next
  case False
  then have "toLowerCase (title_word w) \<notin> set ACRONYMS" by simp
  moreover have "title_word w = toUpperCase (take 1 w) @ toLowerCase (drop 1 w)"
    using False by (simp add: title_word_def)
  ultimately show ?thesis
    by (cases w) (simp_all add: title_word_def toUpperCase_def toLowerCase_def)
qed

definition sep_char :: "char \<Rightarrow> bool" where
  "sep_char c = (c = CHR ''_'' \<or> is_space c)"

lemma sep_char_code: "sep_char c \<longleftrightarrow> char_code c \<in> {95, 32, 9, 10, 11, 12, 13}"
  by (auto simp: sep_char_def char_eq_code is_space_def)

lemma sep_char_upper: "sep_char (char_upper c) \<longleftrightarrow> sep_char c"
  by (auto simp: sep_char_code char_code_upper)

lemma sep_char_lower: "sep_char (char_lower c) \<longleftrightarrow> sep_char c"
  by (auto simp: sep_char_code char_code_lower)

lemma title_word_seps: "(\<exists>c \<in> set (title_word w). sep_char c) \<longleftrightarrow> (\<exists>c \<in> set w. sep_char c)"
proof (cases w)
  case (Cons x xs)
  then show ?thesis
    by (simp add: title_word_def toUpperCase_def toLowerCase_def sep_char_upper sep_char_lower)
qed (simp add: title_word_def toUpperCase_def toLowerCase_def)

lemma label_words_chars:
  assumes "w \<in> set (label_words s)" and "c \<in> set w"
  shows "\<not> sep_char c"
proof -
  let ?f = "\<lambda>c. if c = CHR ''_'' \<or> is_space c then CHR '' '' else c"
  from assms(1) have w: "w \<in> set (split_on (CHR '' '') (map ?f s))"
    by (simp add: label_words_def)
  from split_on_subset [OF w] assms(2) have "c \<in> ?f ` set s" by auto
  moreover have "c \<noteq> CHR '' ''" using split_on_no_sep [OF w] assms(2) by auto
  ultimately show ?thesis by (auto simp: sep_char_def split: if_splits)
qed

lemma label_words_join:
  assumes "\<And>w. w \<in> set ws \<Longrightarrow> w \<noteq> [] \<and> \<not> (\<exists>c \<in> set w. sep_char c)"
  shows "label_words (join_with [CHR '' ''] ws) = ws"
proof (cases "ws = []")
  case False
  let ?f = "\<lambda>c. if c = CHR ''_'' \<or> is_space c then CHR '' '' else c"
  have blank: "sep_char (CHR '' '')" by (simp add: sep_char_def is_space_def char_code_def)
  have chars: "c = CHR '' '' \<or> \<not> sep_char c" if "c \<in> set (join_with [CHR '' ''] vs)" "set vs \<subseteq> set ws" for c vs
    using that assms by (induction "[CHR '' '']" vs rule: join_with.induct) fastforce+
  have id: "map ?f (join_with [CHR '' ''] ws) = join_with [CHR '' ''] ws"
    by (rule map_idI) (use chars in \<open>auto simp: sep_char_def\<close>)
  have "split_on (CHR '' '') (join_with [CHR '' ''] ws) = ws"
    by (rule split_join) (use False assms blank in blast)+
  with id assms show ?thesis by (simp add: label_words_def)
qed simp

lemma title_word_nonempty: "w \<noteq> [] \<Longrightarrow> title_word w \<noteq> []"
  by (cases w) (auto simp: title_word_def toUpperCase_def)

lemma label_words_humanize:
  "label_words (humanizeResourceName name None) = map title_word (label_words name)"
  unfolding humanize_plain
proof (rule label_words_join)
  fix w assume "w \<in> set (map title_word (label_words name))"
  then obtain v where v: "v \<in> set (label_words name)" and w: "w = title_word v" by auto
  show "w \<noteq> [] \<and> \<not> (\<exists>c \<in> set w. sep_char c)"
    using label_words_nonblank [OF v] label_words_chars [OF v] title_word_nonempty [of v]
    unfolding w title_word_seps by blast
qed

section \<open>Properties\<close>

text \<open>
  The words of an identifier, said without the code: the longest pieces without an underscore or
  blank, from left to right.
\<close>

function pieces :: "string \<Rightarrow> string list" where
  "pieces s =
     (let t = dropWhile sep_char s in
      if t = [] then [] else takeWhile (\<lambda>c. \<not> sep_char c) t # pieces (dropWhile (\<lambda>c. \<not> sep_char c) t))"
  by pat_completeness auto
termination
proof (relation "measure length", goal_cases)
  case (2 s t)
  then have "t \<noteq> []" "\<not> sep_char (hd t)" using hd_dropWhile [of sep_char s] by blast+
  then obtain x xs where t: "t = x # xs" "\<not> sep_char x" by (cases t) auto
  then have "length (dropWhile (\<lambda>c. \<not> sep_char c) t) < length t"
    by (simp add: le_imp_less_Suc length_dropWhile_le)
  also have "length t \<le> length s" unfolding 2(1) by (rule length_dropWhile_le)
  finally show ?case by simp
qed simp

declare pieces.simps [simp del]

lemma label_words_sep: "sep_char c \<Longrightarrow> label_words (c # s) = label_words s"
  by (simp add: label_words_def sep_char_def)

lemma label_words_word:
  assumes "w \<noteq> []" and "list_all (\<lambda>c. \<not> sep_char c) w" and "s = [] \<or> sep_char (hd s)"
  shows "label_words (w @ s) = w # label_words s"
proof -
  let ?f = "\<lambda>c. if c = CHR ''_'' \<or> is_space c then CHR '' '' else c"
  have blank: "is_space (CHR '' '')" by (simp add: is_space_def char_code_def)
  have w: "map ?f w = w" "CHR '' '' \<notin> set w"
    using assms(2) blank by (induction w) (auto simp: sep_char_def)
  show ?thesis
  proof (cases s)
    case Nil
    then show ?thesis using w assms(1) by (simp add: label_words_def split_on_id)
  next
    case (Cons c t)
    with assms(3) have c: "?f c = CHR '' ''" by (auto simp: sep_char_def)
    have "map ?f (w @ s) = w @ CHR '' '' # map ?f t" "map ?f s = CHR '' '' # map ?f t"
      using w(1) c Cons by simp_all
    then show ?thesis using w(2) assms(1) unfolding label_words_def by (simp add: split_on_append_sep)
  qed
qed

lemma label_words_pieces: "label_words s = pieces s"
proof (induction s rule: pieces.induct)
  case (1 s)
  let ?t = "dropWhile sep_char s"
  have skip: "label_words s = label_words ?t"
    by (induction s) (simp_all add: label_words_sep)
  show ?case
  proof (cases "?t = []")
    case True
    have "pieces s = []" by (subst pieces.simps) (simp only: True Let_def simp_thms if_True)
    then show ?thesis unfolding skip True by simp
  next
    case False
    let ?w = "takeWhile (\<lambda>c. \<not> sep_char c) ?t" and ?r = "dropWhile (\<lambda>c. \<not> sep_char c) ?t"
    have "\<not> sep_char (hd ?t)" using False by (rule hd_dropWhile)
    then have w: "?w \<noteq> []" using False by (cases ?t) auto
    have all: "list_all (\<lambda>c. \<not> sep_char c) ?w" by (auto simp: list_all_iff dest: set_takeWhileD)
    have r: "?r = [] \<or> sep_char (hd ?r)" using hd_dropWhile [of "\<lambda>c. \<not> sep_char c" ?t] by blast
    have "label_words ?t = ?w # label_words ?r"
      using label_words_word [OF w all r] by simp
    then show ?thesis using skip 1 [OF refl False] False by (simp add: pieces.simps [of s] Let_def)
  qed
qed

text \<open>
  C32. Labelling is stable and keeps the words: a label labelled again is itself; up to case it is
  the longest pieces of the identifier without underscores and blanks, in order and joined by one
  blank each; and a display name is taken as it is unless it is blank.
\<close>

theorem label_stable:
  "humanizeFieldName (humanizeFieldName name) = humanizeFieldName name \<and>
   toLowerCase (humanizeFieldName name) = join_with '' '' (map toLowerCase (pieces name)) \<and>
   humanizeResourceName name (Some d) = (if trim d = [] then humanizeFieldName name else d)"
proof (intro conjI)
  show "toLowerCase (humanizeFieldName name) = join_with '' '' (map toLowerCase (pieces name))"
    by (simp add: humanizeFieldName_def humanize_plain toLowerCase_join o_def label_words_pieces)
  have "humanizeFieldName (humanizeFieldName name) =
      join_with '' '' (map title_word (map title_word (label_words name)))"
    unfolding humanizeFieldName_def humanize_plain
    by (simp only: label_words_humanize [unfolded humanize_plain])
  then show "humanizeFieldName (humanizeFieldName name) = humanizeFieldName name"
    by (simp add: humanizeFieldName_def humanize_plain o_def)
  have "trim [] = []" by (simp add: trim_def trimEnd_def)
  then show "humanizeResourceName name (Some d) = (if trim d = [] then humanizeFieldName name else d)"
    by (auto simp: humanizeResourceName_def humanizeFieldName_def)
qed

end
