(* ===== verification/Collections.thy ===== *)
theory Collections
  imports Ctx WebUrl Labels "HOL-Library.Multiset"
begin

text \<open>
  The resource explorer's data and its pure operations (App.tsx): the collections read
  off the admin configuration, the query of the selected one (page, sort, scope,
  filters), pagination, row selection, and what the table, the detail dialogue and the
  form show of a record.
\<close>

record collection =
  cid :: string
  cname :: string
  displayName :: string
  cfields :: "jv list"
  rows :: "jv list"
  pinnedToMenu :: bool
  spec :: jv

record query_params =
  page :: int
  perPage :: int
  sort_by :: string
  scope :: string
  filters :: "(string \<times> string) list"

text \<open>
  \<open>query_version\<close> counts the objects made for \<open>resourceQueryParams\<close>: React compares the
  object, not its contents. A total of \<open>None\<close> is \<open>NaN\<close>.
\<close>

record ex_st =
  collections :: "collection list"
  adminConfig :: jv
  query :: query_params
  query_version :: nat
  resourceTotalCount :: "int option"
  isFilterSidebarOpen :: bool
  localFilters :: "(string \<times> string) list"
  selectedRowIds :: "string list"
  isResourceModalOpen :: bool
  editingResource :: "jv option"
  showingResource :: jv
  isShowModalOpen :: bool
  openedUrls :: "string list"

definition query_initial :: query_params where
  "query_initial = \<lparr>page = 1, perPage = 25, sort_by = [], scope = ''all'', filters = []\<rparr>"

definition ex_initial :: ex_st where
  "ex_initial =
     \<lparr>collections = [], adminConfig = JNull, query = query_initial, query_version = 0,
      resourceTotalCount = Some 0, isFilterSidebarOpen = False, localFilters = [], selectedRowIds = [],
      isResourceModalOpen = False, editingResource = None, showingResource = JNull,
      isShowModalOpen = False, openedUrls = []\<rparr>"

section \<open>Collections from the configuration\<close>

text \<open>
  The callback of \<open>config.resources.forEach\<close>: a disabled resource adds nothing. A name
  that is not a string has no \<open>localeCompare\<close>; the sort then throws. (A name that is not a
  string in a configuration with that one resource is outside the model: there the sort compares
  nothing, and the identifier of the collection is not text.)
\<close>

definition resource_entry :: "jv \<Rightarrow> collection option res" where
  "resource_entry r =
     res_bind (js_get r ''enabled'') (\<lambda>en.
       if en = JBool False then Inr None
       else (case oget r ''resource'' of
               JStr name \<Rightarrow>
                 Inr (Some
                   \<lparr>cid = name, cname = name,
                    displayName = js_string (js_or (oget (oget r ''menu'') ''label'') (JStr name)),
                    cfields = arr_items (oget r ''fields''),
                    rows = [],
                    pinnedToMenu = truthy (oget (oget r ''menu'') ''pin''),
                    spec = r\<rparr>)
             | _ \<Rightarrow> Inl ''a.name.localeCompare is not a function''))"

text \<open>\<open>Array.prototype.sort\<close> is stable; \<open>le a b\<close> is \<open>a.localeCompare(b) <= 0\<close>.\<close>

fun insert_by :: "('a \<Rightarrow> 'a \<Rightarrow> bool) \<Rightarrow> 'a \<Rightarrow> 'a list \<Rightarrow> 'a list" where
  "insert_by le x [] = [x]"
| "insert_by le x (y # ys) = (if le x y then x # y # ys else y # insert_by le x ys)"

definition stable_sort :: "('a \<Rightarrow> 'a \<Rightarrow> bool) \<Rightarrow> 'a list \<Rightarrow> 'a list" where
  "stable_sort le xs = foldr (insert_by le) xs []"

definition sort_collections :: "host \<Rightarrow> collection list \<Rightarrow> collection list" where
  "sort_collections h = stable_sort (\<lambda>a b. locale_le h (cname a) (cname b))"

definition resource_list :: "host \<Rightarrow> jv list \<Rightarrow> collection list res" where
  "resource_list h rs =
     res_bind (map_res resource_entry rs) (\<lambda>es. Inr (sort_collections h (List.map_filter id es)))"

definition config_collections :: "host \<Rightarrow> jv \<Rightarrow> collection list res" where
  "config_collections h config =
     (if truthy config \<and> is_array (oget config ''resources'')
      then resource_list h (arr_items (oget config ''resources''))
      else Inr [])"

lemma set_insert_by [simp]: "set (insert_by le x ys) = insert x (set ys)"
  by (induction ys) auto

lemma set_stable_sort [simp]: "set (stable_sort le xs) = set xs"
  by (induction xs) (auto simp: stable_sort_def)

lemma length_stable_sort [simp]: "length (stable_sort le xs) = length xs"
proof -
  have ins: "length (insert_by le x ys) = Suc (length ys)" for x ys
    by (induction ys) auto
  show ?thesis by (induction xs) (auto simp: stable_sort_def ins)
qed

lemma sorted_insert_by:
  assumes total: "\<And>a b. le a b \<or> le b a" and trans: "\<And>a b c. le a b \<Longrightarrow> le b c \<Longrightarrow> le a c"
  shows "sorted_wrt le ys \<Longrightarrow> sorted_wrt le (insert_by le x ys)"
proof (induction ys)
  case (Cons y ys)
  show ?case
  proof (cases "le x y")
    case True
    with Cons.prems trans show ?thesis by (auto intro: trans)
  next
    case False
    with total have "le y x" by blast
    with False Cons show ?thesis by auto
  qed
qed simp

lemma sorted_stable_sort:
  assumes total: "\<And>a b. le a b \<or> le b a" and trans: "\<And>a b c. le a b \<Longrightarrow> le b c \<Longrightarrow> le a c"
  shows "sorted_wrt le (stable_sort le xs)"
proof (induction xs)
  case (Cons x xs)
  then show ?case
    using sorted_insert_by [of le, OF total trans] by (simp add: stable_sort_def)
qed (simp add: stable_sort_def)

lemma resource_entry_Some:
  "resource_entry r = Inr (Some c) \<Longrightarrow>
     oget r ''resource'' = JStr (cid c) \<and> cname c = cid c \<and> spec c = r \<and> rows c = [] \<and>
     oget r ''enabled'' \<noteq> JBool False"
  by (auto simp: resource_entry_def res_bind_Inr_iff dest!: js_get_InrD split: if_splits jv.splits)

lemma config_collections_mem:
  assumes "config_collections h config = Inr cs" and "c \<in> set cs"
  shows "\<exists>r \<in> set (arr_items (oget config ''resources'')). resource_entry r = Inr (Some c)"
proof -
  from assms obtain es where es: "map_res resource_entry (arr_items (oget config ''resources'')) = Inr es"
      and cs: "cs = sort_collections h (List.map_filter id es)"
    by (auto simp: config_collections_def resource_list_def res_bind_Inr_iff split: if_splits)
  from cs assms(2) have "Some c \<in> set es"
    by (auto simp: sort_collections_def List.map_filter_def)
  moreover from map_res_InrD [OF es]
  have "\<forall>e \<in> set es. \<exists>r \<in> set (arr_items (oget config ''resources'')). resource_entry r = Inr e"
    by (induction rule: list_all2_induct) auto
  ultimately show ?thesis by blast
qed

section \<open>The active collection and its columns\<close>

definition empty_collection :: collection where
  "empty_collection =
     \<lparr>cid = [], cname = [], displayName = [], cfields = [], rows = [], pinnedToMenu = False, spec = JUndef\<rparr>"

definition activeCollection :: "string \<Rightarrow> ex_st \<Rightarrow> collection" where
  "activeCollection sel s =
     (case find (\<lambda>c. cid c = sel) (collections s) of
        Some c \<Rightarrow> c
      | None \<Rightarrow> (case collections s of c # _ \<Rightarrow> c | [] \<Rightarrow> empty_collection))"

definition spec_index :: "collection \<Rightarrow> jv" where
  "spec_index c = oget (spec c) ''index''"

definition visibleFields :: "collection \<Rightarrow> jv list" where
  "visibleFields c =
     (let columns = oget (spec_index c) ''columns'' in
      if truthy columns \<and> arr_items columns \<noteq> []
      then filter (\<lambda>f. oget f ''name'' \<in> set (arr_items columns)) (cfields c)
      else filter (\<lambda>f. oget f ''name'' \<noteq> JStr ''id'') (cfields c))"

text \<open>The lists of the specification, with the defaults the page gives them.\<close>

definition spec_actions :: "collection \<Rightarrow> string \<Rightarrow> jv" where
  "spec_actions c k = js_or (oget (spec c) k) (JArr [])"

definition scope_list :: "collection \<Rightarrow> jv" where
  "scope_list c =
     js_or (oget (spec_index c) ''scopes'') (JArr [JObj [(''name'', JStr ''all''), (''default'', JBool True)]])"

definition filter_list :: "collection \<Rightarrow> jv" where
  "filter_list c = js_or (oget (spec_index c) ''filters'') (JArr [])"

definition selectable :: "collection \<Rightarrow> jv" where
  "selectable c = oget (spec_index c) ''selectable''"

section \<open>The query\<close>

definition js_int :: "jv \<Rightarrow> int" where
  "js_int v = (case v of JNum n \<Rightarrow> n | _ \<Rightarrow> 0)"

text \<open>
  The effect that resets the query when another collection is selected: scope, sort and
  page size come from the collection's index spec, the page size also from the site.
\<close>

definition initial_scope :: "jv \<Rightarrow> string" where
  "initial_scope sp =
     (let scopes = oget (oget sp ''index'') ''scopes'' in
      if is_array scopes
      then (case find (\<lambda>x. truthy (oget x ''default'')) (arr_items scopes) of
              Some d \<Rightarrow> js_string (oget d ''name'')
            | None \<Rightarrow> ''all'')
      else ''all'')"

definition initial_sort :: "jv \<Rightarrow> string" where
  "initial_sort sp =
     (let d = oget (oget sp ''index'') ''default_sort'' in if truthy d then js_string d else [])"

definition initial_per_page :: "jv \<Rightarrow> jv \<Rightarrow> int" where
  "initial_per_page sp config =
     (let p = oget (oget sp ''index'') ''per_page''; d = oget (oget config ''site'') ''default_per_page'' in
      if truthy p then js_int p else if truthy d then js_int d else 25)"

definition default_query :: "string \<Rightarrow> ex_st \<Rightarrow> query_params" where
  "default_query sel s =
     (let sp = (case find (\<lambda>c. cid c = sel) (collections s) of Some c \<Rightarrow> spec c | None \<Rightarrow> JUndef)
      in \<lparr>page = 1, perPage = initial_per_page sp (adminConfig s), sort_by = initial_sort sp,
          scope = initial_scope sp, filters = []\<rparr>)"

text \<open>\<open>setResourceQueryParams\<close>: always a new object.\<close>

definition set_query :: "(query_params \<Rightarrow> query_params) \<Rightarrow> ex_st \<Rightarrow> ex_st" where
  "set_query f s = s\<lparr>query := f (query s), query_version := Suc (query_version s)\<rparr>"

definition reset_query_effect :: "string \<Rightarrow> ex_st \<Rightarrow> ex_st" where
  "reset_query_effect sel s =
     (if sel = [] then s
      else (set_query (\<lambda>_. default_query sel s) s)
             \<lparr>resourceTotalCount := Some 0, localFilters := [], selectedRowIds := []\<rparr>)"

definition sort_key :: "string \<Rightarrow> bool \<Rightarrow> string" where
  "sort_key field asc = field @ (if asc then ''_asc'' else ''_desc'')"

definition handleSort :: "string \<Rightarrow> ex_st \<Rightarrow> ex_st" where
  "handleSort field =
     set_query (\<lambda>prev.
       let nextSort = (if sort_by prev = sort_key field True then sort_key field False
                       else if sort_by prev = sort_key field False then []
                       else sort_key field True)
       in prev\<lparr>page := 1, sort_by := nextSort\<rparr>)"

definition setScope :: "string \<Rightarrow> ex_st \<Rightarrow> ex_st" where
  "setScope sc = set_query (\<lambda>prev. prev\<lparr>page := 1, scope := sc\<rparr>)"

text \<open>A filter object is an association list; a write replaces in place or appends.\<close>

definition filter_key :: "string \<Rightarrow> string \<Rightarrow> string" where
  "filter_key field suffix = ''filter_'' @ field @ suffix"

definition stringFilter :: "collection \<Rightarrow> string option" where
  "stringFilter c =
     (case find (\<lambda>f. oget f ''as'' = JStr ''string'') (arr_items (oget (spec_index c) ''filters'')) of
        Some f \<Rightarrow> Some (js_string (oget f ''field''))
      | None \<Rightarrow> None)"

definition handleSearch :: "collection \<Rightarrow> string \<Rightarrow> ex_st \<Rightarrow> ex_st" where
  "handleSearch c val s =
     (case stringFilter c of
        None \<Rightarrow> s
      | Some field \<Rightarrow>
          set_query (\<lambda>prev. prev\<lparr>page := 1,
            filters := AList.update (filter_key field ''_contains'') val (filters prev)\<rparr>) s)"

definition currentSearchVal :: "collection \<Rightarrow> ex_st \<Rightarrow> string" where
  "currentSearchVal c s =
     (case stringFilter c of
        None \<Rightarrow> []
      | Some field \<Rightarrow> (case map_of (filters (query s)) (filter_key field ''_contains'') of Some v \<Rightarrow> v | None \<Rightarrow> []))"

definition setLocalFilter :: "string \<Rightarrow> string \<Rightarrow> ex_st \<Rightarrow> ex_st" where
  "setLocalFilter key val s = s\<lparr>localFilters := AList.update key val (localFilters s)\<rparr>"

definition applyFilters :: "ex_st \<Rightarrow> ex_st" where
  "applyFilters s = set_query (\<lambda>prev. prev\<lparr>page := 1, filters := localFilters s\<rparr>) s"

definition resetFilters :: "ex_st \<Rightarrow> ex_st" where
  "resetFilters s = set_query (\<lambda>prev. prev\<lparr>page := 1, filters := []\<rparr>) (s\<lparr>localFilters := []\<rparr>)"

definition toggleFilterSidebar :: "ex_st \<Rightarrow> ex_st" where
  "toggleFilterSidebar s = s\<lparr>isFilterSidebarOpen := \<not> isFilterSidebarOpen s\<rparr>"

definition closeFilterSidebar :: "ex_st \<Rightarrow> ex_st" where
  "closeFilterSidebar s = s\<lparr>isFilterSidebarOpen := False\<rparr>"

text \<open>The inputs the filter drawer offers: the keys of \<open>localFilters\<close> they write and their choices.\<close>

datatype filter_input = TextFilter string | SelectFilter string "string list" | DateFilter string string

definition filter_inputs :: "jv \<Rightarrow> (string \<times> filter_input) option" where
  "filter_inputs f =
     (let field = js_string (oget f ''field'');
          labelText = (if truthy (oget f ''label'') then js_string (oget f ''label'')
                       else humanizeResourceName field None) in
      if oget f ''as'' = JStr ''string'' then Some (labelText, TextFilter (filter_key field ''_contains''))
      else if oget f ''as'' = JStr ''select'' then
        Some (labelText, SelectFilter (filter_key field []) ([] # map js_string (arr_items (oget f ''options''))))
      else if oget f ''as'' = JStr ''bool'' then
        Some (labelText, SelectFilter (filter_key field []) [[], ''true'', ''false''])
      else if oget f ''as'' = JStr ''date_range'' then
        Some (labelText, DateFilter (filter_key field ''_gte'') (filter_key field ''_lte''))
      else None)"

section \<open>The request for the selected records\<close>

definition query_pairs :: "query_params \<Rightarrow> params" where
  "query_pairs q =
     (let p1 = params_append [] ''page'' (int_string (page q));
          p2 = params_append p1 ''per_page'' (int_string (perPage q));
          p3 = (if sort_by q \<noteq> [] then params_append p2 ''sort'' (sort_by q) else p2);
          p4 = (if scope q \<noteq> [] then params_append p3 ''scope'' (scope q) else p3)
      in fold (\<lambda>(k, v) ps. if v \<noteq> [] then params_append ps k v else ps) (filters q) p4)"

definition records_url :: "host \<Rightarrow> string \<Rightarrow> query_params \<Rightarrow> string" where
  "records_url h sel q =
     admin_api h @ ''/resources/'' @ encodeURIComponent sel @ ''?'' @ params_string (query_pairs q)"

lemma query_pairs_eq:
  "query_pairs q =
     [(''page'', int_string (page q)), (''per_page'', int_string (perPage q))]
     @ (if sort_by q \<noteq> [] then [(''sort'', sort_by q)] else [])
     @ (if scope q \<noteq> [] then [(''scope'', scope q)] else [])
     @ filter (\<lambda>(k, v). v \<noteq> []) (filters q)"
proof -
  have "fold (\<lambda>(k, v) ps. if v \<noteq> [] then params_append ps k v else ps) fs ps
      = ps @ filter (\<lambda>(k, v). v \<noteq> []) fs" for fs and ps :: params
    by (induction fs arbitrary: ps) (auto simp: params_append_def)
  then show ?thesis by (simp add: query_pairs_def params_append_def Let_def)
qed

section \<open>Pagination\<close>

text \<open>\<open>Math.ceil(total / perPage) || 1\<close>; a quotient of 0 and \<open>NaN\<close> are falsy.\<close>

definition ceil_div :: "int \<Rightarrow> int \<Rightarrow> int" where
  "ceil_div a b = - ((- a) div b)"

definition totalPages :: "int option \<Rightarrow> int \<Rightarrow> int" where
  "totalPages tot per =
     (case tot of None \<Rightarrow> 1 | Some n \<Rightarrow> if ceil_div n per = 0 then 1 else ceil_div n per)"

definition pageNumbers :: "int option \<Rightarrow> query_params \<Rightarrow> int list" where
  "pageNumbers tot q =
     (let startPage = max 1 (page q - 2);
          endPage = min (totalPages tot (perPage q)) (page q + 2)
      in [startPage .. endPage])"

text \<open>The numbers in \<open>Showing a to b of n entries\<close>.\<close>

definition showing_from :: "int \<Rightarrow> query_params \<Rightarrow> int" where
  "showing_from n q = (if n = 0 then 0 else min n ((page q - 1) * perPage q + 1))"

definition showing_to :: "int \<Rightarrow> query_params \<Rightarrow> int" where
  "showing_to n q = min n (page q * perPage q)"

text \<open>The sizes the select offers.\<close>

definition PER_PAGE :: "int list" where
  "PER_PAGE = [10, 25, 50, 100]"

definition setPerPage :: "int \<Rightarrow> ex_st \<Rightarrow> ex_st" where
  "setPerPage val = set_query (\<lambda>prev. prev\<lparr>page := 1, perPage := val\<rparr>)"

text \<open>The pager's buttons; a disabled button does nothing.\<close>

definition pagePrev :: "ex_st \<Rightarrow> ex_st" where
  "pagePrev s = (if page (query s) \<le> 1 then s else set_query (\<lambda>prev. prev\<lparr>page := page prev - 1\<rparr>) s)"

definition pageNext :: "ex_st \<Rightarrow> ex_st" where
  "pageNext s =
     (if totalPages (resourceTotalCount s) (perPage (query s)) \<le> page (query s) then s
      else set_query (\<lambda>prev. prev\<lparr>page := page prev + 1\<rparr>) s)"

definition pagePick :: "int \<Rightarrow> ex_st \<Rightarrow> ex_st" where
  "pagePick n s =
     (if n \<in> set (pageNumbers (resourceTotalCount s) (query s))
      then set_query (\<lambda>prev. prev\<lparr>page := n\<rparr>) s else s)"

lemma totalPages_ge_1: "0 \<le> n \<Longrightarrow> 0 < per \<Longrightarrow> 1 \<le> totalPages (Some n) per"
proof -
  assume "0 \<le> n" and "0 < per"
  then have "(- n) div per \<le> 0" by (simp add: div_nonpos_pos_le0)
  then show ?thesis by (simp add: totalPages_def ceil_div_def)
qed

lemma totalPages_bounds:
  assumes "0 < n" and "0 < per"
  shows "(totalPages (Some n) per - 1) * per < n \<and> n \<le> totalPages (Some n) per * per"
proof -
  define d m where "d = (- n) div per" and "m = (- n) mod per"
  have split: "- n = per * d + m" by (simp add: d_def m_def)
  have mod: "0 \<le> m" "m < per" using assms by (simp_all add: m_def)
  have c: "ceil_div n per = - d" by (simp add: ceil_div_def d_def)
  have low: "n \<le> - d * per" and high: "(- d - 1) * per < n"
    using split mod by (simp_all add: algebra_simps)
  have "d \<noteq> 0" using low assms by auto
  with low high show ?thesis by (simp add: totalPages_def c)
qed

section \<open>Row selection\<close>

definition row_id :: "jv \<Rightarrow> string" where
  "row_id r = js_string (oget r ''id'')"

definition allSelected :: "collection \<Rightarrow> ex_st \<Rightarrow> bool" where
  "allSelected c s = (rows c \<noteq> [] \<and> length (selectedRowIds s) = length (rows c))"

definition toggleAll :: "collection \<Rightarrow> bool \<Rightarrow> ex_st \<Rightarrow> ex_st" where
  "toggleAll c checked s = s\<lparr>selectedRowIds := (if checked then map row_id (rows c) else [])\<rparr>"

definition toggleRow :: "jv \<Rightarrow> bool \<Rightarrow> ex_st \<Rightarrow> ex_st" where
  "toggleRow r checked s =
     s\<lparr>selectedRowIds :=
         (if checked then selectedRowIds s @ [row_id r]
          else filter (\<lambda>i. i \<noteq> row_id r) (selectedRowIds s))\<rparr>"

definition clearSelection :: "ex_st \<Rightarrow> ex_st" where
  "clearSelection s = s\<lparr>selectedRowIds := []\<rparr>"

section \<open>Cells, details and form inputs\<close>

text \<open>What a cell shows: a link to a related record, a serialised object, or a text.\<close>

datatype cell = CellLink string string | CellJson jv | CellNum int | CellBool bool | CellText string

definition relation_target :: "collection \<Rightarrow> jv \<Rightarrow> jv" where
  "relation_target c fname =
     (let belongs = find (\<lambda>b. oget b ''field'' = fname) (arr_items (oget (spec c) ''belongs_to''));
          fieldDef = find (\<lambda>fd. oget fd ''name'' = fname) (cfields c)
      in js_or (case belongs of Some b \<Rightarrow> oget b ''resource'' | None \<Rightarrow> JUndef)
               (case fieldDef of Some fd \<Rightarrow> oget fd ''target'' | None \<Rightarrow> JUndef))"

definition is_linked :: "jv \<Rightarrow> jv \<Rightarrow> bool" where
  "is_linked target v = (truthy target \<and> \<not> is_nullish v \<and> v \<noteq> JStr [])"

definition table_cell :: "collection \<Rightarrow> jv \<Rightarrow> jv \<Rightarrow> cell" where
  "table_cell c f row =
     (let relTarget = relation_target c (oget f ''name'');
          v = oget row (js_string (oget f ''name'')) in
      if is_linked relTarget v then CellLink (js_string relTarget) (js_string v)
      else if is_object v \<and> v \<noteq> JNull then CellJson v
      else (case v of
              JNum n \<Rightarrow> CellNum n
            | JBool b \<Rightarrow> CellBool b
            | _ \<Rightarrow> CellText (js_string (js_nullish v (JStr [])))))"

text \<open>The detail dialogue: excluded fields are left out, names compared without case.\<close>

definition show_fields :: "collection \<Rightarrow> jv list" where
  "show_fields c =
     filter (\<lambda>f. \<not> (\<exists>ex \<in> set (arr_items (oget (oget (spec c) ''show'') ''exclude'')).
         toLowerCase (js_string ex) = toLowerCase (js_string (oget f ''name''))))
       (cfields c)"

definition show_cell :: "collection \<Rightarrow> jv \<Rightarrow> jv \<Rightarrow> cell" where
  "show_cell c f row =
     (let relTarget = relation_target c (oget f ''name'');
          v = oget row (js_string (oget f ''name'')) in
      if is_linked relTarget v then CellLink (js_string relTarget) (js_string v)
      else if is_object v \<and> v \<noteq> JNull then CellJson v
      else (case v of
              JBool b \<Rightarrow> CellBool b
            | _ \<Rightarrow> CellText (js_string (js_nullish v (JStr ''-'')))))"

text \<open>
  The form of the create/edit dialogue: the inputs the spec names, or one per field that
  the server does not set itself.
\<close>

definition form_inputs :: "collection \<Rightarrow> jv list" where
  "form_inputs c =
     (let inputs = oget (oget (spec c) ''form'') ''inputs'' in
      if truthy inputs then arr_items inputs
      else map (\<lambda>f. JObj [(''field'', oget f ''name''), (''as'', oget f ''type'')])
             (filter (\<lambda>f. oget f ''name'' \<notin> {JStr ''id'', JStr ''created_at'', JStr ''updated_at'', JStr ''created_by''})
               (cfields c)))"

datatype input_kind = RelationInput string | SelectInput "string list" | BoolInput | DateInput bool
  | JsonInput | PasswordInput | TextInput bool

definition input_field :: "jv \<Rightarrow> string" where
  "input_field inp = js_string (oget inp ''field'')"

text \<open>\<open>None\<close>: a password is not asked for when a record is edited.\<close>

definition input_kind_of :: "collection \<Rightarrow> bool \<Rightarrow> jv \<Rightarrow> input_kind option" where
  "input_kind_of c editing inp =
     (let fieldDef = (case find (\<lambda>f. oget f ''name'' = oget inp ''field'') (cfields c) of
                        Some f \<Rightarrow> f | None \<Rightarrow> JUndef);
          inputAs = js_string (js_or (oget inp ''as'') (js_or (oget fieldDef ''type'') (JStr ''string'')));
          targetResource = oget fieldDef ''target'' in
      if inputAs = ''password'' \<and> editing then None
      else if inputAs = ''relation'' \<and> truthy targetResource then Some (RelationInput (js_string targetResource))
      else if inputAs = ''select'' \<or> inputAs = ''dropdown'' then
        Some (SelectInput ([] # map js_string (arr_items (oget inp ''options''))))
      else if inputAs = ''bool'' \<or> inputAs = ''boolean'' then Some BoolInput
      else if inputAs = ''date'' \<or> inputAs = ''datetime'' then Some (DateInput (inputAs = ''datetime''))
      else if inputAs = ''json'' then Some JsonInput
      else if inputAs = ''password'' then Some PasswordInput
      else Some (TextInput (inputAs = ''email'')))"

text \<open>
  What an input's \<open>onChange\<close> stores for the text typed or chosen; \<open>parsed\<close> is
  \<open>JSON.parse\<close> of it.
\<close>

definition input_value :: "input_kind \<Rightarrow> string \<Rightarrow> jv res \<Rightarrow> jv" where
  "input_value k val parsed =
     (case k of
        BoolInput \<Rightarrow> (if val = ''true'' then JBool True else if val = ''false'' then JBool False else JUndef)
      | JsonInput \<Rightarrow> (case parsed of Inr v \<Rightarrow> v | Inl _ \<Rightarrow> JStr val)
      | _ \<Rightarrow> JStr val)"

definition form_change :: "string \<Rightarrow> jv \<Rightarrow> obj \<Rightarrow> obj" where
  "form_change field v form = obj_set field v form"

section \<open>Properties\<close>

lemma mset_stable_sort: "mset (stable_sort le xs) = mset xs"
proof -
  have ins: "mset (insert_by le x ys) = add_mset x (mset ys)" for x ys
    by (induction ys) auto
  show ?thesis by (induction xs) (simp_all add: stable_sort_def ins)
qed

lemma resource_entry_None: "resource_entry r = Inr None \<Longrightarrow> oget r ''enabled'' = JBool False"
  by (auto simp: resource_entry_def res_bind_Inr_iff dest!: js_get_InrD split: if_splits jv.splits)

lemma entries_specs:
  "map_res resource_entry rs = Inr es \<Longrightarrow>
     map spec (List.map_filter id es) = filter (\<lambda>r. oget r ''enabled'' \<noteq> JBool False) rs"
proof (induction rs arbitrary: es)
  case (Cons r rs)
  then obtain e es' where e: "resource_entry r = Inr e" and es: "map_res resource_entry rs = Inr es'" "es = e # es'"
    by (auto simp: res_bind_Inr_iff)
  show ?case
  proof (cases e)
    case None
    with e es show ?thesis using Cons.IH [OF es(1)] resource_entry_None [of r] by (simp add: map_filter_simps)
  next
    case (Some c)
    with e es show ?thesis using Cons.IH [OF es(1)] resource_entry_Some [of r c] by (simp add: map_filter_simps)
  qed
qed (simp add: map_filter_simps)

text \<open>
  C20. The collections listed are exactly the enabled resources of the configuration: each of
  them once for every time it is there, under its own name, without rows, and nothing else; when
  the host's \<open>localeCompare\<close> is a total preorder, they are sorted by name.
\<close>

theorem collections_from_config:
  assumes "\<And>a b. locale_le h a b \<or> locale_le h b a"
    and "\<And>a b c. locale_le h a b \<Longrightarrow> locale_le h b c \<Longrightarrow> locale_le h a c"
    and "config_collections h config = Inr cs"
  shows "sorted_wrt (\<lambda>a b. locale_le h (cname a) (cname b)) cs \<and>
    mset (map spec cs) = mset (filter (\<lambda>r. oget r ''enabled'' \<noteq> JBool False) (arr_items (oget config ''resources''))) \<and>
    list_all (\<lambda>c. oget (spec c) ''resource'' = JStr (cid c) \<and> cname c = cid c \<and> rows c = []) cs"
proof (cases "truthy config \<and> is_array (oget config ''resources'')")
  case True
  with assms(3) obtain es where es: "map_res resource_entry (arr_items (oget config ''resources'')) = Inr es"
      and cs: "cs = sort_collections h (List.map_filter id es)"
    by (auto simp: config_collections_def resource_list_def res_bind_Inr_iff)
  have "sorted_wrt (\<lambda>a b. locale_le h (cname a) (cname b)) cs"
    unfolding cs sort_collections_def by (intro sorted_stable_sort) (use assms(1,2) in blast)+
  moreover have "mset (map spec cs) = mset (map spec (List.map_filter id es))"
    by (simp add: cs sort_collections_def mset_stable_sort)
  moreover have "list_all (\<lambda>c. oget (spec c) ''resource'' = JStr (cid c) \<and> cname c = cid c \<and> rows c = []) cs"
    unfolding list_all_iff using config_collections_mem [OF assms(3)] by (blast dest: resource_entry_Some)
  ultimately show ?thesis by (simp add: entries_specs [OF es])
next
  case False
  have "arr_items (oget config ''resources'') = []"
  proof (cases "truthy config")
    case True
    with False show ?thesis by (cases "oget config ''resources''") simp_all
  next
    case not: False
    then show ?thesis by (cases config) (auto simp: oget_def is_nullish_def split: if_splits)
  qed
  moreover have "cs = []" using False assms(3) by (simp add: config_collections_def split: if_splits)
  ultimately show ?thesis by simp
qed

text \<open>A configuration of two resources, one of them disabled.\<close>

definition shop_config :: jv where
  "shop_config = JObj [(''resources'', JArr
     [JObj [(''resource'', JStr ''users'')],
      JObj [(''resource'', JStr ''drafts''), (''enabled'', JBool False)],
      JObj [(''resource'', JStr ''orders'')]])]"

lemma shop_collections:
  "\<exists>cs. config_collections byte_host shop_config = Inr cs \<and> map cid cs = [''orders'', ''users'']"
  by (simp add: shop_config_def config_collections_def resource_list_def resource_entry_def sort_collections_def
      stable_sort_def byte_le_def char_code_def map_filter_simps js_or_def)

theorem collections_from_config_witness:
  "\<exists>cs. config_collections byte_host shop_config = Inr cs \<and>
     sorted_wrt (\<lambda>a b. byte_le (cname a) (cname b)) cs \<and>
     mset (map spec cs) = {#JObj [(''resource'', JStr ''users'')], JObj [(''resource'', JStr ''orders'')]#}"
proof -
  obtain cs where cs: "config_collections byte_host shop_config = Inr cs"
    using shop_collections by blast
  from collections_from_config [where h = byte_host, unfolded byte_host_simps, OF byte_le_total byte_le_trans cs] cs
  show ?thesis by (simp add: shop_config_def oget_def is_nullish_def)
qed

text \<open>
  The sort header cycles: clicking a column that is not sorted sorts it ascending, a
  second click descending, a third drops the sort; each click returns to the first page
  and makes a new query.
\<close>

lemma sort_header_cycle:
  assumes "sort_by (query s) \<noteq> sort_key f True" and "sort_by (query s) \<noteq> sort_key f False"
  shows "map (\<lambda>n. sort_by (query ((handleSort f ^^ n) s))) [1, 2, 3] = [sort_key f True, sort_key f False, []] \<and>
    page (query (handleSort f s)) = 1 \<and> query_version (handleSort f s) > query_version s \<and>
    filters (query (handleSort f s)) = filters (query s) \<and> scope (query (handleSort f s)) = scope (query s)"
  using assms by (simp add: handleSort_def set_query_def sort_key_def numeral_eq_Suc)

lemma sort_header_cycle_instance:
  "map (\<lambda>n. sort_by (query ((handleSort ''age'' ^^ n) ex_initial))) [1, 2, 3] = [''age_asc'', ''age_desc'', []]"
  using sort_header_cycle [of ex_initial "''age''"] by (simp add: ex_initial_def query_initial_def sort_key_def)

text \<open>A page of the result the pager stands on.\<close>

definition valid_page :: "ex_st \<Rightarrow> bool" where
  "valid_page s = (1 \<le> page (query s) \<and> page (query s) \<le> totalPages (resourceTotalCount s) (perPage (query s)))"

text \<open>
  C21. The pager stays inside the result: from a valid page no button leads outside
  \<open>1..totalPages\<close>, the numbered buttons are valid pages, at most five, the current one
  among them, and the rows a page shows lie between its bounds.
\<close>

theorem pager_in_bounds:
  assumes "valid_page s" and "resourceTotalCount s = Some n" and "0 \<le> n" and "0 < perPage (query s)"
  shows "valid_page (pagePrev s) \<and> valid_page (pageNext s) \<and> valid_page (pagePick k s) \<and>
    page (query s) \<in> set (pageNumbers (Some n) (query s)) \<and> length (pageNumbers (Some n) (query s)) \<le> 5 \<and>
    set (pageNumbers (Some n) (query s)) \<subseteq> {1..totalPages (Some n) (perPage (query s))} \<and>
    showing_from n (query s) \<le> showing_to n (query s) \<and> showing_to n (query s) \<le> n \<and>
    showing_to n (query s) - showing_from n (query s) < perPage (query s)"
proof (intro conjI)
  let ?q = "query s" and ?T = "totalPages (Some n) (perPage (query s))"
  from assms have p: "1 \<le> page ?q" "page ?q \<le> ?T" by (simp_all add: valid_page_def)
  show "valid_page (pagePrev s)" "valid_page (pageNext s)" "valid_page (pagePick k s)"
    using assms by (auto simp: valid_page_def pagePrev_def pageNext_def pagePick_def set_query_def pageNumbers_def)
  show "page ?q \<in> set (pageNumbers (Some n) ?q)" and "length (pageNumbers (Some n) ?q) \<le> 5"
    and "set (pageNumbers (Some n) ?q) \<subseteq> {1..?T}"
    using p by (auto simp: pageNumbers_def Let_def)
  have low: "(page ?q - 1) * perPage ?q < n" if "0 < n"
  proof -
    have "(page ?q - 1) * perPage ?q \<le> (?T - 1) * perPage ?q"
      using p assms(4) by (intro mult_right_mono) simp_all
    then show ?thesis using totalPages_bounds [OF that assms(4)] by linarith
  qed
  have split: "page ?q * perPage ?q = (page ?q - 1) * perPage ?q + perPage ?q"
    by (simp add: algebra_simps)
  have nonneg: "0 \<le> (page ?q - 1) * perPage ?q"
    using p assms(4) by simp
  show "showing_from n ?q \<le> showing_to n ?q" and "showing_to n ?q - showing_from n ?q < perPage ?q"
    using low split nonneg assms(3,4) by (auto simp: showing_from_def showing_to_def min_def)
  show "showing_to n ?q \<le> n" by (simp add: showing_to_def)
qed

theorem pager_in_bounds_witness:
  "valid_page (pageNext (ex_initial\<lparr>resourceTotalCount := Some 60\<rparr>))"
  using pager_in_bounds [of "ex_initial\<lparr>resourceTotalCount := Some 60\<rparr>" 60]
  by (simp add: ex_initial_def query_initial_def valid_page_def totalPages_def ceil_div_def)

text \<open>
  C12. The request for the records names the collection and carries the query: the URL is
  the encoded collection below the resources path, its first \<open>?\<close> starts the query string,
  and the server decodes exactly the page, the page size, the sort, the scope and the
  filters that are set, in that order.
\<close>

theorem records_url_carries_query:
  "records_url h sel q = path_url (admin_api h @ ''/resources'') [sel] @ ''?'' @ params_string (query_pairs q) \<and>
   CHR ''?'' \<notin> set (encodeURIComponent sel) \<and> CHR ''/'' \<notin> set (encodeURIComponent sel) \<and>
   query_decode (params_string (query_pairs q)) =
     map Some
       ([(''page'', int_string (page q)), (''per_page'', int_string (perPage q))]
        @ (if sort_by q \<noteq> [] then [(''sort'', sort_by q)] else [])
        @ (if scope q \<noteq> [] then [(''scope'', scope q)] else [])
        @ filter (\<lambda>(k, v). v \<noteq> []) (filters q))"
  by (simp add: records_url_def path_url_def query_roundtrip query_pairs_eq encodeURIComponent_safe char_code_def)

text \<open>
  C31. Searching stays consistent with the filters: typing into the search box of a
  collection with a string filter shows the typed text back, replaces the earlier search
  instead of adding a second one, keeps every other filter and returns to page 1; a
  collection without one ignores it.
\<close>

theorem search_box_consistent:
  assumes "stringFilter c = Some field" and "distinct (map fst (filters (query s)))"
  shows "currentSearchVal c (handleSearch c val s) = val \<and> page (query (handleSearch c val s)) = 1 \<and>
    distinct (map fst (filters (query (handleSearch c val s)))) \<and>
    (k \<noteq> filter_key field ''_contains'' \<longrightarrow>
       map_of (filters (query (handleSearch c val s))) k = map_of (filters (query s)) k) \<and>
    handleSearch c w (handleSearch c val s) = set_query (\<lambda>q. q) (handleSearch c w s)"
  using assms
  by (simp add: currentSearchVal_def handleSearch_def set_query_def update_conv' distinct_update)

theorem search_box_consistent_witness:
  "let c = empty_collection\<lparr>spec := JObj [(''index'', JObj [(''filters'',
             JArr [JObj [(''field'', JStr ''name''), (''as'', JStr ''string'')]])])]\<rparr>
   in currentSearchVal c (handleSearch c ''bob'' ex_initial) = ''bob''"
  using search_box_consistent [of "empty_collection\<lparr>spec := JObj [(''index'', JObj [(''filters'',
             JArr [JObj [(''field'', JStr ''name''), (''as'', JStr ''string'')]])])]\<rparr>" "''name''" ex_initial "''bob''"]
  by (simp add: Let_def stringFilter_def spec_index_def ex_initial_def query_initial_def)

end
