(* ===== verification/AdminNav.thy ===== *)
theory AdminNav
  imports Ctx
begin

text \<open>
  The sidebar: src/pkg/admin/ui-v2/src/AdminNav.tsx, lib/adminNavMenu.ts, the page set of
  lib/adminSession.ts and the \<open>onNavigate\<close> handler App.tsx passes down. A menu item's
  absent \<open>children\<close> is the empty list: the code reads both the same way. An absent
  \<open>features\<close> object is one whose fields are all absent.
\<close>

datatype menu_item = MenuItem (mlabel: string) (mpage: "string option") (mpriority: "int option")
  (mchildren: "menu_item list")

record nav_features =
  feature_flags :: "bool option"
  api_docs :: "bool option"
  app_features :: "bool option"
  liveops :: "bool option"

section \<open>Which items are shown\<close>

definition HEADER_ONLY_PAGES :: "string list" where
  "HEADER_ONLY_PAGES = [''alerts'', ''system-settings'']"

text \<open>An optional string is falsy when it is absent or empty.\<close>

definition str_truthy :: "string option \<Rightarrow> bool" where
  "str_truthy p = (p \<noteq> None \<and> p \<noteq> Some [])"

definition isSidebarPage :: "string option \<Rightarrow> bool" where
  "isSidebarPage p = (if \<not> str_truthy p then True else the p \<notin> set HEADER_ONLY_PAGES)"

definition menuItemVisible :: "menu_item \<Rightarrow> nav_features \<Rightarrow> jv \<Rightarrow> bool" where
  "menuItemVisible item features providers =
     (if mpage item = Some ''feature-flags'' then feature_flags features \<noteq> Some False
      else if mpage item = Some ''api-docs'' \<or> mpage item = Some ''bffx-docs'' then api_docs features = Some True
      else if mpage item = Some ''app-features'' then app_features features \<noteq> Some False
      else if mpage item = Some ''performance'' then
        liveops features \<noteq> Some False \<and> has_capability (oget providers ''telemetry'') ''read.summary''
      else if mpage item = Some ''alerts'' then
        liveops features \<noteq> Some False \<and> has_capability (oget providers ''incident'') ''read.list''
      else True)"

definition isItemActive :: "menu_item \<Rightarrow> nav_st \<Rightarrow> bool" where
  "isItemActive item s =
     (case mpage item of
        None \<Rightarrow> False
      | Some p \<Rightarrow>
          if startsWith p ''resource:'' then
            activePage s = ''resources'' \<and> selectedCollectionId s = drop (length ''resource:'') p
          else if startsWith p ''screen:'' then
            activePage s = ''app-features'' \<and> selectedScreenName s = Some (drop (length ''screen:'') p)
          else if startsWith p ''feature:'' then
            activePage s = ''app-features'' \<and> selectedClusterName s = Some (drop (length ''feature:'') p)
          else if p = ''resources'' then activePage s = ''resources''
          else if p = ''app-features'' then
            activePage s = ''app-features'' \<and> \<not> str_truthy (selectedScreenName s)
              \<and> \<not> str_truthy (selectedClusterName s)
          else p = activePage s)"

datatype nav_icon = LayoutDashboard | UsersIcon | FlagIcon | ActivityIcon | BellIcon | LayersIcon
  | ComponentIcon | MonitorIcon | SettingsIcon | BookOpenIcon | DatabaseIcon

definition pageIcons :: "string \<rightharpoonup> nav_icon" where
  "pageIcons = map_of
     [(''dashboard'', LayoutDashboard), (''users'', UsersIcon), (''feature-flags'', FlagIcon),
      (''performance'', ActivityIcon), (''alerts'', BellIcon), (''resources'', LayersIcon),
      (''app-features'', ComponentIcon), (''app-settings'', MonitorIcon),
      (''system-settings'', SettingsIcon), (''api-docs'', BookOpenIcon), (''bffx-docs'', BookOpenIcon)]"

definition iconForItem :: "menu_item \<Rightarrow> nav_icon" where
  "iconForItem item =
     (case mpage item of
        None \<Rightarrow> LayersIcon
      | Some p \<Rightarrow>
          if startsWith p ''resource:'' then DatabaseIcon
          else if startsWith p ''screen:'' \<or> startsWith p ''feature:'' then ComponentIcon
          else if p \<noteq> [] then (case pageIcons p of Some i \<Rightarrow> i | None \<Rightarrow> LayersIcon)
          else LayersIcon)"

section \<open>Rendering and clicking\<close>

text \<open>What a click on an entry calls: \<open>onNavigate\<close> with its arguments, or nothing.\<close>

datatype nav_call = NoCall | Navigate string "string option"

definition leafClick :: "menu_item \<Rightarrow> nav_call" where
  "leafClick item =
     (let page = (case mpage item of None \<Rightarrow> [] | Some p \<Rightarrow> p) in
      if startsWith page ''resource:'' then Navigate ''resources'' (Some (drop (length ''resource:'') page))
      else if startsWith page ''screen:'' \<or> startsWith page ''feature:'' then Navigate page None
      else if page \<noteq> [] then Navigate page None
      else NoCall)"

datatype nav_node =
    NavLeaf (leaf_item: menu_item) (leaf_icon: nav_icon) (leaf_active: bool) (leaf_call: nav_call)
  | NavGroup (group_label: string) (group_depth: nat) (group_nodes: "nav_node list")

definition renderLeaf :: "nav_st \<Rightarrow> menu_item \<Rightarrow> nav_node" where
  "renderLeaf s item = NavLeaf item (iconForItem item) (isItemActive item s) (leafClick item)"

text \<open>\<open>renderItems(items, depth)\<close>; \<open>renderItem\<close> is the callback of its \<open>map\<close>, \<open>null\<close> an empty list.\<close>

function renderItem :: "nav_features \<Rightarrow> jv \<Rightarrow> nav_st \<Rightarrow> nat \<Rightarrow> menu_item \<Rightarrow> nav_node list" where
  "renderItem fs ps s depth item =
     (if str_truthy (mpage item) \<and> \<not> isSidebarPage (mpage item) then []
      else if \<not> menuItemVisible item fs ps then []
      else if mchildren item \<noteq> [] then
        (let visibleChildren = filter (\<lambda>c. isSidebarPage (mpage c) \<and> menuItemVisible c fs ps) (mchildren item)
         in if visibleChildren = [] \<and> \<not> str_truthy (mpage item) then []
            else [NavGroup (mlabel item) depth
                   (if visibleChildren \<noteq> [] then concat (map (renderItem fs ps s (Suc depth)) visibleChildren)
                    else if str_truthy (mpage item) then [renderLeaf s item]
                    else [])])
      else [renderLeaf s item])"
  by pat_completeness auto
termination
proof (relation "measure (\<lambda>(fs, ps, s, d, item). size item)", goal_cases)
  case (2 fs ps s depth item vs c)
  then have "c \<in> set (mchildren item)" by auto
  then have "size c < size item"
    by (cases item) (auto dest: size_list_estimation' [where f = size, OF _ order_refl])
  then show ?case by simp
qed simp

declare renderItem.simps [simp del]

text \<open>The component: nothing at all for an empty menu, else a heading and the entries.\<close>

definition AdminNav :: "menu_item list \<Rightarrow> nav_features \<Rightarrow> jv \<Rightarrow> nav_st \<Rightarrow> (string \<times> nav_node list) option" where
  "AdminNav menu fs ps s =
     (if menu = [] then None else Some (''Main'', concat (map (renderItem fs ps s 0) menu)))"

text \<open>\<open>onNavigate\<close> of App.tsx.\<close>

definition onNavigate :: "string \<Rightarrow> string option \<Rightarrow> nav_st \<Rightarrow> nav_st" where
  "onNavigate page resourceId s =
     (if startsWith page ''screen:'' then
        s\<lparr>selectedScreenName := Some (drop (length ''screen:'') page), selectedClusterName := None,
          activePage := ''app-features''\<rparr>
      else if startsWith page ''feature:'' then
        s\<lparr>selectedClusterName := Some (drop (length ''feature:'') page), selectedScreenName := None,
          activePage := ''app-features''\<rparr>
      else
        (let s1 = (if str_truthy resourceId then s\<lparr>selectedCollectionId := the resourceId\<rparr> else s);
             s2 = (if page = ''app-features'' then s1\<lparr>selectedScreenName := None, selectedClusterName := None\<rparr> else s1)
         in s2\<lparr>activePage := page\<rparr>))"

definition run_call :: "nav_call \<Rightarrow> nav_st \<Rightarrow> nav_st" where
  "run_call c s = (case c of NoCall \<Rightarrow> s | Navigate p r \<Rightarrow> onNavigate p r s)"

fun menuContainsPage :: "menu_item list \<Rightarrow> string \<Rightarrow> bool" where
  "menuContainsPage [] page = False"
| "menuContainsPage (MenuItem l p pr cs # items) page =
     (if p = Some page then True
      else if cs \<noteq> [] \<and> menuContainsPage cs page then True
      else menuContainsPage items page)"

text \<open>
  Reading a menu off the admin configuration (\<open>adminConfig.site.menu\<close>). The page of an item is
  text, as its type says; one of another type, on which \<open>startsWith\<close> would throw, is outside the
  model and read as absent.
\<close>

definition opt_string :: "jv \<Rightarrow> string option" where
  "opt_string v = (case v of JStr s \<Rightarrow> Some s | _ \<Rightarrow> None)"

function menu_of_json :: "jv \<Rightarrow> menu_item" where
  "menu_of_json v =
     MenuItem (js_string (oget v ''label'')) (opt_string (oget v ''page''))
       (case oget v ''priority'' of JNum n \<Rightarrow> Some n | _ \<Rightarrow> None)
       (map menu_of_json (arr_items (oget v ''children'')))"
  by pat_completeness auto
termination
proof (relation "measure size", goal_cases)
  case (2 v c)
  then show ?case by (auto intro: arr_items_oget_size)
qed simp

declare menu_of_json.simps [simp del]

section \<open>What is on the sidebar\<close>

text \<open>Every item of a menu, children included.\<close>

fun menu_items :: "menu_item list \<Rightarrow> menu_item list" where
  "menu_items [] = []"
| "menu_items (MenuItem l p pr cs # items) = MenuItem l p pr cs # menu_items cs @ menu_items items"

lemma menuContainsPage_iff: "menuContainsPage menu page \<longleftrightarrow> (\<exists>i \<in> set (menu_items menu). mpage i = Some page)"
  by (induction menu page rule: menuContainsPage.induct) auto

fun node_leaves :: "nav_node \<Rightarrow> menu_item list" where
  "node_leaves (NavLeaf i _ _ _) = [i]"
| "node_leaves (NavGroup _ _ ns) = concat (map node_leaves ns)"

definition shown_items :: "nav_node list \<Rightarrow> menu_item list" where
  "shown_items ns = concat (map node_leaves ns)"

lemma shown_items_simps [simp]:
  "shown_items [] = []"
  "shown_items (n # ns) = node_leaves n @ shown_items ns"
  "shown_items (ns @ ms) = shown_items ns @ shown_items ms"
  by (simp_all add: shown_items_def)

lemma shown_items_concat: "shown_items (concat (map f xs)) = concat (map (\<lambda>x. shown_items (f x)) xs)"
  by (induction xs) simp_all

lemma node_leaves_group [simp]: "node_leaves (NavGroup l d ns) = shown_items ns"
  by (simp add: shown_items_def)

declare node_leaves.simps(2) [simp del]

text \<open>An item passes the gate when it may stand on the sidebar and its feature is on.\<close>

definition passes_gate :: "nav_features \<Rightarrow> jv \<Rightarrow> menu_item \<Rightarrow> bool" where
  "passes_gate fs ps i = (isSidebarPage (mpage i) \<and> menuItemVisible i fs ps)"

lemma render_gate_closed: "\<not> passes_gate fs ps item \<Longrightarrow> renderItem fs ps s d item = []"
  by (subst renderItem.simps) (auto simp: passes_gate_def isSidebarPage_def split: if_splits)

text \<open>
  The specification the renderer is measured against, without recursion over the groups and
  without the gates of the code. An entry is a path of the menu, from a top item down to the item
  itself. It is shown when no page on the path is closed to the sidebar, and it stands for itself:
  it is a leaf of the menu, or it names a page and all its children are closed.
\<close>

definition closed_page :: "nav_features \<Rightarrow> jv \<Rightarrow> string \<Rightarrow> bool" where
  "closed_page fs ps p =
     (p \<in> {''alerts'', ''system-settings''} \<or>
      p = ''feature-flags'' \<and> feature_flags fs = Some False \<or>
      p \<in> {''api-docs'', ''bffx-docs''} \<and> api_docs fs \<noteq> Some True \<or>
      p = ''app-features'' \<and> app_features fs = Some False \<or>
      p = ''performance'' \<and>
        (liveops fs = Some False \<or> JStr ''read.summary'' \<notin> set (arr_items (oget (oget ps ''telemetry'') ''capabilities''))))"

definition open_item :: "nav_features \<Rightarrow> jv \<Rightarrow> menu_item \<Rightarrow> bool" where
  "open_item fs ps i = (case mpage i of None \<Rightarrow> True | Some p \<Rightarrow> \<not> closed_page fs ps p)"

definition stands_for_itself :: "nav_features \<Rightarrow> jv \<Rightarrow> menu_item \<Rightarrow> bool" where
  "stands_for_itself fs ps i =
     (mchildren i = [] \<or> list_all (\<lambda>c. \<not> open_item fs ps c) (mchildren i) \<and> mpage i \<noteq> None \<and> mpage i \<noteq> Some [])"

fun menu_paths :: "menu_item \<Rightarrow> menu_item list list" where
  "menu_paths (MenuItem l p pr cs) =
     [MenuItem l p pr cs] # map ((#) (MenuItem l p pr cs)) (concat (map menu_paths cs))"

definition shown_path :: "nav_features \<Rightarrow> jv \<Rightarrow> menu_item list \<Rightarrow> bool" where
  "shown_path fs ps path = (list_all (open_item fs ps) path \<and> stands_for_itself fs ps (last path))"

lemma open_item_gate: "passes_gate fs ps i = open_item fs ps i"
  by (cases "mpage i")
    (auto simp: passes_gate_def open_item_def closed_page_def isSidebarPage_def menuItemVisible_def HEADER_ONLY_PAGES_def
      str_truthy_def has_capability_def)

lemma menu_paths_item: "menu_paths i = [i] # map ((#) i) (concat (map menu_paths (mchildren i)))"
  by (cases i) simp

lemma menu_paths_nonempty: "path \<in> set (menu_paths i) \<Longrightarrow> path \<noteq> []"
  by (subst (asm) menu_paths_item) auto

lemma paths_closed: "\<not> open_item fs ps i \<Longrightarrow> filter (shown_path fs ps) (menu_paths i) = []"
  by (subst menu_paths_item) (auto simp: filter_empty_conv shown_path_def)

lemma paths_open:
  assumes "open_item fs ps i"
  shows "map last (filter (shown_path fs ps) (menu_paths i)) =
    (if stands_for_itself fs ps i then [i] else []) @
    concat (map (\<lambda>c. map last (filter (shown_path fs ps) (menu_paths c))) (mchildren i))"
proof -
  have step: "map last (filter (shown_path fs ps) (map ((#) i) paths)) = map last (filter (shown_path fs ps) paths)"
    if "[] \<notin> set paths" for paths
    using that assms by (induction paths) (auto simp: shown_path_def)
  have "[] \<notin> set (concat (map menu_paths cs))" for cs using menu_paths_nonempty by fastforce
  then have "map last (filter (shown_path fs ps) (menu_paths i)) =
      (if stands_for_itself fs ps i then [i] else []) @
      map last (filter (shown_path fs ps) (concat (map menu_paths (mchildren i))))"
    using assms by (subst menu_paths_item) (simp add: step, simp add: shown_path_def)
  moreover have "map last (filter (shown_path fs ps) (concat (map menu_paths cs))) =
      concat (map (\<lambda>c. map last (filter (shown_path fs ps) (menu_paths c))) cs)" for cs
    by (induction cs) simp_all
  ultimately show ?thesis by simp
qed

lemma paths_visible:
  "concat (map (\<lambda>c. map last (filter (shown_path fs ps) (menu_paths c))) cs) =
   concat (map (\<lambda>c. map last (filter (shown_path fs ps) (menu_paths c))) (filter (open_item fs ps) cs))"
  by (induction cs) (simp_all add: paths_closed)

lemma render_refines_paths:
  "shown_items (renderItem fs ps s d item) = map last (filter (shown_path fs ps) (menu_paths item))"
proof (induction fs ps s d item rule: renderItem.induct)
  case (1 fs ps s d item)
  show ?case
  proof (cases "open_item fs ps item")
    case False
    then show ?thesis using render_gate_closed by (simp add: open_item_gate paths_closed)
  next
    case opn: True
    have vis: "(\<lambda>c. isSidebarPage (mpage c) \<and> menuItemVisible c fs ps) = open_item fs ps"
      by (simp add: fun_eq_iff flip: open_item_gate) (simp add: passes_gate_def)
    let ?vs = "filter (open_item fs ps) (mchildren item)"
    from opn have g: "\<not> (str_truthy (mpage item) \<and> \<not> isSidebarPage (mpage item))" "menuItemVisible item fs ps"
      by (simp_all add: passes_gate_def flip: open_item_gate)
    have none: "?vs = [] \<longleftrightarrow> list_all (\<lambda>c. \<not> open_item fs ps c) (mchildren item)"
      by (simp add: filter_empty_conv list_all_iff)
    show ?thesis
    proof (cases "?vs = []")
      case True
      then have alone: "stands_for_itself fs ps item \<longleftrightarrow> mchildren item = [] \<or> str_truthy (mpage item)"
        using none by (auto simp: stands_for_itself_def str_truthy_def)
      have "map last (filter (shown_path fs ps) (menu_paths item)) = (if stands_for_itself fs ps item then [item] else [])"
        using paths_open [OF opn] paths_visible [of fs ps "mchildren item"] True by simp
      then show ?thesis
        using g True alone by (auto simp: renderItem.simps [of fs ps s d item] vis renderLeaf_def Let_def)
    next
      case False
      then have kids: "mchildren item \<noteq> []" and "\<not> stands_for_itself fs ps item"
        using none by (auto simp: stands_for_itself_def)
      have IH: "shown_items (renderItem fs ps s (Suc d) c) = map last (filter (shown_path fs ps) (menu_paths c))" if "c \<in> set ?vs" for c
        using "1.IH" [OF g(1) _ kids refl] g(2) False that by (simp add: vis)
      have "shown_items (renderItem fs ps s d item) = concat (map (\<lambda>c. shown_items (renderItem fs ps s (Suc d) c)) ?vs)"
        using g False kids by (auto simp: renderItem.simps [of fs ps s d item] vis Let_def shown_items_concat)
      also have "\<dots> = concat (map (\<lambda>c. map last (filter (shown_path fs ps) (menu_paths c))) ?vs)"
        using IH by (metis (no_types, lifting) map_cong)
      finally show ?thesis
        using paths_open [OF opn] paths_visible [of fs ps "mchildren item"] \<open>\<not> stands_for_itself fs ps item\<close> by simp
    qed
  qed
qed

section \<open>Properties\<close>

text \<open>
  C11. The sidebar refines its specification: whatever is selected, the entries it shows, read
  from top to bottom through the nested groups, are the ends of the shown paths of the menu, in the
  order of the menu: every page from the top item down is open, and the item is a leaf, or names
  a page and has closed children only.
\<close>

theorem nav_shows_expected:
  "(case AdminNav menu fs ps s of None \<Rightarrow> [] | Some (heading, ns) \<Rightarrow> shown_items ns)
   = map last (filter (shown_path fs ps) (concat (map menu_paths menu)))"
proof -
  have "concat (map (\<lambda>i. map last (filter (shown_path fs ps) (menu_paths i))) menu) =
      map last (filter (shown_path fs ps) (concat (map menu_paths menu)))"
    by (induction menu) simp_all
  then show ?thesis by (simp add: AdminNav_def shown_items_concat render_refines_paths)
qed

text \<open>
  A page whose feature is switched off, and a page that belongs to the header only,
  is not reachable from the sidebar: every entry shown passes the gate, and is neither
  the alerts nor the system settings page.
\<close>

lemma nav_hides_gated_pages:
  assumes "AdminNav menu fs ps s = Some (heading, ns)" and "i \<in> set (shown_items ns)"
  shows "menuItemVisible i fs ps \<and> mpage i \<noteq> Some ''alerts'' \<and> mpage i \<noteq> Some ''system-settings''"
proof -
  from assms obtain item path where "path \<in> set (menu_paths item)" "shown_path fs ps path" "i = last path"
    by (auto simp: AdminNav_def shown_items_concat render_refines_paths split: if_splits)
  then have "passes_gate fs ps i"
    using menu_paths_nonempty by (auto simp: shown_path_def list_all_iff open_item_gate)
  then show ?thesis
    by (auto simp: passes_gate_def isSidebarPage_def str_truthy_def HEADER_ONLY_PAGES_def split: if_splits)
qed

definition nav_all_on :: nav_features where
  "nav_all_on = \<lparr>feature_flags = Some True, api_docs = Some True, app_features = Some True, liveops = Some True\<rparr>"

definition nav_start :: nav_st where
  "nav_start = \<lparr>activePage = ''dashboard'', selectedCollectionId = [], selectedScreenName = None,
     selectedClusterName = None\<rparr>"

lemma nav_hides_gated_pages_instance:
  "menuItemVisible (MenuItem ''Home'' (Some ''dashboard'') None []) nav_all_on JUndef"
proof -
  let ?i = "MenuItem ''Home'' (Some ''dashboard'') None []"
  have "AdminNav [?i] nav_all_on JUndef nav_start
      = Some (''Main'', [NavLeaf ?i LayoutDashboard True (Navigate ''dashboard'' None)])"
    by (simp add: AdminNav_def renderItem.simps renderLeaf_def iconForItem_def isItemActive_def leafClick_def
        menuItemVisible_def isSidebarPage_def str_truthy_def HEADER_ONLY_PAGES_def pageIcons_def startsWith_def
        nav_start_def)
  from nav_hides_gated_pages [OF this, of ?i] show ?thesis by simp
qed

text \<open>
  C28. Clicking an entry makes it the active one, whatever kind of page it names: a plain page, a
  resource, a screen or a feature cluster; a reference to a resource without a name opens the
  explorer, and is active only if no collection was selected. An entry without a page does nothing.
\<close>

theorem nav_click_activates:
  "if str_truthy (mpage i)
   then isItemActive i (run_call (leafClick i) s) = (mpage i \<noteq> Some ''resource:'' \<or> selectedCollectionId s = [])
   else run_call (leafClick i) s = s"
proof (cases "str_truthy (mpage i)")
  case True
  then obtain p where p: "mpage i = Some p" "p \<noteq> []" by (auto simp: str_truthy_def)
  consider "p = ''resource:''" | r where "p = ''resource:'' @ r" "r \<noteq> []" | r where "p = ''screen:'' @ r"
    | r where "p = ''feature:'' @ r"
    | "\<not> startsWith p ''resource:''" "\<not> startsWith p ''screen:''" "\<not> startsWith p ''feature:''"
    by (metis append_Nil2 startsWith_iff)
  then show ?thesis
  proof cases
    case 5
    then have "p \<noteq> ''resource:''" by (auto simp: startsWith_iff)
    with 5 p show ?thesis
      by (simp add: isItemActive_def leafClick_def run_call_def onNavigate_def Let_def str_truthy_def)
  qed (use p in \<open>simp_all add: isItemActive_def leafClick_def run_call_def onNavigate_def startsWith_def
      Let_def str_truthy_def\<close>)
next
  case False
  then show ?thesis
    by (cases "mpage i") (auto simp: leafClick_def run_call_def str_truthy_def startsWith_def)
qed

theorem nav_click_activates_witness:
  "isItemActive (MenuItem ''Orders'' (Some ''resource:orders'') None [])
     (run_call (leafClick (MenuItem ''Orders'' (Some ''resource:orders'') None [])) nav_start)"
  using nav_click_activates [of "MenuItem ''Orders'' (Some ''resource:orders'') None []" nav_start]
  by (simp add: str_truthy_def)

end
