(* ===== verification/Records.thy ===== *)
theory Records
  imports Collections AdminNav
begin

text \<open>
  The requests of the resource explorer (App.tsx): loading the configuration and the
  records, creating, changing and deleting a record, the collection, member and batch
  actions, opening a related record, and pinning to the menu. The closures a callback
  captures (the selected collection, the collections as they were rendered) are the
  arguments of its continuation.
\<close>

datatype ex_k =
    KRecords string
  | KConfig
  | KReloadConfig
  | KNavPreference
  | KPatchResource string jv "collection list"
  | KCreateResource string "collection list"
  | KDeleteResource string jv "collection list"
  | KAction
  | KBatchAction
  | KOpenRelated

type_synonym ex_ctx = "(ex_st, ex_k) ctx"

section \<open>Loading\<close>

definition fetchConfig :: "host \<Rightarrow> ex_ctx \<Rightarrow> ex_ctx" where
  "fetchConfig h = issue GET (admin_api h @ ''/config'') None KConfig"

text \<open>The last callback of the initial load: it selects the first collection.\<close>

definition store_config :: "host \<Rightarrow> jv \<Rightarrow> (ex_st, ex_k, unit) act" where
  "store_config h config =
     js_then (js_modify (set_slice (\<lambda>s. s\<lparr>adminConfig := config\<rparr>))) (\<lambda>_.
     js_then (js_lift (config_collections h config)) (\<lambda>allResources.
       js_modify (\<lambda>c.
         let c' = set_slice (\<lambda>s. s\<lparr>collections := allResources\<rparr>) c in
         case allResources of
           [] \<Rightarrow> c'
         | r # _ \<Rightarrow> c'\<lparr>nav := (nav c')\<lparr>selectedCollectionId := cid r\<rparr>\<rparr>)))"

definition on_config :: "host \<Rightarrow> outcome \<Rightarrow> ex_ctx \<Rightarrow> ex_ctx" where
  "on_config h = guarded_loader (Some (\<lambda>_. ''Failed to fetch admin config'')) (store_config h)"

text \<open>
  The effect that fetches the records of the selected collection; \<open>q\<close> is the query its
  closure saw.
\<close>

definition fetchRecords :: "host \<Rightarrow> query_params \<Rightarrow> ex_ctx \<Rightarrow> ex_ctx" where
  "fetchRecords h q c =
     (let sel = selectedCollectionId (nav c) in
      if \<not> isAuthenticated c \<or> sel = [] then c
      else issue GET (records_url h sel q) None (KRecords sel) c)"

definition set_total :: "response \<Rightarrow> ex_st \<Rightarrow> ex_st" where
  "set_total r s =
     s\<lparr>resourceTotalCount :=
         (case total_count r of
            Some t \<Rightarrow> if t \<noteq> [] then parseInt t else Some 0
          | None \<Rightarrow> Some 0)\<rparr>"

definition set_rows :: "jv list \<Rightarrow> collection \<Rightarrow> collection" where
  "set_rows ds c = c\<lparr>rows := ds\<rparr>"

definition store_records :: "string \<Rightarrow> jv \<Rightarrow> ex_st \<Rightarrow> ex_st" where
  "store_records sel data s =
     s\<lparr>resourceTotalCount :=
         (if resourceTotalCount s = None \<or> resourceTotalCount s = Some 0
          then Some (int (length (arr_items data))) else resourceTotalCount s),
       collections := map_at cid sel (set_rows (arr_items data)) (collections s)\<rparr>"

definition on_records :: "string \<Rightarrow> outcome \<Rightarrow> ex_ctx \<Rightarrow> ex_ctx" where
  "on_records sel out =
     run_chain
       (js_catch
         (js_then
           (js_then (fetched out) (\<lambda>res.
             js_then (guard_session res) (\<lambda>_.
             js_then (js_modify (set_slice (set_total res))) (\<lambda>_. res_json res))))
           (\<lambda>data. when_act (is_array data) (js_modify (set_slice (store_records sel data)))))
         console_error)"

section \<open>Creating, changing and deleting a record\<close>

definition openNewEntry :: "ex_ctx \<Rightarrow> ex_ctx" where
  "openNewEntry c = set_slice (\<lambda>s. s\<lparr>editingResource := None, isResourceModalOpen := True\<rparr>) (c\<lparr>formData := []\<rparr>)"

definition openEditRow :: "jv \<Rightarrow> ex_ctx \<Rightarrow> ex_ctx" where
  "openEditRow row c =
     set_slice (\<lambda>s. s\<lparr>editingResource := Some row, isResourceModalOpen := True\<rparr>) (c\<lparr>formData := entries_of row\<rparr>)"

definition openShowRow :: "jv \<Rightarrow> ex_ctx \<Rightarrow> ex_ctx" where
  "openShowRow row = set_slice (\<lambda>s. s\<lparr>showingResource := row, isShowModalOpen := True\<rparr>)"

definition closeResourceModal :: "ex_ctx \<Rightarrow> ex_ctx" where
  "closeResourceModal = set_slice (\<lambda>s. s\<lparr>isResourceModalOpen := False\<rparr>)"

definition closeShowModal :: "ex_ctx \<Rightarrow> ex_ctx" where
  "closeShowModal = set_slice (\<lambda>s. s\<lparr>isShowModalOpen := False, showingResource := JNull\<rparr>)"

definition saveResource :: "host \<Rightarrow> ex_ctx \<Rightarrow> ex_ctx" where
  "saveResource h c =
     (let sel = selectedCollectionId (nav c);
          base = admin_api h @ ''/resources/'' @ encodeURIComponent sel;
          c1 = (case editingResource (slice c) of
                  Some row \<Rightarrow>
                    issue PATCH (base @ ''/'' @ encodeURIComponent (js_string (oget row ''id'')))
                      (Some (JObj (formData c)))
                      (KPatchResource sel (oget row ''id'') (collections (slice c))) c
                | None \<Rightarrow>
                    issue POST base (Some (JObj (formData c))) (KCreateResource sel (collections (slice c))) c)
      in (set_slice (\<lambda>s. s\<lparr>isResourceModalOpen := False, editingResource := None\<rparr>) c1)\<lparr>formData := []\<rparr>)"

definition replace_row :: "jv \<Rightarrow> jv \<Rightarrow> collection \<Rightarrow> collection" where
  "replace_row rid updated c = c\<lparr>rows := map (\<lambda>r. if oget r ''id'' = rid then updated else r) (rows c)\<rparr>"

definition on_patch_resource :: "string \<Rightarrow> jv \<Rightarrow> collection list \<Rightarrow> outcome \<Rightarrow> ex_ctx \<Rightarrow> ex_ctx" where
  "on_patch_resource sel rid colls out =
     run_chain
       (js_catch
         (js_then (js_then (fetched out) res_json)
           (\<lambda>updated. js_modify (set_slice (\<lambda>s. s\<lparr>collections := map_at cid sel (replace_row rid updated) colls\<rparr>))))
         console_error)"

definition append_row :: "jv \<Rightarrow> collection \<Rightarrow> collection" where
  "append_row created c = c\<lparr>rows := rows c @ [created]\<rparr>"

definition on_create_resource :: "string \<Rightarrow> collection list \<Rightarrow> outcome \<Rightarrow> ex_ctx \<Rightarrow> ex_ctx" where
  "on_create_resource sel colls out =
     run_chain
       (js_catch
         (js_then (js_then (fetched out) res_json)
           (\<lambda>created. js_modify (set_slice (\<lambda>s. s\<lparr>collections := map_at cid sel (append_row created) colls\<rparr>))))
         console_error)"

text \<open>The answer of \<open>confirm\<close> is an argument.\<close>

definition handleDeleteResource :: "host \<Rightarrow> bool \<Rightarrow> jv \<Rightarrow> ex_ctx \<Rightarrow> ex_ctx" where
  "handleDeleteResource h confirmed row c =
     (let sel = selectedCollectionId (nav c) in
      if \<not> confirmed then c
      else issue DELETE
             (admin_api h @ ''/resources/'' @ encodeURIComponent sel @ ''/''
               @ encodeURIComponent (js_string (oget row ''id'')))
             None (KDeleteResource sel (oget row ''id'') (collections (slice c))) c)"

definition drop_row :: "jv \<Rightarrow> collection \<Rightarrow> collection" where
  "drop_row rid c = c\<lparr>rows := filter (\<lambda>r. oget r ''id'' \<noteq> rid) (rows c)\<rparr>"

definition on_delete_resource :: "string \<Rightarrow> jv \<Rightarrow> collection list \<Rightarrow> outcome \<Rightarrow> ex_ctx \<Rightarrow> ex_ctx" where
  "on_delete_resource sel rid colls out =
     run_chain
       (js_catch
         (js_then (fetched out) (\<lambda>res.
           when_act (res_ok res)
             (js_modify (set_slice (\<lambda>s. s\<lparr>collections := map_at cid sel (drop_row rid) colls\<rparr>)))))
         console_error)"

section \<open>Actions\<close>

text \<open>
  \<open>fetchCollectionData\<close> is called by the three action handlers and declared nowhere, so
  the call throws a \<open>ReferenceError\<close>.
\<close>

definition fetchCollectionData :: "('s, 'k, unit) act" where
  "fetchCollectionData = js_throw ''fetchCollectionData is not defined''"

definition needs_confirm :: "jv \<Rightarrow> bool" where
  "needs_confirm act = truthy (oget act ''confirm'')"

definition handleCollectionAction :: "host \<Rightarrow> bool \<Rightarrow> jv \<Rightarrow> ex_ctx \<Rightarrow> ex_ctx" where
  "handleCollectionAction h confirmed act c =
     (let sel = selectedCollectionId (nav c) in
      if needs_confirm act \<and> \<not> confirmed then c
      else if oget act ''builtin'' = JStr ''csv_export'' then
        set_slice (\<lambda>s. s\<lparr>openedUrls := openedUrls s
          @ [admin_api h @ ''/resources/'' @ encodeURIComponent sel @ ''/export.csv'']\<rparr>) c
      else issue POST
             (admin_api h @ ''/resources/'' @ encodeURIComponent sel @ ''/collection/''
               @ encodeURIComponent (js_string (oget act ''name'')))
             None KAction c)"

definition handleMemberAction :: "host \<Rightarrow> bool \<Rightarrow> jv \<Rightarrow> jv \<Rightarrow> ex_ctx \<Rightarrow> ex_ctx" where
  "handleMemberAction h confirmed act recordId c =
     (let sel = selectedCollectionId (nav c) in
      if needs_confirm act \<and> \<not> confirmed then c
      else issue POST
             (admin_api h @ ''/resources/'' @ encodeURIComponent sel @ ''/''
               @ encodeURIComponent (js_string recordId) @ ''/actions/''
               @ encodeURIComponent (js_string (oget act ''name'')))
             None KAction c)"

text \<open>The member action buttons of the detail dialogue also close it.\<close>

definition showModalMemberAction :: "host \<Rightarrow> bool \<Rightarrow> jv \<Rightarrow> ex_ctx \<Rightarrow> ex_ctx" where
  "showModalMemberAction h confirmed act c =
     closeShowModal (handleMemberAction h confirmed act (oget (showingResource (slice c)) ''id'') c)"

definition alert_text :: "string \<Rightarrow> response \<Rightarrow> ('s, 'k, unit) act" where
  "alert_text prefix res =
     js_modify (\<lambda>c. case body_text res of Inr t \<Rightarrow> alert (prefix @ t) c | Inl _ \<Rightarrow> c)"

definition on_action :: "outcome \<Rightarrow> ex_ctx \<Rightarrow> ex_ctx" where
  "on_action out =
     run_chain
       (js_catch
         (js_then (fetched out) (\<lambda>res.
           if res_ok res
           then js_then fetchCollectionData (\<lambda>_. js_modify (alert ''Action executed successfully''))
           else alert_text ''Action failed: '' res))
         (\<lambda>e. js_modify (alert (''Error: '' @ e))))"

definition handleBatchAction :: "host \<Rightarrow> bool \<Rightarrow> jv \<Rightarrow> ex_ctx \<Rightarrow> ex_ctx" where
  "handleBatchAction h confirmed act c =
     (let sel = selectedCollectionId (nav c) in
      if selectedRowIds (slice c) = [] then alert ''No records selected'' c
      else if needs_confirm act \<and> \<not> confirmed then c
      else issue POST
             (admin_api h @ ''/resources/'' @ encodeURIComponent sel @ ''/batch/''
               @ encodeURIComponent (js_string (oget act ''name'')))
             (Some (JObj [(''ids'', JArr (map JStr (selectedRowIds (slice c))))])) KBatchAction c)"

definition on_batch_action :: "outcome \<Rightarrow> ex_ctx \<Rightarrow> ex_ctx" where
  "on_batch_action out =
     run_chain
       (js_catch
         (js_then (fetched out) (\<lambda>res.
           if res_ok res
           then js_then (js_modify (set_slice clearSelection)) (\<lambda>_.
                js_then fetchCollectionData (\<lambda>_. js_modify (alert ''Batch action executed successfully'')))
           else alert_text ''Batch action failed: '' res))
         (\<lambda>e. js_modify (alert (''Error: '' @ e))))"

section \<open>Related records\<close>

definition openRelatedResource :: "host \<Rightarrow> string \<Rightarrow> string \<Rightarrow> ex_ctx \<Rightarrow> ex_ctx" where
  "openRelatedResource h resource rid c =
     issue GET (admin_api h @ ''/resources/'' @ encodeURIComponent resource @ ''/'' @ encodeURIComponent rid)
       None KOpenRelated
       (c\<lparr>nav := (nav c)\<lparr>activePage := ''resources'', selectedCollectionId := resource\<rparr>\<rparr>)"

definition on_open_related :: "outcome \<Rightarrow> ex_ctx \<Rightarrow> ex_ctx" where
  "on_open_related out =
     run_chain
       (js_catch
         (js_then
           (js_then (fetched out) (\<lambda>res. if res_ok res then res_json res else js_return JNull))
           (\<lambda>row. when_act (truthy row)
             (js_modify (set_slice (\<lambda>s. s\<lparr>showingResource := row, isShowModalOpen := True\<rparr>)))))
         console_error)"

section \<open>Pinning\<close>

definition nav_preference :: "host \<Rightarrow> string \<Rightarrow> string \<Rightarrow> bool \<Rightarrow> ex_ctx \<Rightarrow> ex_ctx" where
  "nav_preference h kind name pin =
     issue PUT (admin_api h @ ''/nav-preferences'')
       (Some (JObj [(''kind'', JStr kind), (''name'', JStr name), (''pin'', JBool pin)])) KNavPreference"

definition togglePinning :: "host \<Rightarrow> string \<Rightarrow> ex_ctx \<Rightarrow> ex_ctx" where
  "togglePinning h i c =
     (let next = (case find (\<lambda>x. cid x = i) (collections (slice c)) of
                    Some coll \<Rightarrow> \<not> pinnedToMenu coll | None \<Rightarrow> True)
      in nav_preference h ''resource'' i next c)"

text \<open>
  After the server took the preference the configuration is read again. A network error
  in either call is an unhandled rejection: nothing more happens.
\<close>

definition on_nav_preference :: "host \<Rightarrow> outcome \<Rightarrow> ex_ctx \<Rightarrow> ex_ctx" where
  "on_nav_preference h out =
     run_chain
       (js_then (fetched out) (\<lambda>res.
        js_then (clearAuthIfUnauthorized res) (\<lambda>_.
        when_act (res_ok res)
          (js_modify (issue GET (admin_api h @ ''/config'') None KReloadConfig)))))"

definition on_reload_config :: "host \<Rightarrow> outcome \<Rightarrow> ex_ctx \<Rightarrow> ex_ctx" where
  "on_reload_config h out =
     run_chain
       (js_then (fetched out) (\<lambda>res.
        js_then (clearAuthIfUnauthorized res) (\<lambda>_.
        when_act (res_ok res)
          (js_then (res_json res) (\<lambda>config.
           js_then (js_modify (set_slice (\<lambda>s. s\<lparr>adminConfig := config\<rparr>))) (\<lambda>_.
           when_act (truthy (oget config ''resources''))
             (js_then
               (js_lift
                 (if is_array (oget config ''resources'')
                  then resource_list h (arr_items (oget config ''resources''))
                  else Inl ''config.resources.forEach is not a function''))
               (\<lambda>allResources. js_modify (set_slice (\<lambda>s. s\<lparr>collections := allResources\<rparr>))))))))))"

definition selectedFeatureNavPage :: "nav_st \<Rightarrow> string option" where
  "selectedFeatureNavPage n =
     (if str_truthy (selectedScreenName n) then Some (''screen:'' @ the (selectedScreenName n))
      else if str_truthy (selectedClusterName n) then Some (''feature:'' @ the (selectedClusterName n))
      else None)"

definition config_menu :: "jv \<Rightarrow> menu_item list" where
  "config_menu config = map menu_of_json (arr_items (oget (oget config ''site'') ''menu''))"

definition isSelectedFeaturePinned :: "ex_ctx \<Rightarrow> bool" where
  "isSelectedFeaturePinned c =
     (case selectedFeatureNavPage (nav c) of
        None \<Rightarrow> False
      | Some p \<Rightarrow> menuContainsPage (config_menu (adminConfig (slice c))) p)"

definition toggleFeaturePinning :: "host \<Rightarrow> ex_ctx \<Rightarrow> ex_ctx" where
  "toggleFeaturePinning h c =
     (case selectedFeatureNavPage (nav c) of
        None \<Rightarrow> c
      | Some p \<Rightarrow> nav_preference h ''feature'' p (\<not> isSelectedFeaturePinned c) c)"

section \<open>Settling a promise\<close>

definition ex_resume :: "host \<Rightarrow> ex_k \<Rightarrow> outcome \<Rightarrow> ex_ctx \<Rightarrow> ex_ctx" where
  "ex_resume h k out =
     (case k of
        KRecords sel \<Rightarrow> on_records sel out
      | KConfig \<Rightarrow> on_config h out
      | KReloadConfig \<Rightarrow> on_reload_config h out
      | KNavPreference \<Rightarrow> on_nav_preference h out
      | KPatchResource sel rid colls \<Rightarrow> on_patch_resource sel rid colls out
      | KCreateResource sel colls \<Rightarrow> on_create_resource sel colls out
      | KDeleteResource sel rid colls \<Rightarrow> on_delete_resource sel rid colls out
      | KAction \<Rightarrow> on_action out
      | KBatchAction \<Rightarrow> on_batch_action out
      | KOpenRelated \<Rightarrow> on_open_related out)"

section \<open>What the callbacks come to\<close>

lemma on_records_eval:
  "on_records sel (NetErr e) c = c"
  "on_records sel (Reply r) c =
     (if status r = 401 then c\<lparr>isAuthenticated := False\<rparr>
      else (case body_json r of
              Inr v \<Rightarrow> if is_array v then set_slice (\<lambda>s. store_records sel v (set_total r s)) c
                       else set_slice (set_total r) c
            | Inl _ \<Rightarrow> set_slice (set_total r) c))"
  by (auto simp: on_records_def console_error_def when_act_def res_json_def set_slice_def
      guard_session_def clearAuthIfUnauthorized_def chain_defs fetched_def split: sum.splits)

lemma on_action_eval:
  "on_action (NetErr e) c = alert (''Error: '' @ e) c"
  "on_action (Reply r) c =
     (if res_ok r then alert ''Error: fetchCollectionData is not defined'' c
      else (case body_text r of Inr t \<Rightarrow> alert (''Action failed: '' @ t) c | Inl _ \<Rightarrow> c))"
  by (simp_all add: on_action_def fetchCollectionData_def alert_text_def chain_defs fetched_def)

lemma on_batch_action_eval:
  "on_batch_action (NetErr e) c = alert (''Error: '' @ e) c"
  "on_batch_action (Reply r) c =
     (if res_ok r then alert ''Error: fetchCollectionData is not defined'' (set_slice clearSelection c)
      else (case body_text r of Inr t \<Rightarrow> alert (''Batch action failed: '' @ t) c | Inl _ \<Rightarrow> c))"
  by (simp_all add: on_batch_action_def fetchCollectionData_def alert_text_def chain_defs fetched_def)

lemma on_patch_resource_eval:
  "on_patch_resource sel rid colls out c =
     (case out of
        NetErr _ \<Rightarrow> c
      | Reply r \<Rightarrow>
          (case body_json r of
             Inl _ \<Rightarrow> c
           | Inr v \<Rightarrow> set_slice (\<lambda>s. s\<lparr>collections := map_at cid sel (replace_row rid v) colls\<rparr>) c))"
  by (auto simp: on_patch_resource_def console_error_def res_json_def chain_defs fetched_def
      split: outcome.splits sum.splits)

lemma on_delete_resource_eval:
  "on_delete_resource sel rid colls out c =
     (case out of
        NetErr _ \<Rightarrow> c
      | Reply r \<Rightarrow>
          if res_ok r then set_slice (\<lambda>s. s\<lparr>collections := map_at cid sel (drop_row rid) colls\<rparr>) c else c)"
  by (auto simp: on_delete_resource_def console_error_def when_act_def chain_defs fetched_def
      split: outcome.splits)

lemma on_reload_config_auth:
  "isAuthenticated (on_reload_config h out c) = (isAuthenticated c \<and> \<not> unauthorized out)"
  "formData (on_reload_config h out c) = formData c"
  by (auto simp: on_reload_config_def clearAuthIfUnauthorized_def when_act_def res_json_def chain_defs
      fetched_def unauthorized_def split: outcome.splits sum.splits prod.splits)

lemma on_nav_preference_auth:
  "isAuthenticated (on_nav_preference h out c) = (isAuthenticated c \<and> \<not> unauthorized out)"
  "formData (on_nav_preference h out c) = formData c"
  by (auto simp: on_nav_preference_def clearAuthIfUnauthorized_def when_act_def chain_defs
      fetched_def unauthorized_def split: outcome.splits)

lemma store_config_snd:
  "isAuthenticated (snd (store_config h v c)) = isAuthenticated c"
  "formData (snd (store_config h v c)) = formData c"
  by (auto simp: store_config_def chain_defs Let_def split: sum.splits list.splits)

text \<open>
  Every guarded handler of the explorer meets the session contract; loading the records
  is quiet.
\<close>

interpretation records: quiet_loader "on_records sel"
  by unfold_locales (auto simp: on_records_eval unauthorized_def split: outcome.splits sum.splits,
      (case_tac out; auto simp: on_records_eval split: sum.splits)+)

interpretation config: session_guarded "on_config h"
  by unfold_locales
    (auto simp: on_config_def guarded_loader_eval store_config_snd dest: loaded_not_unauthorized split: option.splits)

interpretation reload: session_guarded "on_reload_config h"
  by unfold_locales (simp_all add: on_reload_config_auth)

interpretation preference: session_guarded "on_nav_preference h"
  by unfold_locales (simp_all add: on_nav_preference_auth)

section \<open>Properties\<close>

text \<open>
  C13. A reply with records is local: it stores rows in the collection it was asked for and sets
  the total of the pager, or, on a 401, ends the session; everything else stays, the other
  collections, the collection's own columns and specification, the query, the selection, the
  dialogues, the navigation, the form, the alerts and the requests in flight. A failure of the
  network changes nothing, and a reply without a list of records changes the total only.
\<close>

theorem records_reply_is_local:
  "\<exists>total.
     on_records sel out c =
       (case out of
          NetErr _ \<Rightarrow> c
        | Reply r \<Rightarrow>
            if status r = 401 then c\<lparr>isAuthenticated := False\<rparr>
            else (case body_json r of
                Inr (JArr ds) \<Rightarrow>
                  c\<lparr>slice := (slice c)\<lparr>resourceTotalCount := total,
                      collections := map (\<lambda>k. if cid k = sel then k\<lparr>rows := ds\<rparr> else k) (collections (slice c))\<rparr>\<rparr>
              | _ \<Rightarrow> c\<lparr>slice := (slice c)\<lparr>resourceTotalCount := total\<rparr>\<rparr>))"
proof (cases out)
  case (Reply r)
  have rows: "(\<lambda>k. if cid k = sel then set_rows ds k else k) = (\<lambda>k. if cid k = sel then k\<lparr>rows := ds\<rparr> else k)" for ds
    by (simp add: set_rows_def fun_eq_iff)
  show ?thesis
  proof (cases "body_json r")
    case (Inr v)
    then show ?thesis
      by (cases v; cases "status r = 401")
        (simp_all add: Reply on_records_eval set_slice_def store_records_def set_total_def map_at_def rows, blast+)
  qed (auto simp: Reply on_records_eval set_slice_def set_total_def)
qed (simp add: on_records_eval)

definition shop_ctx :: ex_ctx where
  "shop_ctx =
     \<lparr>isAuthenticated = True, formData = [],
      nav = \<lparr>activePage = ''resources'', selectedCollectionId = ''orders'', selectedScreenName = None,
              selectedClusterName = None\<rparr>,
      alerts = [], outbox = [],
      slice = ex_initial\<lparr>collections :=
        [empty_collection\<lparr>cid := ''orders'', rows := [JObj [(''id'', JStr ''1'')], JObj [(''id'', JStr ''2'')]]\<rparr>,
         empty_collection\<lparr>cid := ''users''\<rparr>]\<rparr>\<rparr>"

text \<open>
  The rows and the total are whatever arrives last. The reply of a collection is
  stored whether or not it is still selected: after the reply of another collection has
  come in late, the total of the pager is the other collection's.
\<close>

lemma late_reply_sets_total:
  assumes "res_ok r" and "body_json r = Inr (JArr data)" and "total_count r = Some t" and "parseInt t = Some n" and "n \<noteq> 0"
  shows "resourceTotalCount (slice (on_records other (Reply r) c)) = Some n \<and>
    selectedCollectionId (nav (on_records other (Reply r) c)) = selectedCollectionId (nav c)"
proof -
  from assms(4) have "t \<noteq> []" by (auto simp: parseInt_def startsWith_def Let_def)
  then show ?thesis
    using assms res_ok_status [OF assms(1)]
    by (simp add: on_records_eval store_records_def set_total_def)
qed

lemma late_reply_sets_total_instance:
  "resourceTotalCount (slice (on_records ''users'' (Reply ((json_reply 200 (JArr []))\<lparr>total_count := Some ''99''\<rparr>)) shop_ctx)) = Some 99"
  using late_reply_sets_total [of "(json_reply 200 (JArr []))\<lparr>total_count := Some ''99''\<rparr>" "[]" "''99''" 99 "''users''" shop_ctx]
  by (simp add: res_ok_def json_reply_def parseInt_def startsWith_def is_space_def is_digit_def digits_value_def char_code_def)

text \<open>
  C38. A successful action is reported as an error. Whatever collection, member or batch
  action the server carried out, the user is told that \<open>fetchCollectionData\<close> is not
  defined, never that the action succeeded, and no request reloads the table.
\<close>

theorem action_success_reported_as_error:
  assumes "res_ok r"
  shows "alerts (on_action (Reply r) c) = alerts c @ [''Error: fetchCollectionData is not defined''] \<and>
    alerts (on_batch_action (Reply r) c) = alerts c @ [''Error: fetchCollectionData is not defined''] \<and>
    outbox (on_action (Reply r) c) = outbox c \<and> outbox (on_batch_action (Reply r) c) = outbox c \<and>
    slice (on_action (Reply r) c) = slice c \<and> selectedRowIds (slice (on_batch_action (Reply r) c)) = []"
  using assms by (simp add: on_action_eval on_batch_action_eval clearSelection_def)

theorem action_success_reported_as_error_witness:
  "alerts (on_action (Reply (json_reply 200 JNull)) shop_ctx) = [''Error: fetchCollectionData is not defined'']"
  using action_success_reported_as_error [of "json_reply 200 JNull" shop_ctx]
  by (simp add: res_ok_def shop_ctx_def)

text \<open>
  Pinning empties the tables. When the configuration is read again after a pin, every
  collection comes back without rows, and no request for records goes out.
\<close>

lemma pinning_empties_tables:
  assumes "res_ok r" and "body_json r = Inr config" and "truthy (oget config ''resources'')"
    and "config_collections h config = Inr cs" and "is_array (oget config ''resources'')"
  shows "collections (slice (on_reload_config h (Reply r) c)) = cs \<and>
    (\<forall>x \<in> set (collections (slice (on_reload_config h (Reply r) c))). rows x = []) \<and>
    outbox (on_reload_config h (Reply r) c) = outbox c"
proof -
  from assms(3) have cfg: "truthy config"
    by (cases config) (auto simp: oget_def split: if_splits)
  from assms(2-) cfg have "resource_list h (arr_items (oget config ''resources'')) = Inr cs"
    by (simp add: config_collections_def)
  then have "collections (slice (on_reload_config h (Reply r) c)) = cs"
      "outbox (on_reload_config h (Reply r) c) = outbox c"
    using assms(1,2,3,5) res_ok_status [OF assms(1)]
    by (simp_all add: on_reload_config_def clearAuthIfUnauthorized_def when_act_def res_json_def chain_defs fetched_def)
  moreover have "rows x = []" if "x \<in> set cs" for x
    using config_collections_mem [OF assms(4) that] resource_entry_Some by blast
  ultimately show ?thesis by blast
qed

lemma pinning_empties_tables_instance:
  "rows ` set (collections (slice (on_reload_config byte_host (Reply (json_reply 200 shop_config)) shop_ctx))) \<subseteq> {[]}"
proof -
  obtain cs where cs: "config_collections byte_host shop_config = Inr cs"
    using shop_collections by blast
  show ?thesis
    using pinning_empties_tables [of "json_reply 200 shop_config" shop_config byte_host cs shop_ctx] cs
    by (simp add: res_ok_def image_subset_iff) (simp add: shop_config_def)
qed

text \<open>
  Saving a record ignores the status of the reply: whatever JSON comes back, an error
  report included, takes the place of the row in the rendered collections.
\<close>

lemma save_stores_error_replies:
  assumes "body_json r = Inr v" and "coll \<in> set colls" and "cid coll = sel" and "row \<in> set (rows coll)"
    and "oget row ''id'' = rid"
  shows "\<exists>coll' \<in> set (collections (slice (on_patch_resource sel rid colls (Reply r) c))).
    cid coll' = sel \<and> v \<in> set (rows coll')"
proof (rule bexI)
  show "cid (replace_row rid v coll) = sel \<and> v \<in> set (rows (replace_row rid v coll))"
    using assms by (auto simp: replace_row_def image_iff)
  show "replace_row rid v coll \<in> set (collections (slice (on_patch_resource sel rid colls (Reply r) c)))"
    using assms(1-3) by (auto simp: on_patch_resource_eval map_at_def)
qed

lemma save_stores_error_replies_instance:
  "\<exists>coll' \<in> set (collections (slice
      (on_patch_resource ''orders'' (JStr ''1'') (collections (slice shop_ctx))
         (Reply (json_reply 500 (JObj [(''error'', JStr ''boom'')]))) shop_ctx))).
    cid coll' = ''orders'' \<and> JObj [(''error'', JStr ''boom'')] \<in> set (rows coll')"
  by (rule save_stores_error_replies [where coll = "hd (collections (slice shop_ctx))"
        and row = "JObj [(''id'', JStr ''1'')]"]) (simp_all add: shop_ctx_def)

lemma delete_request:
  "outbox (handleDeleteResource h True row c) = outbox c @
     [(\<lparr>rmethod = DELETE,
        rurl = path_url (admin_api h @ ''/resources'') [selectedCollectionId (nav c), js_string (oget row ''id'')],
        rbody = None\<rparr>,
       KDeleteResource (selectedCollectionId (nav c)) (oget row ''id'') (collections (slice c)))]"
  by (simp add: handleDeleteResource_def path_url_def Let_def)



end
