(* ===== verification/Users.thy ===== *)
theory Users
  imports Ctx WebUrl
begin

text \<open>
  The member directory (App.tsx): loading the users, the search box, creating, changing
  and deleting a user, the detail page with its audit log, and the requests behind them.
\<close>

text \<open>
  \<open>User\<close> as the console keeps it. Name, e-mail and identifier come from the network and
  may be any value; role, status and last activity are the console's own strings.
\<close>

record app_user =
  uid :: jv
  uname :: jv
  uemail :: jv
  urole :: string
  ustatus :: string
  ulast :: string

text \<open>The object \<open>setFormData(user)\<close> puts in the form.\<close>

definition user_obj :: "app_user \<Rightarrow> obj" where
  "user_obj u = [(''id'', uid u), (''name'', uname u), (''email'', uemail u), (''role'', JStr (urole u)),
     (''status'', JStr (ustatus u)), (''lastActive'', JStr (ulast u))]"

record user_st =
  users :: "app_user list"
  selectedUserId :: jv
  userDetail :: jv
  auditLogs :: "jv list"
  search :: string
  isUserModalOpen :: bool
  editingUser :: "app_user option"

definition user_initial :: user_st where
  "user_initial = \<lparr>users = [], selectedUserId = JNull, userDetail = JNull, auditLogs = [], search = [],
     isUserModalOpen = False, editingUser = None\<rparr>"

datatype user_k = KUsers | KUserDetail | KAuditLogs | KPatchUser jv "app_user list"
  | KCreateUser "app_user list" | KDeleteUser jv "app_user list" jv

type_synonym user_ctx = "(user_st, user_k) ctx"

section \<open>Users from the network\<close>

definition user_role :: "jv \<Rightarrow> string" where
  "user_role v = (if v = JStr ''Admin'' \<or> v = JStr ''admin'' then ''Admin'' else ''User'')"

definition user_status :: "jv \<Rightarrow> string" where
  "user_status v =
     (if v = JStr ''Inactive'' \<or> v = JStr ''inactive'' then ''Inactive''
      else if v = JStr ''Pending'' \<or> v = JStr ''pending'' then ''Pending''
      else ''Active'')"

definition user_name :: "jv \<Rightarrow> jv" where
  "user_name u = js_or (oget u ''name'') (js_or (oget u ''email'') (JStr ''Anonymous''))"

definition last_active :: "host \<Rightarrow> jv \<Rightarrow> string" where
  "last_active h u = (if truthy (oget u ''updated_at'') then date_str h (oget u ''updated_at'') else ''Active'')"

text \<open>The callback of \<open>data.map\<close>: reading \<open>u.id\<close> throws when the entry is \<open>null\<close>.\<close>

definition load_user :: "host \<Rightarrow> jv \<Rightarrow> app_user res" where
  "load_user h u =
     res_bind (js_get u ''id'') (\<lambda>i. Inr
       \<lparr>uid = i, uname = user_name u, uemail = js_or (oget u ''email'') (JStr []),
        urole = user_role (oget u ''role''), ustatus = user_status (oget u ''status''), ulast = last_active h u\<rparr>)"

definition fetchUsers :: "host \<Rightarrow> user_ctx \<Rightarrow> user_ctx" where
  "fetchUsers h = issue GET (admin_api h @ ''/users'') None KUsers"

definition on_users :: "host \<Rightarrow> outcome \<Rightarrow> user_ctx \<Rightarrow> user_ctx" where
  "on_users h =
     guarded_loader None
       (store_res is_array (\<lambda>data. map_res (load_user h) (arr_items data)) (\<lambda>us s. s\<lparr>users := us\<rparr>))"

section \<open>The search box\<close>

definition js_toLowerCase :: "jv \<Rightarrow> string res" where
  "js_toLowerCase v = (case v of JStr s \<Rightarrow> Inr (toLowerCase s) | _ \<Rightarrow> Inl ''toLowerCase is not a function'')"

fun filter_res :: "('a \<Rightarrow> bool res) \<Rightarrow> 'a list \<Rightarrow> 'a list res" where
  "filter_res p [] = Inr []"
| "filter_res p (x # xs) =
     res_bind (p x) (\<lambda>b. res_bind (filter_res p xs) (\<lambda>ys. Inr (if b then x # ys else ys)))"

definition user_matches :: "string \<Rightarrow> app_user \<Rightarrow> bool res" where
  "user_matches q u =
     res_bind (js_toLowerCase (uname u)) (\<lambda>n.
       if str_includes n (toLowerCase q) then Inr True
       else res_bind (js_toLowerCase (uemail u)) (\<lambda>e. Inr (str_includes e (toLowerCase q))))"

definition filteredUsers :: "user_st \<Rightarrow> app_user list res" where
  "filteredUsers s = filter_res (user_matches (search s)) (users s)"

definition setSearch :: "string \<Rightarrow> user_ctx \<Rightarrow> user_ctx" where
  "setSearch q = set_slice (\<lambda>s. s\<lparr>search := q\<rparr>)"

section \<open>Creating, changing and deleting\<close>

definition newUser :: "user_ctx \<Rightarrow> user_ctx" where
  "newUser c = set_slice (\<lambda>s. s\<lparr>editingUser := None, isUserModalOpen := True\<rparr>) (c\<lparr>formData := []\<rparr>)"

definition handleEditUser :: "app_user \<Rightarrow> user_ctx \<Rightarrow> user_ctx" where
  "handleEditUser u c =
     set_slice (\<lambda>s. s\<lparr>editingUser := Some u, isUserModalOpen := True\<rparr>) (c\<lparr>formData := user_obj u\<rparr>)"

definition closeUserModal :: "user_ctx \<Rightarrow> user_ctx" where
  "closeUserModal = set_slice (\<lambda>s. s\<lparr>isUserModalOpen := False\<rparr>)"

text \<open>The inputs of the dialogue: \<open>name\<close>, \<open>email\<close>, \<open>role\<close> and \<open>status\<close>.\<close>

definition user_form_fields :: "string list" where
  "user_form_fields = [''name'', ''email'', ''role'', ''status'']"

definition ROLES :: "string list" where
  "ROLES = [''User'', ''Admin'', ''Moderator'']"

definition STATUSES :: "string list" where
  "STATUSES = [''Active'', ''Inactive'', ''Pending'']"

definition user_form_change :: "string \<Rightarrow> string \<Rightarrow> user_ctx \<Rightarrow> user_ctx" where
  "user_form_change k v c =
     (if k \<in> set user_form_fields then c\<lparr>formData := obj_set k (JStr v) (formData c)\<rparr> else c)"

text \<open>\<open>saveUser\<close>: the whole form is sent, with defaults for role and status.\<close>

definition user_payload :: "obj \<Rightarrow> obj" where
  "user_payload form =
     obj_spread form
       [(''email'', ofield form ''email''), (''name'', ofield form ''name''),
        (''role'', js_or (ofield form ''role'') (JStr ''User'')),
        (''status'', js_or (ofield form ''status'') (JStr ''Active''))]"

definition saveUser :: "host \<Rightarrow> user_ctx \<Rightarrow> user_ctx" where
  "saveUser h c =
     (let payload = Some (JObj (user_payload (formData c)));
          c1 = (case editingUser (slice c) of
                  Some u \<Rightarrow>
                    issue PATCH (admin_api h @ ''/resources/user/'' @ encodeURIComponent (js_string (uid u)))
                      payload (KPatchUser (uid u) (users (slice c))) c
                | None \<Rightarrow>
                    issue POST (admin_api h @ ''/resources/user'') payload (KCreateUser (users (slice c))) c)
      in (set_slice (\<lambda>s. s\<lparr>isUserModalOpen := False, editingUser := None\<rparr>) c1)\<lparr>formData := []\<rparr>)"

text \<open>\<open>updated.name\<close> throws on a \<open>null\<close> body; otherwise the row is rewritten.\<close>

definition rewrite_user :: "host \<Rightarrow> jv \<Rightarrow> app_user \<Rightarrow> app_user" where
  "rewrite_user h updated u =
     u\<lparr>uname := user_name updated, uemail := js_or (oget updated ''email'') (JStr []),
       urole := user_role (oget updated ''role''), ustatus := user_status (oget updated ''status''),
       ulast := last_active h updated\<rparr>"

definition on_patch_user :: "host \<Rightarrow> jv \<Rightarrow> app_user list \<Rightarrow> outcome \<Rightarrow> user_ctx \<Rightarrow> user_ctx" where
  "on_patch_user h i us out =
     run_chain
       (js_catch
         (js_then (js_then (fetched out) res_json)
           (\<lambda>updated.
             if i \<notin> uid ` set us then js_modify (set_slice (\<lambda>s. s\<lparr>users := us\<rparr>))
             else js_then (js_lift (js_get updated ''name''))
               (\<lambda>_. js_modify (set_slice (\<lambda>s. s\<lparr>users := map_at uid i (rewrite_user h updated) us\<rparr>)))))
         console_error)"

definition on_create_user :: "host \<Rightarrow> app_user list \<Rightarrow> outcome \<Rightarrow> user_ctx \<Rightarrow> user_ctx" where
  "on_create_user h us out =
     run_chain
       (js_catch
         (js_then (js_then (fetched out) res_json)
           (\<lambda>created. js_then (js_lift (js_get created ''id''))
             (\<lambda>i. js_modify (set_slice (\<lambda>s. s\<lparr>users := us @
               [\<lparr>uid = i, uname = user_name created, uemail = js_or (oget created ''email'') (JStr []),
                 urole = user_role (oget created ''role''), ustatus = user_status (oget created ''status''),
                 ulast = ''Just now''\<rparr>]\<rparr>)))))
         console_error)"

definition handleDeleteUser :: "host \<Rightarrow> bool \<Rightarrow> app_user \<Rightarrow> user_ctx \<Rightarrow> user_ctx" where
  "handleDeleteUser h confirmed u c =
     (if \<not> confirmed then c
      else issue DELETE (admin_api h @ ''/resources/user/'' @ encodeURIComponent (js_string (uid u)))
             None (KDeleteUser (uid u) (users (slice c)) (selectedUserId (slice c))) c)"

definition on_delete_user :: "jv \<Rightarrow> app_user list \<Rightarrow> jv \<Rightarrow> outcome \<Rightarrow> user_ctx \<Rightarrow> user_ctx" where
  "on_delete_user i us sel out =
     run_chain
       (js_catch
         (js_then (fetched out) (\<lambda>res.
           when_act (res_ok res)
             (js_modify (set_slice (\<lambda>s.
               let s' = s\<lparr>users := filter (\<lambda>u. uid u \<noteq> i) us\<rparr> in
               if sel = i then s'\<lparr>selectedUserId := JNull\<rparr> else s')))))
         console_error)"

section \<open>The detail page\<close>

definition setSelectedUserId :: "jv \<Rightarrow> user_ctx \<Rightarrow> user_ctx" where
  "setSelectedUserId i = set_slice (\<lambda>s. s\<lparr>selectedUserId := i\<rparr>)"

text \<open>The effect: clears the detail, or asks for the user and for the audit log.\<close>

definition user_detail_effect :: "host \<Rightarrow> user_ctx \<Rightarrow> user_ctx" where
  "user_detail_effect h c =
     (let sel = selectedUserId (slice c) in
      if \<not> isAuthenticated c \<or> \<not> truthy sel then set_slice (\<lambda>s. s\<lparr>userDetail := JNull\<rparr>) c
      else issue GET (admin_api h @ ''/resources/AuditLog'') None KAuditLogs
             (issue GET (admin_api h @ ''/users/'' @ encodeURIComponent (js_string sel)) None KUserDetail c))"

definition on_user_detail :: "outcome \<Rightarrow> user_ctx \<Rightarrow> user_ctx" where
  "on_user_detail = guarded_loader None (store_slice (\<lambda>_. True) (\<lambda>data s. s\<lparr>userDetail := data\<rparr>))"

definition on_audit_logs :: "outcome \<Rightarrow> user_ctx \<Rightarrow> user_ctx" where
  "on_audit_logs = guarded_loader None (store_slice is_array (\<lambda>data s. s\<lparr>auditLogs := arr_items data\<rparr>))"

record device_view =
  dev_type :: string
  dev_name :: jv
  dev_last :: string

record clean_user =
  cu_name :: jv
  cu_email :: jv
  cu_role :: string
  cu_status :: jv
  cu_location :: jv
  cu_phone :: jv
  cu_joined :: string
  cu_subscription :: jv
  cu_bio :: jv
  cu_last :: string
  cu_devices :: "device_view list"

definition device_of :: "host \<Rightarrow> jv \<Rightarrow> device_view" where
  "device_of h d =
     \<lparr>dev_type =
        (if oget d ''platform'' = JStr ''ios'' \<or> oget d ''platform'' = JStr ''iOS'' then ''iOS''
         else if oget d ''platform'' = JStr ''android'' \<or> oget d ''platform'' = JStr ''Android'' then ''Android''
         else ''Web''),
      dev_name = js_or (oget d ''device_name'') (js_or (oget d ''name'') (JStr ''Unknown Device'')),
      dev_last = last_active h d\<rparr>"

definition selected_user :: "user_st \<Rightarrow> app_user option" where
  "selected_user s = find (\<lambda>u. uid u = selectedUserId s) (users s)"

definition detail_of :: "user_st \<Rightarrow> jv" where
  "detail_of s =
     js_or (userDetail s)
       (JObj [(''user'', case selected_user s of Some u \<Rightarrow> JObj (user_obj u) | None \<Rightarrow> JUndef),
              (''devices'', JArr []), (''roles'', JArr [])])"

definition cleanUser :: "host \<Rightarrow> user_st \<Rightarrow> clean_user" where
  "cleanUser h s =
     (let user = (case selected_user s of Some u \<Rightarrow> JObj (user_obj u) | None \<Rightarrow> JUndef);
          detail = detail_of s;
          du = oget detail ''user'';
          roles = arr_items (oget detail ''roles'')
      in \<lparr>cu_name = js_or (oget du ''name'') (js_or (oget du ''email'') (js_or (oget user ''name'') (JStr ''Anonymous''))),
          cu_email = js_or (oget du ''email'') (js_or (oget user ''email'') (JStr [])),
          cu_role = (if roles \<noteq> [] then
                       join_with '', '' (map (\<lambda>r. js_string (js_or (oget r ''role_id'') (oget r ''role''))) roles)
                     else js_string (js_or (oget du ''role'') (js_or (oget user ''role'') (JStr ''User'')))),
          cu_status = js_or (oget du ''status'') (js_or (oget user ''status'') (JStr ''Active'')),
          cu_location = js_or (oget du ''location'') (JStr ''Location Pending''),
          cu_phone = js_or (oget du ''phone'') (JStr ''No phone record''),
          cu_joined = (if truthy (oget du ''created_at'') then date_str h (oget du ''created_at'') else ''N/A''),
          cu_subscription = js_or (oget du ''subscription'') (JStr ''Free Tier''),
          cu_bio = js_or (oget du ''bio'') (JStr ''The system awaits a user-defined biography for this profile.''),
          cu_last = last_active h du,
          cu_devices = map (device_of h) (arr_items (oget detail ''devices''))\<rparr>)"

definition auditsForUser :: "host \<Rightarrow> user_st \<Rightarrow> jv list" where
  "auditsForUser h s =
     filter (\<lambda>a.
       (truthy (oget a ''actor_id'') \<and> oget a ''actor_id'' = cu_email (cleanUser h s)) \<or>
       (truthy (oget a ''actor_id'') \<and> oget a ''actor_id'' = selectedUserId s) \<or>
       (truthy (oget a ''resource_id'') \<and> oget a ''resource_id'' = selectedUserId s))
       (auditLogs s)"

definition user_resume :: "host \<Rightarrow> user_k \<Rightarrow> outcome \<Rightarrow> user_ctx \<Rightarrow> user_ctx" where
  "user_resume h k out =
     (case k of
        KUsers \<Rightarrow> on_users h out
      | KUserDetail \<Rightarrow> on_user_detail out
      | KAuditLogs \<Rightarrow> on_audit_logs out
      | KPatchUser i us \<Rightarrow> on_patch_user h i us out
      | KCreateUser us \<Rightarrow> on_create_user h us out
      | KDeleteUser i us sel \<Rightarrow> on_delete_user i us sel out)"

section \<open>What the callbacks come to\<close>

interpretation user_list: quiet_loader "on_users h"
  unfolding on_users_def by (rule quiet_store_res)

interpretation user_details: quiet_loader on_user_detail
  unfolding on_user_detail_def by (rule quiet_store_slice)

interpretation audits: quiet_loader on_audit_logs
  unfolding on_audit_logs_def by (rule quiet_store_slice)

lemma on_patch_user_eval:
  assumes "i \<in> uid ` set us"
  shows "on_patch_user h i us out c =
     (case out of
        NetErr _ \<Rightarrow> c
      | Reply r \<Rightarrow>
          (case body_json r of
             Inl _ \<Rightarrow> c
           | Inr v \<Rightarrow> if is_nullish v then c
                     else set_slice (\<lambda>s. s\<lparr>users := map_at uid i (rewrite_user h v) us\<rparr>) c))"
  using assms
  by (auto simp: on_patch_user_def console_error_def res_json_def js_get_def chain_defs fetched_def
      split: outcome.splits sum.splits)

lemma on_delete_user_eval:
  "on_delete_user i us sel out c =
     (case out of
        NetErr _ \<Rightarrow> c
      | Reply r \<Rightarrow>
          if res_ok r then set_slice (\<lambda>s.
            let s' = s\<lparr>users := filter (\<lambda>u. uid u \<noteq> i) us\<rparr> in
            if sel = i then s'\<lparr>selectedUserId := JNull\<rparr> else s') c
          else c)"
  by (auto simp: on_delete_user_def console_error_def when_act_def chain_defs fetched_def split: outcome.splits)

lemma rewrite_user_uid [simp]: "uid (rewrite_user h v u) = uid u"
  by (simp add: rewrite_user_def)

lemma load_user_Inr:
  "load_user h u = Inr r \<longleftrightarrow> \<not> is_nullish u \<and>
     r = \<lparr>uid = oget u ''id'', uname = user_name u, uemail = js_or (oget u ''email'') (JStr []),
          urole = user_role (oget u ''role''), ustatus = user_status (oget u ''status''), ulast = last_active h u\<rparr>"
  by (auto simp: load_user_def js_get_def oget_def)

lemma filter_res_InrD:
  "filter_res p xs = Inr ys \<Longrightarrow> ys = filter (\<lambda>x. p x = Inr True) xs \<and> (\<forall>x \<in> set xs. \<exists>b. p x = Inr b)"
  by (induction xs arbitrary: ys) (auto simp: res_bind_Inr_iff)

lemma ofield_user_payload:
  "ofield (user_payload form) k =
     (if k = ''status'' then js_or (ofield form ''status'') (JStr ''Active'')
      else if k = ''role'' then js_or (ofield form ''role'') (JStr ''User'')
      else ofield form k)"
  by (simp add: user_payload_def ofield_spread)

text \<open>A saved form is a valid role and status only by chance of the form: the keys.\<close>

lemma user_payload_keys:
  "fst ` set (user_payload form) = fst ` set form \<union> {''email'', ''name'', ''role'', ''status''}"
  by (auto simp: user_payload_def)

lemma on_users_stored:
  "users (slice (on_users h out c)) =
     (case loaded None out of
        None \<Rightarrow> users (slice c)
      | Some v \<Rightarrow> if is_array v
                then (case map_res (load_user h) (arr_items v) of Inl _ \<Rightarrow> users (slice c) | Inr us \<Rightarrow> us)
                else users (slice c))"
  by (auto simp: on_users_def guarded_loader_eval store_res_snd split: option.splits sum.splits)

section \<open>Properties\<close>

text \<open>The search, said without its code: a piece of the text that differs from the query in case only.\<close>

definition mentions :: "jv \<Rightarrow> string \<Rightarrow> bool" where
  "mentions v q = (\<exists>before piece after. v = JStr (before @ piece @ after) \<and> toUpperCase piece = toUpperCase q)"

definition searchable :: "string \<Rightarrow> app_user \<Rightarrow> bool" where
  "searchable q u = ((\<exists>n. uname u = JStr n) \<and> (mentions (uname u) q \<or> (\<exists>e. uemail u = JStr e)))"

lemma same_case: "char_lower x = char_lower y \<longleftrightarrow> char_upper x = char_upper y"
proof -
  have "x = y \<longleftrightarrow> char_code x = char_code y" for x y by (simp add: char_code_def)
  then show ?thesis by (simp only: char_code_lower char_code_upper) auto
qed

lemma lower_upper_eq: "toLowerCase m = toLowerCase q \<longleftrightarrow> toUpperCase m = toUpperCase q"
  unfolding toLowerCase_def toUpperCase_def
  by (simp add: list_eq_iff_nth_eq same_case cong: conj_cong)

lemma includes_mentions: "str_includes (toLowerCase n) (toLowerCase q) \<longleftrightarrow> mentions (JStr n) q"
proof -
  have "(\<exists>a b. toLowerCase n = a @ toLowerCase q @ b) \<longleftrightarrow> (\<exists>a m b. n = a @ m @ b \<and> toLowerCase m = toLowerCase q)"
    unfolding toLowerCase_def by (metis map_append map_eq_append_conv)
  then show ?thesis by (simp add: str_includes_iff mentions_def lower_upper_eq)
qed

text \<open>
  C27. The member search is exact. When every name is text, and every e-mail is that the search
  has to look at, the directory lists, in order and each as often as it is there, the users with
  a name or an e-mail that contains the query up to case, all of them for an empty query;
  otherwise the search throws.
\<close>

theorem user_search_exact:
  "filteredUsers s =
     (if list_all (searchable (search s)) (users s)
      then Inr (filter (\<lambda>u. mentions (uname u) (search s) \<or> mentions (uemail u) (search s)) (users s))
      else Inl ''toLowerCase is not a function'')"
proof -
  let ?q = "search s"
  have not_text: "\<not> mentions JUndef q" "\<not> mentions JNull q" "\<not> mentions (JBool b) q" "\<not> mentions (JNum i) q"
    "\<not> mentions (JArr vs) q" "\<not> mentions (JObj kvs) q" for q b i vs kvs
    by (simp_all add: mentions_def)
  have one: "user_matches ?q u =
      (if searchable ?q u then Inr (mentions (uname u) ?q \<or> mentions (uemail u) ?q) else Inl ''toLowerCase is not a function'')" for u
  proof (cases "uname u")
    case (JStr n)
    then show ?thesis
      by (cases "uemail u") (simp_all add: user_matches_def js_toLowerCase_def includes_mentions searchable_def not_text)
  qed (simp_all add: user_matches_def js_toLowerCase_def searchable_def)
  have "filter_res (user_matches ?q) us =
      (if list_all (searchable ?q) us then Inr (filter (\<lambda>u. mentions (uname u) ?q \<or> mentions (uemail u) ?q) us)
       else Inl ''toLowerCase is not a function'')" for us
    by (induction us) (auto simp: one)
  then show ?thesis by (simp add: filteredUsers_def)
qed

definition ada :: app_user where
  "ada = \<lparr>uid = JStr ''u1'', uname = JStr ''Ada'', uemail = JStr ''ada@example.com'', urole = ''Admin'',
     ustatus = ''Active'', ulast = ''Active''\<rparr>"

definition bob :: app_user where
  "bob = \<lparr>uid = JStr ''u2'', uname = JStr ''Bob'', uemail = JStr ''bob@example.com'', urole = ''User'',
     ustatus = ''Pending'', ulast = ''Active''\<rparr>"

text \<open>
  The role of a moderator is lost. Every row the console makes of what the server
  sends is an administrator or an ordinary user: after the server has confirmed the role
  \<open>Moderator\<close>, which the dialogue offers, the directory shows \<open>User\<close>, and saving the
  row again sends that back.
\<close>

lemma moderator_role_lost:
  assumes "i \<in> uid ` set us" and "body_json r = Inr (JObj o')" and "ofield o' ''role'' = JStr ''Moderator''"
  shows "\<forall>u \<in> set (users (slice (on_patch_user h i us (Reply r) c))). uid u = i \<longrightarrow>
    urole u = ''User'' \<and>
    ofield (user_payload (formData (handleEditUser u c))) ''role'' = JStr ''User''"
proof -
  have role: "urole (rewrite_user h (JObj o') u) = ''User''" for u
    using assms(3) by (simp add: rewrite_user_def user_role_def oget_ofield del: oget_obj)
  have sent: "ofield (user_payload (formData (handleEditUser u c))) ''role'' = JStr (urole u)" if "urole u \<noteq> []" for u
    using that by (simp add: ofield_user_payload handleEditUser_def user_obj_def) (simp add: ofield_def)
  have "users (slice (on_patch_user h i us (Reply r) c)) = map_at uid i (rewrite_user h (JObj o')) us"
    using assms(1,2) by (simp add: on_patch_user_eval is_nullish_def)
  then have "urole u = ''User''"
    if "u \<in> set (users (slice (on_patch_user h i us (Reply r) c)))" "uid u = i" for u
    using that role by (auto simp: map_at_def split: if_splits)
  then show ?thesis by (simp add: sent)
qed

definition user_ctx0 :: user_ctx where
  "user_ctx0 = \<lparr>isAuthenticated = True, formData = [],
     nav = \<lparr>activePage = ''users'', selectedCollectionId = [], selectedScreenName = None, selectedClusterName = None\<rparr>,
     alerts = [], outbox = [], slice = user_initial\<lparr>users := [ada, bob]\<rparr>\<rparr>"

lemma moderator_role_lost_instance:
  "map urole (users (slice (on_patch_user byte_host (JStr ''u2'') [bob]
     (Reply (json_reply 200 (JObj [(''role'', JStr ''Moderator'')]))) user_ctx0))) = [''User'']"
proof -
  have "\<forall>u \<in> set (users (slice (on_patch_user byte_host (JStr ''u2'') [bob]
      (Reply (json_reply 200 (JObj [(''role'', JStr ''Moderator'')]))) user_ctx0))). uid u = JStr ''u2'' \<longrightarrow>
    urole u = ''User'' \<and> ofield (user_payload (formData (handleEditUser u user_ctx0))) ''role'' = JStr ''User''"
    by (rule moderator_role_lost [where o' = "[(''role'', JStr ''Moderator'')]"]) (simp_all add: bob_def ofield_def)
  then show ?thesis
    by (simp add: on_patch_user_eval bob_def is_nullish_def map_at_def)
qed

text \<open>
  An error report overwrites the user. The reply to a save is not checked for success:
  a failed save whose body is an error object leaves the row without name and e-mail.
\<close>

lemma failed_save_blanks_user:
  assumes "i \<in> uid ` set us" and "body_json r = Inr (JObj [(''error'', e)])"
  shows "\<forall>u \<in> set (users (slice (on_patch_user h i us (Reply r) c))). uid u = i \<longrightarrow>
    uname u = JStr ''Anonymous'' \<and> uemail u = JStr [] \<and> urole u = ''User'' \<and> ustatus u = ''Active''"
  using assms
  by (auto simp: on_patch_user_eval is_nullish_def map_at_def rewrite_user_def user_role_def user_name_def
      user_status_def js_or_def)

lemma failed_save_blanks_user_instance:
  "\<forall>u \<in> set (users (slice (on_patch_user byte_host (JStr ''u1'') [ada, bob]
     (Reply (json_reply 403 (JObj [(''error'', JStr ''forbidden'')]))) user_ctx0))).
     uid u = JStr ''u1'' \<longrightarrow> uname u = JStr ''Anonymous'' \<and> uemail u = JStr [] \<and> urole u = ''User'' \<and> ustatus u = ''Active''"
  by (rule failed_save_blanks_user [where e = "JStr ''forbidden''"]) (simp_all add: ada_def)

text \<open>
  Deleting a user is exact: after the server agreed, the user is gone, the others of
  the rendered list are there in order, and the detail page closes exactly when it showed
  that user; a refusal changes nothing.
\<close>

lemma delete_user_exact:
  "users (slice (on_delete_user i us sel (Reply r) c)) =
     (if res_ok r then filter (\<lambda>u. uid u \<noteq> i) us else users (slice c)) \<and>
   selectedUserId (slice (on_delete_user i us sel (Reply r) c)) =
     (if res_ok r \<and> sel = i then JNull else selectedUserId (slice c)) \<and>
   userDetail (slice (on_delete_user i us sel (Reply r) c)) = userDetail (slice c) \<and>
   on_delete_user i us sel (NetErr e) c = c"
  by (simp add: on_delete_user_eval Let_def)

text \<open>
  The detail page shows the wrong user on a race: the reply is stored whoever is
  selected when it arrives, so the page of one user can show the name of another.
\<close>

lemma late_detail_shows_other_user:
  assumes "res_ok r" and "body_json r = Inr (JObj [(''user'', JObj [(''name'', JStr n)])])" and "n \<noteq> []"
  shows "cu_name (cleanUser h (slice (on_user_detail (Reply r) c))) = JStr n \<and>
    selectedUserId (slice (on_user_detail (Reply r) c)) = selectedUserId (slice c)"
  using assms res_ok_status [OF assms(1)]
  by (simp add: on_user_detail_def guarded_loader_eval loaded_def store_slice_snd cleanUser_def detail_of_def Let_def)

lemma late_detail_shows_other_user_instance:
  "cu_name (cleanUser byte_host (slice (on_user_detail
     (Reply (json_reply 200 (JObj [(''user'', JObj [(''name'', JStr ''Ada'')])])))
     (setSelectedUserId (JStr ''u2'') user_ctx0)))) = JStr ''Ada''"
  using late_detail_shows_other_user [of "json_reply 200 (JObj [(''user'', JObj [(''name'', JStr ''Ada'')])])" "''Ada''"]
  by (simp add: res_ok_def)

end
