(* ===== verification/Admins.thy ===== *)
theory Admins
  imports Ctx WebUrl
begin

text \<open>
  The administrators of the console (App.tsx): the table of the system settings, granting
  and changing access, and revoking it. The requests address an administrator by its raw
  identifier, without \<open>encodeURIComponent\<close>.
\<close>

record admin_user =
  aid :: jv
  aname :: string
  aemail :: jv
  atier :: jv
  atime :: string

definition admin_obj :: "admin_user \<Rightarrow> obj" where
  "admin_obj a = [(''id'', aid a), (''name'', JStr (aname a)), (''email'', aemail a), (''tier'', atier a),
     (''time'', JStr (atime a))]"

record admin_st =
  adminUsers :: "admin_user list"
  isAdminModalOpen :: bool
  editingAdmin :: "admin_user option"

definition admin_initial :: admin_st where
  "admin_initial = \<lparr>adminUsers = [], isAdminModalOpen = False, editingAdmin = None\<rparr>"

datatype admin_k = KAdminUsers | KSaveAdmin string | KDeleteAdmin

type_synonym admin_ctx = "(admin_st, admin_k) ctx"

section \<open>Loading\<close>

text \<open>\<open>u.email.split('@')[0]\<close>; an e-mail that is not a string has no \<open>split\<close>.\<close>

definition admin_name :: "jv \<Rightarrow> string res" where
  "admin_name email =
     (if \<not> truthy email then Inr ''Admin''
      else (case email of JStr s \<Rightarrow> Inr (hd (split_on (CHR ''@'') s)) | _ \<Rightarrow> Inl ''u.email.split is not a function''))"

definition load_admin :: "host \<Rightarrow> jv \<Rightarrow> admin_user res" where
  "load_admin h u =
     res_bind (js_get u ''id'') (\<lambda>i.
     res_bind (admin_name (oget u ''email'')) (\<lambda>n. Inr
       \<lparr>aid = i, aname = n, aemail = js_or (oget u ''email'') (JStr []),
        atier = js_or (oget u ''role'') (JStr ''Superuser''),
        atime = (if truthy (oget u ''updated_at'') then date_str h (oget u ''updated_at'') else ''Active Now'')\<rparr>))"

definition fetchAdminUsers :: "host \<Rightarrow> admin_ctx \<Rightarrow> admin_ctx" where
  "fetchAdminUsers h = issue GET (admin_api h @ ''/resources/AdminUser'') None KAdminUsers"

definition on_admin_users :: "host \<Rightarrow> outcome \<Rightarrow> admin_ctx \<Rightarrow> admin_ctx" where
  "on_admin_users h =
     guarded_loader None
       (store_res is_array (\<lambda>data. map_res (load_admin h) (arr_items data)) (\<lambda>as s. s\<lparr>adminUsers := as\<rparr>))"

section \<open>Granting, changing and revoking access\<close>

definition newAdmin :: "admin_ctx \<Rightarrow> admin_ctx" where
  "newAdmin c = set_slice (\<lambda>s. s\<lparr>editingAdmin := None, isAdminModalOpen := True\<rparr>) (c\<lparr>formData := []\<rparr>)"

definition handleEditAdmin :: "admin_user \<Rightarrow> admin_ctx \<Rightarrow> admin_ctx" where
  "handleEditAdmin a c =
     set_slice (\<lambda>s. s\<lparr>editingAdmin := Some a, isAdminModalOpen := True\<rparr>) (c\<lparr>formData := admin_obj a\<rparr>)"

definition closeAdminModal :: "admin_ctx \<Rightarrow> admin_ctx" where
  "closeAdminModal = set_slice (\<lambda>s. s\<lparr>isAdminModalOpen := False\<rparr>)"

text \<open>The dialogue has inputs for the name, the e-mail and the tier, and none for a password.\<close>

definition admin_form_fields :: "string list" where
  "admin_form_fields = [''name'', ''email'', ''tier'']"

definition TIERS :: "string list" where
  "TIERS = [''Superuser'', ''Full Control'', ''Security'', ''Developer'', ''Auditor'']"

definition admin_form_change :: "string \<Rightarrow> string \<Rightarrow> admin_ctx \<Rightarrow> admin_ctx" where
  "admin_form_change k v c =
     (if k \<in> set admin_form_fields then c\<lparr>formData := obj_set k (JStr v) (formData c)\<rparr> else c)"

definition saveAdmin :: "host \<Rightarrow> admin_ctx \<Rightarrow> admin_ctx" where
  "saveAdmin h c =
     (let form = formData c;
          email = js_or (ofield form ''email'') (JStr []);
          role = js_or (ofield form ''tier'') (JStr ''Superuser'');
          password = js_or (ofield form ''password'') (JStr ''adminpassword123'');
          c1 = (case editingAdmin (slice c) of
                  Some a \<Rightarrow>
                    issue PATCH (admin_api h @ ''/resources/AdminUser/'' @ js_string (aid a))
                      (Some (JObj [(''email'', email), (''role'', role)]))
                      (KSaveAdmin ''Failed to update admin user'') c
                | None \<Rightarrow>
                    issue POST (admin_api h @ ''/resources/AdminUser'')
                      (Some (JObj [(''email'', email), (''role'', role), (''password'', password)]))
                      (KSaveAdmin ''Failed to create admin user'') c)
      in (set_slice (\<lambda>s. s\<lparr>isAdminModalOpen := False, editingAdmin := None\<rparr>) c1)\<lparr>formData := []\<rparr>)"

definition on_save_admin :: "host \<Rightarrow> string \<Rightarrow> outcome \<Rightarrow> admin_ctx \<Rightarrow> admin_ctx" where
  "on_save_admin h failure out =
     run_chain
       (js_catch
         (js_then (fetched out) (\<lambda>res.
           if \<not> res_ok res then js_throw failure else js_modify (fetchAdminUsers h)))
         console_error)"

definition handleDeleteAdmin :: "host \<Rightarrow> bool \<Rightarrow> admin_user \<Rightarrow> admin_ctx \<Rightarrow> admin_ctx" where
  "handleDeleteAdmin h confirmed a c =
     (if confirmed
      then issue DELETE (admin_api h @ ''/resources/AdminUser/'' @ js_string (aid a)) None KDeleteAdmin c
      else c)"

text \<open>A 400 carries the reason why the server refuses, and is shown; nothing is reloaded.\<close>

definition on_delete_admin :: "host \<Rightarrow> outcome \<Rightarrow> admin_ctx \<Rightarrow> admin_ctx" where
  "on_delete_admin h out =
     run_chain
       (js_catch
         (js_then (fetched out) (\<lambda>res.
           if status res = 400
           then js_then (res_json res) (\<lambda>errData.
                js_then (js_lift (js_get errData ''error'')) (\<lambda>e.
                  js_modify (alert (js_string (js_or e (JStr ''Cannot delete admin user''))))))
           else if \<not> res_ok res then js_throw ''Failed to delete admin user''
           else js_modify (fetchAdminUsers h)))
         console_error)"

definition admin_resume :: "host \<Rightarrow> admin_k \<Rightarrow> outcome \<Rightarrow> admin_ctx \<Rightarrow> admin_ctx" where
  "admin_resume h k out =
     (case k of
        KAdminUsers \<Rightarrow> on_admin_users h out
      | KSaveAdmin failure \<Rightarrow> on_save_admin h failure out
      | KDeleteAdmin \<Rightarrow> on_delete_admin h out)"

section \<open>What the callbacks come to\<close>

interpretation admin_list: quiet_loader "on_admin_users h"
  unfolding on_admin_users_def by (rule quiet_store_res)

lemma on_save_admin_eval:
  "on_save_admin h failure out c =
     (case out of NetErr _ \<Rightarrow> c | Reply r \<Rightarrow> if res_ok r then fetchAdminUsers h c else c)"
  by (simp add: on_save_admin_def console_error_def chain_defs fetched_def split: outcome.splits)

lemma on_delete_admin_eval:
  "on_delete_admin h (NetErr e) c = c"
  "status r = 400 \<Longrightarrow> body_json r = Inr v \<Longrightarrow> \<not> is_nullish v \<Longrightarrow>
     on_delete_admin h (Reply r) c =
       alert (js_string (js_or (jprop v ''error'') (JStr ''Cannot delete admin user''))) c"
  "res_ok r \<Longrightarrow> on_delete_admin h (Reply r) c = fetchAdminUsers h c"
  "\<not> res_ok r \<Longrightarrow> status r \<noteq> 400 \<Longrightarrow> on_delete_admin h (Reply r) c = c"
  by (simp_all add: on_delete_admin_def console_error_def res_json_def js_get_def chain_defs fetched_def)
    (simp add: res_ok_def)

lemma saveAdmin_create:
  assumes "editingAdmin (slice c) = None"
  shows "outbox (saveAdmin h c) = outbox c @
    [(\<lparr>rmethod = POST, rurl = admin_api h @ ''/resources/AdminUser'',
       rbody = Some (json_value (JObj
         [(''email'', js_or (ofield (formData c) ''email'') (JStr [])),
          (''role'', js_or (ofield (formData c) ''tier'') (JStr ''Superuser'')),
          (''password'', js_or (ofield (formData c) ''password'') (JStr ''adminpassword123''))]))\<rparr>,
      KSaveAdmin ''Failed to create admin user'')]"
  by (simp add: saveAdmin_def assms Let_def)

lemma admin_form_change_password:
  "ofield (formData (admin_form_change k v c)) ''password'' = ofield (formData c) ''password''"
  by (simp add: admin_form_change_def admin_form_fields_def ofield_set)

section \<open>Properties\<close>

text \<open>
  Every administrator gets the same password. Whatever is typed into the dialogue that
  grants access, the account is created with the password built into the console.
\<close>

lemma new_admin_has_default_password:
  "let c' = fold (\<lambda>(k, v). admin_form_change k v) edits (newAdmin c) in
   (\<exists>req k email role. outbox (saveAdmin h c') = outbox c @ [(req, k)] \<and> rmethod req = POST \<and>
      rbody req = Some (JObj [(''email'', email), (''role'', role), (''password'', JStr ''adminpassword123'')]))"
proof -
  let ?c' = "fold (\<lambda>(k, v). admin_form_change k v) edits (newAdmin c)"
  have keep: "ofield (formData (fold (\<lambda>(k, v). admin_form_change k v) es d)) ''password'' = ofield (formData d) ''password'' \<and>
      slice (fold (\<lambda>(k, v). admin_form_change k v) es d) = slice d \<and>
      outbox (fold (\<lambda>(k, v). admin_form_change k v) es d) = outbox d" for es d
    by (induction es arbitrary: d) (auto simp: admin_form_change_password, auto simp: admin_form_change_def)
  have "ofield (formData ?c') ''password'' = JUndef" "editingAdmin (slice ?c') = None" "outbox ?c' = outbox c"
    using keep [of edits "newAdmin c"] by (simp_all add: newAdmin_def)
  moreover have "js_or (ofield (formData ?c') ''email'') (JStr []) \<noteq> JUndef"
      "js_or (ofield (formData ?c') ''tier'') (JStr ''Superuser'') \<noteq> JUndef"
    by (auto simp: js_or_def)
  ultimately show ?thesis
    using saveAdmin_create [of ?c' h] by (simp add: Let_def)
qed

text \<open>
  Revoking access follows the server: a refusal with its reason is shown, word for
  word, and nothing is reloaded; a success reloads the table; any other failure and a
  declined confirmation do nothing.
\<close>

lemma revoke_follows_server:
  "handleDeleteAdmin h False a c = c \<and>
   on_delete_admin h (Reply (json_reply 400 (JObj [(''error'', JStr reason)]))) c
     = alert (if reason = [] then ''Cannot delete admin user'' else reason) c \<and>
   on_delete_admin h (Reply (json_reply 204 v)) c = fetchAdminUsers h c \<and>
   on_delete_admin h (Reply (json_reply 500 v)) c = c \<and> on_delete_admin h (NetErr e) c = c"
  by (simp add: handleDeleteAdmin_def on_delete_admin_eval res_ok_def is_nullish_def)

end
