(* ===== verification/Flags.thy ===== *)
theory Flags
  imports Ctx WebUrl
begin

text \<open>
  Feature toggles (App.tsx): loading them, switching one, the create/edit dialogue, and
  the targeting rules of the selected flag (user keys, segments, rollout) with the
  request that saves them.
\<close>

text \<open>
  A flag row as the console keeps it. \<open>saveFlag\<close> spreads a reply over a row, so the row
  is an object, read with the usual defaults: the fields below are its keys.
\<close>

type_synonym flag = obj

definition flag_id :: "flag \<Rightarrow> jv" where
  "flag_id f = ofield f ''id''"

definition flag_key :: "flag \<Rightarrow> jv" where
  "flag_key f = ofield f ''key''"

definition flag_enabled :: "flag \<Rightarrow> jv" where
  "flag_enabled f = ofield f ''enabled''"

text \<open>
  The targeting rules being edited. The lists are those of the flag; the rules of a flag
  are lists of strings and a number.
\<close>

record targeting =
  tusers :: "jv list"
  tsegments :: "jv list"
  rollout :: jv

definition targeting_json :: "targeting \<Rightarrow> jv" where
  "targeting_json t =
     JObj [(''users'', JArr (tusers t)), (''segments'', JArr (tsegments t)), (''rollout'', rollout t)]"

record flag_st =
  flags :: "flag list"
  selectedFlagId :: jv
  targetingEdit :: "targeting option"
  newUserKey :: string
  isFlagModalOpen :: bool
  editingFlag :: "flag option"

definition flag_initial :: flag_st where
  "flag_initial = \<lparr>flags = [], selectedFlagId = JNull, targetingEdit = None, newUserKey = [],
     isFlagModalOpen = False, editingFlag = None\<rparr>"

datatype flag_k = KFlags | KToggleFlag jv "flag list" | KPutFlag jv "flag list" | KCreateFlag "flag list"
  | KTargeting jv "flag list"

type_synonym flag_ctx = "(flag_st, flag_k) ctx"

section \<open>Loading\<close>

definition no_targeting :: jv where
  "no_targeting = JObj [(''users'', JArr []), (''segments'', JArr []), (''rollout'', JNum 0)]"

text \<open>The row made of an object the server sends, in \<open>setFlags\<close> and after a creation.\<close>

definition flag_row :: "jv \<Rightarrow> flag res" where
  "flag_row f =
     res_bind (js_get f ''key'') (\<lambda>k. Inr
       [(''id'', k), (''key'', k),
        (''description'', js_or (oget f ''description'') (JStr [])),
        (''enabled'', js_or (oget f ''enabled'') (JBool False)),
        (''environment'', JStr ''Production''),
        (''targeting'', js_or (oget f ''targeting'') no_targeting)])"

definition fetchFlags :: "host \<Rightarrow> flag_ctx \<Rightarrow> flag_ctx" where
  "fetchFlags h = issue GET (admin_api h @ ''/flags'') None KFlags"

definition on_flags :: "outcome \<Rightarrow> flag_ctx \<Rightarrow> flag_ctx" where
  "on_flags =
     guarded_loader None
       (store_res is_array (\<lambda>data. map_res flag_row (arr_items data)) (\<lambda>fs s. s\<lparr>flags := fs\<rparr>))"

section \<open>Switching\<close>

definition handleToggleFlag :: "host \<Rightarrow> flag \<Rightarrow> flag_ctx \<Rightarrow> flag_ctx" where
  "handleToggleFlag h f c =
     issue PATCH (admin_api h @ ''/flags/'' @ encodeURIComponent (js_string (flag_key f)) @ ''/toggle'')
       (Some (JObj [(''enabled'', JBool (\<not> truthy (flag_enabled f)))]))
       (KToggleFlag (flag_key f) (flags (slice c))) c"

definition set_enabled :: "jv \<Rightarrow> flag \<Rightarrow> flag" where
  "set_enabled v f = obj_set ''enabled'' v f"

text \<open>The reply's \<open>enabled\<close> is stored whatever its status; a \<open>null\<close> body throws when it is read.\<close>

definition on_toggle_flag :: "jv \<Rightarrow> flag list \<Rightarrow> outcome \<Rightarrow> flag_ctx \<Rightarrow> flag_ctx" where
  "on_toggle_flag k fs out =
     run_chain
       (js_catch
         (js_then (js_then (fetched out) res_json) (\<lambda>updated.
           if k \<notin> flag_key ` set fs then js_modify (set_slice (\<lambda>s. s\<lparr>flags := fs\<rparr>))
           else js_then (js_lift (js_get updated ''enabled'')) (\<lambda>en.
             js_modify (set_slice (\<lambda>s. s\<lparr>flags := map_at flag_key k (set_enabled en) fs\<rparr>)))))
         console_error)"

section \<open>The dialogue\<close>

definition newFlag :: "flag_ctx \<Rightarrow> flag_ctx" where
  "newFlag c = set_slice (\<lambda>s. s\<lparr>editingFlag := None, isFlagModalOpen := True\<rparr>) (c\<lparr>formData := []\<rparr>)"

definition handleEditFlag :: "flag \<Rightarrow> flag_ctx \<Rightarrow> flag_ctx" where
  "handleEditFlag f c =
     set_slice (\<lambda>s. s\<lparr>editingFlag := Some f, isFlagModalOpen := True\<rparr>) (c\<lparr>formData := f\<rparr>)"

definition closeFlagModal :: "flag_ctx \<Rightarrow> flag_ctx" where
  "closeFlagModal = set_slice (\<lambda>s. s\<lparr>isFlagModalOpen := False\<rparr>)"

definition flag_form_fields :: "string list" where
  "flag_form_fields = [''key'', ''description'', ''environment'']"

definition ENVIRONMENTS :: "string list" where
  "ENVIRONMENTS = [''Production'', ''Staging'', ''Development'']"

definition flag_form_change :: "string \<Rightarrow> string \<Rightarrow> flag_ctx \<Rightarrow> flag_ctx" where
  "flag_form_change k v c =
     (if k \<in> set flag_form_fields then c\<lparr>formData := obj_set k (JStr v) (formData c)\<rparr> else c)"

definition saveFlag :: "host \<Rightarrow> flag_ctx \<Rightarrow> flag_ctx" where
  "saveFlag h c =
     (let c1 = (case editingFlag (slice c) of
                  Some f \<Rightarrow>
                    issue PUT (admin_api h @ ''/flags/'' @ encodeURIComponent (js_string (flag_key f)))
                      (Some (JObj (formData c))) (KPutFlag (flag_id f) (flags (slice c))) c
                | None \<Rightarrow>
                    issue POST (admin_api h @ ''/flags'') (Some (JObj (formData c))) (KCreateFlag (flags (slice c))) c)
      in (set_slice (\<lambda>s. s\<lparr>isFlagModalOpen := False, editingFlag := None\<rparr>) c1)\<lparr>formData := []\<rparr>)"

text \<open>\<open>{ ...f, ...updated }\<close>; spreading \<open>null\<close> adds nothing.\<close>

definition on_put_flag :: "jv \<Rightarrow> flag list \<Rightarrow> outcome \<Rightarrow> flag_ctx \<Rightarrow> flag_ctx" where
  "on_put_flag i fs out =
     run_chain
       (js_catch
         (js_then (js_then (fetched out) res_json) (\<lambda>updated.
           js_modify (set_slice (\<lambda>s. s\<lparr>flags := map_at flag_id i (\<lambda>f. obj_spread f (entries_of updated)) fs\<rparr>))))
         console_error)"

definition on_create_flag :: "flag list \<Rightarrow> outcome \<Rightarrow> flag_ctx \<Rightarrow> flag_ctx" where
  "on_create_flag fs out =
     run_chain
       (js_catch
         (js_then (js_then (fetched out) res_json) (\<lambda>created.
          js_then (js_lift (flag_row created)) (\<lambda>row.
           js_modify (set_slice (\<lambda>s. s\<lparr>flags := fs @ [row]\<rparr>)))))
         console_error)"

section \<open>Targeting\<close>

definition activeFlag :: "flag_st \<Rightarrow> flag option" where
  "activeFlag s = find (\<lambda>f. flag_id f = selectedFlagId s) (flags s)"

definition setSelectedFlagId :: "jv \<Rightarrow> flag_ctx \<Rightarrow> flag_ctx" where
  "setSelectedFlagId i = set_slice (\<lambda>s. s\<lparr>selectedFlagId := i\<rparr>)"

text \<open>The effect that copies the active flag's rules into the editor.\<close>

definition targeting_of :: "flag \<Rightarrow> targeting" where
  "targeting_of f =
     (let t = ofield f ''targeting'' in
      \<lparr>tusers = arr_items (oget t ''users''), tsegments = arr_items (oget t ''segments''),
       rollout = js_or (oget t ''rollout'') (JNum 0)\<rparr>)"

definition targeting_effect :: "flag_st \<Rightarrow> flag_st" where
  "targeting_effect s = s\<lparr>targetingEdit := map_option targeting_of (activeFlag s)\<rparr>"

definition setNewUserKey :: "string \<Rightarrow> flag_st \<Rightarrow> flag_st" where
  "setNewUserKey v s = s\<lparr>newUserKey := v\<rparr>"

definition handleAddUserKey :: "string \<Rightarrow> flag_st \<Rightarrow> flag_st" where
  "handleAddUserKey key s =
     (if key = ''Enter'' \<and> trim (newUserKey s) \<noteq> [] then
        (case targetingEdit s of
           Some t \<Rightarrow>
             (if JStr (trim (newUserKey s)) \<notin> set (tusers t)
              then s\<lparr>targetingEdit := Some (t\<lparr>tusers := tusers t @ [JStr (trim (newUserKey s))]\<rparr>), newUserKey := []\<rparr>
              else s\<lparr>newUserKey := []\<rparr>)
         | None \<Rightarrow> s\<lparr>newUserKey := []\<rparr>)
      else s)"

definition removeUserKey :: "jv \<Rightarrow> flag_st \<Rightarrow> flag_st" where
  "removeUserKey u s =
     s\<lparr>targetingEdit := map_option (\<lambda>t. t\<lparr>tusers := filter (\<lambda>x. x \<noteq> u) (tusers t)\<rparr>) (targetingEdit s)\<rparr>"

definition SEGMENTS :: "string list" where
  "SEGMENTS = [''Beta Testers'', ''Internal Employees'', ''Pro Users'', ''Legacy Accounts'']"

definition handleToggleSegment :: "string \<Rightarrow> flag_st \<Rightarrow> flag_st" where
  "handleToggleSegment segment s =
     (case targetingEdit s of
        None \<Rightarrow> s
      | Some t \<Rightarrow>
          s\<lparr>targetingEdit := Some (t\<lparr>tsegments :=
              (if JStr segment \<in> set (tsegments t)
               then filter (\<lambda>x. x \<noteq> JStr segment) (tsegments t)
               else tsegments t @ [JStr segment])\<rparr>)\<rparr>)"

text \<open>The slider: \<open>parseInt(e.target.value) || 0\<close>, where the input offers 0 to 100.\<close>

definition setRollout :: "string \<Rightarrow> flag_st \<Rightarrow> flag_st" where
  "setRollout v s =
     s\<lparr>targetingEdit := map_option (\<lambda>t. t\<lparr>rollout := JNum (case parseInt v of Some n \<Rightarrow> n | None \<Rightarrow> 0)\<rparr>) (targetingEdit s)\<rparr>"

definition saveTargetingChanges :: "host \<Rightarrow> flag_ctx \<Rightarrow> flag_ctx" where
  "saveTargetingChanges h c =
     (case (activeFlag (slice c), targetingEdit (slice c)) of
        (Some f, Some t) \<Rightarrow>
          issue PUT (admin_api h @ ''/flags/'' @ encodeURIComponent (js_string (flag_key f)))
            (Some (JObj (obj_set ''targeting'' (targeting_json t) f)))
            (KTargeting (flag_key f) (flags (slice c))) c
      | _ \<Rightarrow> c)"

definition on_targeting :: "jv \<Rightarrow> flag list \<Rightarrow> outcome \<Rightarrow> flag_ctx \<Rightarrow> flag_ctx" where
  "on_targeting k fs out =
     run_chain
       (js_catch
         (js_then
           (js_then (fetched out) (\<lambda>res.
             if \<not> res_ok res then js_throw (''HTTP error '' @ int_string (status res)) else res_json res))
           (\<lambda>updated.
             js_then
               (if k \<notin> flag_key ` set fs then js_modify (set_slice (\<lambda>s. s\<lparr>flags := fs\<rparr>))
                else js_then (js_lift (js_get updated ''targeting'')) (\<lambda>t.
                  js_modify (set_slice (\<lambda>s. s\<lparr>flags := map_at flag_key k (obj_set ''targeting'' t) fs\<rparr>))))
               (\<lambda>_. js_modify (alert ''Targeting rules saved successfully!''))))
         (\<lambda>e. js_modify (alert (''Failed to save targeting rules: '' @ e))))"

definition flag_resume :: "flag_k \<Rightarrow> outcome \<Rightarrow> flag_ctx \<Rightarrow> flag_ctx" where
  "flag_resume k out =
     (case k of
        KFlags \<Rightarrow> on_flags out
      | KToggleFlag key fs \<Rightarrow> on_toggle_flag key fs out
      | KPutFlag i fs \<Rightarrow> on_put_flag i fs out
      | KCreateFlag fs \<Rightarrow> on_create_flag fs out
      | KTargeting key fs \<Rightarrow> on_targeting key fs out)"

section \<open>What the callbacks come to\<close>

interpretation flag_list: quiet_loader on_flags
  unfolding on_flags_def by (rule quiet_store_res)

lemma on_toggle_flag_eval:
  assumes "k \<in> flag_key ` set fs"
  shows "on_toggle_flag k fs out c =
     (case out of
        NetErr _ \<Rightarrow> c
      | Reply r \<Rightarrow>
          (case body_json r of
             Inl _ \<Rightarrow> c
           | Inr v \<Rightarrow> if is_nullish v then c
                     else set_slice (\<lambda>s. s\<lparr>flags := map_at flag_key k (set_enabled (jprop v ''enabled'')) fs\<rparr>) c))"
  using assms
  by (auto simp: on_toggle_flag_def console_error_def res_json_def js_get_def chain_defs fetched_def
      split: outcome.splits sum.splits)

lemma on_put_flag_eval:
  "on_put_flag i fs out c =
     (case out of
        NetErr _ \<Rightarrow> c
      | Reply r \<Rightarrow>
          (case body_json r of
             Inl _ \<Rightarrow> c
           | Inr v \<Rightarrow> set_slice (\<lambda>s. s\<lparr>flags := map_at flag_id i (\<lambda>f. obj_spread f (entries_of v)) fs\<rparr>) c))"
  by (auto simp: on_put_flag_def console_error_def res_json_def chain_defs fetched_def
      split: outcome.splits sum.splits)

lemma on_targeting_eval:
  assumes "k \<in> flag_key ` set fs"
  shows "on_targeting k fs out c =
     (case out of
        NetErr e \<Rightarrow> alert (''Failed to save targeting rules: '' @ e) c
      | Reply r \<Rightarrow>
          if \<not> res_ok r then alert (''Failed to save targeting rules: HTTP error '' @ int_string (status r)) c
          else (case body_json r of
             Inl e \<Rightarrow> alert (''Failed to save targeting rules: '' @ e) c
           | Inr v \<Rightarrow>
               if is_nullish v then alert (''Failed to save targeting rules: '' @ type_error v ''targeting'') c
               else alert ''Targeting rules saved successfully!''
                 (set_slice (\<lambda>s. s\<lparr>flags := map_at flag_key k (obj_set ''targeting'' (jprop v ''targeting'')) fs\<rparr>) c)))"
  using assms
  by (auto simp: on_targeting_def res_json_def js_get_def chain_defs fetched_def
      split: outcome.splits sum.splits)

lemma flag_key_set_enabled [simp]: "flag_key (set_enabled v f) = flag_key f" "flag_id (set_enabled v f) = flag_id f"
  by (simp_all add: flag_key_def flag_id_def set_enabled_def)

lemma flag_key_set_targeting [simp]:
  "flag_key (obj_set ''targeting'' v f) = flag_key f" "flag_id (obj_set ''targeting'' v f) = flag_id f"
  by (simp_all add: flag_key_def flag_id_def)

section \<open>The targeting editor\<close>

text \<open>What the user can do to the rules, and what the rules must be.\<close>

datatype targeting_op = TypeKey string | PressKey string | RemoveKey jv | ToggleSegment string | Slide string

definition run_targeting_op :: "targeting_op \<Rightarrow> flag_st \<Rightarrow> flag_st" where
  "run_targeting_op op s =
     (case op of
        TypeKey v \<Rightarrow> setNewUserKey v s
      | PressKey key \<Rightarrow> handleAddUserKey key s
      | RemoveKey u \<Rightarrow> removeUserKey u s
      | ToggleSegment g \<Rightarrow> handleToggleSegment g s
      | Slide v \<Rightarrow> setRollout v s)"

text \<open>The operations the page has a control for.\<close>

definition targeting_op_offered :: "flag_st \<Rightarrow> targeting_op \<Rightarrow> bool" where
  "targeting_op_offered s op =
     (case op of
        RemoveKey u \<Rightarrow> (case targetingEdit s of Some t \<Rightarrow> u \<in> set (tusers t) | None \<Rightarrow> False)
      | ToggleSegment g \<Rightarrow> g \<in> set SEGMENTS
      | _ \<Rightarrow> True)"

definition wf_targeting :: "targeting \<Rightarrow> bool" where
  "wf_targeting t = (distinct (tusers t) \<and> distinct (tsegments t))"

definition wf_editor :: "flag_st \<Rightarrow> bool" where
  "wf_editor s = (\<forall>t. targetingEdit s = Some t \<longrightarrow> wf_targeting t)"

lemma wf_editor_op: "wf_editor s \<Longrightarrow> wf_editor (run_targeting_op op s)"
  by (cases op)
    (auto simp: run_targeting_op_def wf_editor_def wf_targeting_def setNewUserKey_def handleAddUserKey_def
      removeUserKey_def handleToggleSegment_def setRollout_def split: option.splits if_splits)

lemma wf_editor_ops: "wf_editor s \<Longrightarrow> wf_editor (fold run_targeting_op ops s)"
  by (induction ops arbitrary: s) (auto simp: wf_editor_op)

text \<open>How often a user key and a segment are listed, against the rules the editor started from.\<close>

definition bounded_editor :: "targeting \<Rightarrow> jv \<Rightarrow> jv \<Rightarrow> flag_st \<Rightarrow> bool" where
  "bounded_editor t0 u g s =
     (case targetingEdit s of None \<Rightarrow> True
      | Some t \<Rightarrow> count_list (tusers t) u \<le> max 1 (count_list (tusers t0) u) \<and>
          count_list (tsegments t) g \<le> max 1 (count_list (tsegments t0) g))"

lemma count_list_filter_le: "count_list (filter p xs) x \<le> count_list xs x"
  by (induction xs) simp_all

lemma count_list_add: "x \<notin> set xs \<Longrightarrow> count_list (xs @ [x]) y \<le> max 1 (count_list xs y)"
  by (cases "x = y") (simp_all add: count_notin)

lemma bounded_editor_op: "bounded_editor t0 u g s \<Longrightarrow> bounded_editor t0 u g (run_targeting_op op s)"
  using count_list_filter_le [THEN le_trans] count_list_add [THEN le_trans]
  by (cases op)
    (auto simp: run_targeting_op_def bounded_editor_def setNewUserKey_def handleAddUserKey_def
      removeUserKey_def handleToggleSegment_def setRollout_def split: option.splits if_splits)

lemma bounded_editor_ops: "bounded_editor t0 u g s \<Longrightarrow> bounded_editor t0 u g (fold run_targeting_op ops s)"
  by (induction ops arbitrary: s) (auto simp: bounded_editor_op)

section \<open>Properties\<close>

text \<open>Rules without duplicates stay without duplicates.\<close>

lemma editor_stays_distinct:
  assumes "activeFlag s = Some f" and "wf_targeting (targeting_of f)"
    and "targetingEdit (fold run_targeting_op ops (targeting_effect s)) = Some t"
  shows "distinct (tusers t) \<and> distinct (tsegments t)"
proof -
  from assms(1,2) have "wf_editor (targeting_effect s)"
    by (simp add: wf_editor_def targeting_effect_def)
  from wf_editor_ops [OF this, of ops] assms(3) show ?thesis
    by (simp add: wf_editor_def wf_targeting_def)
qed

text \<open>
  C18. The targeting editor adds no duplicate: whatever the rules the server sent, and whatever
  sequence of typing, pressing keys, removing, toggling segments and moving the slider, a user
  key or a segment is listed at most once, or at most as often as the server listed it.
\<close>

theorem targeting_no_duplicates:
  assumes "activeFlag s = Some f" and "targetingEdit (fold run_targeting_op ops (targeting_effect s)) = Some t"
  shows "count_list (tusers t) u \<le> max 1 (count_list (tusers (targeting_of f)) u) \<and>
    count_list (tsegments t) g \<le> max 1 (count_list (tsegments (targeting_of f)) g)"
proof -
  from assms(1) have "bounded_editor (targeting_of f) u g (targeting_effect s)"
    by (simp add: bounded_editor_def targeting_effect_def)
  from bounded_editor_ops [OF this, of ops] assms(2) show ?thesis
    by (simp add: bounded_editor_def)
qed

definition beta_flag :: flag where
  "beta_flag = [(''id'', JStr ''beta''), (''key'', JStr ''beta''), (''description'', JStr []), (''enabled'', JBool True),
     (''environment'', JStr ''Production''), (''targeting'', no_targeting)]"

definition dark_flag :: flag where
  "dark_flag = [(''id'', JStr ''dark''), (''key'', JStr ''dark''), (''description'', JStr []), (''enabled'', JBool True),
     (''environment'', JStr ''Production''), (''targeting'', no_targeting)]"

lemma example_flags [simp]:
  "flag_key beta_flag = JStr ''beta''" "flag_id beta_flag = JStr ''beta''" "flag_enabled beta_flag = JBool True"
  "flag_key dark_flag = JStr ''dark''" "flag_id dark_flag = JStr ''dark''" "flag_enabled dark_flag = JBool True"
  "targeting_of beta_flag = \<lparr>tusers = [], tsegments = [], rollout = JNum 0\<rparr>"
  by (simp_all add: beta_flag_def dark_flag_def flag_key_def flag_id_def flag_enabled_def targeting_of_def
      ofield_def no_targeting_def Let_def)

definition flag_st0 :: flag_st where
  "flag_st0 = flag_initial\<lparr>flags := [beta_flag, dark_flag], selectedFlagId := JStr ''beta''\<rparr>"

theorem targeting_no_duplicates_witness:
  "\<exists>t. targetingEdit (fold run_targeting_op
      [TypeKey ''u1'', PressKey ''Enter'', TypeKey '' u1 '', PressKey ''Enter'', ToggleSegment ''Pro Users'']
      (targeting_effect flag_st0)) = Some t \<and> tusers t = [JStr ''u1''] \<and> count_list (tsegments t) (JStr ''Pro Users'') \<le> 1"
proof -
  let ?s = "fold run_targeting_op
      [TypeKey ''u1'', PressKey ''Enter'', TypeKey '' u1 '', PressKey ''Enter'', ToggleSegment ''Pro Users'']
      (targeting_effect flag_st0)"
  have act: "activeFlag flag_st0 = Some beta_flag"
    by (simp add: activeFlag_def flag_st0_def)
  have run: "targetingEdit ?s = Some \<lparr>tusers = [JStr ''u1''], tsegments = [JStr ''Pro Users''], rollout = JNum 0\<rparr>"
    by (simp add: run_targeting_op_def setNewUserKey_def handleAddUserKey_def handleToggleSegment_def
        targeting_effect_def act trim_def trimEnd_def is_space_def char_code_def)
  from targeting_no_duplicates [OF act run, of "JStr ''u1''" "JStr ''Pro Users''"] run show ?thesis by simp
qed

text \<open>
  A segment click flips that segment and nothing else: membership is negated, every
  other segment, the user keys and the rollout stay, and a second click restores the set
  of segments.
\<close>

lemma segment_click_flips:
  assumes "targetingEdit s = Some t"
  shows "\<exists>t' t''. targetingEdit (handleToggleSegment g s) = Some t' \<and>
    targetingEdit (handleToggleSegment g (handleToggleSegment g s)) = Some t'' \<and>
    (JStr g \<in> set (tsegments t')) = (JStr g \<notin> set (tsegments t)) \<and>
    set (tsegments t') - {JStr g} = set (tsegments t) - {JStr g} \<and>
    set (tsegments t'') = set (tsegments t) \<and> tusers t' = tusers t \<and> rollout t' = rollout t"
  using assms by (auto simp: handleToggleSegment_def)

lemma segment_click_flips_instance:
  "\<exists>t'. targetingEdit (handleToggleSegment ''Pro Users'' (targeting_effect flag_st0)) = Some t' \<and>
     JStr ''Pro Users'' \<in> set (tsegments t')"
proof -
  have "targetingEdit (targeting_effect flag_st0) = Some \<lparr>tusers = [], tsegments = [], rollout = JNum 0\<rparr>"
    by (simp add: targeting_effect_def activeFlag_def flag_st0_def)
  from segment_click_flips [OF this, of "''Pro Users''"] show ?thesis by auto
qed

text \<open>
  C17. Saved rules come back: when the server answers a save with the rules it was sent, the
  flag holds them, the user is told, and opening the flag again shows exactly the rules
  that were edited.
\<close>

theorem targeting_round_trip:
  assumes "rollout t = JNum n" and "res_ok r" and "body_json r = Inr (JObj o')"
    and "ofield o' ''targeting'' = targeting_json t"
    and "find (\<lambda>f. flag_key f = k) fs = Some f"
    and "\<forall>g \<in> set fs. flag_id g = flag_key g" and "selectedFlagId (slice c) = k"
  shows "targetingEdit (targeting_effect (slice (on_targeting k fs (Reply r) c))) = Some t \<and>
    alerts (on_targeting k fs (Reply r) c) = alerts c @ [''Targeting rules saved successfully!'']"
proof -
  from find_SomeD [OF assms(5)] have f: "f \<in> set fs" "flag_key f = k" by simp_all
  then have mem: "k \<in> flag_key ` set fs" by blast
  let ?fs' = "map_at flag_key k (obj_set ''targeting'' (targeting_json t)) fs"
  have step: "on_targeting k fs (Reply r) c
      = alert ''Targeting rules saved successfully!'' (set_slice (\<lambda>s. s\<lparr>flags := ?fs'\<rparr>) c)"
    using assms(2-4) by (simp add: on_targeting_eval [OF mem] is_nullish_def ofield_def)
  have ids: "\<forall>g \<in> set ?fs'. flag_id g = flag_key g"
    using assms(6) by (auto simp: map_at_def)
  have "find (\<lambda>g. flag_id g = k) ?fs' = find (\<lambda>g. flag_key g = k) ?fs'"
    by (rule find_cong) (use ids in auto)
  also have "\<dots> = Some (obj_set ''targeting'' (targeting_json t) f)"
    by (subst find_map_at_same) (simp_all add: assms(5))
  finally have "activeFlag (slice (on_targeting k fs (Reply r) c)) = Some (obj_set ''targeting'' (targeting_json t) f)"
    by (simp add: step activeFlag_def assms(7))
  moreover have "targeting_of (obj_set ''targeting'' (targeting_json t) f) = t"
    using assms(1) by (simp add: targeting_of_def targeting_json_def Let_def js_or_def)
  ultimately show ?thesis by (simp add: step targeting_effect_def)
qed

definition flag_ctx0 :: flag_ctx where
  "flag_ctx0 = \<lparr>isAuthenticated = True, formData = [],
     nav = \<lparr>activePage = ''feature-flags'', selectedCollectionId = [], selectedScreenName = None, selectedClusterName = None\<rparr>,
     alerts = [], outbox = [], slice = flag_st0\<rparr>"

theorem targeting_round_trip_witness:
  "let t = \<lparr>tusers = [JStr ''u1''], tsegments = [], rollout = JNum 25\<rparr> in
   targetingEdit (targeting_effect (slice (on_targeting (JStr ''beta'') [beta_flag, dark_flag]
     (Reply (json_reply 200 (JObj [(''targeting'', targeting_json t)]))) flag_ctx0))) = Some t"
  using targeting_round_trip [of "\<lparr>tusers = [JStr ''u1''], tsegments = [], rollout = JNum 25\<rparr>" 25
      "json_reply 200 (JObj [(''targeting'', targeting_json \<lparr>tusers = [JStr ''u1''], tsegments = [], rollout = JNum 25\<rparr>)])"
      _ "JStr ''beta''" "[beta_flag, dark_flag]" beta_flag flag_ctx0]
  by (simp add: res_ok_def ofield_def flag_ctx0_def flag_st0_def)

text \<open>
  C39. Two switches at once lose one. The callback of a switch works on the list of flags the page
  showed when it was clicked: when two flags are switched before the first reply comes, the
  replies come in the order of the clicks and the second carries an object, the first flag shows
  its old state again, whatever the first reply was.
\<close>

theorem concurrent_toggle_lost:
  assumes "flag_key f1 \<noteq> flag_key f2" and "find (\<lambda>f. flag_key f = flag_key f1) (flags (slice c)) = Some f1"
    and "f2 \<in> set (flags (slice c))" and "body_json r2 = Inr (JObj o2)"
  shows "let d = handleToggleFlag h f2 (handleToggleFlag h f1 c); n = length (outbox c) in
    find (\<lambda>f. flag_key f = flag_key f1) (flags (slice
      (flag_resume (snd (outbox d ! Suc n)) (Reply r2) (flag_resume (snd (outbox d ! n)) (Reply r1) d)))) = Some f1"
proof -
  have key: "flag_key f2 \<in> flag_key ` set (flags (slice c))" using assms(3) by blast
  have "find (\<lambda>f. flag_key f = flag_key f1) (map_at flag_key (flag_key f2) (set_enabled v) (flags (slice c))) = Some f1" for v
    using assms(1,2) by (subst find_map_at_other) simp_all
  then show ?thesis
    using assms(4)
    by (simp add: handleToggleFlag_def issue_def flag_resume_def on_toggle_flag_eval [OF key] is_nullish_def nth_append Let_def)
qed

theorem concurrent_toggle_lost_witness:
  "let d = handleToggleFlag byte_host dark_flag (handleToggleFlag byte_host beta_flag flag_ctx0); n = length (outbox flag_ctx0) in
    find (\<lambda>f. flag_key f = JStr ''beta'') (flags (slice
      (flag_resume (snd (outbox d ! Suc n)) (Reply (json_reply 200 (JObj [(''enabled'', JBool False)])))
        (flag_resume (snd (outbox d ! n)) (Reply (json_reply 200 (JObj [(''enabled'', JBool False)]))) d)))) = Some beta_flag"
  using concurrent_toggle_lost [of beta_flag dark_flag flag_ctx0 "json_reply 200 (JObj [(''enabled'', JBool False)])"
      "[(''enabled'', JBool False)]" byte_host "json_reply 200 (JObj [(''enabled'', JBool False)])"]
  by (simp add: flag_ctx0_def flag_st0_def)

end
