(* ===== verification/Ops.thy ===== *)
theory Ops
  imports Ctx WebUrl
begin

text \<open>
  Background jobs and application settings (App.tsx): the job table of the system
  settings with retry and cancel, and the configuration the settings page edits and
  deploys.
\<close>

record ops_st =
  jobs :: "jv list"
  isLoadingJobs :: bool
  systemSubTab :: string
  appSubTab :: string
  settings :: obj

definition default_settings :: obj where
  "default_settings =
     [(''maintenance'', JStr ''false''), (''force_update'', JStr ''true''), (''push_notifs'', JStr ''true''),
      (''analytics'', JStr ''true''), (''min_ios_build'', JStr ''14.0.1''), (''min_android_sdk'', JStr ''23.0''),
      (''theme_override'', JStr ''Dark''),
      (''welcome_copy'', JStr ''Experience the next generation of spatial computing with Obsidian Pro. Secure, fast, and distributed at the edge.''),
      (''cta_button_text'', JStr ''Initialize Identity''), (''accent_color'', JStr ''#3b82f6''),
      (''disable_guest_signup'', JStr ''false''), (''biometric_enforcement'', JStr ''true'')]"

definition ops_initial :: ops_st where
  "ops_initial = \<lparr>jobs = [], isLoadingJobs = False, systemSubTab = ''keys'', appSubTab = ''general'',
     settings = default_settings\<rparr>"

datatype ops_k = KJobs | KJobAction string | KSettings | KSaveSettings

type_synonym ops_ctx = "(ops_st, ops_k) ctx"

section \<open>Jobs\<close>

definition loadJobs :: "host \<Rightarrow> ops_ctx \<Rightarrow> ops_ctx" where
  "loadJobs h c =
     issue GET (admin_api h @ ''/jobs'') None KJobs (set_slice (\<lambda>s. s\<lparr>isLoadingJobs := True\<rparr>) c)"

definition on_jobs :: "outcome \<Rightarrow> ops_ctx \<Rightarrow> ops_ctx" where
  "on_jobs out =
     run_chain
       (js_finally
         (js_catch
           (js_then
             (js_then (fetched out) (\<lambda>res.
               if \<not> res_ok res then js_throw (''HTTP error '' @ int_string (status res)) else res_json res))
             (\<lambda>data. js_modify (set_slice (\<lambda>s. s\<lparr>jobs := (if is_array data then arr_items data else [])\<rparr>))))
           console_error)
         (set_slice (\<lambda>s. s\<lparr>isLoadingJobs := False\<rparr>)))"

definition job_action_url :: "host \<Rightarrow> jv \<Rightarrow> string \<Rightarrow> string" where
  "job_action_url h i verb = admin_api h @ ''/jobs/'' @ encodeURIComponent (js_string i) @ ''/'' @ verb"

definition handleRetryJob :: "host \<Rightarrow> jv \<Rightarrow> ops_ctx \<Rightarrow> ops_ctx" where
  "handleRetryJob h i = issue POST (job_action_url h i ''retry'') None (KJobAction ''Failed to retry job'')"

definition handleCancelJob :: "host \<Rightarrow> jv \<Rightarrow> ops_ctx \<Rightarrow> ops_ctx" where
  "handleCancelJob h i = issue POST (job_action_url h i ''cancel'') None (KJobAction ''Failed to cancel job'')"

definition on_job_action :: "host \<Rightarrow> string \<Rightarrow> outcome \<Rightarrow> ops_ctx \<Rightarrow> ops_ctx" where
  "on_job_action h failure out =
     run_chain
       (js_catch
         (js_then (fetched out) (\<lambda>res.
           if res_ok res then js_modify (loadJobs h) else js_modify (alert failure)))
         console_error)"

text \<open>The row of a job: its texts and the buttons it offers.\<close>

datatype job_button = RetryButton | CancelButton

record job_row =
  jr_id :: string
  jr_user :: string
  jr_outcome :: "string + jv"
  jr_created :: string
  jr_buttons :: "job_button list"

text \<open>\<open>job.id.substring(0, 8)\<close> throws unless the identifier is a string.\<close>

definition job_row_of :: "host \<Rightarrow> jv \<Rightarrow> job_row res" where
  "job_row_of h job =
     (case oget job ''id'' of
        JStr i \<Rightarrow> Inr
          \<lparr>jr_id = take 8 i @ ''...'',
           jr_user = js_string (js_or (oget job ''user_id'') (JStr ''system'')),
           jr_outcome = (if truthy (oget job ''error'') then Inl (js_string (oget job ''error''))
                         else if truthy (oget job ''result'') then Inr (oget job ''result'')
                         else Inl ''-''),
           jr_created = (if truthy (oget job ''created_at'') then datetime_str h (oget job ''created_at'') else []),
           jr_buttons = (if oget job ''status'' = JStr ''failed'' then [RetryButton] else [])
             @ (if oget job ''status'' = JStr ''pending'' \<or> oget job ''status'' = JStr ''running'' then [CancelButton] else [])\<rparr>
      | _ \<Rightarrow> Inl ''job.id.substring is not a function'')"

definition setSystemSubTab :: "string \<Rightarrow> ops_ctx \<Rightarrow> ops_ctx" where
  "setSystemSubTab t = set_slice (\<lambda>s. s\<lparr>systemSubTab := t\<rparr>)"

definition setAppSubTab :: "string \<Rightarrow> ops_ctx \<Rightarrow> ops_ctx" where
  "setAppSubTab t = set_slice (\<lambda>s. s\<lparr>appSubTab := t\<rparr>)"

text \<open>The effect that loads the jobs when their tab is shown.\<close>

definition jobs_effect :: "host \<Rightarrow> ops_ctx \<Rightarrow> ops_ctx" where
  "jobs_effect h c =
     (if \<not> isAuthenticated c then c
      else if activePage (nav c) = ''system-settings'' \<and> systemSubTab (slice c) = ''jobs'' then loadJobs h c
      else c)"

section \<open>Settings\<close>

definition fetchSettings :: "host \<Rightarrow> ops_ctx \<Rightarrow> ops_ctx" where
  "fetchSettings h = issue GET (admin_api h @ ''/settings'') None KSettings"

definition on_settings :: "outcome \<Rightarrow> ops_ctx \<Rightarrow> ops_ctx" where
  "on_settings =
     guarded_loader (Some (\<lambda>_. ''Failed to fetch settings''))
       (store_slice (\<lambda>data. truthy data \<and> is_object data)
          (\<lambda>data s. s\<lparr>settings := obj_spread (settings s) (entries_of data)\<rparr>))"

definition setSetting :: "string \<Rightarrow> string \<Rightarrow> ops_ctx \<Rightarrow> ops_ctx" where
  "setSetting k v = set_slice (\<lambda>s. s\<lparr>settings := obj_set k (JStr v) (settings s)\<rparr>)"

definition setting_on :: "string \<Rightarrow> ops_st \<Rightarrow> bool" where
  "setting_on k s = (ofield (settings s) k = JStr ''true'')"

definition toggleSetting :: "string \<Rightarrow> ops_ctx \<Rightarrow> ops_ctx" where
  "toggleSetting k c = setSetting k (if setting_on k (slice c) then ''false'' else ''true'') c"

definition THEMES :: "string list" where
  "THEMES = [''Dark'', ''Light'', ''System'']"

text \<open>The settings the tabs have a field or a switch for; the theme is picked from a list.\<close>

definition setting_typed :: "string \<Rightarrow> string \<Rightarrow> string \<Rightarrow> bool" where
  "setting_typed tab k v =
     (tab = ''general'' \<and> (k \<in> {''min_ios_build'', ''min_android_sdk''} \<or> k = ''theme_override'' \<and> v \<in> set THEMES) \<or>
      tab = ''onboarding'' \<and> k \<in> {''welcome_copy'', ''cta_button_text'', ''accent_color''})"

definition setting_flipped :: "string \<Rightarrow> string \<Rightarrow> bool" where
  "setting_flipped tab k =
     (tab = ''general'' \<and> k \<in> {''maintenance'', ''force_update'', ''push_notifs'', ''analytics''} \<or>
      tab = ''auth'' \<and> k \<in> {''disable_guest_signup'', ''biometric_enforcement''})"

definition saveSettings :: "host \<Rightarrow> ops_ctx \<Rightarrow> ops_ctx" where
  "saveSettings h c = issue PUT (admin_api h @ ''/settings'') (Some (JObj (settings (slice c)))) KSaveSettings c"

definition on_save_settings :: "outcome \<Rightarrow> ops_ctx \<Rightarrow> ops_ctx" where
  "on_save_settings out =
     run_chain
       (js_catch
         (js_then (fetched out) (\<lambda>res.
           if res_ok res then js_modify (alert ''Configuration deployed successfully!'')
           else js_modify (alert ''Failed to deploy configuration.'')))
         (\<lambda>_. js_modify (alert ''Error deploying configuration.'')))"

definition ops_resume :: "host \<Rightarrow> ops_k \<Rightarrow> outcome \<Rightarrow> ops_ctx \<Rightarrow> ops_ctx" where
  "ops_resume h k out =
     (case k of
        KJobs \<Rightarrow> on_jobs out
      | KJobAction failure \<Rightarrow> on_job_action h failure out
      | KSettings \<Rightarrow> on_settings out
      | KSaveSettings \<Rightarrow> on_save_settings out)"

section \<open>What the callbacks come to\<close>

interpretation app_settings: quiet_loader on_settings
  unfolding on_settings_def by (rule quiet_store_slice)

lemma on_jobs_eval:
  "on_jobs out c =
     set_slice (\<lambda>s. s\<lparr>isLoadingJobs := False\<rparr>)
       (case out of
          NetErr _ \<Rightarrow> c
        | Reply r \<Rightarrow>
            if \<not> res_ok r then c
            else (case body_json r of
                    Inl _ \<Rightarrow> c
                  | Inr v \<Rightarrow> set_slice (\<lambda>s. s\<lparr>jobs := (if is_array v then arr_items v else [])\<rparr>) c))"
  by (auto simp: on_jobs_def console_error_def res_json_def chain_defs fetched_def split: outcome.splits sum.splits)

lemma on_settings_stored:
  "settings (slice (on_settings out c)) =
     (case loaded (Some (\<lambda>_. ''Failed to fetch settings'')) out of
        None \<Rightarrow> settings (slice c)
      | Some v \<Rightarrow> if truthy v \<and> is_object v then obj_spread (settings (slice c)) (entries_of v) else settings (slice c))"
  by (simp add: on_settings_def guarded_loader_eval store_slice_snd split: option.splits)

lemma json_value_strings:
  "(\<And>k v. (k, v) \<in> set kvs \<Longrightarrow> \<exists>s. v = JStr s) \<Longrightarrow> json_value (JObj kvs) = JObj kvs"
proof (induction kvs)
  case (Cons kv kvs)
  obtain k v where kv: "kv = (k, v)" by (cases kv)
  from Cons.prems obtain s where "v = JStr s" by (auto simp: kv)
  moreover have "json_value (JObj kvs) = JObj kvs" using Cons by auto
  ultimately show ?case by (simp add: kv)
qed simp

section \<open>Properties\<close>

text \<open>
  The job buttons follow the status: a job offers a retry exactly when it failed, a
  cancellation exactly when it is pending or running, and never both.
\<close>

lemma job_buttons_follow_status:
  assumes "job_row_of h job = Inr row"
  shows "(RetryButton \<in> set (jr_buttons row)) = (oget job ''status'' = JStr ''failed'') \<and>
    (CancelButton \<in> set (jr_buttons row)) = (oget job ''status'' \<in> {JStr ''pending'', JStr ''running''}) \<and>
    length (jr_buttons row) \<le> 1"
  using assms by (auto simp: job_row_of_def split: jv.splits)

lemma job_buttons_follow_status_instance:
  "\<exists>row. job_row_of byte_host (JObj [(''id'', JStr ''job-123456''), (''status'', JStr ''failed'')]) = Inr row \<and>
     RetryButton \<in> set (jr_buttons row) \<and> length (jr_buttons row) \<le> 1"
proof -
  obtain row where row: "job_row_of byte_host (JObj [(''id'', JStr ''job-123456''), (''status'', JStr ''failed'')]) = Inr row"
    by (simp add: job_row_of_def)
  from job_buttons_follow_status [OF row] row show ?thesis by simp
qed

text \<open>
  Deploying before loading overwrites the server. When the settings could not be read,
  the page shows the values built into the console, and deploying sends exactly those:
  whatever the server had is replaced.
\<close>

lemma unloaded_settings_are_deployed:
  assumes "settings (slice c) = default_settings" and "out = NetErr e \<or> (out = Reply r \<and> \<not> res_ok r)"
  shows "outbox (saveSettings h (on_settings out c)) = outbox c @
    [(\<lparr>rmethod = PUT, rurl = admin_api h @ ''/settings'', rbody = Some (JObj default_settings)\<rparr>, KSaveSettings)]"
proof -
  have "loaded (Some (\<lambda>_. ''Failed to fetch settings'')) out = None"
    using assms(2) by (auto simp: loaded_def)
  then have "settings (slice (on_settings out c)) = default_settings"
    by (simp add: on_settings_stored assms(1))
  moreover have "json_value (JObj default_settings) = JObj default_settings"
    by (rule json_value_strings) (auto simp: default_settings_def)
  ultimately show ?thesis by (simp add: saveSettings_def app_settings.quiet_outbox)
qed

definition ops_ctx0 :: ops_ctx where
  "ops_ctx0 = \<lparr>isAuthenticated = True, formData = [],
     nav = \<lparr>activePage = ''app-settings'', selectedCollectionId = [], selectedScreenName = None, selectedClusterName = None\<rparr>,
     alerts = [], outbox = [], slice = ops_initial\<rparr>"

lemma unloaded_settings_are_deployed_instance:
  "outbox (saveSettings byte_host (on_settings (Reply (json_reply 500 JNull)) ops_ctx0)) =
    [(\<lparr>rmethod = PUT, rurl = ''/admin/api/admin/settings'', rbody = Some (JObj default_settings)\<rparr>, KSaveSettings)]"
  using unloaded_settings_are_deployed [of ops_ctx0 "Reply (json_reply 500 JNull)" "[]" "json_reply 500 JNull" byte_host]
  by (simp add: ops_ctx0_def ops_initial_def res_ok_def)

text \<open>
  A switch changes its setting only, and twice is none: the switch shows the other
  position, every other setting stays, and switching a setting that is \<open>true\<close> or
  \<open>false\<close> back restores its value.
\<close>

lemma setting_switch:
  "setting_on k (slice (toggleSetting k c)) = (\<not> setting_on k (slice c)) \<and>
   (j \<noteq> k \<longrightarrow> ofield (settings (slice (toggleSetting k c))) j = ofield (settings (slice c)) j) \<and>
   (ofield (settings (slice c)) k \<in> {JStr ''true'', JStr ''false''} \<longrightarrow>
      ofield (settings (slice (toggleSetting k (toggleSetting k c)))) k = ofield (settings (slice c)) k)"
  by (auto simp: setting_on_def toggleSetting_def setSetting_def)

lemma setting_switch_instance:
  "ofield (settings (slice (toggleSetting ''analytics'' (toggleSetting ''analytics'' ops_ctx0)))) ''analytics'' = JStr ''true''"
  using setting_switch [of "''analytics''" ops_ctx0]
  by (simp add: ops_ctx0_def ops_initial_def default_settings_def ofield_def)

end
