(* ===== verification/KillSwitch.thy ===== *)
theory KillSwitch
  imports JsValue
begin

text \<open>
  components/KillSwitchControl.tsx: the control that kills and restores a screen or a
  section. Its local state, the guard that asks for a reason, and the life of the promise
  \<open>onToggle\<close> returns, as a step relation.
\<close>

record ks_control =
  reason :: string
  expiresIn :: string
  pending :: bool
  err :: "string option"

definition EXPIRY_OPTIONS :: "(string \<times> string) list" where
  "EXPIRY_OPTIONS = [(''15m'', ''15 min''), (''1h'', ''1 hour''), ([], ''forever'')]"

text \<open>The state of a control that is mounted with the kill switch \<open>current\<close>.\<close>

definition ks_mount :: "jv \<Rightarrow> ks_control" where
  "ks_mount current =
     \<lparr>reason = js_string (js_or (oget current ''reason'') (JStr [])), expiresIn = ''15m'', pending = False, err = None\<rparr>"

definition ks_active :: "jv \<Rightarrow> bool" where
  "ks_active current = truthy (oget current ''enabled'')"

text \<open>
  \<open>submit(next)\<close>: the new state and the arguments of the call to \<open>onToggle\<close>, if it is made.
\<close>

definition ks_submit :: "bool \<Rightarrow> ks_control \<Rightarrow> (bool \<times> string \<times> string) option \<times> ks_control" where
  "ks_submit next k =
     (if next \<and> trim (reason k) = []
      then (None, k\<lparr>err := Some ''reason is required when killing a screen''\<rparr>)
      else (Some (next, reason k, if next then expiresIn k else []), k\<lparr>err := None, pending := True\<rparr>))"

text \<open>The promise settles: with the message of the error, or without one.\<close>

definition ks_settle :: "string option \<Rightarrow> ks_control \<Rightarrow> ks_control" where
  "ks_settle failure k =
     (case failure of
        Some e \<Rightarrow> k\<lparr>err := Some e, pending := False\<rparr>
      | None \<Rightarrow> k\<lparr>pending := False\<rparr>)"

text \<open>What the control shows: the badge, the button and whether it can be pressed.\<close>

record ks_view =
  kv_killed :: bool
  kv_button :: string
  kv_disabled :: bool
  kv_expiry_choice :: bool
  kv_error :: "string option"

definition ks_render :: "jv \<Rightarrow> ks_control \<Rightarrow> ks_view" where
  "ks_render current k =
     \<lparr>kv_killed = ks_active current,
      kv_button = (if pending k then ''...'' else if ks_active current then ''Restore'' else ''Kill''),
      kv_disabled = pending k, kv_expiry_choice = (\<not> ks_active current), kv_error = err k\<rparr>"

section \<open>The life of a control\<close>

text \<open>
  A configuration is the kill switch the server last reported, the control, and the calls
  of \<open>onToggle\<close> that have not settled. The button is the one the view shows; a disabled
  button does nothing. The kill switch may change at any time, for the tree is reloaded.
\<close>

type_synonym ks_conf = "jv \<times> ks_control \<times> (bool \<times> string \<times> string) list"

inductive ks_step :: "ks_conf \<Rightarrow> ks_conf \<Rightarrow> bool" where
  type_reason: "ks_step (cur, k, calls) (cur, k\<lparr>reason := r\<rparr>, calls)"
| choose_expiry: "\<not> ks_active cur \<Longrightarrow> e \<in> fst ` set EXPIRY_OPTIONS \<Longrightarrow>
    ks_step (cur, k, calls) (cur, k\<lparr>expiresIn := e\<rparr>, calls)"
| refuse: "\<not> pending k \<Longrightarrow> ks_submit (\<not> ks_active cur) k = (None, k') \<Longrightarrow>
    ks_step (cur, k, calls) (cur, k', calls)"
| press: "\<not> pending k \<Longrightarrow> ks_submit (\<not> ks_active cur) k = (Some call, k') \<Longrightarrow>
    ks_step (cur, k, calls) (cur, k', calls @ [call])"
| settle: "ks_step (cur, k, a @ call # b) (cur, ks_settle f k, a @ b)"
| reload: "ks_step (cur, k, calls) (cur', k, calls)"

inductive ks_reach :: "jv \<Rightarrow> ks_conf \<Rightarrow> bool" for cur0 :: jv where
  mounted: "ks_reach cur0 (cur0, ks_mount cur0, [])"
| step: "ks_reach cur0 c \<Longrightarrow> ks_step c d \<Longrightarrow> ks_reach cur0 d"

inductive_cases ks_pressE: "ks_step (cur, k, calls) (cur', k', calls')"

inductive_simps ks_step_iff: "ks_step (cur, k, calls) d"

definition ks_ok :: "ks_conf \<Rightarrow> bool" where
  "ks_ok c =
     (case c of (cur, k, calls) \<Rightarrow>
        (pending k \<longleftrightarrow> calls \<noteq> []) \<and> length calls \<le> 1 \<and> expiresIn k \<in> fst ` set EXPIRY_OPTIONS \<and>
        (\<forall>(on, r, e) \<in> set calls. (on \<longrightarrow> trim r \<noteq> []) \<and> (\<not> on \<longrightarrow> e = []) \<and> e \<in> fst ` set EXPIRY_OPTIONS))"

lemma ks_submit_cases:
  "ks_submit on k = (None, k') \<Longrightarrow> on \<and> trim (reason k) = [] \<and> k' = k\<lparr>err := Some ''reason is required when killing a screen''\<rparr>"
  "ks_submit on k = (Some call, k') \<Longrightarrow>
     (on \<longrightarrow> trim (reason k) \<noteq> []) \<and> call = (on, reason k, if on then expiresIn k else []) \<and>
     k' = k\<lparr>err := None, pending := True\<rparr>"
  by (auto simp: ks_submit_def split: if_splits)

lemma ks_ok_step: "ks_step c d \<Longrightarrow> ks_ok c \<Longrightarrow> ks_ok d"
proof (induction rule: ks_step.induct)
  case (press k cur call k' calls)
  from press(1,3) have calls: "calls = []" and choice: "expiresIn k \<in> fst ` set EXPIRY_OPTIONS"
    by (auto simp: ks_ok_def)
  have none: "[] \<in> fst ` set EXPIRY_OPTIONS" by (simp add: EXPIRY_OPTIONS_def)
  from ks_submit_cases(2) [OF press(2)] show ?case
    using calls choice none by (simp add: ks_ok_def)
next
  case (refuse k cur k' calls)
  from ks_submit_cases(1) [OF refuse(2)] refuse(3) show ?case by (simp add: ks_ok_def)
next
  case (settle cur k a call b f)
  then show ?case by (cases f) (auto simp: ks_ok_def ks_settle_def)
qed (auto simp: ks_ok_def)

lemma ks_ok_reach: "ks_reach cur0 c \<Longrightarrow> ks_ok c"
proof (induction rule: ks_reach.induct)
  case mounted
  show ?case by (simp add: ks_ok_def ks_mount_def EXPIRY_OPTIONS_def)
next
  case (step c d)
  then show ?case by (blast intro: ks_ok_step)
qed

section \<open>Properties\<close>

text \<open>
  C19. The kill switch control is safe: in every reachable state at most one request is in
  flight, the button is disabled exactly while there is one, no kill is ever asked for
  without a reason, and a restore never carries an expiry.
\<close>

theorem kill_control_safe:
  assumes "ks_reach cur0 (cur, k, calls)"
  shows "length calls \<le> 1 \<and> (kv_disabled (ks_render cur k) \<longleftrightarrow> calls \<noteq> []) \<and>
    (\<forall>call \<in> set calls. case call of (on, r, e) \<Rightarrow> (on \<longrightarrow> trim r \<noteq> []) \<and> (\<not> on \<longrightarrow> e = []))"
  using ks_ok_reach [OF assms] by (auto simp: ks_ok_def ks_render_def)

theorem kill_control_safe_witness:
  "\<exists>k. ks_reach JUndef (JUndef, k, [(True, ''outage'', ''15m'')]) \<and> kv_disabled (ks_render JUndef k)"
proof -
  let ?k1 = "(ks_mount JUndef)\<lparr>reason := ''outage''\<rparr>"
  have r1: "ks_reach JUndef (JUndef, ?k1, [])"
    by (rule ks_reach.step [OF ks_reach.mounted ks_step.type_reason])
  have "ks_submit (\<not> ks_active JUndef) ?k1 = (Some (True, ''outage'', ''15m''), ?k1\<lparr>err := None, pending := True\<rparr>)"
    by (simp add: ks_submit_def ks_active_def ks_mount_def trim_def trimEnd_def is_space_def char_code_def)
  then have r2: "ks_reach JUndef (JUndef, ?k1\<lparr>err := None, pending := True\<rparr>, [(True, ''outage'', ''15m'')])"
    using ks_reach.step [OF r1] ks_step.press [of ?k1 JUndef _ _ "[]"] by (simp add: ks_mount_def)
  from kill_control_safe [OF r2] r2 show ?thesis by auto
qed

end
