(* ===== verification/Features.thy ===== *)
theory Features
  imports Ctx WebUrl AdminNav KillSwitch
begin

text \<open>
  The app features page (App.tsx): the tree of screens and feature clusters, the detail of
  the selected one, its caches, metrics and kill switches, and running a screen as a user.
  The controls of the kill switches are keyed by the section they stand for, \<open>None\<close> for
  the screen's own.
\<close>

record feature_tree =
  groups :: "jv list"
  orphan_actions :: "jv list"
  feature_clusters :: "jv list"

record feat_st =
  featureTree :: feature_tree
  featureTreeError :: "string option"
  featureTreeLoading :: bool
  dismissedOrphanBanner :: bool
  runAsUserId :: string
  runAsLocale :: string
  runAsResult :: jv
  runAsError :: "string option"
  runAsLoading :: bool
  cacheBusy :: "string option"
  cacheMsg :: "string option"
  observeMetrics :: jv
  observeLoading :: bool
  controls :: "(string option \<times> ks_control) list"

definition feat_initial :: feat_st where
  "feat_initial =
     \<lparr>featureTree = \<lparr>groups = [], orphan_actions = [], feature_clusters = []\<rparr>, featureTreeError = None,
      featureTreeLoading = False, dismissedOrphanBanner = False, runAsUserId = [], runAsLocale = [],
      runAsResult = JNull, runAsError = None, runAsLoading = False, cacheBusy = None, cacheMsg = None,
      observeMetrics = JNull, observeLoading = False, controls = []\<rparr>"

datatype feat_k = KFeatures bool | KRefreshFeatures | KObserve | KFlush string | KKill "string option" | KRunAs

type_synonym feat_ctx = "(feat_st, feat_k) ctx"

section \<open>The tree\<close>

definition start_tree_load :: "feat_k \<Rightarrow> host \<Rightarrow> feat_ctx \<Rightarrow> feat_ctx" where
  "start_tree_load k h c =
     issue GET (admin_api h @ ''/features'') None k
       (set_slice (\<lambda>s. s\<lparr>featureTreeLoading := True, featureTreeError := None\<rparr>) c)"

definition refreshFeatureTree :: "host \<Rightarrow> feat_ctx \<Rightarrow> feat_ctx" where
  "refreshFeatureTree = start_tree_load KRefreshFeatures"

text \<open>
  The load of the whole backend asks for the tree as well; its closure knows whether a
  screen was selected.
\<close>

definition fetchFeatures :: "host \<Rightarrow> feat_ctx \<Rightarrow> feat_ctx" where
  "fetchFeatures h c = start_tree_load (KFeatures (str_truthy (selectedScreenName (nav c)))) h c"

definition tree_of :: "jv \<Rightarrow> feature_tree" where
  "tree_of data =
     \<lparr>groups = arr_items (oget data ''groups''), orphan_actions = arr_items (oget data ''orphan_actions''),
      feature_clusters = arr_items (oget data ''feature_clusters'')\<rparr>"

definition set_tree :: "jv \<Rightarrow> (feat_st, feat_k, unit) act" where
  "set_tree data = js_modify (set_slice (\<lambda>s. s\<lparr>featureTree := tree_of data\<rparr>))"

definition features_failure :: "response \<Rightarrow> string" where
  "features_failure res = ''features '' @ int_string (status res)"

text \<open>\<open>err?.message || 'failed to fetch features'\<close>.\<close>

definition tree_error :: "string \<Rightarrow> (feat_st, feat_k, unit) act" where
  "tree_error e = js_modify (set_slice (\<lambda>s. s\<lparr>featureTreeError :=
     Some (if e = [] then ''failed to fetch features'' else e)\<rparr>))"

definition on_refresh_features :: "outcome \<Rightarrow> feat_ctx \<Rightarrow> feat_ctx" where
  "on_refresh_features out =
     run_chain
       (js_finally (js_catch (js_then (load_json (Some features_failure) out) set_tree) tree_error)
         (set_slice (\<lambda>s. s\<lparr>featureTreeLoading := False\<rparr>)))"

definition js_index0 :: "jv \<Rightarrow> jv" where
  "js_index0 v = (case v of JArr (x # _) \<Rightarrow> x | JStr (ch # _) \<Rightarrow> JStr [ch] | _ \<Rightarrow> JUndef)"

definition js_positive :: "jv \<Rightarrow> bool" where
  "js_positive v = (case v of JNum n \<Rightarrow> 0 < n | _ \<Rightarrow> False)"

text \<open>The first screen of the first group is selected unless a screen was.\<close>

definition select_first_screen :: "bool \<Rightarrow> jv \<Rightarrow> (feat_st, feat_k, unit) act" where
  "select_first_screen had data =
     (case groups (tree_of data) of
        [] \<Rightarrow> js_return ()
      | g # _ \<Rightarrow>
          if had then js_return ()
          else
            js_then (js_lift (js_get g ''screens'')) (\<lambda>screens.
            js_then (js_lift (js_get screens ''length'')) (\<lambda>n.
            if \<not> js_positive n then js_return ()
            else js_then (js_lift (js_get (js_index0 screens) ''name'')) (\<lambda>name.
              js_modify (\<lambda>c. c\<lparr>nav := (nav c)\<lparr>selectedScreenName := opt_string name\<rparr>\<rparr>)))))"

definition on_features :: "bool \<Rightarrow> outcome \<Rightarrow> feat_ctx \<Rightarrow> feat_ctx" where
  "on_features had out =
     run_chain
       (js_finally
         (js_catch
           (js_then (load_json (Some features_failure) out) (\<lambda>data.
             js_then (set_tree data) (\<lambda>_. select_first_screen had data)))
           tree_error)
         (set_slice (\<lambda>s. s\<lparr>featureTreeLoading := False\<rparr>)))"

section \<open>Selecting\<close>

definition selectScreen :: "string \<Rightarrow> feat_ctx \<Rightarrow> feat_ctx" where
  "selectScreen n c = c\<lparr>nav := (nav c)\<lparr>selectedScreenName := Some n, selectedClusterName := None\<rparr>\<rparr>"

definition selectCluster :: "string \<Rightarrow> feat_ctx \<Rightarrow> feat_ctx" where
  "selectCluster n c = c\<lparr>nav := (nav c)\<lparr>selectedClusterName := Some n, selectedScreenName := None\<rparr>\<rparr>"

text \<open>The detail pane: a cluster goes before a screen.\<close>

datatype feature_detail = ClusterDetail jv nat | ScreenDetail jv | NoDetail

definition orphan_count :: "jv \<Rightarrow> nat" where
  "orphan_count cluster =
     length (filter (\<lambda>a. truthy (oget a ''is_orphan'')) (arr_items (oget cluster ''actions'')))"

definition all_screens :: "feature_tree \<Rightarrow> jv list" where
  "all_screens t = concat (map (\<lambda>g. arr_items (oget g ''screens'')) (groups t))"

definition detail_pane :: "nav_st \<Rightarrow> feature_tree \<Rightarrow> feature_detail" where
  "detail_pane n t =
     (case (case selectedClusterName n of
              Some cn \<Rightarrow> find (\<lambda>c. oget c ''name'' = JStr cn) (feature_clusters t) | None \<Rightarrow> None) of
        Some c \<Rightarrow> ClusterDetail c (orphan_count c)
      | None \<Rightarrow>
          (case (case selectedScreenName n of
                   Some sn \<Rightarrow> find (\<lambda>s. oget s ''name'' = JStr sn) (all_screens t) | None \<Rightarrow> None) of
             Some s \<Rightarrow> ScreenDetail s
           | None \<Rightarrow> NoDetail))"

definition show_orphan_banner :: "feat_st \<Rightarrow> bool" where
  "show_orphan_banner s =
     (orphan_actions (featureTree s) \<noteq> [] \<and> \<not> dismissedOrphanBanner s \<and> feature_clusters (featureTree s) = [])"

definition dismissOrphans :: "feat_ctx \<Rightarrow> feat_ctx" where
  "dismissOrphans = set_slice (\<lambda>s. s\<lparr>dismissedOrphanBanner := True\<rparr>)"

section \<open>Metrics of a screen\<close>

text \<open>The effect of the observe panel, run when the session or the screen changes.\<close>

definition observe_effect :: "host \<Rightarrow> feat_ctx \<Rightarrow> feat_ctx" where
  "observe_effect h c =
     (if \<not> isAuthenticated c \<or> \<not> str_truthy (selectedScreenName (nav c))
      then set_slice (\<lambda>s. s\<lparr>observeMetrics := JNull\<rparr>) c
      else issue GET (admin_api h @ ''/features/screens/'' @ encodeURIComponent (the (selectedScreenName (nav c))) @ ''/metrics'')
             None KObserve (set_slice (\<lambda>s. s\<lparr>observeLoading := True\<rparr>) c))"

text \<open>\<open>if (!res.ok) throw new Error(await res.text() || `HTTP ${res.status}`)\<close>, then the body.\<close>

definition json_or_text_error :: "outcome \<Rightarrow> ('s, 'k, jv) act" where
  "json_or_text_error out =
     js_then (fetched out) (\<lambda>res.
       if \<not> res_ok res then
         js_then (res_text res) (\<lambda>t. js_throw (if t \<noteq> [] then t else ''HTTP '' @ int_string (status res)))
       else res_json res)"

definition on_observe :: "outcome \<Rightarrow> feat_ctx \<Rightarrow> feat_ctx" where
  "on_observe out =
     run_chain
       (js_finally
         (js_catch
           (js_then (json_or_text_error out) (\<lambda>data. js_modify (set_slice (\<lambda>s. s\<lparr>observeMetrics := data\<rparr>))))
           (\<lambda>_. js_modify (set_slice (\<lambda>s. s\<lparr>observeMetrics := JNull\<rparr>))))
         (set_slice (\<lambda>s. s\<lparr>observeLoading := False\<rparr>)))"

section \<open>Caches\<close>

definition screens_url :: "host \<Rightarrow> string" where
  "screens_url h = admin_api h @ ''/features/screens''"

definition section_path :: "string \<Rightarrow> string option \<Rightarrow> string list" where
  "section_path screen sec =
     (if str_truthy sec then [screen, ''sections'', the sec] else [screen])"

definition flush_url :: "host \<Rightarrow> string \<Rightarrow> string option \<Rightarrow> string" where
  "flush_url h screen sec =
     (if str_truthy sec
      then screens_url h @ ''/'' @ encodeURIComponent screen @ ''/sections/'' @ encodeURIComponent (the sec) @ ''/cache/invalidate''
      else screens_url h @ ''/'' @ encodeURIComponent screen @ ''/cache/invalidate'')"

definition flush_id :: "string \<Rightarrow> string option \<Rightarrow> string" where
  "flush_id screen sec = (if str_truthy sec then screen @ ''/'' @ the sec else screen)"

definition flushScreenCache :: "host \<Rightarrow> string \<Rightarrow> string option \<Rightarrow> feat_ctx \<Rightarrow> feat_ctx" where
  "flushScreenCache h screen sec c =
     issue POST (flush_url h screen sec) None (KFlush (flush_id screen sec))
       (set_slice (\<lambda>s. s\<lparr>cacheBusy := Some (flush_id screen sec), cacheMsg := None\<rparr>) c)"

definition opt_jv :: "string option \<Rightarrow> jv" where
  "opt_jv x = (case x of Some s \<Rightarrow> JStr s | None \<Rightarrow> JNull)"

text \<open>The button of a running flush is disabled.\<close>

definition flush_busy :: "jv \<Rightarrow> string option \<Rightarrow> feat_st \<Rightarrow> bool" where
  "flush_busy screen sec s =
     (case sec of
        None \<Rightarrow> opt_jv (cacheBusy s) = oget screen ''name''
      | Some key \<Rightarrow> cacheBusy s = Some (js_string (oget screen ''name'') @ ''/'' @ key))"

definition on_flush :: "string \<Rightarrow> outcome \<Rightarrow> feat_ctx \<Rightarrow> feat_ctx" where
  "on_flush i out =
     run_chain
       (js_finally
         (js_catch
           (js_then (json_or_text_error out) (\<lambda>data. js_modify (set_slice (\<lambda>s. s\<lparr>cacheMsg :=
              Some (''Flushed '' @ js_string (js_nullish (oget data ''flushed'') (JNum 0)) @ '' cache entries for '' @ i)\<rparr>))))
           (\<lambda>e. js_modify (set_slice (\<lambda>s. s\<lparr>cacheMsg := Some (''Failed: '' @ e)\<rparr>))))
         (set_slice (\<lambda>s. s\<lparr>cacheBusy := None\<rparr>)))"

section \<open>Kill switches\<close>

definition kill_url :: "host \<Rightarrow> string \<Rightarrow> string option \<Rightarrow> string" where
  "kill_url h screen sec =
     (if str_truthy sec
      then screens_url h @ ''/'' @ encodeURIComponent screen @ ''/sections/'' @ encodeURIComponent (the sec)
      else screens_url h @ ''/'' @ encodeURIComponent screen)"

definition kill_body :: "bool \<Rightarrow> string \<Rightarrow> string \<Rightarrow> obj" where
  "kill_body on why expires =
     [(''enabled'', JBool on), (''reason'', JStr why)] @ (if expires \<noteq> [] then [(''expires_in'', JStr expires)] else [])"

definition toggleKillSwitch :: "host \<Rightarrow> string \<Rightarrow> string option \<Rightarrow> bool \<times> string \<times> string \<Rightarrow> feat_ctx \<Rightarrow> feat_ctx" where
  "toggleKillSwitch h screen sec call c =
     (case call of (on, why, expires) \<Rightarrow>
        issue PATCH (kill_url h screen sec) (Some (JObj (kill_body on why expires))) (KKill sec) c)"

text \<open>
  The control of a section: the one on the page, or a new one mounted on its kill switch.
  React keeps a control as long as one with the same key stays on the page: after a render
  the controls are those of the pane, the ones that were there with the state they had.
\<close>

definition kill_state :: "jv \<Rightarrow> string option \<Rightarrow> jv" where
  "kill_state screen sec =
     (case sec of
        None \<Rightarrow> oget screen ''kill_switch''
      | Some key \<Rightarrow> oget (oget screen ''section_kill_switches'') key)"

definition control_of :: "jv \<Rightarrow> string option \<Rightarrow> feat_st \<Rightarrow> ks_control" where
  "control_of screen sec s =
     (case map_of (controls s) sec of Some k \<Rightarrow> k | None \<Rightarrow> ks_mount (kill_state screen sec))"

definition set_control :: "string option \<Rightarrow> ks_control \<Rightarrow> feat_st \<Rightarrow> feat_st" where
  "set_control sec k s = s\<lparr>controls := AList.update sec k (controls s)\<rparr>"

definition control_keys :: "feature_detail \<Rightarrow> string option list" where
  "control_keys pane =
     (case pane of
        ScreenDetail screen \<Rightarrow> None # map (\<lambda>sec. Some (js_string (oget sec ''key''))) (arr_items (oget screen ''sections''))
      | _ \<Rightarrow> [])"

definition pane_screen :: "feature_detail \<Rightarrow> jv" where
  "pane_screen pane = (case pane of ScreenDetail screen \<Rightarrow> screen | _ \<Rightarrow> JUndef)"

definition render_controls :: "feature_detail \<Rightarrow> feat_st \<Rightarrow> feat_st" where
  "render_controls pane s = s\<lparr>controls := map (\<lambda>key. (key, control_of (pane_screen pane) key s)) (control_keys pane)\<rparr>"

definition typeKillReason :: "jv \<Rightarrow> string option \<Rightarrow> string \<Rightarrow> feat_st \<Rightarrow> feat_st" where
  "typeKillReason screen sec r s = set_control sec ((control_of screen sec s)\<lparr>reason := r\<rparr>) s"

definition chooseExpiry :: "jv \<Rightarrow> string option \<Rightarrow> string \<Rightarrow> feat_st \<Rightarrow> feat_st" where
  "chooseExpiry screen sec e s = set_control sec ((control_of screen sec s)\<lparr>expiresIn := e\<rparr>) s"

text \<open>The button of a control: submits the other state of the kill switch unless it is disabled.\<close>

definition pressKill :: "host \<Rightarrow> jv \<Rightarrow> string option \<Rightarrow> feat_ctx \<Rightarrow> feat_ctx" where
  "pressKill h screen sec c =
     (let k = control_of screen sec (slice c) in
      if pending k then c
      else (case ks_submit (\<not> ks_active (kill_state screen sec)) k of
              (None, k') \<Rightarrow> set_slice (set_control sec k') c
            | (Some call, k') \<Rightarrow>
                toggleKillSwitch h (js_string (oget screen ''name'')) sec call (set_slice (set_control sec k') c)))"

definition settle_control :: "string option \<Rightarrow> string option \<Rightarrow> feat_st \<Rightarrow> feat_st" where
  "settle_control sec failure s =
     (case map_of (controls s) sec of
        Some k \<Rightarrow> set_control sec (ks_settle failure k) s
      | None \<Rightarrow> s)"

text \<open>
  The chain of the request, the reload of the tree, and the control's own \<open>catch\<close> and
  \<open>finally\<close>.
\<close>

definition on_kill :: "host \<Rightarrow> string option \<Rightarrow> outcome \<Rightarrow> feat_ctx \<Rightarrow> feat_ctx" where
  "on_kill h sec out =
     run_chain
       (js_catch
         (js_then (js_then (json_or_text_error out) (\<lambda>_. js_modify (refreshFeatureTree h)))
           (\<lambda>_. js_modify (set_slice (settle_control sec None))))
         (\<lambda>e. js_modify (set_slice (settle_control sec (Some e)))))"

section \<open>Running a screen as a user\<close>

definition setRunAsUser :: "string \<Rightarrow> feat_ctx \<Rightarrow> feat_ctx" where
  "setRunAsUser v = set_slice (\<lambda>s. s\<lparr>runAsUserId := v\<rparr>)"

definition setRunAsLocale :: "string \<Rightarrow> feat_ctx \<Rightarrow> feat_ctx" where
  "setRunAsLocale v = set_slice (\<lambda>s. s\<lparr>runAsLocale := v\<rparr>)"

definition run_as_body :: "feat_st \<Rightarrow> obj" where
  "run_as_body s =
     (if trim (runAsUserId s) \<noteq> [] then [(''user_id'', JStr (trim (runAsUserId s)))] else [])
     @ (if trim (runAsLocale s) \<noteq> [] then [(''locale'', JStr (trim (runAsLocale s)))] else [])"

definition handleRunAs :: "host \<Rightarrow> string \<Rightarrow> feat_ctx \<Rightarrow> feat_ctx" where
  "handleRunAs h screen c =
     issue POST (screens_url h @ ''/'' @ encodeURIComponent screen @ ''/run-as'') (Some (JObj (run_as_body (slice c)))) KRunAs
       (set_slice (\<lambda>s. s\<lparr>runAsLoading := True, runAsError := None, runAsResult := JNull\<rparr>) c)"

text \<open>\<open>JSON.parse(text)\<close> is the JSON body of the reply; text that is none is kept raw.\<close>

definition on_run_as :: "outcome \<Rightarrow> feat_ctx \<Rightarrow> feat_ctx" where
  "on_run_as out =
     run_chain
       (js_finally
         (js_catch
           (js_then (fetched out) (\<lambda>res.
            js_then (res_text res) (\<lambda>text.
            js_then
              (if \<not> res_ok res then js_throw (if text \<noteq> [] then text else ''HTTP '' @ int_string (status res))
               else js_return (case body_json res of Inr v \<Rightarrow> v | Inl _ \<Rightarrow> JObj [(''raw'', JStr text)]))
              (\<lambda>data. js_modify (set_slice (\<lambda>s. s\<lparr>runAsResult := data\<rparr>))))))
           (\<lambda>e. js_modify (set_slice (\<lambda>s. s\<lparr>runAsError := Some e\<rparr>))))
         (set_slice (\<lambda>s. s\<lparr>runAsLoading := False\<rparr>)))"

text \<open>The effect run when another screen is selected.\<close>

definition run_as_reset :: "feat_st \<Rightarrow> feat_st" where
  "run_as_reset s = s\<lparr>runAsResult := JNull, runAsError := None\<rparr>"

definition feat_resume :: "host \<Rightarrow> feat_k \<Rightarrow> outcome \<Rightarrow> feat_ctx \<Rightarrow> feat_ctx" where
  "feat_resume h k out =
     (case k of
        KFeatures had \<Rightarrow> on_features had out
      | KRefreshFeatures \<Rightarrow> on_refresh_features out
      | KObserve \<Rightarrow> on_observe out
      | KFlush i \<Rightarrow> on_flush i out
      | KKill sec \<Rightarrow> on_kill h sec out
      | KRunAs \<Rightarrow> on_run_as out)"

section \<open>What the callbacks come to\<close>

lemma on_features_tree:
  "featureTree (slice (on_features had out c)) =
     (case loaded (Some features_failure) out of None \<Rightarrow> featureTree (slice c) | Some v \<Rightarrow> tree_of v)"
  "featureTreeLoading (slice (on_features had out c)) = False"
  "isAuthenticated (on_features had out c) = (isAuthenticated c \<and> \<not> unauthorized out)"
  "outbox (on_features had out c) = outbox c"
  by (auto simp: on_features_def load_json_def guard_session_def clearAuthIfUnauthorized_def res_json_def loaded_def
      unauthorized_def set_tree_def tree_error_def select_first_screen_def chain_defs fetched_def
      split: outcome.splits sum.splits list.splits)

lemma json_or_text_error_fail:
  "json_or_text_error (NetErr e) c = (Inl e, c)"
  "json_or_text_error (Reply r) c =
     (if res_ok r then (body_json r, c)
      else (case body_text r of
              Inl e \<Rightarrow> (Inl e, c)
            | Inr t \<Rightarrow> (Inl (if t \<noteq> [] then t else ''HTTP '' @ int_string (status r)), c)))"
  by (auto simp: json_or_text_error_def res_text_def res_json_def chain_defs fetched_def split: sum.splits)

lemma on_observe_eval:
  "on_observe out c = set_slice (\<lambda>s. s\<lparr>observeLoading := False,
     observeMetrics := (case out of Reply r \<Rightarrow> if res_ok r then (case body_json r of Inr v \<Rightarrow> v | Inl _ \<Rightarrow> JNull) else JNull
                        | NetErr _ \<Rightarrow> JNull)\<rparr>) c"
  by (auto simp: on_observe_def run_chain_def js_finally_def js_catch_def js_then_def js_modify_def set_slice_def
      json_or_text_error_fail split: outcome.splits sum.splits)

lemma encode_sections [simp]: "encodeURIComponent ''sections'' = ''sections''"
  unfolding encodeURIComponent_def
  by (rule encode_with_id) (auto simp: component_char_def is_alnum_def char_code_def)

lemma encode_cache [simp]: "encodeURIComponent ''cache'' = ''cache''" "encodeURIComponent ''invalidate'' = ''invalidate''"
  unfolding encodeURIComponent_def
  by (rule encode_with_id, auto simp: component_char_def is_alnum_def char_code_def)+

lemma kill_url_path: "kill_url h screen sec = path_url (screens_url h) (section_path screen sec)"
  by (simp add: kill_url_def path_url_def section_path_def)

lemma flush_url_path: "flush_url h screen sec = path_url (screens_url h) (section_path screen sec @ [''cache'', ''invalidate''])"
  by (simp add: flush_url_def path_url_def section_path_def)

section \<open>Properties\<close>

definition plain_section :: "string option \<Rightarrow> bool" where
  "plain_section sec = (case sec of None \<Rightarrow> True | Some n \<Rightarrow> plain_name n)"

lemma plain_section_path:
  "plain_name screen \<Longrightarrow> plain_section sec \<Longrightarrow> list_all plain_name (section_path screen sec)"
  "section_path screen sec \<noteq> []"
  by (auto simp: section_path_def plain_section_def plain_name_def str_truthy_def)

lemma plain_screens_url: "plain_path (admin_api h) \<Longrightarrow> plain_path (screens_url h)"
  by (simp add: plain_path_def screens_url_def)

text \<open>
  C25. Kill switch and cache requests reach what was clicked: for a base without question mark and
  hash, and unless a screen or a section is called \<open>.\<close> or \<open>..\<close>, two such requests are
  sent to the same path only if they are of the same kind and name the same screen and the same
  section, whatever other characters the names hold.
\<close>

theorem feature_urls_distinct:
  assumes "plain_path (admin_api h)" and "plain_name s1" and "plain_name s2" and "plain_section y1" and "plain_section y2"
  shows "(fetch_path (kill_url h s1 y1) = fetch_path (kill_url h s2 y2) \<longleftrightarrow>
      s1 = s2 \<and> (if str_truthy y1 then y2 = y1 else \<not> str_truthy y2)) \<and>
   (fetch_path (flush_url h s1 y1) = fetch_path (flush_url h s2 y2) \<longleftrightarrow>
      s1 = s2 \<and> (if str_truthy y1 then y2 = y1 else \<not> str_truthy y2)) \<and>
   fetch_path (kill_url h s1 y1) \<noteq> fetch_path (flush_url h s2 y2)"
proof -
  note paths = plain_section_path(1) [OF assms(2,4)] plain_section_path(1) [OF assms(3,5)] plain_section_path(2)
  have cache: "list_all plain_name (section_path s y @ [''cache'', ''invalidate''])" if "list_all plain_name (section_path s y)" for s y
    using that by (simp add: plain_name_def)
  note inj = fetch_path_inj [OF plain_screens_url [OF assms(1)]]
  have "fetch_path (kill_url h s1 y1) = fetch_path (kill_url h s2 y2) \<longleftrightarrow> section_path s1 y1 = section_path s2 y2"
    using paths by (simp add: kill_url_path inj)
  moreover have "fetch_path (flush_url h s1 y1) = fetch_path (flush_url h s2 y2) \<longleftrightarrow> section_path s1 y1 = section_path s2 y2"
    using paths cache by (simp only: flush_url_path inj append_is_Nil_conv simp_thms) simp
  moreover have "fetch_path (kill_url h s1 y1) = fetch_path (flush_url h s2 y2) \<longleftrightarrow>
      section_path s1 y1 = section_path s2 y2 @ [''cache'', ''invalidate'']"
    using paths cache by (simp only: kill_url_path flush_url_path inj append_is_Nil_conv simp_thms)
  ultimately show ?thesis by (auto simp: section_path_def str_truthy_def)
qed

theorem feature_urls_distinct_witness:
  "fetch_path (kill_url byte_host ''home'' (Some ''feed'')) \<noteq> fetch_path (flush_url byte_host ''a/b'' None)"
  using feature_urls_distinct [of byte_host "''home''" "''a/b''" "Some ''feed''" None]
  by (simp add: plain_path_def plain_name_def plain_section_def)

text \<open>A section called \<open>..\<close> is flushed as the whole screen.\<close>

lemma dots_flush_the_screen:
  "fetch_path (flush_url byte_host ''home'' (Some ''..'')) = fetch_path (flush_url byte_host ''home'' None)"
  by code_simp

text \<open>
  Pressing the button of a kill switch sends exactly one request, for that screen and
  section, with the reason typed, or, when a kill has no reason, none; a control whose
  request is in flight sends nothing.
\<close>

lemma press_kill_sends_one:
  "outbox (pressKill h screen sec c) =
     (let k = control_of screen sec (slice c); on = (\<not> ks_active (kill_state screen sec)) in
      if pending k \<or> (on \<and> trim (reason k) = []) then outbox c
      else outbox c @
        [(\<lparr>rmethod = PATCH, rurl = kill_url h (js_string (oget screen ''name'')) sec,
           rbody = Some (JObj ([(''enabled'', JBool on), (''reason'', JStr (reason k))]
             @ (if on \<and> expiresIn k \<noteq> [] then [(''expires_in'', JStr (expiresIn k))] else [])))\<rparr>, KKill sec)])"
  by (auto simp: pressKill_def ks_submit_def toggleKillSwitch_def kill_body_def Let_def)

text \<open>
  The reason follows to the next screen. The control of the screen's own kill switch is
  not keyed by the screen: when the pane goes from one screen to another, the control keeps
  the reason typed for the first, and pressing it kills the second screen with that reason.
\<close>

lemma kill_reason_follows_screen:
  assumes "map_of (controls (slice c)) None = Some k" and "\<not> pending k" and "trim (reason k) \<noteq> []"
    and "\<not> ks_active (oget screen ''kill_switch'')"
  shows "\<exists>req. outbox (pressKill h screen None (set_slice (render_controls (ScreenDetail screen)) c)) = outbox c @ [(req, KKill None)] \<and>
    rurl req = kill_url h (js_string (oget screen ''name'')) None \<and>
    (\<exists>rest. rbody req = Some (JObj ((''enabled'', JBool True) # (''reason'', JStr (reason k)) # rest)))"
proof -
  have "control_of screen None (render_controls (ScreenDetail screen) (slice c)) = k"
    using assms(1) by (simp add: control_of_def render_controls_def control_keys_def)
  then show ?thesis
    using assms(2-4)
    by (simp add: pressKill_def ks_submit_def toggleKillSwitch_def kill_body_def kill_state_def)
qed

definition home_screen :: jv where
  "home_screen = JObj [(''name'', JStr ''home''), (''sections'', JArr [])]"

definition shop_screen :: jv where
  "shop_screen = JObj [(''name'', JStr ''shop''), (''sections'', JArr [])]"

definition feat_ctx0 :: feat_ctx where
  "feat_ctx0 = \<lparr>isAuthenticated = True, formData = [],
     nav = \<lparr>activePage = ''app-features'', selectedCollectionId = [], selectedScreenName = None, selectedClusterName = None\<rparr>,
     alerts = [], outbox = [],
     slice = typeKillReason home_screen None ''home is broken'' (render_controls (ScreenDetail home_screen) feat_initial)\<rparr>"

lemma kill_reason_follows_screen_instance:
  "\<exists>req rest. outbox (pressKill byte_host shop_screen None (set_slice (render_controls (ScreenDetail shop_screen)) feat_ctx0))
     = [(req, KKill None)] \<and>
   rbody req = Some (JObj ((''enabled'', JBool True) # (''reason'', JStr ''home is broken'') # rest))"
proof -
  let ?k = "(ks_mount JUndef)\<lparr>reason := ''home is broken''\<rparr>"
  have k: "map_of (controls (slice feat_ctx0)) None = Some ?k"
    by (simp add: feat_ctx0_def typeKillReason_def set_control_def control_of_def render_controls_def control_keys_def
        pane_screen_def kill_state_def home_screen_def feat_initial_def)
  have "trim ''home is broken'' \<noteq> []"
    by (simp add: trim_def trimEnd_def is_space_def char_code_def)
  then have "trim (reason ?k) \<noteq> []" by simp
  from kill_reason_follows_screen [OF k _ this, of shop_screen byte_host] show ?thesis
    by (auto simp: ks_mount_def ks_active_def shop_screen_def feat_ctx0_def)
qed

text \<open>
  A tree that arrives late splits the selection. When a cluster was selected from the
  menu while the tree was loading, the reply selects the first screen as well: the pane
  shows the cluster, while the pin of the page stands for the screen.
\<close>

lemma late_tree_splits_selection:
  assumes "res_ok r" and "body_json r = Inr data"
    and "groups (tree_of data) = g # gs" and "oget g ''screens'' = JArr (s # ss)" and "oget s ''name'' = JStr sn" and "sn \<noteq> []"
    and "find (\<lambda>c. oget c ''name'' = JStr cn) (feature_clusters (tree_of data)) = Some cluster"
    and "selectedClusterName (nav c) = Some cn"
  shows "detail_pane (nav (on_features False (Reply r) c)) (featureTree (slice (on_features False (Reply r) c)))
      = ClusterDetail cluster (orphan_count cluster) \<and>
    selectedScreenName (nav (on_features False (Reply r) c)) = Some sn \<and>
    selectedClusterName (nav (on_features False (Reply r) c)) = Some cn"
proof -
  have "\<not> is_nullish g" "\<not> is_nullish s"
    using assms(4,5) by (auto simp: oget_def split: if_splits)
  moreover have "jprop g ''screens'' = JArr (s # ss)" "jprop s ''name'' = JStr sn"
    using assms(4,5) by (auto simp: oget_def split: if_splits)
  ultimately have sel: "nav (on_features False (Reply r) c) = (nav c)\<lparr>selectedScreenName := Some sn\<rparr>"
    using assms(1-3) res_ok_status [OF assms(1)]
    by (simp add: on_features_def load_json_def guard_session_def clearAuthIfUnauthorized_def res_json_def set_tree_def
        select_first_screen_def chain_defs fetched_def js_get_def is_nullish_def js_index0_def js_positive_def opt_string_def)
  have "featureTree (slice (on_features False (Reply r) c)) = tree_of data"
    using assms(1,2) res_ok_status [OF assms(1)] by (simp add: on_features_tree loaded_def)
  with sel assms(7,8) show ?thesis by (simp add: detail_pane_def)
qed

definition small_tree :: jv where
  "small_tree = JObj
     [(''groups'', JArr [JObj [(''name'', JStr ''main''), (''screens'', JArr [home_screen])]]),
      (''feature_clusters'', JArr [JObj [(''name'', JStr ''auth''), (''actions'', JArr [])]])]"

lemma late_tree_splits_selection_instance:
  "selectedScreenName (nav (on_features False (Reply (json_reply 200 small_tree))
     (selectCluster ''auth'' feat_ctx0))) = Some ''home''"
  using late_tree_splits_selection [of "json_reply 200 small_tree" small_tree
      "JObj [(''name'', JStr ''main''), (''screens'', JArr [home_screen])]" "[]" home_screen "[]" "''home''" "''auth''"
      "JObj [(''name'', JStr ''auth''), (''actions'', JArr [])]" "selectCluster ''auth'' feat_ctx0"]
  by (simp add: res_ok_def small_tree_def tree_of_def selectCluster_def) (simp add: home_screen_def)

text \<open>
  The metrics panel shows the last reply, whichever screen it was for: after another
  screen was selected, the reply of the first one is stored, and no reply ends the session,
  not even a 401.
\<close>

lemma observe_ignores_screen_and_session:
  assumes "res_ok r" and "body_json r = Inr v"
  shows "observeMetrics (slice (on_observe (Reply r) (selectScreen n c))) = v \<and>
    selectedScreenName (nav (on_observe (Reply r) (selectScreen n c))) = Some n \<and>
    isAuthenticated (on_observe out c) = isAuthenticated c"
  using assms by (simp add: on_observe_eval selectScreen_def)

lemma observe_ignores_screen_and_session_instance:
  "observeMetrics (slice (on_observe (Reply (json_reply 200 (JObj [(''screen'', JStr ''home'')]))) (selectScreen ''shop'' feat_ctx0)))
   = JObj [(''screen'', JStr ''home'')]"
  using observe_ignores_screen_and_session [of "json_reply 200 (JObj [(''screen'', JStr ''home'')])" "JObj [(''screen'', JStr ''home'')]" "''shop''" feat_ctx0]
  by (simp add: res_ok_def)

end
