(* ===== verification/AppState.thy ===== *)
theory AppState
  imports IdleSession Session Telemetry Records Users Admins Flags Ops Features
begin

text \<open>
  The state of App.tsx as a whole and its effects. A component runs inside the whole by
  \<open>zoom\<close>; its slice is addressed by a lens. After every change React renders and runs the
  effects whose dependencies changed since the last commit, in the order of the source;
  the effects see the state as it was rendered.
\<close>

section \<open>Lenses\<close>

text \<open>
  The contract of a part of a larger state. The client's lemmas: a component's contract
  holds of the component inside the whole.
\<close>

locale part_lens =
  fixes get :: "'b \<Rightarrow> 's" and put :: "'s \<Rightarrow> 'b \<Rightarrow> 'b"
  assumes get_put: "get (put s b) = s"
    and put_get: "put (get b) b = b"
    and put_put: "put s (put t b) = put s b"
begin

lemma zoom_guarded:
  assumes "session_guarded handler"
  shows "session_guarded (\<lambda>out. zoom get put wrap (handler out))"
  by unfold_locales
    (simp_all add: zoom_simps session_guarded.auth_law [OF assms] session_guarded.form_law [OF assms])

lemma zoom_quiet:
  assumes "quiet_loader handler"
  shows "quiet_loader (\<lambda>out. zoom get put wrap (handler out))"
proof -
  have g: "session_guarded handler" using assms by (rule quiet_loader.axioms(1))
  show ?thesis
    by unfold_locales
      (simp_all add: zoom_simps session_guarded.auth_law [OF g] session_guarded.form_law [OF g]
        quiet_loader.quiet_alerts [OF assms] quiet_loader.quiet_outbox [OF assms] quiet_loader.quiet_nav [OF assms]
        quiet_loader.failure_keeps [OF assms] put_get)
qed

lemma zoom_slice: "get (slice (zoom get put wrap f c)) = slice (f (zoom_in get c))"
  by (simp add: zoom_simps get_put)

text \<open>Two runs of the component in the whole are a run of the two in the component, if it only adds requests.\<close>

lemma zoom_zoom_slice:
  "get (slice (zoom get put wrap f (zoom get put wrap g c))) = slice (f ((g (zoom_in get c))\<lparr>outbox := []\<rparr>))"
proof -
  have "zoom_in get (zoom get put wrap g c) = (g (zoom_in get c))\<lparr>outbox := []\<rparr>"
    by (simp add: zoom_in_def zoom_simps get_put)
  then show ?thesis by (simp add: zoom_slice)
qed

end

section \<open>The whole state\<close>

record app_st =
  session_part :: session_st
  tel_part :: tel_st
  ex_part :: ex_st
  user_part :: user_st
  admin_part :: admin_st
  flag_part :: flag_st
  ops_part :: ops_st
  feat_part :: feat_st

text \<open>
  What the effects depend on. A \<open>useState\<close> object is compared as an object by React: for
  the query that is its version; the other objects are compared by value here.
\<close>

record deps =
  d_theme :: string
  d_collection :: string
  d_screen :: "string option"
  d_auth :: bool
  d_idle :: idle_opts
  d_page :: string
  d_tab :: string
  d_query :: nat
  d_providers :: jv
  d_user :: jv
  d_flag :: "flag option"

text \<open>
  The parts outside the components: the theme, the resources the effects hold (the two
  intervals, the event stream, the idle hook with its clock), and the dependencies of the
  last commit.
\<close>

record app_full = app_st +
  theme :: string
  dark_class :: bool
  keepalive_armed :: bool
  poll_armed :: bool
  sse_open :: bool
  idle_part :: idle_st
  clock :: int
  committed :: "deps option"

datatype app_k = SessionK session_k | TelK tel_k | ExK ex_k | UserK user_k | AdminK admin_k | FlagK flag_k
  | OpsK ops_k | FeatK feat_k

type_synonym app_ctx = "(app_full, app_k) ctx"

definition put_session :: "session_st \<Rightarrow> app_full \<Rightarrow> app_full" where "put_session s b = b\<lparr>session_part := s\<rparr>"
definition put_tel :: "tel_st \<Rightarrow> app_full \<Rightarrow> app_full" where "put_tel s b = b\<lparr>tel_part := s\<rparr>"
definition put_ex :: "ex_st \<Rightarrow> app_full \<Rightarrow> app_full" where "put_ex s b = b\<lparr>ex_part := s\<rparr>"
definition put_user :: "user_st \<Rightarrow> app_full \<Rightarrow> app_full" where "put_user s b = b\<lparr>user_part := s\<rparr>"
definition put_admin :: "admin_st \<Rightarrow> app_full \<Rightarrow> app_full" where "put_admin s b = b\<lparr>admin_part := s\<rparr>"
definition put_flag :: "flag_st \<Rightarrow> app_full \<Rightarrow> app_full" where "put_flag s b = b\<lparr>flag_part := s\<rparr>"
definition put_ops :: "ops_st \<Rightarrow> app_full \<Rightarrow> app_full" where "put_ops s b = b\<lparr>ops_part := s\<rparr>"
definition put_feat :: "feat_st \<Rightarrow> app_full \<Rightarrow> app_full" where "put_feat s b = b\<lparr>feat_part := s\<rparr>"

lemmas put_defs = put_session_def put_tel_def put_ex_def put_user_def put_admin_def put_flag_def put_ops_def put_feat_def

interpretation session_lens: part_lens session_part put_session by unfold_locales (simp_all add: put_defs)
interpretation tel_lens: part_lens tel_part put_tel by unfold_locales (simp_all add: put_defs)
interpretation ex_lens: part_lens ex_part put_ex by unfold_locales (simp_all add: put_defs)
interpretation user_lens: part_lens user_part put_user by unfold_locales (simp_all add: put_defs)
interpretation admin_lens: part_lens admin_part put_admin by unfold_locales (simp_all add: put_defs)
interpretation flag_lens: part_lens flag_part put_flag by unfold_locales (simp_all add: put_defs)
interpretation ops_lens: part_lens ops_part put_ops by unfold_locales (simp_all add: put_defs)
interpretation feat_lens: part_lens feat_part put_feat by unfold_locales (simp_all add: put_defs)

definition in_session :: "(session_ctx \<Rightarrow> session_ctx) \<Rightarrow> app_ctx \<Rightarrow> app_ctx" where
  "in_session = zoom session_part put_session SessionK"
definition in_tel :: "(tel_ctx \<Rightarrow> tel_ctx) \<Rightarrow> app_ctx \<Rightarrow> app_ctx" where
  "in_tel = zoom tel_part put_tel TelK"
definition in_ex :: "(ex_ctx \<Rightarrow> ex_ctx) \<Rightarrow> app_ctx \<Rightarrow> app_ctx" where
  "in_ex = zoom ex_part put_ex ExK"
definition in_user :: "(user_ctx \<Rightarrow> user_ctx) \<Rightarrow> app_ctx \<Rightarrow> app_ctx" where
  "in_user = zoom user_part put_user UserK"
definition in_admin :: "(admin_ctx \<Rightarrow> admin_ctx) \<Rightarrow> app_ctx \<Rightarrow> app_ctx" where
  "in_admin = zoom admin_part put_admin AdminK"
definition in_flag :: "(flag_ctx \<Rightarrow> flag_ctx) \<Rightarrow> app_ctx \<Rightarrow> app_ctx" where
  "in_flag = zoom flag_part put_flag FlagK"
definition in_ops :: "(ops_ctx \<Rightarrow> ops_ctx) \<Rightarrow> app_ctx \<Rightarrow> app_ctx" where
  "in_ops = zoom ops_part put_ops OpsK"
definition in_feat :: "(feat_ctx \<Rightarrow> feat_ctx) \<Rightarrow> app_ctx \<Rightarrow> app_ctx" where
  "in_feat = zoom feat_part put_feat FeatK"

lemmas in_defs = in_session_def in_tel_def in_ex_def in_user_def in_admin_def in_flag_def in_ops_def in_feat_def

text \<open>What a component's operation does to the whole, field by field.\<close>

lemmas in_simps = zoom_simps [where get = session_part and put = put_session and wrap = SessionK, folded in_session_def]
  zoom_simps [where get = tel_part and put = put_tel and wrap = TelK, folded in_tel_def]
  zoom_simps [where get = ex_part and put = put_ex and wrap = ExK, folded in_ex_def]
  zoom_simps [where get = user_part and put = put_user and wrap = UserK, folded in_user_def]
  zoom_simps [where get = admin_part and put = put_admin and wrap = AdminK, folded in_admin_def]
  zoom_simps [where get = flag_part and put = put_flag and wrap = FlagK, folded in_flag_def]
  zoom_simps [where get = ops_part and put = put_ops and wrap = OpsK, folded in_ops_def]
  zoom_simps [where get = feat_part and put = put_feat and wrap = FeatK, folded in_feat_def]

section \<open>Settling a reply\<close>

definition app_resume :: "host \<Rightarrow> app_k \<Rightarrow> outcome \<Rightarrow> app_ctx \<Rightarrow> app_ctx" where
  "app_resume h k out =
     (case k of
        SessionK j \<Rightarrow> in_session (session_resume j out)
      | TelK j \<Rightarrow> in_tel (tel_resume j out)
      | ExK j \<Rightarrow> in_ex (ex_resume h j out)
      | UserK j \<Rightarrow> in_user (user_resume h j out)
      | AdminK j \<Rightarrow> in_admin (admin_resume h j out)
      | FlagK j \<Rightarrow> in_flag (flag_resume j out)
      | OpsK j \<Rightarrow> in_ops (ops_resume h j out)
      | FeatK j \<Rightarrow> in_feat (feat_resume h j out))"

section \<open>The effects\<close>

text \<open>\<open>adminConfig?.site?.session_resolved?.idle_timeout_seconds ?? 0\<close>.\<close>

definition idle_options :: "app_ctx \<Rightarrow> idle_opts" where
  "idle_options c =
     (let secs = js_int (js_nullish
            (oget (oget (oget (adminConfig (ex_part (slice c))) ''site'') ''session_resolved'') ''idle_timeout_seconds'')
            (JNum 0))
      in \<lparr>enabled = (isAuthenticated c \<and> 0 < secs), idleTimeoutSeconds = secs\<rparr>)"

definition deps_of :: "app_ctx \<Rightarrow> deps" where
  "deps_of c =
     \<lparr>d_theme = theme (slice c), d_collection = selectedCollectionId (nav c),
      d_screen = selectedScreenName (nav c), d_auth = isAuthenticated c, d_idle = idle_options c,
      d_page = activePage (nav c), d_tab = systemSubTab (ops_part (slice c)),
      d_query = query_version (ex_part (slice c)), d_providers = providers (tel_part (slice c)),
      d_user = selectedUserId (user_part (slice c)), d_flag = activeFlag (flag_part (slice c))\<rparr>"

definition on_slice :: "(app_full \<Rightarrow> app_full) \<Rightarrow> app_ctx \<Rightarrow> app_ctx" where
  "on_slice f = set_slice f"

definition theme_effect :: "app_ctx \<Rightarrow> app_ctx" where
  "theme_effect = on_slice (\<lambda>b. b\<lparr>dark_class := (theme b = ''dark'')\<rparr>)"

definition reset_effect :: "app_ctx \<Rightarrow> app_ctx" where
  "reset_effect = in_ex (\<lambda>c. set_slice (reset_query_effect (selectedCollectionId (nav c))) c)"

definition run_as_effect :: "app_ctx \<Rightarrow> app_ctx" where
  "run_as_effect = in_feat (set_slice run_as_reset)"

definition keepalive_effect :: "app_ctx \<Rightarrow> app_ctx" where
  "keepalive_effect c = on_slice (\<lambda>b. b\<lparr>keepalive_armed := isAuthenticated c\<rparr>) c"

definition idle_effect :: "app_ctx \<Rightarrow> app_ctx" where
  "idle_effect c =
     on_slice (\<lambda>b. b\<lparr>idle_part := idle_mount (idle_options c) (clock b) (idle_unmount (idle_part b))\<rparr>) c"

text \<open>The load of the whole backend, in the order of the requests.\<close>

definition load_effect :: "host \<Rightarrow> app_ctx \<Rightarrow> app_ctx" where
  "load_effect h c =
     (if \<not> isAuthenticated c then c
      else fold (\<lambda>f. f)
        [in_admin (fetchAdminUsers h), in_user (fetchUsers h), in_flag (fetchFlags h), in_ex (fetchConfig h),
         in_ops (fetchSettings h), in_tel (fetchIncidents h), in_tel (fetchProviders h), in_feat (fetchFeatures h)] c)"

text \<open>The records of the selected collection, with the query as it was rendered.\<close>

definition records_effect :: "host \<Rightarrow> query_params \<Rightarrow> app_ctx \<Rightarrow> app_ctx" where
  "records_effect h q = in_ex (fetchRecords h q)"

definition can_stream :: "jv \<Rightarrow> bool" where
  "can_stream ps = has_capability (oget ps ''telemetry'') ''read.stream''"

definition sse_effect :: "app_ctx \<Rightarrow> app_ctx" where
  "sse_effect c =
     on_slice (\<lambda>b. b\<lparr>sse_open := (isAuthenticated c \<and> can_stream (providers (tel_part b)))\<rparr>) c"

definition poll :: "host \<Rightarrow> app_ctx \<Rightarrow> app_ctx" where
  "poll h c = in_tel (fetchDashboardData h) (in_tel (fetchMetricsSummary h) c)"

definition poll_effect :: "host \<Rightarrow> app_ctx \<Rightarrow> app_ctx" where
  "poll_effect h c =
     (if \<not> isAuthenticated c then on_slice (\<lambda>b. b\<lparr>poll_armed := False\<rparr>) c
      else on_slice (\<lambda>b. b\<lparr>poll_armed := True\<rparr>) (poll h c))"

definition targeting_edit_effect :: "app_ctx \<Rightarrow> app_ctx" where
  "targeting_edit_effect = in_flag (set_slice targeting_effect)"

definition when_changed :: "deps option \<Rightarrow> (deps \<Rightarrow> 'a) \<Rightarrow> app_ctx \<Rightarrow> bool" where
  "when_changed old d c = (case old of None \<Rightarrow> True | Some o' \<Rightarrow> d o' \<noteq> d (deps_of c))"

text \<open>
  One commit of the rendered state \<open>c\<close>: the effects in source order, each guarded by its
  dependencies; then the dependencies are recorded.
\<close>

definition effects :: "host \<Rightarrow> app_ctx \<Rightarrow> (bool \<times> (app_ctx \<Rightarrow> app_ctx)) list" where
  "effects h c =
     (let old = committed (slice c) in
      [(when_changed old d_theme c, theme_effect),
       (when_changed old d_collection c, reset_effect),
       (when_changed old d_screen c, run_as_effect),
       (when_changed old (\<lambda>d. (d_auth d, d_screen d)) c, in_feat (observe_effect h)),
       (old = None, in_session (bootstrap h)),
       (when_changed old d_auth c, keepalive_effect),
       (when_changed old d_idle c, idle_effect),
       (when_changed old (\<lambda>d. (d_auth d, d_page d, d_tab d)) c, in_ops (jobs_effect h)),
       (when_changed old d_auth c, load_effect h),
       (when_changed old (\<lambda>d. (d_collection d, d_auth d, d_query d)) c, records_effect h (query (ex_part (slice c)))),
       (when_changed old (\<lambda>d. (d_auth d, d_providers d)) c, sse_effect),
       (when_changed old d_auth c, poll_effect h),
       (when_changed old (\<lambda>d. (d_user d, d_auth d)) c, in_user (user_detail_effect h)),
       (when_changed old d_flag c, targeting_edit_effect)])"

definition run_guarded :: "bool \<times> (app_ctx \<Rightarrow> app_ctx) \<Rightarrow> app_ctx \<Rightarrow> app_ctx" where
  "run_guarded g c = (if fst g then snd g c else c)"

definition commit :: "host \<Rightarrow> app_ctx \<Rightarrow> app_ctx" where
  "commit h c =
     on_slice (\<lambda>b. b\<lparr>committed := Some (deps_of c)\<rparr>) (fold run_guarded (effects h c) c)"

definition quiescent :: "app_ctx \<Rightarrow> bool" where
  "quiescent c = (committed (slice c) = Some (deps_of c))"

text \<open>Commits until nothing an effect depends on has changed; \<open>None\<close> when the fuel is used up.\<close>

fun settle :: "nat \<Rightarrow> host \<Rightarrow> app_ctx \<Rightarrow> app_ctx option" where
  "settle 0 h c = None"
| "settle (Suc n) h c = (if quiescent c then Some c else settle n h (commit h c))"

definition rest :: "host \<Rightarrow> app_ctx \<Rightarrow> app_ctx" where
  "rest h c = (case settle 3 h c of Some d \<Rightarrow> d | None \<Rightarrow> c)"

end
