(* ===== verification/AppEffects.thy ===== *)
theory AppEffects
  imports AppState
begin

text \<open>
  What the effects of App.tsx may touch, and that they come to rest: no effect changes the
  session, the navigation, the form or the alerts, and only the reset of the query changes
  anything another effect depends on, so a second commit is always enough.
\<close>

section \<open>Frames\<close>

text \<open>The part of the whole no effect changes.\<close>

record stable_part =
  sp_auth :: bool
  sp_nav :: nav_st
  sp_form :: obj
  sp_alerts :: "string list"
  sp_session :: session_st
  sp_admin :: admin_st
  sp_user :: user_st
  sp_flag :: flag_st
  sp_tel :: tel_st
  sp_theme :: string
  sp_tab :: string
  sp_collections :: "collection list"
  sp_config :: jv
  sp_clock :: int
  sp_committed :: "deps option"

definition stable :: "app_ctx \<Rightarrow> stable_part" where
  "stable c =
     \<lparr>sp_auth = isAuthenticated c, sp_nav = nav c, sp_form = formData c, sp_alerts = alerts c,
      sp_session = session_part (slice c), sp_admin = admin_part (slice c),
      sp_user = (user_part (slice c))\<lparr>userDetail := JNull\<rparr>,
      sp_flag = (flag_part (slice c))\<lparr>targetingEdit := None\<rparr>, sp_tel = tel_part (slice c),
      sp_theme = theme (slice c), sp_tab = systemSubTab (ops_part (slice c)),
      sp_collections = collections (ex_part (slice c)), sp_config = adminConfig (ex_part (slice c)),
      sp_clock = clock (slice c), sp_committed = committed (slice c)\<rparr>"

text \<open>What the records request of a commit is made of.\<close>

definition query_of :: "app_ctx \<Rightarrow> query_params \<times> nat" where
  "query_of c = (query (ex_part (slice c)), query_version (ex_part (slice c)))"

definition framed :: "(app_ctx \<Rightarrow> app_ctx) \<Rightarrow> bool" where
  "framed f = (\<forall>c. stable (f c) = stable c \<and> (\<exists>xs. outbox (f c) = outbox c @ xs))"

definition keeps_query :: "(app_ctx \<Rightarrow> app_ctx) \<Rightarrow> bool" where
  "keeps_query f = (\<forall>c. query_of (f c) = query_of c)"

lemma framed_id [simp]: "framed (\<lambda>c. c)" "keeps_query (\<lambda>c. c)"
  by (simp_all add: framed_def keeps_query_def)

lemma framed_o: "framed f \<Longrightarrow> framed g \<Longrightarrow> framed (f \<circ> g)"
  unfolding framed_def o_def by (metis append_assoc)

lemma keeps_query_o: "keeps_query f \<Longrightarrow> keeps_query g \<Longrightarrow> keeps_query (f \<circ> g)"
  by (simp add: keeps_query_def)

lemma framed_fold: "(\<And>f. f \<in> set fs \<Longrightarrow> framed f) \<Longrightarrow> framed (fold (\<lambda>f. f) fs)"
proof (induction fs)
  case (Cons f fs)
  then show ?case by (simp only: fold.simps) (rule framed_o, simp_all)
qed (simp add: framed_def)

lemma keeps_query_fold: "(\<And>f. f \<in> set fs \<Longrightarrow> keeps_query f) \<Longrightarrow> keeps_query (fold (\<lambda>f. f) fs)"
proof (induction fs)
  case (Cons f fs)
  then show ?case by (simp only: fold.simps) (rule keeps_query_o, simp_all)
qed (simp add: keeps_query_def)

named_theorems frames "which effects are framed and keep the query"

lemma idle_options_stable: "idle_options c = idle_options d" if "stable c = stable d"
  using that by (simp add: idle_options_def stable_def)

lemma fetch_frames [frames]:
  "framed (in_admin (fetchAdminUsers h))" "framed (in_user (fetchUsers h))" "framed (in_flag (fetchFlags h))"
  "framed (in_ex (fetchConfig h))" "framed (in_ops (fetchSettings h))" "framed (in_tel (fetchIncidents h))"
  "framed (in_tel (fetchProviders h))" "framed (in_feat (fetchFeatures h))"
  "framed (in_tel (fetchDashboardData h))" "framed (in_tel (fetchMetricsSummary h))"
  "keeps_query (in_admin (fetchAdminUsers h))" "keeps_query (in_user (fetchUsers h))" "keeps_query (in_flag (fetchFlags h))"
  "keeps_query (in_ex (fetchConfig h))" "keeps_query (in_ops (fetchSettings h))" "keeps_query (in_tel (fetchIncidents h))"
  "keeps_query (in_tel (fetchProviders h))" "keeps_query (in_feat (fetchFeatures h))"
  "keeps_query (in_tel (fetchDashboardData h))" "keeps_query (in_tel (fetchMetricsSummary h))"
  by (simp_all add: framed_def keeps_query_def stable_def query_of_def in_simps put_defs fetchAdminUsers_def
      fetchUsers_def fetchFlags_def fetchConfig_def fetchSettings_def fetchIncidents_def fetchProviders_def
      fetchFeatures_def start_tree_load_def fetchDashboardData_def fetchMetricsSummary_def)

lemma simple_frames [frames]:
  "framed theme_effect" "framed run_as_effect" "framed keepalive_effect" "framed idle_effect" "framed sse_effect"
  "keeps_query theme_effect" "keeps_query run_as_effect" "keeps_query keepalive_effect" "keeps_query idle_effect"
  "keeps_query sse_effect"
  by (simp_all add: framed_def keeps_query_def stable_def query_of_def in_simps put_defs theme_effect_def on_slice_def
      run_as_effect_def run_as_reset_def keepalive_effect_def idle_effect_def sse_effect_def)

lemma part_frames [frames]:
  "framed (in_feat (observe_effect h))" "framed (in_session (bootstrap h))" "framed (in_ops (jobs_effect h))"
  "framed (records_effect h q)" "framed (in_user (user_detail_effect h))" "framed targeting_edit_effect"
  "framed reset_effect"
  "keeps_query (in_feat (observe_effect h))" "keeps_query (in_session (bootstrap h))" "keeps_query (in_ops (jobs_effect h))"
  "keeps_query (records_effect h q)" "keeps_query (in_user (user_detail_effect h))" "keeps_query targeting_edit_effect"
  by (simp_all add: framed_def keeps_query_def stable_def query_of_def in_simps put_defs observe_effect_def bootstrap_def
      jobs_effect_def loadJobs_def records_effect_def fetchRecords_def user_detail_effect_def targeting_edit_effect_def
      targeting_effect_def reset_effect_def reset_query_effect_def set_query_def Let_def)

lemma load_frames [frames]: "framed (load_effect h)" "keeps_query (load_effect h)"
proof -
  let ?fs = "[in_admin (fetchAdminUsers h), in_user (fetchUsers h), in_flag (fetchFlags h), in_ex (fetchConfig h),
      in_ops (fetchSettings h), in_tel (fetchIncidents h), in_tel (fetchProviders h), in_feat (fetchFeatures h)]"
  have "framed (fold (\<lambda>f. f) ?fs)" by (rule framed_fold) (auto simp: frames)
  then show "framed (load_effect h)" by (simp add: framed_def load_effect_def)
  have "keeps_query (fold (\<lambda>f. f) ?fs)" by (rule keeps_query_fold) (auto simp: frames)
  then show "keeps_query (load_effect h)" by (simp add: keeps_query_def load_effect_def)
qed

lemma poll_frames [frames]: "framed (poll h)" "keeps_query (poll h)" "framed (poll_effect h)" "keeps_query (poll_effect h)"
proof -
  have "poll h = in_tel (fetchDashboardData h) \<circ> in_tel (fetchMetricsSummary h)"
    by (simp add: poll_def fun_eq_iff)
  then show p: "framed (poll h)" "keeps_query (poll h)"
    by (simp_all add: framed_o keeps_query_o frames)
  then show "framed (poll_effect h)" "keeps_query (poll_effect h)"
    by (simp_all add: framed_def keeps_query_def poll_effect_def on_slice_def stable_def query_of_def)
qed

section \<open>A commit\<close>

lemma run_guarded_frames:
  "framed f \<Longrightarrow> framed (run_guarded (b, f))" "keeps_query f \<Longrightarrow> keeps_query (run_guarded (b, f))"
  by (simp_all add: framed_def keeps_query_def run_guarded_def)

lemma framed_fold_guarded:
  "(\<And>b f. (b, f) \<in> set gs \<Longrightarrow> framed f) \<Longrightarrow> framed (fold run_guarded gs)"
proof (induction gs)
  case (Cons g gs)
  obtain b f where g: "g = (b, f)" by (cases g)
  have "framed f" using Cons.prems [of b f] g by simp
  then have "framed (run_guarded g)" by (simp add: g run_guarded_frames)
  moreover have "framed (fold run_guarded gs)" using Cons.prems by (intro Cons.IH) auto
  ultimately show ?case by (simp only: fold.simps) (rule framed_o)
qed (simp add: framed_def)

lemma keeps_query_fold_guarded:
  "(\<And>b f. (b, f) \<in> set gs \<Longrightarrow> b \<Longrightarrow> keeps_query f) \<Longrightarrow> keeps_query (fold run_guarded gs)"
proof (induction gs)
  case (Cons g gs)
  obtain b f where g: "g = (b, f)" by (cases g)
  have "b \<Longrightarrow> keeps_query f" using Cons.prems [of b f] g by simp
  then have "keeps_query (run_guarded g)" by (auto simp: g keeps_query_def run_guarded_def)
  moreover have "keeps_query (fold run_guarded gs)" using Cons.prems by (intro Cons.IH) auto
  ultimately show ?case by (simp only: fold.simps) (rule keeps_query_o)
qed (simp add: keeps_query_def)

lemma framed_effects: "framed (fold run_guarded (effects h c))"
  by (rule framed_fold_guarded) (auto simp: effects_def Let_def frames)

lemma stable_commit: "stable (commit h c) = (stable c)\<lparr>sp_committed := Some (deps_of c)\<rparr>"
  using framed_effects [of h c] by (simp add: framed_def commit_def on_slice_def stable_def)

lemma outbox_commit: "\<exists>xs. outbox (commit h c) = outbox c @ xs"
  using framed_effects [of h c] by (simp add: framed_def commit_def on_slice_def)

lemma deps_commit: "deps_of (commit h c) = (deps_of c)\<lparr>d_query := query_version (ex_part (slice (commit h c)))\<rparr>"
proof -
  have "activeFlag (s\<lparr>targetingEdit := None\<rparr>) = activeFlag s" for s
    by (simp add: activeFlag_def)
  moreover have "selectedUserId (s\<lparr>userDetail := JNull\<rparr>) = selectedUserId s" for s by simp
  moreover have "idle_options (commit h c) = idle_options c"
    using stable_commit [of h c] by (simp add: stable_def idle_options_def)
  ultimately show ?thesis
    using stable_commit [of h c] unfolding stable_def deps_of_def
    by simp (metis user_st.select_convs(2) user_st.surjective user_st.update_convs(3))
qed

section \<open>Coming to rest\<close>

text \<open>A commit after which only the query has changed: the records are asked for again, nothing else runs.\<close>

lemma commit_query_only:
  assumes "committed (slice c) = Some old" and "deps_of c = old\<lparr>d_query := v\<rparr>" and "v \<noteq> d_query old"
  shows "commit h c = on_slice (\<lambda>b. b\<lparr>committed := Some (deps_of c)\<rparr>) (records_effect h (query (ex_part (slice c))) c)"
  using assms by (simp add: commit_def effects_def run_guarded_def when_changed_def)

lemma commit_same_deps:
  assumes "committed (slice c) = Some (deps_of c)"
  shows "commit h c = c"
  using assms by (simp add: commit_def effects_def run_guarded_def when_changed_def on_slice_def set_slice_def)

lemma committed_commit [simp]: "committed (slice (commit h c)) = Some (deps_of c)"
  using stable_commit [of h c] by (simp add: stable_def)

lemma quiescent_commit_query:
  assumes "committed (slice c) = Some old" and "deps_of c = old\<lparr>d_query := v\<rparr>"
  shows "quiescent (commit h c)"
proof (cases "v = d_query old")
  case True
  then show ?thesis using assms commit_same_deps [of c h] by (simp add: quiescent_def)
next
  case False
  have "keeps_query (records_effect h q)" for q by (simp add: frames)
  then have "query_version (ex_part (slice (commit h c))) = query_version (ex_part (slice c))"
    by (simp add: commit_query_only [OF assms False] keeps_query_def query_of_def on_slice_def)
  then have "deps_of (commit h c) = deps_of c" by (simp add: deps_commit) (simp add: deps_of_def)
  then show ?thesis by (simp add: quiescent_def)
qed

text \<open>Two commits are enough, whatever changed.\<close>

lemma settle_total: "\<exists>d. settle 3 h c = Some d \<and> quiescent d \<and> (\<exists>xs. outbox d = outbox c @ xs)"
proof -
  have q: "quiescent (commit h (commit h c))"
    by (rule quiescent_commit_query [OF committed_commit deps_commit])
  obtain xs ys where "outbox (commit h c) = outbox c @ xs" "outbox (commit h (commit h c)) = outbox c @ xs @ ys"
    using outbox_commit [of h c] outbox_commit [of h "commit h c"] by auto
  then show ?thesis using q by (auto simp: eval_nat_numeral)
qed

lemma rest_quiescent: "quiescent (rest h c)"
  using settle_total [of h c] by (auto simp: rest_def)

lemma stable_settle: "settle n h c = Some d \<Longrightarrow> (stable d)\<lparr>sp_committed := None\<rparr> = (stable c)\<lparr>sp_committed := None\<rparr>"
  by (induction n h c rule: settle.induct) (auto simp: stable_commit split: if_splits)

lemma stable_rest: "(stable (rest h c))\<lparr>sp_committed := None\<rparr> = (stable c)\<lparr>sp_committed := None\<rparr>"
  by (auto simp: rest_def stable_settle split: option.splits)

lemma outbox_rest: "\<exists>xs. outbox (rest h c) = outbox c @ xs"
  using settle_total [of h c] by (auto simp: rest_def)

text \<open>The fields of the stable part, one by one.\<close>

lemma rest_keeps [simp]:
  "isAuthenticated (rest h c) = isAuthenticated c" "nav (rest h c) = nav c" "formData (rest h c) = formData c"
  "alerts (rest h c) = alerts c" "session_part (slice (rest h c)) = session_part (slice c)"
  "admin_part (slice (rest h c)) = admin_part (slice c)" "tel_part (slice (rest h c)) = tel_part (slice c)"
  "theme (slice (rest h c)) = theme (slice c)" "clock (slice (rest h c)) = clock (slice c)"
  using stable_rest [of h c] by (simp_all add: stable_def)

section \<open>Observations the effects keep\<close>

definition keeps :: "(app_ctx \<Rightarrow> 'a) \<Rightarrow> (app_ctx \<Rightarrow> app_ctx) \<Rightarrow> bool" where
  "keeps obs f = (\<forall>c. obs (f c) = obs c)"

lemma keeps_fold:
  "(\<And>b f. (b, f) \<in> set gs \<Longrightarrow> keeps obs f) \<Longrightarrow> obs (fold run_guarded gs c) = obs c"
proof (induction gs arbitrary: c)
  case (Cons g gs)
  obtain b f where g: "g = (b, f)" by (cases g)
  have "keeps obs f" using Cons.prems [of b f] g by simp
  then have "obs (run_guarded g c) = obs c" by (simp add: g keeps_def run_guarded_def)
  moreover have "obs (fold run_guarded gs c') = obs c'" for c' using Cons.prems by (intro Cons.IH) auto
  ultimately show ?case by simp
qed simp

text \<open>An effect guarded by \<open>B\<close> sets the observation to \<open>v\<close>, the others keep it.\<close>

definition sets_to :: "app_ctx \<Rightarrow> (app_ctx \<Rightarrow> 'a) \<Rightarrow> 'a \<Rightarrow> (app_ctx \<Rightarrow> app_ctx) \<Rightarrow> bool" where
  "sets_to c obs v f = (\<forall>d. stable d = stable c \<longrightarrow> obs (f d) = v)"

lemma fold_sets:
  assumes "\<And>b f. (b, f) \<in> set gs \<Longrightarrow> framed f \<and> (keeps obs f \<or> b = B \<and> sets_to c obs v f)"
    and "stable d = stable c" and "B"
  shows "obs (fold run_guarded gs d) \<in> {obs d, v} \<and>
    ((\<exists>f. (B, f) \<in> set gs \<and> sets_to c obs v f) \<longrightarrow> obs (fold run_guarded gs d) = v)"
  using assms(1,2)
proof (induction gs arbitrary: d)
  case (Cons g gs)
  obtain b f where g: "g = (b, f)" by (cases g)
  have f: "framed f" "keeps obs f \<or> b = B \<and> sets_to c obs v f" using Cons.prems(1) [of b f] g by simp_all
  let ?d = "run_guarded g d"
  have st: "stable ?d = stable c" using f(1) Cons.prems(2) by (simp add: g run_guarded_def framed_def)
  have ih: "obs (fold run_guarded gs ?d) \<in> {obs ?d, v} \<and>
      ((\<exists>f. (B, f) \<in> set gs \<and> sets_to c obs v f) \<longrightarrow> obs (fold run_guarded gs ?d) = v)"
    using Cons.prems(1) st by (intro Cons.IH) auto
  have one: "obs ?d \<in> {obs d, v}" "sets_to c obs v f \<Longrightarrow> b = B \<Longrightarrow> obs ?d = v"
    using f(2) Cons.prems(2) assms(3) by (auto simp: g run_guarded_def keeps_def sets_to_def)
  show ?case using ih one by (auto simp: g)
qed simp

lemma obs_effects:
  assumes "\<And>b f. (b, f) \<in> set gs \<Longrightarrow> framed f \<and> (keeps obs f \<or> b = B \<and> sets_to c obs v f)"
    and "(B, e) \<in> set gs" and "sets_to c obs v e"
  shows "obs (fold run_guarded gs c) = (if B then v else obs c)"
proof (cases B)
  case True
  then show ?thesis using fold_sets [of gs obs B c v c] assms by (metis (full_types))
next
  case False
  have "obs (fold run_guarded gs d) = obs d" for d
    using assms(1)
  proof (induction gs arbitrary: d)
    case (Cons g gs)
    obtain b f where g: "g = (b, f)" by (cases g)
    have "obs (run_guarded g d) = obs d"
      using Cons.prems [of b f] False by (auto simp: g run_guarded_def keeps_def)
    moreover have "obs (fold run_guarded gs (run_guarded g d)) = obs (run_guarded g d)"
      using Cons.prems by (intro Cons.IH) auto
    ultimately show ?case by simp
  qed simp
  with False show ?thesis by simp
qed

end
