(* ===== verification/AppRequests.thy ===== *)
theory AppRequests
  imports AppEffects
begin

text \<open>
  The requests a commit sends. Each effect adds a list of requests that its part of the
  state determines; a commit sends the lists of the effects whose dependencies changed, in
  the order of the source.
\<close>

section \<open>What each effect sends\<close>

definition get :: "string \<Rightarrow> 'k \<Rightarrow> request \<times> 'k" where
  "get u k = (\<lparr>rmethod = GET, rurl = u, rbody = None\<rparr>, k)"

definition observe_requests :: "host \<Rightarrow> app_ctx \<Rightarrow> (request \<times> app_k) list" where
  "observe_requests h c =
     (if isAuthenticated c \<and> str_truthy (selectedScreenName (nav c))
      then [get (admin_api h @ ''/features/screens/'' @ encodeURIComponent (the (selectedScreenName (nav c))) @ ''/metrics'')
              (FeatK KObserve)]
      else [])"

definition bootstrap_requests :: "host \<Rightarrow> (request \<times> app_k) list" where
  "bootstrap_requests h = [get (admin_api h @ ''/session'') (SessionK KBootstrap)]"

definition jobs_requests :: "host \<Rightarrow> app_ctx \<Rightarrow> (request \<times> app_k) list" where
  "jobs_requests h c =
     (if isAuthenticated c \<and> activePage (nav c) = ''system-settings'' \<and> systemSubTab (ops_part (slice c)) = ''jobs''
      then [get (admin_api h @ ''/jobs'') (OpsK KJobs)] else [])"

definition incident_requests :: "host \<Rightarrow> app_ctx \<Rightarrow> (request \<times> app_k) list" where
  "incident_requests h c =
     (if has_capability (oget (providers (tel_part (slice c))) ''incident'') ''read.list''
      then [get (admin_api h @ ''/incidents'') (TelK KIncidents)] else [])"

definition load_requests :: "host \<Rightarrow> app_ctx \<Rightarrow> (request \<times> app_k) list" where
  "load_requests h c =
     (if \<not> isAuthenticated c then []
      else [get (admin_api h @ ''/resources/AdminUser'') (AdminK KAdminUsers), get (admin_api h @ ''/users'') (UserK KUsers),
            get (admin_api h @ ''/flags'') (FlagK KFlags), get (admin_api h @ ''/config'') (ExK KConfig),
            get (admin_api h @ ''/settings'') (OpsK KSettings)]
           @ incident_requests h c
           @ [get (admin_api h @ ''/providers'') (TelK KProviders),
              get (admin_api h @ ''/features'') (FeatK (KFeatures (str_truthy (selectedScreenName (nav c)))))])"

definition record_requests :: "host \<Rightarrow> query_params \<Rightarrow> app_ctx \<Rightarrow> (request \<times> app_k) list" where
  "record_requests h q c =
     (let sel = selectedCollectionId (nav c) in
      if isAuthenticated c \<and> sel \<noteq> [] then [get (records_url h sel q) (ExK (KRecords sel))] else [])"

definition poll_requests :: "host \<Rightarrow> app_ctx \<Rightarrow> (request \<times> app_k) list" where
  "poll_requests h c =
     (if isAuthenticated c
      then [get (admin_api h @ ''/metrics/summary'') (TelK KMetricsSummary), get (admin_api h @ ''/dashboard/data'') (TelK KDashboardData)]
      else [])"

definition user_requests :: "host \<Rightarrow> app_ctx \<Rightarrow> (request \<times> app_k) list" where
  "user_requests h c =
     (let sel = selectedUserId (user_part (slice c)) in
      if isAuthenticated c \<and> truthy sel
      then [get (admin_api h @ ''/users/'' @ encodeURIComponent (js_string sel)) (UserK KUserDetail),
            get (admin_api h @ ''/resources/AuditLog'') (UserK KAuditLogs)]
      else [])"

lemmas request_defs = observe_requests_def bootstrap_requests_def jobs_requests_def incident_requests_def load_requests_def
  record_requests_def poll_requests_def user_requests_def get_def

section \<open>Adding them up\<close>

definition adds :: "app_ctx \<Rightarrow> (request \<times> app_k) list \<Rightarrow> (app_ctx \<Rightarrow> app_ctx) \<Rightarrow> bool" where
  "adds c xs f = (\<forall>d. stable d = stable c \<longrightarrow> outbox (f d) = outbox d @ xs)"

definition sent :: "bool \<times> 'a \<Rightarrow> 'b list \<Rightarrow> 'b list" where
  "sent g xs = (if fst g then xs else [])"

lemma outbox_fold:
  assumes "list_all2 (\<lambda>g xs. framed (snd g) \<and> adds c xs (snd g)) gs xss" and "stable d = stable c"
  shows "outbox (fold run_guarded gs d) = outbox d @ concat (map2 sent gs xss)"
  using assms
proof (induction gs xss arbitrary: d rule: list_all2_induct)
  case (Cons g gs xs xss)
  have d: "stable (run_guarded g d) = stable c" "outbox (run_guarded g d) = outbox d @ sent g xs"
    using Cons.hyps(1) Cons.prems by (auto simp: run_guarded_def framed_def adds_def sent_def)
  show ?case by (simp add: Cons.IH [OF d(1)] d(2))
qed simp

lemma quiet_adds:
  "adds c [] theme_effect" "adds c [] reset_effect" "adds c [] run_as_effect" "adds c [] keepalive_effect"
  "adds c [] idle_effect" "adds c [] sse_effect" "adds c [] targeting_edit_effect"
  by (simp_all add: adds_def theme_effect_def reset_effect_def run_as_effect_def keepalive_effect_def idle_effect_def
      sse_effect_def targeting_edit_effect_def on_slice_def in_simps)

lemma stable_reads:
  assumes "stable d = stable c"
  shows "isAuthenticated d = isAuthenticated c" "nav d = nav c" "tel_part (slice d) = tel_part (slice c)"
    "systemSubTab (ops_part (slice d)) = systemSubTab (ops_part (slice c))"
    "selectedUserId (user_part (slice d)) = selectedUserId (user_part (slice c))"
proof -
  show "selectedUserId (user_part (slice d)) = selectedUserId (user_part (slice c))"
    using arg_cong [OF assms, of "\<lambda>s. selectedUserId (sp_user s)"] by (simp add: stable_def)
qed (use assms in \<open>simp_all add: stable_def\<close>)

lemma addsI: "(\<And>d. isAuthenticated d = isAuthenticated c \<Longrightarrow> nav d = nav c \<Longrightarrow> tel_part (slice d) = tel_part (slice c) \<Longrightarrow>
    systemSubTab (ops_part (slice d)) = systemSubTab (ops_part (slice c)) \<Longrightarrow>
    selectedUserId (user_part (slice d)) = selectedUserId (user_part (slice c)) \<Longrightarrow>
    outbox (f d) = outbox d @ xs) \<Longrightarrow> adds c xs f"
  unfolding adds_def using stable_reads by blast

lemma observe_adds: "adds c (observe_requests h c) (in_feat (observe_effect h))"
  by (rule addsI) (simp add: request_defs observe_effect_def in_simps zoom_in_def)

lemma bootstrap_adds: "adds c (bootstrap_requests h) (in_session (bootstrap h))"
  by (rule addsI) (simp add: request_defs bootstrap_def in_simps zoom_in_def)

lemma jobs_adds: "adds c (jobs_requests h c) (in_ops (jobs_effect h))"
  by (rule addsI) (simp add: request_defs jobs_effect_def loadJobs_def in_simps zoom_in_def)

lemma record_adds: "adds c (record_requests h q c) (records_effect h q)"
  by (rule addsI) (simp add: request_defs records_effect_def fetchRecords_def Let_def in_simps zoom_in_def)

lemma poll_adds: "adds c (poll_requests h c) (poll_effect h)"
  by (rule addsI) (simp add: request_defs poll_effect_def poll_def on_slice_def fetchMetricsSummary_def
      fetchDashboardData_def in_simps zoom_in_def)

lemma user_adds: "adds c (user_requests h c) (in_user (user_detail_effect h))"
  by (rule addsI) (simp add: request_defs user_detail_effect_def Let_def in_simps zoom_in_def)

lemmas loader_defs = fetchAdminUsers_def fetchUsers_def fetchFlags_def fetchConfig_def fetchSettings_def
  fetchIncidents_def fetchProviders_def fetchFeatures_def start_tree_load_def

text \<open>The load, one fetch after the other.\<close>

lemma fold_always: "fold (\<lambda>f. f) fs c = fold run_guarded (map (Pair True) fs) c"
  by (induction fs arbitrary: c) (simp_all add: run_guarded_def)

lemma fetch_adds:
  "adds c [get (admin_api h @ ''/resources/AdminUser'') (AdminK KAdminUsers)] (in_admin (fetchAdminUsers h))"
  "adds c [get (admin_api h @ ''/users'') (UserK KUsers)] (in_user (fetchUsers h))"
  "adds c [get (admin_api h @ ''/flags'') (FlagK KFlags)] (in_flag (fetchFlags h))"
  "adds c [get (admin_api h @ ''/config'') (ExK KConfig)] (in_ex (fetchConfig h))"
  "adds c [get (admin_api h @ ''/settings'') (OpsK KSettings)] (in_ops (fetchSettings h))"
  "adds c (incident_requests h c) (in_tel (fetchIncidents h))"
  "adds c [get (admin_api h @ ''/providers'') (TelK KProviders)] (in_tel (fetchProviders h))"
  "adds c [get (admin_api h @ ''/features'') (FeatK (KFeatures (str_truthy (selectedScreenName (nav c)))))] (in_feat (fetchFeatures h))"
  by (rule addsI, simp add: request_defs loader_defs in_simps zoom_in_def)+

lemma load_adds: "adds c (load_requests h c) (load_effect h)"
proof -
  let ?fs = "[in_admin (fetchAdminUsers h), in_user (fetchUsers h), in_flag (fetchFlags h), in_ex (fetchConfig h),
      in_ops (fetchSettings h), in_tel (fetchIncidents h), in_tel (fetchProviders h), in_feat (fetchFeatures h)]"
  let ?xss = "[[get (admin_api h @ ''/resources/AdminUser'') (AdminK KAdminUsers)], [get (admin_api h @ ''/users'') (UserK KUsers)],
      [get (admin_api h @ ''/flags'') (FlagK KFlags)], [get (admin_api h @ ''/config'') (ExK KConfig)],
      [get (admin_api h @ ''/settings'') (OpsK KSettings)], incident_requests h c,
      [get (admin_api h @ ''/providers'') (TelK KProviders)],
      [get (admin_api h @ ''/features'') (FeatK (KFeatures (str_truthy (selectedScreenName (nav c)))))]]"
  have all: "list_all2 (\<lambda>g xs. framed (snd g) \<and> adds c xs (snd g)) (map (Pair True) ?fs) ?xss"
    by (simp add: fetch_adds frames)
  show ?thesis
    unfolding adds_def
  proof (intro allI impI)
    fix d assume st: "stable d = stable c"
    have "outbox (fold (\<lambda>f. f) ?fs d) = outbox d @ concat (map2 sent (map (Pair True) ?fs) ?xss)"
      unfolding fold_always by (rule outbox_fold [OF all st])
    then show "outbox (load_effect h d) = outbox d @ load_requests h c"
      by (simp add: load_effect_def load_requests_def sent_def stable_reads(1) [OF st])
  qed
qed

lemmas effect_adds = quiet_adds observe_adds bootstrap_adds jobs_adds record_adds poll_adds user_adds load_adds

section \<open>What a commit sends\<close>

definition commit_requests :: "host \<Rightarrow> app_ctx \<Rightarrow> (request \<times> app_k) list" where
  "commit_requests h c =
     concat (map2 sent (effects h c)
       [[], [], [], observe_requests h c, bootstrap_requests h, [], [], jobs_requests h c, load_requests h c,
        record_requests h (query (ex_part (slice c))) c, [], poll_requests h c, user_requests h c, []])"

lemma outbox_commit_eq: "outbox (commit h c) = outbox c @ commit_requests h c"
proof -
  let ?xss = "[[], [], [], observe_requests h c, bootstrap_requests h, [], [], jobs_requests h c, load_requests h c,
        record_requests h (query (ex_part (slice c))) c, [], poll_requests h c, user_requests h c, []]"
  have "list_all2 (\<lambda>g xs. framed (snd g) \<and> adds c xs (snd g)) (effects h c) ?xss"
    by (simp add: effects_def Let_def frames effect_adds)
  from outbox_fold [OF this refl] show ?thesis
    by (simp add: commit_def commit_requests_def on_slice_def)
qed

lemma commit_requests_eq:
  "commit_requests h c =
     (let old = committed (slice c) in
      sent (when_changed old (\<lambda>d. (d_auth d, d_screen d)) c, ()) (observe_requests h c)
      @ sent (old = None, ()) (bootstrap_requests h)
      @ sent (when_changed old (\<lambda>d. (d_auth d, d_page d, d_tab d)) c, ()) (jobs_requests h c)
      @ sent (when_changed old d_auth c, ()) (load_requests h c)
      @ sent (when_changed old (\<lambda>d. (d_collection d, d_auth d, d_query d)) c, ())
          (record_requests h (query (ex_part (slice c))) c)
      @ sent (when_changed old d_auth c, ()) (poll_requests h c)
      @ sent (when_changed old (\<lambda>d. (d_user d, d_auth d)) c, ()) (user_requests h c))"
  by (simp add: commit_requests_def effects_def Let_def sent_def)

text \<open>Once the bootstrap is out, a page without a session sends nothing by itself.\<close>

lemma signed_out_commit:
  "\<not> isAuthenticated c \<Longrightarrow> committed (slice c) \<noteq> None \<Longrightarrow> outbox (commit h c) = outbox c"
  by (simp add: outbox_commit_eq commit_requests_eq sent_def request_defs Let_def)

lemma commit_auth [simp]: "isAuthenticated (commit h c) = isAuthenticated c"
  using stable_commit [of h c] by (simp add: stable_def)

lemma signed_out_settle:
  "settle n h c = Some d \<Longrightarrow> \<not> isAuthenticated c \<Longrightarrow> committed (slice c) \<noteq> None \<Longrightarrow> outbox d = outbox c"
  by (induction n h c rule: settle.induct) (auto simp: signed_out_commit split: if_splits)

lemma signed_out_rest:
  "\<not> isAuthenticated c \<Longrightarrow> committed (slice c) \<noteq> None \<Longrightarrow> outbox (rest h c) = outbox c"
  by (auto simp: rest_def dest: signed_out_settle split: option.splits)

lemma rest_id: "quiescent c \<Longrightarrow> rest h c = c"
  by (simp add: rest_def eval_nat_numeral)

lemma rest_one: "\<not> quiescent c \<Longrightarrow> quiescent (commit h c) \<Longrightarrow> rest h c = commit h c"
  by (simp add: rest_def eval_nat_numeral)

lemma rest_two: "\<not> quiescent c \<Longrightarrow> \<not> quiescent (commit h c) \<Longrightarrow> rest h c = commit h (commit h c)"
proof -
  assume "\<not> quiescent c" "\<not> quiescent (commit h c)"
  moreover have "quiescent (commit h (commit h c))"
    by (rule quiescent_commit_query [OF committed_commit deps_commit])
  ultimately show ?thesis by (simp add: rest_def eval_nat_numeral)
qed

text \<open>The query after a commit: the reset's if another collection was selected, else as before.\<close>

lemma commit_query:
  "query_of (commit h c) =
     (if when_changed (committed (slice c)) d_collection c \<and> selectedCollectionId (nav c) \<noteq> []
      then (default_query (selectedCollectionId (nav c)) (ex_part (slice c)), Suc (query_version (ex_part (slice c))))
      else query_of c)"
proof -
  let ?b = "when_changed (committed (slice c)) d_collection c"
  let ?c1 = "run_guarded (?b, reset_effect) (run_guarded (when_changed (committed (slice c)) d_theme c, theme_effect) c)"
  define post where "post = drop 2 (effects h c)"
  have post: "effects h c = (when_changed (committed (slice c)) d_theme c, theme_effect) # (?b, reset_effect) # post"
    by (simp add: post_def effects_def Let_def)
  have keep: "keeps_query f" if "(b, f) \<in> set post" for b f
    using that by (auto simp: post_def effects_def Let_def frames)
  have "keeps_query (fold run_guarded post)" by (rule keeps_query_fold_guarded) (auto dest: keep)
  then have "query_of (commit h c) = query_of ?c1"
    by (simp add: commit_def post on_slice_def keeps_query_def query_of_def)
  also have "\<dots> = (if ?b \<and> selectedCollectionId (nav c) \<noteq> []
      then (default_query (selectedCollectionId (nav c)) (ex_part (slice c)), Suc (query_version (ex_part (slice c))))
      else query_of c)"
    by (simp add: run_guarded_def theme_effect_def on_slice_def reset_effect_def in_simps put_defs reset_query_effect_def
        zoom_in_def set_query_def query_of_def)
  finally show ?thesis .
qed

end
