(* ===== verification/AppSession.thy ===== *)
theory AppSession
  imports AppRequests
begin

text \<open>
  Which replies end the session. Every callback of App.tsx is a continuation of \<open>app_k\<close>;
  the ones guarded by \<open>clearAuthIfUnauthorized\<close> clear the flag on a 401, the bootstrap, the
  login and the logout set it, and the others leave it alone.
\<close>

section \<open>The guarded requests\<close>

definition guarded_request :: "app_k \<Rightarrow> bool" where
  "guarded_request k =
     (case k of
        SessionK j \<Rightarrow> j = KKeepalive
      | TelK j \<Rightarrow> (case j of KResolveIncident _ \<Rightarrow> False | _ \<Rightarrow> True)
      | ExK j \<Rightarrow> (case j of KRecords _ \<Rightarrow> True | KConfig \<Rightarrow> True | KReloadConfig \<Rightarrow> True | KNavPreference \<Rightarrow> True | _ \<Rightarrow> False)
      | UserK j \<Rightarrow> j \<in> {KUsers, KUserDetail, KAuditLogs}
      | AdminK j \<Rightarrow> j = KAdminUsers
      | FlagK j \<Rightarrow> j = KFlags
      | OpsK j \<Rightarrow> j = KSettings
      | FeatK j \<Rightarrow> (case j of KFeatures _ \<Rightarrow> True | KRefreshFeatures \<Rightarrow> True | _ \<Rightarrow> False))"

definition session_after :: "app_k \<Rightarrow> outcome \<Rightarrow> bool \<Rightarrow> bool" where
  "session_after k out auth =
     (case (k, out) of
        (SessionK KBootstrap, Reply r) \<Rightarrow> res_ok r
      | (SessionK KLogin, Reply r) \<Rightarrow> auth \<or> res_ok r
      | (SessionK KLogout, _) \<Rightarrow> False
      | _ \<Rightarrow> auth \<and> \<not> (guarded_request k \<and> unauthorized out))"

section \<open>Component by component\<close>

text \<open>Most callbacks know nothing of the session and of the form.\<close>

named_theorems blind "callbacks that keep the session and the form"

lemma tel_blind [blind]:
  "isAuthenticated (on_resolve_incident i out c) = isAuthenticated c"
  "formData (on_resolve_incident i out c) = formData c"
  by (cases out; simp add: on_resolve_incident_eval)+

lemma user_blind [blind]:
  "isAuthenticated (on_patch_user h i us out c) = isAuthenticated c"
  "formData (on_patch_user h i us out c) = formData c"
  "isAuthenticated (on_create_user h us out c) = isAuthenticated c"
  "formData (on_create_user h us out c) = formData c"
  "isAuthenticated (on_delete_user j us sel out c) = isAuthenticated c"
  "formData (on_delete_user j us sel out c) = formData c"
  by (cases out; simp add: on_patch_user_def on_create_user_def on_delete_user_def console_error_def when_act_def
      res_json_def chain_defs fetched_def Let_def split: sum.splits prod.splits)+

lemma admin_blind [blind]:
  "isAuthenticated (on_save_admin h failure out c) = isAuthenticated c"
  "formData (on_save_admin h failure out c) = formData c"
  "isAuthenticated (on_delete_admin h out c) = isAuthenticated c"
  "formData (on_delete_admin h out c) = formData c"
  by (cases out; simp add: on_save_admin_def on_delete_admin_def fetchAdminUsers_def console_error_def when_act_def
      res_json_def chain_defs fetched_def split: sum.splits prod.splits)+

lemma flag_blind [blind]:
  "isAuthenticated (on_toggle_flag key fs out c) = isAuthenticated c"
  "formData (on_toggle_flag key fs out c) = formData c"
  "isAuthenticated (on_put_flag i fs out c) = isAuthenticated c"
  "formData (on_put_flag i fs out c) = formData c"
  "isAuthenticated (on_create_flag fs out c) = isAuthenticated c"
  "formData (on_create_flag fs out c) = formData c"
  "isAuthenticated (on_targeting key fs out c) = isAuthenticated c"
  "formData (on_targeting key fs out c) = formData c"
  by (cases out; simp add: on_toggle_flag_def on_put_flag_def on_create_flag_def on_targeting_def console_error_def
      when_act_def res_json_def chain_defs fetched_def split: sum.splits prod.splits)+

lemma ops_blind [blind]:
  "isAuthenticated (on_jobs out c) = isAuthenticated c"
  "formData (on_jobs out c) = formData c"
  "isAuthenticated (on_job_action h failure out c) = isAuthenticated c"
  "formData (on_job_action h failure out c) = formData c"
  "isAuthenticated (on_save_settings out c) = isAuthenticated c"
  "formData (on_save_settings out c) = formData c"
  by (cases out; simp add: on_jobs_def on_job_action_def on_save_settings_def loadJobs_def console_error_def
      when_act_def res_json_def chain_defs fetched_def split: sum.splits prod.splits)+

lemma ex_blind [blind]:
  "isAuthenticated (on_patch_resource sel rid colls out c) = isAuthenticated c"
  "formData (on_patch_resource sel rid colls out c) = formData c"
  "isAuthenticated (on_create_resource sel colls out c) = isAuthenticated c"
  "formData (on_create_resource sel colls out c) = formData c"
  "isAuthenticated (on_delete_resource sel rid colls out c) = isAuthenticated c"
  "formData (on_delete_resource sel rid colls out c) = formData c"
  "isAuthenticated (on_action out c) = isAuthenticated c"
  "formData (on_action out c) = formData c"
  "isAuthenticated (on_batch_action out c) = isAuthenticated c"
  "formData (on_batch_action out c) = formData c"
  "isAuthenticated (on_open_related out c) = isAuthenticated c"
  "formData (on_open_related out c) = formData c"
  by (cases out; simp add: on_patch_resource_def on_create_resource_def on_delete_resource_def on_action_def
      on_batch_action_def on_open_related_def fetchCollectionData_def alert_text_def console_error_def when_act_def
      res_json_def res_text_def chain_defs fetched_def split: sum.splits prod.splits)+

lemma feat_blind [blind]:
  "isAuthenticated (on_observe out c) = isAuthenticated c"
  "formData (on_observe out c) = formData c"
  "isAuthenticated (on_flush i out c) = isAuthenticated c"
  "formData (on_flush i out c) = formData c"
  "isAuthenticated (on_kill h sec out c) = isAuthenticated c"
  "formData (on_kill h sec out c) = formData c"
  "isAuthenticated (on_run_as out c) = isAuthenticated c"
  "formData (on_run_as out c) = formData c"
  by (cases out; simp add: on_observe_def on_flush_def on_kill_def on_run_as_def json_or_text_error_def
      refreshFeatureTree_def start_tree_load_def console_error_def when_act_def
      res_json_def res_text_def chain_defs fetched_def split: sum.splits prod.splits)+

section \<open>The guarded ones\<close>

lemma select_first_screen_keeps:
  assumes "select_first_screen had data c = (x, d)"
  shows "isAuthenticated d = isAuthenticated c" "formData d = formData c"
proof -
  have "isAuthenticated (snd (select_first_screen had data c)) = isAuthenticated c \<and>
      formData (snd (select_first_screen had data c)) = formData c"
    by (simp add: select_first_screen_def chain_defs split: list.splits sum.splits prod.splits)
  with assms show "isAuthenticated d = isAuthenticated c" "formData d = formData c" by simp_all
qed

lemmas tree_chain_defs = set_tree_def tree_error_def load_json_def guard_session_def clearAuthIfUnauthorized_def
  res_json_def unauthorized_def when_act_def chain_defs fetched_def

lemma on_features_session:
  "isAuthenticated (on_features had out c) = (isAuthenticated c \<and> \<not> unauthorized out)"
  "formData (on_features had out c) = formData c"
  by (cases out; auto simp: on_features_def tree_chain_defs dest: select_first_screen_keeps split: sum.splits prod.splits)+

lemma on_refresh_session:
  "isAuthenticated (on_refresh_features out c) = (isAuthenticated c \<and> \<not> unauthorized out)"
  "formData (on_refresh_features out c) = formData c"
  by (cases out; auto simp: on_refresh_features_def tree_chain_defs split: sum.splits prod.splits)+

interpretation tree: session_guarded "on_features had"
  by unfold_locales (rule on_features_session)+

interpretation tree_again: session_guarded on_refresh_features
  by unfold_locales (rule on_refresh_session)+

lemmas guarded_laws =
  metrics.auth_law dashboard.auth_law provs.auth_law incs.auth_law records.auth_law config.auth_law reload.auth_law
  preference.auth_law user_list.auth_law user_details.auth_law audits.auth_law admin_list.auth_law flag_list.auth_law
  app_settings.auth_law tree.auth_law tree_again.auth_law alive.auth_law
  metrics.form_law dashboard.form_law provs.form_law incs.form_law records.form_law config.form_law reload.form_law
  preference.form_law user_list.form_law user_details.form_law audits.form_law admin_list.form_law flag_list.form_law
  app_settings.form_law tree.form_law tree_again.form_law alive.form_law

lemmas resume_defs = session_resume_def tel_resume_def ex_resume_def user_resume_def admin_resume_def flag_resume_def
  ops_resume_def feat_resume_def

lemma session_parts:
  "isAuthenticated (session_resume j out d) = session_after (SessionK j) out (isAuthenticated d)"
  "formData (session_resume j out d) = formData d"
  by (cases j; cases out; simp add: session_resume_def session_after_def guarded_request_def on_bootstrap_eval
      on_login_eval on_logout_eval on_keepalive_eval unauthorized_def)+

lemma tel_parts:
  "isAuthenticated (tel_resume j out d) = session_after (TelK j) out (isAuthenticated d)"
  "formData (tel_resume j out d) = formData d"
  by (cases j; simp add: tel_resume_def session_after_def guarded_request_def guarded_laws blind)+

lemma ex_parts:
  "isAuthenticated (ex_resume h l out d) = session_after (ExK l) out (isAuthenticated d)"
  "formData (ex_resume h l out d) = formData d"
  by (cases l; simp add: ex_resume_def session_after_def guarded_request_def guarded_laws blind)+

lemma user_parts:
  "isAuthenticated (user_resume h j out d) = session_after (UserK j) out (isAuthenticated d)"
  "formData (user_resume h j out d) = formData d"
  by (cases j; simp add: user_resume_def session_after_def guarded_request_def guarded_laws blind)+

lemma admin_parts:
  "isAuthenticated (admin_resume h j out d) = session_after (AdminK j) out (isAuthenticated d)"
  "formData (admin_resume h j out d) = formData d"
  by (cases j; simp add: admin_resume_def session_after_def guarded_request_def guarded_laws blind)+

lemma flag_parts:
  "isAuthenticated (flag_resume j out d) = session_after (FlagK j) out (isAuthenticated d)"
  "formData (flag_resume j out d) = formData d"
  by (cases j; simp add: flag_resume_def session_after_def guarded_request_def guarded_laws blind)+

lemma ops_parts:
  "isAuthenticated (ops_resume h j out d) = session_after (OpsK j) out (isAuthenticated d)"
  "formData (ops_resume h j out d) = formData d"
  by (cases j; simp add: ops_resume_def session_after_def guarded_request_def guarded_laws blind)+

lemma feat_parts:
  "isAuthenticated (feat_resume h j out d) = session_after (FeatK j) out (isAuthenticated d)"
  "formData (feat_resume h j out d) = formData d"
  by (cases j; simp add: feat_resume_def session_after_def guarded_request_def guarded_laws blind)+

lemmas part_sessions = session_parts tel_parts ex_parts user_parts admin_parts flag_parts ops_parts feat_parts

lemma resume_session: "isAuthenticated (app_resume h k out c) = session_after k out (isAuthenticated c)"
  by (cases k) (simp_all add: app_resume_def in_simps part_sessions)

lemma resume_form: "formData (app_resume h k out c) = formData c"
  by (cases k) (simp_all add: app_resume_def in_simps part_sessions)

section \<open>Properties\<close>

text \<open>
  C6. The whole life of the session. Whatever request of the console is answered, and
  however: a session begins only with an accepted bootstrap or login; it ends only with a
  401 of a guarded request, a bootstrap that was not accepted, or a logout, so neither a 403,
  nor a server error, nor a network failure of any other request ends it; and no reply ever
  touches the form that is being edited.
\<close>

theorem session_transitions:
  "isAuthenticated (app_resume h k out c) = session_after k out (isAuthenticated c) \<and>
   formData (app_resume h k out c) = formData c \<and>
   (\<not> isAuthenticated c \<and> isAuthenticated (app_resume h k out c) \<longleftrightarrow>
      \<not> isAuthenticated c \<and> (\<exists>r. out = Reply r \<and> res_ok r \<and> (k = SessionK KBootstrap \<or> k = SessionK KLogin))) \<and>
   (isAuthenticated c \<and> \<not> isAuthenticated (app_resume h k out c) \<longleftrightarrow>
      isAuthenticated c \<and>
      (guarded_request k \<and> unauthorized out \<or> (\<exists>r. out = Reply r \<and> \<not> res_ok r \<and> k = SessionK KBootstrap) \<or>
       k = SessionK KLogout))"
  unfolding resume_session resume_form
  by (cases out; cases k) (auto simp: session_after_def guarded_request_def split: session_k.splits)

end
