(* ===== verification/AppRun.thy ===== *)
theory AppRun
  imports AppSession
begin

text \<open>
  The console in use: what the page offers in a state, what each click, input, reply, timer
  and stream event does, and the states that can be reached. A step runs one event handler
  and lets the effects come to rest, as React does.
\<close>

section \<open>What the user can do\<close>

datatype session_event = TypeLogin string string | SubmitLogin | PressLogout

datatype shell_event = ClickMenu menu_item | ToggleTheme | OpenAlerts | OpenSystemSettings | GlobalSearch string
  | ResolveIncident jv

datatype user_event = ClickNewUser | ClickEditUser app_user | CancelUser | TypeUser string string | ClickSaveUser
  | ClickDeleteUser bool app_user | OpenUser app_user | BackToDirectory

datatype admin_event = ClickGrant | ClickEditAdmin admin_user | CancelAdmin | TypeAdmin string string | ClickSaveAdmin
  | ClickRevoke bool admin_user

datatype flag_event = ClickNewFlag | ClickEditFlag flag | CancelFlag | TypeFlag string string | ClickSaveFlag
  | ClickToggleFlag flag | OpenFlag flag | BackToFlags | EditTargeting targeting_op | ClickSaveTargeting

datatype ops_event = AppTab string | TypeSetting string string | FlipSetting string | Deploy
  | SystemTab string | RefreshJobs | ClickRetry jv | ClickCancelJob jv

datatype feat_event = ClickScreen string | ClickCluster string | ClickDismiss | ClickFlush string "string option"
  | TypeReason "string option" string | PickExpiry "string option" string | ClickKill "string option" | TypeRunAsUser string | TypeRunAsLocale string
  | ClickRun string

datatype ex_event = ClickCollection string | ClickScope string | TypeSearch string | ClickSort string
  | ToggleFilters | CloseFilters | TypeFilter string string | ApplyFilters | ResetFilters | PickPerPage int | ClickPrev | ClickNext | ClickPage int
  | CheckAll bool | CheckRow jv bool | CancelSelection | ClickNewEntry | ClickEditRow jv | ClickShowRow jv
  | CancelResource | CloseShow | TypeField string jv | ClickSaveResource | ClickDeleteRow bool jv
  | ClickCollectionAction bool jv | ClickMemberAction bool jv jv | ClickShowAction bool jv | ClickBatchAction bool jv
  | ClickRelated string string | ClickPin | ClickFeaturePin

section \<open>What the handlers do\<close>

definition session_do :: "host \<Rightarrow> session_event \<Rightarrow> session_ctx \<Rightarrow> session_ctx" where
  "session_do h e =
     (case e of
        TypeLogin k v \<Rightarrow> login_form_change k v
      | SubmitLogin \<Rightarrow> handleLogin h
      | PressLogout \<Rightarrow> handleLogout h)"

definition user_do :: "host \<Rightarrow> user_event \<Rightarrow> user_ctx \<Rightarrow> user_ctx" where
  "user_do h e =
     (case e of
        ClickNewUser \<Rightarrow> newUser
      | ClickEditUser u \<Rightarrow> handleEditUser u
      | CancelUser \<Rightarrow> closeUserModal
      | TypeUser k v \<Rightarrow> user_form_change k v
      | ClickSaveUser \<Rightarrow> saveUser h
      | ClickDeleteUser confirmed u \<Rightarrow> handleDeleteUser h confirmed u
      | OpenUser u \<Rightarrow> setSelectedUserId (uid u)
      | BackToDirectory \<Rightarrow> setSelectedUserId JNull)"

definition admin_do :: "host \<Rightarrow> admin_event \<Rightarrow> admin_ctx \<Rightarrow> admin_ctx" where
  "admin_do h e =
     (case e of
        ClickGrant \<Rightarrow> newAdmin
      | ClickEditAdmin a \<Rightarrow> handleEditAdmin a
      | CancelAdmin \<Rightarrow> closeAdminModal
      | TypeAdmin k v \<Rightarrow> admin_form_change k v
      | ClickSaveAdmin \<Rightarrow> saveAdmin h
      | ClickRevoke confirmed a \<Rightarrow> handleDeleteAdmin h confirmed a)"

definition flag_do :: "host \<Rightarrow> flag_event \<Rightarrow> flag_ctx \<Rightarrow> flag_ctx" where
  "flag_do h e =
     (case e of
        ClickNewFlag \<Rightarrow> newFlag
      | ClickEditFlag f \<Rightarrow> handleEditFlag f
      | CancelFlag \<Rightarrow> closeFlagModal
      | TypeFlag k v \<Rightarrow> flag_form_change k v
      | ClickSaveFlag \<Rightarrow> saveFlag h
      | ClickToggleFlag f \<Rightarrow> handleToggleFlag h f
      | OpenFlag f \<Rightarrow> setSelectedFlagId (flag_id f)
      | BackToFlags \<Rightarrow> setSelectedFlagId JNull
      | EditTargeting op \<Rightarrow> set_slice (run_targeting_op op)
      | ClickSaveTargeting \<Rightarrow> saveTargetingChanges h)"

definition ops_do :: "host \<Rightarrow> ops_event \<Rightarrow> ops_ctx \<Rightarrow> ops_ctx" where
  "ops_do h e =
     (case e of
        AppTab t \<Rightarrow> setAppSubTab t
      | TypeSetting k v \<Rightarrow> setSetting k v
      | FlipSetting k \<Rightarrow> toggleSetting k
      | Deploy \<Rightarrow> saveSettings h
      | SystemTab t \<Rightarrow> setSystemSubTab t
      | RefreshJobs \<Rightarrow> loadJobs h
      | ClickRetry i \<Rightarrow> handleRetryJob h i
      | ClickCancelJob i \<Rightarrow> handleCancelJob h i)"

text \<open>The kill switch controls act on the screen the pane shows.\<close>

definition shown_screen :: "feat_ctx \<Rightarrow> jv" where
  "shown_screen c = pane_screen (detail_pane (nav c) (featureTree (slice c)))"

definition feat_do :: "host \<Rightarrow> feat_event \<Rightarrow> feat_ctx \<Rightarrow> feat_ctx" where
  "feat_do h e c =
     (case e of
        ClickScreen n \<Rightarrow> selectScreen n c
      | ClickCluster n \<Rightarrow> selectCluster n c
      | ClickDismiss \<Rightarrow> dismissOrphans c
      | ClickFlush n sec \<Rightarrow> flushScreenCache h n sec c
      | TypeReason sec v \<Rightarrow> set_slice (typeKillReason (shown_screen c) sec v) c
      | PickExpiry sec v \<Rightarrow> set_slice (chooseExpiry (shown_screen c) sec v) c
      | ClickKill sec \<Rightarrow> pressKill h (shown_screen c) sec c
      | TypeRunAsUser v \<Rightarrow> setRunAsUser v c
      | TypeRunAsLocale v \<Rightarrow> setRunAsLocale v c
      | ClickRun n \<Rightarrow> handleRunAs h n c)"

definition active_collection :: "ex_ctx \<Rightarrow> collection" where
  "active_collection c = activeCollection (selectedCollectionId (nav c)) (slice c)"

definition ex_do :: "host \<Rightarrow> ex_event \<Rightarrow> ex_ctx \<Rightarrow> ex_ctx" where
  "ex_do h e c =
     (case e of
        ClickCollection i \<Rightarrow> c\<lparr>nav := (nav c)\<lparr>selectedCollectionId := i\<rparr>\<rparr>
      | ClickScope sc \<Rightarrow> set_slice (setScope sc) c
      | TypeSearch v \<Rightarrow> set_slice (handleSearch (active_collection c) v) c
      | ClickSort f \<Rightarrow> set_slice (handleSort f) c
      | ToggleFilters \<Rightarrow> set_slice toggleFilterSidebar c
      | CloseFilters \<Rightarrow> set_slice closeFilterSidebar c
      | TypeFilter k v \<Rightarrow> set_slice (setLocalFilter k v) c
      | ApplyFilters \<Rightarrow> set_slice applyFilters c
      | ResetFilters \<Rightarrow> set_slice resetFilters c
      | PickPerPage n \<Rightarrow> set_slice (setPerPage n) c
      | ClickPrev \<Rightarrow> set_slice pagePrev c
      | ClickNext \<Rightarrow> set_slice pageNext c
      | ClickPage n \<Rightarrow> set_slice (pagePick n) c
      | CheckAll b \<Rightarrow> set_slice (toggleAll (active_collection c) b) c
      | CheckRow r b \<Rightarrow> set_slice (toggleRow r b) c
      | CancelSelection \<Rightarrow> set_slice clearSelection c
      | ClickNewEntry \<Rightarrow> openNewEntry c
      | ClickEditRow r \<Rightarrow> openEditRow r c
      | ClickShowRow r \<Rightarrow> openShowRow r c
      | CancelResource \<Rightarrow> closeResourceModal c
      | CloseShow \<Rightarrow> closeShowModal c
      | TypeField k v \<Rightarrow> c\<lparr>formData := form_change k v (formData c)\<rparr>
      | ClickSaveResource \<Rightarrow> saveResource h c
      | ClickDeleteRow confirmed r \<Rightarrow> handleDeleteResource h confirmed r c
      | ClickCollectionAction confirmed act \<Rightarrow> handleCollectionAction h confirmed act c
      | ClickMemberAction confirmed act i \<Rightarrow> handleMemberAction h confirmed act i c
      | ClickShowAction confirmed act \<Rightarrow> showModalMemberAction h confirmed act c
      | ClickBatchAction confirmed act \<Rightarrow> handleBatchAction h confirmed act c
      | ClickRelated r i \<Rightarrow> openRelatedResource h r i c
      | ClickPin \<Rightarrow> togglePinning h (cid (active_collection c)) c
      | ClickFeaturePin \<Rightarrow> toggleFeaturePinning h c)"

definition set_page :: "string \<Rightarrow> app_ctx \<Rightarrow> app_ctx" where
  "set_page p c = c\<lparr>nav := (nav c)\<lparr>activePage := p\<rparr>\<rparr>"

definition flip_theme :: "app_full \<Rightarrow> app_full" where
  "flip_theme b = b\<lparr>theme := (if theme b = ''dark'' then ''light'' else ''dark'')\<rparr>"

definition shell_do :: "host \<Rightarrow> shell_event \<Rightarrow> app_ctx \<Rightarrow> app_ctx" where
  "shell_do h e c =
     (case e of
        ClickMenu i \<Rightarrow> c\<lparr>nav := run_call (leafClick i) (nav c)\<rparr>
      | ToggleTheme \<Rightarrow> on_slice flip_theme c
      | OpenAlerts \<Rightarrow> set_page ''alerts'' c
      | OpenSystemSettings \<Rightarrow> set_page ''system-settings'' c
      | GlobalSearch q \<Rightarrow> in_user (setSearch q) c
      | ResolveIncident i \<Rightarrow> in_tel (handleResolveIncident h i) c)"

datatype app_event = SessionE session_event | ShellE shell_event | UserE user_event | AdminE admin_event
  | FlagE flag_event | OpsE ops_event | FeatE feat_event | ExE ex_event

definition app_do :: "host \<Rightarrow> app_event \<Rightarrow> app_ctx \<Rightarrow> app_ctx" where
  "app_do h e =
     (case e of
        SessionE x \<Rightarrow> in_session (session_do h x)
      | ShellE x \<Rightarrow> shell_do h x
      | UserE x \<Rightarrow> in_user (user_do h x)
      | AdminE x \<Rightarrow> in_admin (admin_do h x)
      | FlagE x \<Rightarrow> in_flag (flag_do h x)
      | OpsE x \<Rightarrow> in_ops (ops_do h x)
      | FeatE x \<Rightarrow> in_feat (feat_do h x)
      | ExE x \<Rightarrow> in_ex (ex_do h x))"

section \<open>What the page offers\<close>

definition gate :: "app_ctx \<Rightarrow> screen_view" where
  "gate c = gate_view (isAuthenticated c) (session_part (slice c))"

definition on_page :: "string \<Rightarrow> app_ctx \<Rightarrow> bool" where
  "on_page p c = (activePage (nav c) = p)"

text \<open>\<open>adminConfig?.site?.features\<close> as the sidebar reads it.\<close>

definition feature_switch :: "jv \<Rightarrow> string \<Rightarrow> bool option" where
  "feature_switch config k =
     (case oget (oget (oget config ''site'') ''features'') k of JBool b \<Rightarrow> Some b | _ \<Rightarrow> None)"

definition config_features :: "jv \<Rightarrow> nav_features" where
  "config_features config =
     \<lparr>feature_flags = feature_switch config ''feature_flags'', api_docs = feature_switch config ''api_docs'',
      app_features = feature_switch config ''app_features'', liveops = feature_switch config ''liveops''\<rparr>"

definition sidebar_items :: "app_ctx \<Rightarrow> menu_item list" where
  "sidebar_items c =
     (let config = adminConfig (ex_part (slice c)) in
      case AdminNav (config_menu config) (config_features config) (providers (tel_part (slice c))) (nav c) of
        None \<Rightarrow> []
      | Some (heading, ns) \<Rightarrow> shown_items ns)"

definition session_offers :: "app_ctx \<Rightarrow> session_event \<Rightarrow> bool" where
  "session_offers c e =
     (case e of
        TypeLogin k v \<Rightarrow> gate c \<noteq> LoadingView \<and> gate c \<noteq> ConsoleView \<and> k \<in> {''username'', ''password''}
      | SubmitLogin \<Rightarrow> gate c \<noteq> LoadingView \<and> gate c \<noteq> ConsoleView
      | PressLogout \<Rightarrow> gate c = ConsoleView)"

definition shell_offers :: "app_ctx \<Rightarrow> shell_event \<Rightarrow> bool" where
  "shell_offers c e =
     (case e of
        ClickMenu i \<Rightarrow> i \<in> set (sidebar_items c)
      | ResolveIncident i \<Rightarrow> on_page ''alerts'' c \<and> i \<in> (\<lambda>x. oget x ''id'') ` set (incidents (tel_part (slice c)))
      | _ \<Rightarrow> True)"

definition user_offers :: "app_ctx \<Rightarrow> user_event \<Rightarrow> bool" where
  "user_offers c e =
     (let s = user_part (slice c);
          listed = on_page ''users'' c \<and> \<not> truthy (selectedUserId s);
          shown = (\<lambda>u. listed \<and> (case filteredUsers s of Inr us \<Rightarrow> u \<in> set us | Inl _ \<Rightarrow> False))
      in case e of
           ClickNewUser \<Rightarrow> listed
         | ClickEditUser u \<Rightarrow> shown u
         | ClickDeleteUser _ u \<Rightarrow> shown u
         | OpenUser u \<Rightarrow> shown u
         | BackToDirectory \<Rightarrow> on_page ''users'' c \<and> truthy (selectedUserId s)
         | TypeUser k v \<Rightarrow>
             isUserModalOpen s \<and>
             (k \<in> {''name'', ''email''} \<or> k = ''role'' \<and> v \<in> set ROLES \<or> k = ''status'' \<and> v \<in> set STATUSES)
         | _ \<Rightarrow> isUserModalOpen s)"

definition admin_offers :: "app_ctx \<Rightarrow> admin_event \<Rightarrow> bool" where
  "admin_offers c e =
     (let s = admin_part (slice c);
          listed = on_page ''system-settings'' c \<and> systemSubTab (ops_part (slice c)) = ''admins''
      in case e of
           ClickGrant \<Rightarrow> listed
         | ClickEditAdmin a \<Rightarrow> listed \<and> a \<in> set (adminUsers s)
         | ClickRevoke _ a \<Rightarrow> listed \<and> a \<in> set (adminUsers s)
         | TypeAdmin k v \<Rightarrow> isAdminModalOpen s \<and> (k \<in> {''name'', ''email''} \<or> k = ''tier'' \<and> (v = [] \<or> v \<in> set TIERS))
         | _ \<Rightarrow> isAdminModalOpen s)"

definition flag_offers :: "app_ctx \<Rightarrow> flag_event \<Rightarrow> bool" where
  "flag_offers c e =
     (let s = flag_part (slice c);
          listed = on_page ''feature-flags'' c \<and> \<not> truthy (selectedFlagId s);
          opened = on_page ''feature-flags'' c \<and> truthy (selectedFlagId s) \<and> activeFlag s \<noteq> None
      in case e of
           ClickNewFlag \<Rightarrow> listed
         | ClickEditFlag f \<Rightarrow> listed \<and> f \<in> set (flags s)
         | ClickToggleFlag f \<Rightarrow> listed \<and> f \<in> set (flags s)
         | OpenFlag f \<Rightarrow> listed \<and> f \<in> set (flags s)
         | BackToFlags \<Rightarrow> opened
         | EditTargeting op \<Rightarrow> opened \<and> targeting_op_offered s op
         | ClickSaveTargeting \<Rightarrow> opened
         | TypeFlag k v \<Rightarrow>
             isFlagModalOpen s \<and> (k \<in> {''key'', ''description''} \<or> k = ''environment'' \<and> v \<in> set ENVIRONMENTS)
         | _ \<Rightarrow> isFlagModalOpen s)"

definition ops_offers :: "host \<Rightarrow> app_ctx \<Rightarrow> ops_event \<Rightarrow> bool" where
  "ops_offers h c e =
     (let s = ops_part (slice c);
          on_jobs = on_page ''system-settings'' c \<and> systemSubTab s = ''jobs'';
          on_app = on_page ''app-settings'' c;
          job_offers = (\<lambda>b i. \<exists>job \<in> set (jobs s). oget job ''id'' = i \<and>
                      (case job_row_of h job of Inr row \<Rightarrow> b \<in> set (jr_buttons row) | Inl _ \<Rightarrow> False))
      in case e of
           RefreshJobs \<Rightarrow> on_jobs
         | ClickRetry i \<Rightarrow> on_jobs \<and> job_offers RetryButton i
         | ClickCancelJob i \<Rightarrow> on_jobs \<and> job_offers CancelButton i
         | SystemTab t \<Rightarrow> on_page ''system-settings'' c \<and> t \<in> {''keys'', ''admins'', ''workers'', ''jobs'', ''security''}
         | AppTab t \<Rightarrow> on_app \<and> t \<in> {''general'', ''onboarding'', ''auth''}
         | TypeSetting k v \<Rightarrow> on_app \<and> setting_typed (appSubTab s) k v
         | FlipSetting k \<Rightarrow> on_app \<and> setting_flipped (appSubTab s) k
         | Deploy \<Rightarrow> on_app)"

definition features_offers :: "nav_st \<Rightarrow> feat_st \<Rightarrow> feat_event \<Rightarrow> bool" where
  "features_offers n s e =
     (let t = featureTree s;
          pane = detail_pane n t;
          screen = pane_screen pane;
          name = js_string (oget screen ''name'');
          keys = set (control_keys pane)
      in case e of
           ClickScreen m \<Rightarrow> m \<in> (\<lambda>x. js_string (oget x ''name'')) ` set (all_screens t) \<or>
             (case pane of ClusterDetail cl _ \<Rightarrow> m \<in> js_string ` set (arr_items (oget cl ''screens_using'')) | _ \<Rightarrow> False)
         | ClickCluster m \<Rightarrow> m \<in> (\<lambda>x. js_string (oget x ''name'')) ` set (feature_clusters t)
         | ClickDismiss \<Rightarrow> show_orphan_banner s
         | ClickFlush m sec \<Rightarrow> m = name \<and> sec \<in> keys \<and> \<not> flush_busy screen sec s
         | TypeReason sec _ \<Rightarrow> sec \<in> keys
         | PickExpiry sec v \<Rightarrow> sec \<in> keys \<and> \<not> ks_active (kill_state screen sec) \<and> v \<in> fst ` set EXPIRY_OPTIONS
         | ClickKill sec \<Rightarrow> sec \<in> keys \<and> \<not> pending (control_of screen sec s)
         | ClickRun m \<Rightarrow> m = name \<and> keys \<noteq> {} \<and> \<not> runAsLoading s
         | _ \<Rightarrow> keys \<noteq> {})"

definition feat_offers :: "app_ctx \<Rightarrow> feat_event \<Rightarrow> bool" where
  "feat_offers c e = (on_page ''app-features'' c \<and> features_offers (nav c) (feat_part (slice c)) e)"

text \<open>The texts an input of the filter drawer can be given.\<close>

definition filter_typed :: "jv \<Rightarrow> string \<Rightarrow> string \<Rightarrow> bool" where
  "filter_typed f k v =
     (case filter_inputs f of
        None \<Rightarrow> False
      | Some (label, TextFilter j) \<Rightarrow> k = j
      | Some (label, SelectFilter j vs) \<Rightarrow> k = j \<and> v \<in> set vs
      | Some (label, DateFilter a b) \<Rightarrow> k = a \<or> k = b)"

definition explorer_offers :: "collection \<Rightarrow> ex_st \<Rightarrow> ex_event \<Rightarrow> bool" where
  "explorer_offers coll s e =
     (let acts = (\<lambda>k. set (arr_items (spec_actions coll k)));
          q = query s;
          total = totalPages (resourceTotalCount s) (perPage q);
          drawer = (isFilterSidebarOpen s \<and> has_items (filter_list coll));
          names = (\<lambda>fs. (\<lambda>x. js_string (oget x ''name'')) ` set fs)
      in case e of
           ClickCollection i \<Rightarrow> i \<in> cid ` set (collections s)
         | ClickScope sc \<Rightarrow> has_items (scope_list coll) \<and> sc \<in> names (arr_items (scope_list coll))
         | TypeSearch _ \<Rightarrow> selectedRowIds s = [] \<and> stringFilter coll \<noteq> None
         | ToggleFilters \<Rightarrow> selectedRowIds s = [] \<and> has_items (filter_list coll)
         | ClickSort f \<Rightarrow> f = ''id'' \<or> f \<in> names (visibleFields coll)
         | CloseFilters \<Rightarrow> drawer
         | ApplyFilters \<Rightarrow> drawer
         | ResetFilters \<Rightarrow> drawer
         | TypeFilter k v \<Rightarrow> drawer \<and> (\<exists>f \<in> set (arr_items (filter_list coll)). filter_typed f k v)
         | PickPerPage n \<Rightarrow> n \<in> set PER_PAGE
         | ClickPrev \<Rightarrow> 1 < total \<and> 1 < page q
         | ClickNext \<Rightarrow> 1 < total \<and> page q < total
         | ClickPage n \<Rightarrow> 1 < total \<and> n \<in> set (pageNumbers (resourceTotalCount s) q)
         | CheckAll _ \<Rightarrow> truthy (selectable coll)
         | CheckRow r _ \<Rightarrow> truthy (selectable coll) \<and> r \<in> set (rows coll)
         | CancelSelection \<Rightarrow> selectedRowIds s \<noteq> []
         | ClickNewEntry \<Rightarrow> True
         | ClickPin \<Rightarrow> True
         | ClickEditRow r \<Rightarrow> r \<in> set (rows coll)
         | ClickShowRow r \<Rightarrow> r \<in> set (rows coll)
         | ClickDeleteRow _ r \<Rightarrow> r \<in> set (rows coll)
         | ClickCollectionAction _ act \<Rightarrow> act \<in> acts ''collection_actions''
         | ClickMemberAction _ act i \<Rightarrow> act \<in> acts ''member_actions'' \<and> i \<in> (\<lambda>r. oget r ''id'') ` set (rows coll)
         | ClickBatchAction _ act \<Rightarrow> selectedRowIds s \<noteq> [] \<and> act \<in> acts ''batch_actions''
         | ClickRelated target i \<Rightarrow>
             i \<noteq> [] \<and> (\<exists>r \<in> set (rows coll). \<exists>f \<in> set (visibleFields coll). table_cell coll f r = CellLink target i)
         | _ \<Rightarrow> False)"

text \<open>The dialogue that edits a record, and the one that shows it.\<close>

definition value_typed :: "input_kind \<Rightarrow> jv \<Rightarrow> bool" where
  "value_typed kind v =
     (case kind of
        SelectInput vs \<Rightarrow> v \<in> JStr ` set vs
      | BoolInput \<Rightarrow> v \<in> {JBool True, JBool False, JUndef}
      | JsonInput \<Rightarrow> True
      | _ \<Rightarrow> (case v of JStr _ \<Rightarrow> True | _ \<Rightarrow> False))"

definition record_form_offers :: "collection \<Rightarrow> ex_st \<Rightarrow> ex_event \<Rightarrow> bool" where
  "record_form_offers coll s e =
     (case e of
        CancelResource \<Rightarrow> isResourceModalOpen s
      | ClickSaveResource \<Rightarrow> isResourceModalOpen s
      | TypeField k v \<Rightarrow>
          isResourceModalOpen s \<and>
          (\<exists>inp \<in> set (form_inputs coll). k = input_field inp \<and>
             (case input_kind_of coll (editingResource s \<noteq> None) inp of Some kind \<Rightarrow> value_typed kind v | None \<Rightarrow> False))
      | _ \<Rightarrow> False)"

definition details_offers :: "collection \<Rightarrow> ex_st \<Rightarrow> ex_event \<Rightarrow> bool" where
  "details_offers coll s e =
     (case e of
        CloseShow \<Rightarrow> isShowModalOpen s
      | ClickShowAction _ act \<Rightarrow>
          isShowModalOpen s \<and> truthy (showingResource s) \<and> act \<in> set (arr_items (spec_actions coll ''member_actions''))
      | ClickRelated target i \<Rightarrow>
          isShowModalOpen s \<and> truthy (showingResource s) \<and> i \<noteq> [] \<and>
          (\<exists>f \<in> set (show_fields coll). show_cell coll f (showingResource s) = CellLink target i)
      | _ \<Rightarrow> False)"

definition ex_offers :: "app_ctx \<Rightarrow> ex_event \<Rightarrow> bool" where
  "ex_offers c e =
     (let s = ex_part (slice c);
          coll = activeCollection (selectedCollectionId (nav c)) s
      in on_page ''resources'' c \<and> explorer_offers coll s e \<or>
         record_form_offers coll s e \<or> details_offers coll s e \<or>
         e = ClickFeaturePin \<and> on_page ''app-features'' c \<and> selectedFeatureNavPage (nav c) \<noteq> None)"

text \<open>Everything but the login form is behind the gate.\<close>

definition offered :: "host \<Rightarrow> app_ctx \<Rightarrow> app_event \<Rightarrow> bool" where
  "offered h c e =
     (case e of
        SessionE x \<Rightarrow> session_offers c x
      | ShellE x \<Rightarrow> gate c = ConsoleView \<and> shell_offers c x
      | UserE x \<Rightarrow> gate c = ConsoleView \<and> user_offers c x
      | AdminE x \<Rightarrow> gate c = ConsoleView \<and> admin_offers c x
      | FlagE x \<Rightarrow> gate c = ConsoleView \<and> flag_offers c x
      | OpsE x \<Rightarrow> gate c = ConsoleView \<and> ops_offers h c x
      | FeatE x \<Rightarrow> gate c = ConsoleView \<and> feat_offers c x
      | ExE x \<Rightarrow> gate c = ConsoleView \<and> ex_offers c x)"

section \<open>What happens by itself\<close>

datatype env_event = Arrives nat outcome | KeepaliveTick | PollTick | StreamMessage "jv res" | StreamError
  | Activity activity_event | IdleTimer | TimePasses int

text \<open>
  A request in flight is answered in any order; the timers run when they are armed; the
  listeners of the idle hook are there when its effect is.
\<close>

definition possible :: "app_ctx \<Rightarrow> env_event \<Rightarrow> bool" where
  "possible c e =
     (let b = slice c in
      case e of
        Arrives i _ \<Rightarrow> i < length (outbox c)
      | KeepaliveTick \<Rightarrow> keepalive_armed b
      | PollTick \<Rightarrow> poll_armed b
      | StreamMessage _ \<Rightarrow> sse_open b
      | StreamError \<Rightarrow> sse_open b
      | Activity _ \<Rightarrow> enabled (idle_options c)
      | IdleTimer \<Rightarrow> (case timer (idle_part b) of Some due \<Rightarrow> due \<le> clock b | None \<Rightarrow> False)
      | TimePasses t \<Rightarrow> clock b \<le> t)"

definition take_request :: "nat \<Rightarrow> app_ctx \<Rightarrow> app_ctx" where
  "take_request i c = c\<lparr>outbox := take i (outbox c) @ drop (Suc i) (outbox c)\<rparr>"

definition idle_timer_runs :: "host \<Rightarrow> app_ctx \<Rightarrow> app_ctx" where
  "idle_timer_runs h c =
     (let s = idle_part (slice c);
          s' = idle_fire (clock (slice c)) s;
          c' = on_slice (\<lambda>b. b\<lparr>idle_part := s'\<rparr>) c
      in if length (idleCalls s) < length (idleCalls s') then in_session (handleLogout h) c' else c')"

definition env_do :: "host \<Rightarrow> env_event \<Rightarrow> app_ctx \<Rightarrow> app_ctx" where
  "env_do h e c =
     (case e of
        Arrives i out \<Rightarrow> app_resume h (snd (outbox c ! i)) out (take_request i c)
      | KeepaliveTick \<Rightarrow> in_session (keepalive h) c
      | PollTick \<Rightarrow> poll h c
      | StreamMessage m \<Rightarrow> in_tel (set_slice (\<lambda>s. s\<lparr>perfData := sse_message m (perfData s)\<rparr>)) c
      | StreamError \<Rightarrow> on_slice (\<lambda>b. b\<lparr>sse_open := False\<rparr>) c
      | Activity _ \<Rightarrow>
          on_slice (\<lambda>b. b\<lparr>idle_part := bump (idleTimeoutSeconds (idle_options c)) (clock b) (idle_part b)\<rparr>) c
      | IdleTimer \<Rightarrow> idle_timer_runs h c
      | TimePasses t \<Rightarrow> on_slice (\<lambda>b. b\<lparr>clock := t\<rparr>) c)"

section \<open>Runs\<close>

text \<open>
  The kill switch controls are mounted while the page shows their screen, and unmounted
  with it.
\<close>

definition mount_controls :: "app_ctx \<Rightarrow> app_ctx" where
  "mount_controls c =
     in_feat (set_slice (\<lambda>s. render_controls
       (if gate c = ConsoleView \<and> on_page ''app-features'' c then detail_pane (nav c) (featureTree s) else NoDetail) s)) c"

definition refresh :: "host \<Rightarrow> app_ctx \<Rightarrow> app_ctx" where
  "refresh h c = mount_controls (rest h c)"

definition app_initial :: "int \<Rightarrow> app_ctx" where
  "app_initial now =
     \<lparr>isAuthenticated = False, formData = [],
      nav = \<lparr>activePage = ''dashboard'', selectedCollectionId = [], selectedScreenName = None, selectedClusterName = None\<rparr>,
      alerts = [], outbox = [],
      slice = \<lparr>session_part = session_initial, tel_part = tel_initial, ex_part = ex_initial, user_part = user_initial,
        admin_part = admin_initial, flag_part = flag_initial, ops_part = ops_initial, feat_part = feat_initial,
        theme = ''dark'', dark_class = False, keepalive_armed = False, poll_armed = False, sse_open = False,
        idle_part = idle_initial, clock = now, committed = None\<rparr>\<rparr>"

text \<open>A logout loads the page again: the run ends there, and the next one starts anew.\<close>

definition running :: "app_ctx \<Rightarrow> bool" where
  "running c = (reloads (session_part (slice c)) = 0)"

inductive app_step :: "host \<Rightarrow> app_ctx \<Rightarrow> app_ctx \<Rightarrow> bool" for h :: host where
  user: "running c \<Longrightarrow> offered h c e \<Longrightarrow> app_step h c (refresh h (app_do h e c))"
| env: "running c \<Longrightarrow> possible c e \<Longrightarrow> app_step h c (refresh h (env_do h e c))"

inductive app_reach :: "host \<Rightarrow> app_ctx \<Rightarrow> bool" for h :: host where
  start: "app_reach h (refresh h (app_initial now))"
| step: "app_reach h c \<Longrightarrow> app_step h c d \<Longrightarrow> app_reach h d"

inductive_cases app_stepE: "app_step h c d"

end
