(* ===== verification/AppInvariants.thy ===== *)
theory AppInvariants
  imports AppRun
begin

text \<open>
  What holds in every reachable state of the console: the effects are at rest, the timers
  and the stream follow the session, and nothing but the bootstrap request goes out before
  the server has answered it.
\<close>

section \<open>The resources outside the components\<close>

text \<open>The resources of the page lie outside the components, so no component's operation changes them.\<close>

definition outside :: "(app_full \<Rightarrow> 'a) \<Rightarrow> bool" where
  "outside g =
     (\<forall>b. (\<forall>p. g (put_session p b) = g b) \<and> (\<forall>p. g (put_tel p b) = g b) \<and> (\<forall>p. g (put_ex p b) = g b) \<and>
       (\<forall>p. g (put_user p b) = g b) \<and> (\<forall>p. g (put_admin p b) = g b) \<and> (\<forall>p. g (put_flag p b) = g b) \<and>
       (\<forall>p. g (put_ops p b) = g b) \<and> (\<forall>p. g (put_feat p b) = g b))"

lemma outside_fields [simp]:
  "outside dark_class" "outside keepalive_armed" "outside poll_armed" "outside sse_open" "outside idle_part"
  "outside clock" "outside committed" "outside theme"
  by (simp_all add: outside_def put_defs)

lemma outside_in:
  assumes "outside g"
  shows "g (slice (in_session f1 c)) = g (slice c)" "g (slice (in_tel f2 c)) = g (slice c)"
    "g (slice (in_ex f3 c)) = g (slice c)" "g (slice (in_user f4 c)) = g (slice c)"
    "g (slice (in_admin f5 c)) = g (slice c)" "g (slice (in_flag f6 c)) = g (slice c)"
    "g (slice (in_ops f7 c)) = g (slice c)" "g (slice (in_feat f8 c)) = g (slice c)"
  using assms by (simp_all add: outside_def in_simps)

lemma outside_resume: "outside g \<Longrightarrow> g (slice (app_resume h k out c)) = g (slice c)"
  by (cases k) (simp_all add: app_resume_def outside_in)

lemma outside_load: "outside g \<Longrightarrow> g (slice (load_effect h c)) = g (slice c)"
  by (simp add: load_effect_def outside_in)

lemma outside_poll: "outside g \<Longrightarrow> g (slice (poll h c)) = g (slice c)"
  by (simp add: poll_def outside_in)

lemmas component_effects = reset_effect_def run_as_effect_def records_effect_def targeting_edit_effect_def

lemma outside_effects:
  assumes "outside g"
  shows "keeps (\<lambda>c. g (slice c)) reset_effect" "keeps (\<lambda>c. g (slice c)) run_as_effect"
    "keeps (\<lambda>c. g (slice c)) (in_feat (observe_effect h))" "keeps (\<lambda>c. g (slice c)) (in_session (bootstrap h))"
    "keeps (\<lambda>c. g (slice c)) (in_ops (jobs_effect h))" "keeps (\<lambda>c. g (slice c)) (load_effect h)"
    "keeps (\<lambda>c. g (slice c)) (records_effect h q)" "keeps (\<lambda>c. g (slice c)) (in_user (user_detail_effect h))"
    "keeps (\<lambda>c. g (slice c)) targeting_edit_effect"
  by (simp_all add: keeps_def component_effects outside_in [OF assms] outside_load [OF assms])

lemma shell_effects:
  "keeps (\<lambda>c. g (slice c)) theme_effect" if "\<And>b v. g (b\<lparr>dark_class := v\<rparr>) = g b"
  using that by (simp add: keeps_def theme_effect_def on_slice_def)

lemma shell_effects2:
  "keeps (\<lambda>c. g (slice c)) keepalive_effect" if "\<And>b v. g (b\<lparr>keepalive_armed := v\<rparr>) = g b"
  using that by (simp add: keeps_def keepalive_effect_def on_slice_def)

lemma shell_effects3:
  "keeps (\<lambda>c. g (slice c)) idle_effect" if "\<And>b v. g (b\<lparr>idle_part := v\<rparr>) = g b"
  using that by (simp add: keeps_def idle_effect_def on_slice_def)

lemma shell_effects4:
  "keeps (\<lambda>c. g (slice c)) sse_effect" if "\<And>b v. g (b\<lparr>sse_open := v\<rparr>) = g b"
  using that by (simp add: keeps_def sse_effect_def on_slice_def)

lemma shell_effects5:
  "keeps (\<lambda>c. g (slice c)) (poll_effect h)" if "outside g" "\<And>b v. g (b\<lparr>poll_armed := v\<rparr>) = g b"
  using that by (simp add: keeps_def poll_effect_def on_slice_def outside_poll)

lemmas keep_rules = outside_effects shell_effects shell_effects2 shell_effects3 shell_effects4 shell_effects5

text \<open>What a commit leaves in each resource.\<close>

lemma commit_dark:
  "dark_class (slice (commit h c)) =
     (if when_changed (committed (slice c)) d_theme c then theme (slice c) = ''dark'' else dark_class (slice c))"
proof -
  let ?obs = "\<lambda>c. dark_class (slice c)" and ?B = "when_changed (committed (slice c)) d_theme c"
  have set: "sets_to c ?obs (theme (slice c) = ''dark'') theme_effect"
    by (simp add: sets_to_def theme_effect_def on_slice_def stable_def)
  have "?obs (fold run_guarded (effects h c) c) = (if ?B then theme (slice c) = ''dark'' else ?obs c)"
  proof (rule obs_effects [where e = theme_effect])
    fix b f assume "(b, f) \<in> set (effects h c)"
    then show "framed f \<and> (keeps ?obs f \<or> b = ?B \<and> sets_to c ?obs (theme (slice c) = ''dark'') f)"
      by (auto simp: effects_def Let_def frames set keep_rules)
  qed (simp_all add: effects_def Let_def set)
  then show ?thesis by (simp add: commit_def on_slice_def)
qed

lemma commit_keepalive:
  "keepalive_armed (slice (commit h c)) =
     (if when_changed (committed (slice c)) d_auth c then isAuthenticated c else keepalive_armed (slice c))"
proof -
  let ?obs = "\<lambda>c. keepalive_armed (slice c)" and ?B = "when_changed (committed (slice c)) d_auth c"
  let ?v = "isAuthenticated c"
  have set: "sets_to c ?obs ?v keepalive_effect"
    by (auto simp: sets_to_def keepalive_effect_def on_slice_def stable_def idle_options_def outside_poll)
  have "?obs (fold run_guarded (effects h c) c) = (if ?B then ?v else ?obs c)"
  proof (rule obs_effects [where e = "keepalive_effect"])
    fix b f assume "(b, f) \<in> set (effects h c)"
    then show "framed f \<and> (keeps ?obs f \<or> b = ?B \<and> sets_to c ?obs ?v f)"
      by (auto simp: effects_def Let_def frames set keep_rules)
  qed (simp_all add: effects_def Let_def set)
  then show ?thesis by (simp add: commit_def on_slice_def)
qed

lemma commit_poll:
  "poll_armed (slice (commit h c)) =
     (if when_changed (committed (slice c)) d_auth c then isAuthenticated c else poll_armed (slice c))"
proof -
  let ?obs = "\<lambda>c. poll_armed (slice c)" and ?B = "when_changed (committed (slice c)) d_auth c"
  let ?v = "isAuthenticated c"
  have set: "sets_to c ?obs ?v (poll_effect h)"
    by (auto simp: sets_to_def poll_effect_def on_slice_def stable_def idle_options_def outside_poll)
  have "?obs (fold run_guarded (effects h c) c) = (if ?B then ?v else ?obs c)"
  proof (rule obs_effects [where e = "poll_effect h"])
    fix b f assume "(b, f) \<in> set (effects h c)"
    then show "framed f \<and> (keeps ?obs f \<or> b = ?B \<and> sets_to c ?obs ?v f)"
      by (auto simp: effects_def Let_def frames set keep_rules)
  qed (simp_all add: effects_def Let_def set)
  then show ?thesis by (simp add: commit_def on_slice_def)
qed

lemma commit_sse:
  "sse_open (slice (commit h c)) =
     (if when_changed (committed (slice c)) (\<lambda>e. (d_auth e, d_providers e)) c then isAuthenticated c \<and> can_stream (providers (tel_part (slice c))) else sse_open (slice c))"
proof -
  let ?obs = "\<lambda>c. sse_open (slice c)" and ?B = "when_changed (committed (slice c)) (\<lambda>e. (d_auth e, d_providers e)) c"
  let ?v = "isAuthenticated c \<and> can_stream (providers (tel_part (slice c)))"
  have set: "sets_to c ?obs ?v sse_effect"
    by (auto simp: sets_to_def sse_effect_def on_slice_def stable_def idle_options_def outside_poll)
  have "?obs (fold run_guarded (effects h c) c) = (if ?B then ?v else ?obs c)"
  proof (rule obs_effects [where e = "sse_effect"])
    fix b f assume "(b, f) \<in> set (effects h c)"
    then show "framed f \<and> (keeps ?obs f \<or> b = ?B \<and> sets_to c ?obs ?v f)"
      by (auto simp: effects_def Let_def frames set keep_rules)
  qed (simp_all add: effects_def Let_def set)
  then show ?thesis by (simp add: commit_def on_slice_def)
qed

definition mounted_timer :: "idle_opts \<Rightarrow> int \<Rightarrow> int option" where
  "mounted_timer opts now =
     (if enabled opts \<and> 0 < idleTimeoutSeconds opts
      then Some (now + timeout_delay (idleTimeoutSeconds opts * 1000)) else None)"

lemma commit_idle:
  "timer (idle_part (slice (commit h c))) =
     (if when_changed (committed (slice c)) d_idle c then mounted_timer (idle_options c) (clock (slice c))
      else timer (idle_part (slice c)))"
proof -
  let ?obs = "\<lambda>c. timer (idle_part (slice c))" and ?B = "when_changed (committed (slice c)) d_idle c"
  let ?v = "mounted_timer (idle_options c) (clock (slice c))"
  have set: "sets_to c ?obs ?v idle_effect"
    unfolding sets_to_def
  proof (intro allI impI)
    fix d assume st: "stable d = stable c"
    then have "idle_options d = idle_options c" "clock (slice d) = clock (slice c)"
      by (rule idle_options_stable) (use st in \<open>simp add: stable_def\<close>)
    then show "timer (idle_part (slice (idle_effect d))) = ?v"
      by (simp add: idle_effect_def on_slice_def idle_mount_def idle_unmount_def bump_def mounted_timer_def)
  qed
  have keep: "keeps ?obs f" if "keeps (\<lambda>c. idle_part (slice c)) f" for f
    using that by (simp add: keeps_def)
  have "?obs (fold run_guarded (effects h c) c) = (if ?B then ?v else ?obs c)"
  proof (rule obs_effects [where e = idle_effect])
    fix b f assume "(b, f) \<in> set (effects h c)"
    then show "framed f \<and> (keeps ?obs f \<or> b = ?B \<and> sets_to c ?obs ?v f)"
      by (auto simp: effects_def Let_def frames set keep_rules intro!: keep)
  qed (simp_all add: effects_def Let_def set)
  then show ?thesis by (simp add: commit_def on_slice_def)
qed

section \<open>The resources follow the dependencies\<close>

definition in_order :: "app_ctx \<Rightarrow> bool" where
  "in_order c =
     (let b = slice c in
      case committed b of
        None \<Rightarrow> \<not> keepalive_armed b \<and> \<not> poll_armed b \<and> \<not> sse_open b \<and> timer (idle_part b) = None
      | Some d \<Rightarrow>
          dark_class b = (d_theme d = ''dark'') \<and> keepalive_armed b = d_auth d \<and> poll_armed b = d_auth d \<and>
          (sse_open b \<longrightarrow> d_auth d \<and> can_stream (d_providers d)) \<and>
          (timer (idle_part b) \<noteq> None \<longrightarrow> enabled (d_idle d)))"

lemma in_order_cong:
  assumes "\<And>g :: app_full \<Rightarrow> bool. outside g \<Longrightarrow> g (slice d) = g (slice c)"
    and "idle_part (slice d) = idle_part (slice c)" and "committed (slice d) = committed (slice c)"
  shows "in_order d = in_order c"
  using assms(1) [of dark_class] assms(1) [of keepalive_armed] assms(1) [of poll_armed] assms(1) [of sse_open] assms(2,3)
  by (simp add: in_order_def Let_def split: option.split)

lemma in_order_commit:
  assumes "in_order c"
  shows "in_order (commit h c)"
proof (cases "committed (slice c)")
  case None
  then show ?thesis
    by (simp add: in_order_def Let_def commit_dark commit_keepalive commit_poll commit_sse commit_idle when_changed_def
        deps_of_def mounted_timer_def)
next
  case (Some old)
  with assms show ?thesis
    by (auto simp: in_order_def Let_def commit_dark commit_keepalive commit_poll commit_sse commit_idle when_changed_def
        deps_of_def mounted_timer_def split: if_splits)
qed

lemma in_order_settle: "settle n h c = Some d \<Longrightarrow> in_order c \<Longrightarrow> in_order d"
  by (induction n h c rule: settle.induct) (auto simp: in_order_commit split: if_splits)

lemma in_order_rest: "in_order c \<Longrightarrow> in_order (rest h c)"
  using settle_total [of h c] by (auto simp: rest_def dest: in_order_settle)

definition at_rest :: "app_ctx \<Rightarrow> bool" where
  "at_rest c = (quiescent c \<and> in_order c)"

lemma mount_keeps [simp]:
  "isAuthenticated (mount_controls c) = isAuthenticated c" "nav (mount_controls c) = nav c"
  "formData (mount_controls c) = formData c" "outbox (mount_controls c) = outbox c"
  "alerts (mount_controls c) = alerts c" "deps_of (mount_controls c) = deps_of c"
  "outside g \<Longrightarrow> g (slice (mount_controls c)) = g (slice c)"
  "session_part (slice (mount_controls c)) = session_part (slice c)"
  "user_part (slice (mount_controls c)) = user_part (slice c)"
  "ex_part (slice (mount_controls c)) = ex_part (slice c)"
  "idle_options (mount_controls c) = idle_options c"
  by (simp_all add: mount_controls_def in_simps put_defs deps_of_def idle_options_def outside_def)

lemma at_rest_refresh: "in_order c \<Longrightarrow> at_rest (refresh h c)"
proof -
  assume "in_order c"
  then have "in_order (rest h c)" by (rule in_order_rest)
  moreover have "in_order (refresh h c) = in_order (rest h c)"
    by (rule in_order_cong) (simp_all add: refresh_def)
  ultimately show ?thesis
    using rest_quiescent [of h c] by (simp add: at_rest_def refresh_def quiescent_def)
qed

section \<open>Events\<close>

lemma outside_do:
  assumes "outside g" and "\<And>b v. g (b\<lparr>theme := v\<rparr>) = g b"
  shows "g (slice (app_do h e c)) = g (slice c)"
proof (cases e)
  case (ShellE x)
  then show ?thesis
    by (cases x) (simp_all add: app_do_def shell_do_def on_slice_def set_page_def flip_theme_def assms outside_in)
qed (simp_all add: app_do_def outside_in assms(1))

lemma in_order_do: "in_order (app_do h e c) = in_order c"
proof -
  have "dark_class (slice (app_do h e c)) = dark_class (slice c)"
    "keepalive_armed (slice (app_do h e c)) = keepalive_armed (slice c)"
    "poll_armed (slice (app_do h e c)) = poll_armed (slice c)" "sse_open (slice (app_do h e c)) = sse_open (slice c)"
    "idle_part (slice (app_do h e c)) = idle_part (slice c)" "committed (slice (app_do h e c)) = committed (slice c)"
    by (simp_all add: outside_do)
  then show ?thesis by (simp add: in_order_def Let_def split: option.split)
qed

lemma idle_timer_slices:
  "outside g \<Longrightarrow> g (slice (idle_timer_runs h c)) =
     g ((slice c)\<lparr>idle_part := idle_fire (clock (slice c)) (idle_part (slice c))\<rparr>)"
  by (simp add: idle_timer_runs_def Let_def on_slice_def outside_in)

lemma in_order_env:
  assumes "at_rest c" and "possible c e"
  shows "in_order (env_do h e c)"
proof -
  have c: "in_order c" "committed (slice c) = Some (deps_of c)" using assms(1) by (simp_all add: at_rest_def quiescent_def)
  have keep: "in_order d" if "\<And>g :: app_full \<Rightarrow> bool. outside g \<Longrightarrow> g (slice d) = g (slice c)"
    "idle_part (slice d) = idle_part (slice c)" "committed (slice d) = committed (slice c)" for d
    using c(1) in_order_cong [OF that] by simp
  show ?thesis
  proof (cases e)
    case (Arrives i out)
    then show ?thesis by (intro keep) (simp_all add: env_do_def outside_resume take_request_def)
  next
    case (Activity a)
    then have "enabled (d_idle (deps_of c))" using assms(2) by (simp add: possible_def deps_of_def)
    then show ?thesis using c Activity by (simp add: in_order_def Let_def env_do_def on_slice_def)
  next
    case IdleTimer
    then show ?thesis
      using c by (simp add: in_order_def env_do_def idle_timer_slices idle_fire_def Let_def)
  qed (use c in \<open>simp_all add: keep env_do_def outside_in outside_poll on_slice_def in_order_def Let_def\<close>)
qed

lemma at_rest_step: "app_step h c d \<Longrightarrow> at_rest c \<Longrightarrow> at_rest d"
proof (induction rule: app_step.induct)
  case (user c e)
  then show ?case by (intro at_rest_refresh) (simp add: in_order_do at_rest_def)
next
  case (env c e)
  then show ?case by (intro at_rest_refresh in_order_env)
qed

lemma at_rest_reach: "app_reach h c \<Longrightarrow> at_rest c"
proof (induction rule: app_reach.induct)
  case (start now)
  show ?case by (rule at_rest_refresh) (simp add: in_order_def app_initial_def idle_initial_def)
next
  case (step c d)
  then show ?case by (blast intro: at_rest_step)
qed

section \<open>Before the bootstrap is answered\<close>

definition boot_inv :: "host \<Rightarrow> app_ctx \<Rightarrow> bool" where
  "boot_inv h c =
     (authChecked (session_part (slice c)) \<or> (\<not> isAuthenticated c \<and> outbox c = bootstrap_requests h))"

lemma checked_stays:
  "authChecked (session_part (slice c)) \<Longrightarrow> authChecked (session_part (slice (app_do h e c)))"
proof -
  assume a: "authChecked (session_part (slice c))"
  show ?thesis
  proof (cases e)
    case (SessionE x)
    with a show ?thesis
      by (cases x) (simp_all add: app_do_def session_do_def in_simps put_defs login_form_change_def handleLogin_def
          handleLogout_def Let_def zoom_in_def)
  next
    case (ShellE x)
    with a show ?thesis
      by (cases x) (simp_all add: app_do_def shell_do_def on_slice_def set_page_def flip_theme_def in_simps put_defs)
  qed (use a in \<open>simp_all add: app_do_def in_simps put_defs\<close>)
qed

lemma checked_resume:
  "authChecked (session_part (slice c)) \<or> k = SessionK KBootstrap \<Longrightarrow>
     authChecked (session_part (slice (app_resume h k out c)))"
proof (cases k)
  case (SessionK j)
  assume "authChecked (session_part (slice c)) \<or> k = SessionK KBootstrap"
  with SessionK show ?thesis
    by (cases j; cases out; simp add: app_resume_def in_simps put_defs session_resume_def on_bootstrap_eval
        on_keepalive_eval on_login_eval on_logout_eval zoom_in_def)
qed (simp_all add: app_resume_def in_simps put_defs)

lemma checked_refresh [simp]: "session_part (slice (refresh h c)) = session_part (slice c)"
  by (simp add: refresh_def)

lemma checked_env:
  "authChecked (session_part (slice c)) \<Longrightarrow> authChecked (session_part (slice (env_do h e c)))"
  by (cases e)
    (simp_all add: env_do_def checked_resume take_request_def in_simps put_defs on_slice_def poll_def keepalive_def
      zoom_in_def idle_timer_runs_def handleLogout_def Let_def)

lemma offered_checked: "offered h c e \<Longrightarrow> authChecked (session_part (slice c))"
  by (cases e; simp add: offered_def session_offers_def gate_def gate_view_def split: session_event.splits if_splits)

text \<open>What can happen by itself before the answer: the answer, or time.\<close>

lemma possible_unchecked:
  assumes "at_rest c" and "\<not> isAuthenticated c" and "possible c e"
  shows "(\<exists>i out. e = Arrives i out) \<or> (\<exists>t. e = TimePasses t)"
proof -
  have "committed (slice c) = Some (deps_of c)" "in_order c" using assms(1) by (simp_all add: at_rest_def quiescent_def)
  then have "\<not> keepalive_armed (slice c)" "\<not> poll_armed (slice c)" "\<not> sse_open (slice c)" "timer (idle_part (slice c)) = None"
    "\<not> enabled (idle_options c)"
    using assms(2) by (auto simp: in_order_def Let_def deps_of_def idle_options_def)
  then show ?thesis using assms(3) by (cases e) (simp_all add: possible_def Let_def)
qed

lemma refresh_quiet: "quiescent c \<Longrightarrow> outbox (refresh h c) = outbox c" "isAuthenticated (refresh h c) = isAuthenticated c"
  by (simp_all add: refresh_def rest_id)

lemma boot_inv_step:
  assumes "app_step h c d" and "at_rest c" and "boot_inv h c"
  shows "boot_inv h d"
  using assms
proof (induction rule: app_step.induct)
  case (user c e)
  then have "authChecked (session_part (slice c))" by (blast dest: offered_checked)
  then show ?case by (simp add: boot_inv_def checked_stays)
next
  case (env c e)
  show ?case
  proof (cases "authChecked (session_part (slice c))")
    case True
    then show ?thesis by (simp add: boot_inv_def checked_env)
  next
    case False
    with env.prems have c: "\<not> isAuthenticated c" "outbox c = bootstrap_requests h" by (simp_all add: boot_inv_def)
    from possible_unchecked [OF env.prems(1) c(1) env.hyps(2)] show ?thesis
    proof (elim disjE exE)
      fix i out assume e: "e = Arrives i out"
      with env.hyps(2) c(2) have "i = 0" by (simp add: possible_def bootstrap_requests_def)
      with e c(2) show ?thesis
        by (simp add: boot_inv_def env_do_def bootstrap_requests_def get_def checked_resume)
    next
      fix t assume e: "e = TimePasses t"
      have "quiescent (env_do h e c)"
        using env.prems(1) by (simp add: e env_do_def at_rest_def quiescent_def on_slice_def deps_of_def idle_options_def)
      with e c show ?thesis by (simp add: boot_inv_def refresh_quiet) (simp add: env_do_def on_slice_def)
    qed
  qed
qed

lemma boot_inv_start: "boot_inv h (refresh h (app_initial now))"
proof -
  let ?c = "app_initial now"
  have un: "\<not> isAuthenticated ?c" "committed (slice ?c) = None" by (simp_all add: app_initial_def)
  have "outbox (commit h ?c) = bootstrap_requests h"
    by (simp add: outbox_commit_eq commit_requests_eq un sent_def when_changed_def)
      (simp add: app_initial_def request_defs Let_def)
  moreover have "\<not> quiescent ?c" using un by (simp add: quiescent_def)
  moreover have "outbox (rest h (commit h ?c)) = outbox (commit h ?c)"
    by (rule signed_out_rest) (simp_all add: un)
  ultimately have "outbox (rest h ?c) = bootstrap_requests h"
    by (cases "quiescent (commit h ?c)") (simp_all add: rest_one rest_two rest_id, metis rest_one rest_two rest_quiescent rest_id)
  then show ?thesis by (simp add: boot_inv_def refresh_def un)
qed

lemma boot_inv_reach: "app_reach h c \<Longrightarrow> boot_inv h c"
proof (induction rule: app_reach.induct)
  case (step c d)
  then show ?case by (blast intro: boot_inv_step at_rest_reach)
qed (rule boot_inv_start)

end
