(* ===== verification/AppTheorems.thy ===== *)
theory AppTheorems
  imports AppInvariants
begin

text \<open>
  The properties of the console as a whole: its effects come to rest, its timers follow the
  session, and what a login, a click on a collection and a login over an open dialogue
  really send.
\<close>

text \<open>
  C10. The effects always come to rest. Whatever changed, at most two commits later nothing
  an effect depends on has changed any more, and the effects themselves have changed
  neither the session nor the page, the form or the alerts; they only add requests.
\<close>

theorem effects_come_to_rest:
  "\<exists>d. settle 3 h c = Some d \<and> quiescent d \<and> isAuthenticated d = isAuthenticated c \<and> nav d = nav c \<and>
     formData d = formData c \<and> alerts d = alerts c \<and> (\<exists>xs. outbox d = outbox c @ xs)"
proof -
  obtain d where d: "settle 3 h c = Some d" "quiescent d" "\<exists>xs. outbox d = outbox c @ xs"
    using settle_total by blast
  with stable_settle [OF d(1)] show ?thesis by (auto simp: stable_def)
qed

text \<open>
  C1. Nothing happens before the server has answered the first request. Until the bootstrap
  is settled the page shows that it is loading, there is no session, the only request in
  flight is the one for the session, and no click or key is accepted.
\<close>

theorem nothing_before_bootstrap:
  assumes "app_reach h c" and "\<not> authChecked (session_part (slice c))"
  shows "gate c = LoadingView \<and> \<not> isAuthenticated c \<and>
    outbox c = [(\<lparr>rmethod = GET, rurl = admin_api h @ ''/session'', rbody = None\<rparr>, SessionK KBootstrap)] \<and>
    \<not> offered h c e"
proof -
  have "boot_inv h c" using assms(1) by (rule boot_inv_reach)
  moreover have "\<not> offered h c e" using assms(2) by (blast dest: offered_checked)
  ultimately show ?thesis
    using assms(2) by (simp add: boot_inv_def bootstrap_requests_def get_def gate_def gate_view_def)
qed

theorem nothing_before_bootstrap_witness:
  "outbox (refresh byte_host (app_initial 0)) =
     [(\<lparr>rmethod = GET, rurl = admin_api byte_host @ ''/session'', rbody = None\<rparr>, SessionK KBootstrap)]"
  using nothing_before_bootstrap [OF app_reach.start, of byte_host 0]
  by (simp add: app_initial_def session_initial_def)

text \<open>
  C7. A login loads the console. When the server accepts a login on a page at rest, the
  effects send, in this order and nothing else: the metrics of the selected screen, the jobs
  if their tab is open, the administrators, users, flags, configuration, settings, incidents
  if they can be listed, providers and features, the records of the selected collection, the
  two polled summaries and the selected user's detail and audit log.
\<close>

theorem login_loads_console:
  assumes "quiescent c" and "\<not> isAuthenticated c" and "res_ok r"
  shows "let c' = c\<lparr>isAuthenticated := True\<rparr> in
    outbox (refresh h (app_resume h (SessionK KLogin) (Reply r) c)) =
      outbox c @ observe_requests h c' @ jobs_requests h c' @ load_requests h c'
        @ record_requests h (query (ex_part (slice c))) c' @ poll_requests h c' @ user_requests h c'"
proof -
  let ?d = "app_resume h (SessionK KLogin) (Reply r) c"
  have d: "isAuthenticated ?d" "nav ?d = nav c" "outbox ?d = outbox c" "ex_part (slice ?d) = ex_part (slice c)"
    "committed (slice ?d) = Some (deps_of c)" "tel_part (slice ?d) = tel_part (slice c)" "ops_part (slice ?d) = ops_part (slice c)"
    "user_part (slice ?d) = user_part (slice c)"
    using assms by (simp_all add: app_resume_def session_resume_def in_simps put_defs on_login_eval zoom_in_def quiescent_def)
  have deps: "d_collection (deps_of ?d) = d_collection (deps_of c)" "d_auth (deps_of ?d)" "\<not> d_auth (deps_of c)"
    "d_query (deps_of ?d) = d_query (deps_of c)"
    using assms(2) by (simp_all add: deps_of_def d)
  have reqs: "commit_requests h ?d = (let c' = c\<lparr>isAuthenticated := True\<rparr> in
      observe_requests h c' @ jobs_requests h c' @ load_requests h c'
        @ record_requests h (query (ex_part (slice c))) c' @ poll_requests h c' @ user_requests h c')"
    by (simp add: commit_requests_eq sent_def when_changed_def d deps Let_def)
      (simp add: request_defs d Let_def)
  have "query_of (commit h ?d) = query_of ?d"
    by (simp add: commit_query when_changed_def d deps)
  then have v: "query_version (ex_part (slice (commit h ?d))) = query_version (ex_part (slice ?d))"
    by (simp add: query_of_def)
  have "quiescent (commit h ?d)"
    by (simp add: quiescent_def deps_commit v) (simp add: deps_of_def)
  moreover have "\<not> quiescent ?d" using deps by (auto simp: quiescent_def d)
  ultimately have "outbox (refresh h ?d) = outbox c @ commit_requests h ?d"
    by (simp add: refresh_def rest_one outbox_commit_eq d)
  with reqs show ?thesis by (simp add: Let_def)
qed

theorem login_loads_console_witness:
  "get ''/admin/api/admin/users'' (UserK KUsers) \<in>
     set (outbox (refresh byte_host (app_resume byte_host (SessionK KLogin) (Reply (json_reply 200 JNull))
       (rest byte_host (app_initial 0)))))"
proof -
  let ?c = "rest byte_host (app_initial 0)"
  have "\<not> isAuthenticated ?c" by (simp add: app_initial_def)
  from login_loads_console [OF rest_quiescent this, of "json_reply 200 JNull" byte_host]
  show ?thesis by (simp add: res_ok_def Let_def load_requests_def)
qed

text \<open>
  C37. Selecting a collection asks for it twice, first with the query of the collection that
  was selected before: the records effect sees the query as it was rendered, and the reset
  of the query only shows in the next commit. Both replies are stored as they come, so the
  table can end with rows sorted, filtered and paged for another collection.
\<close>

theorem selecting_sends_stale_query:
  assumes "quiescent c" and "isAuthenticated c" and "i \<noteq> []" and "i \<noteq> selectedCollectionId (nav c)"
  shows "outbox (refresh h (app_do h (ExE (ClickCollection i)) c)) = outbox c @
    [get (records_url h i (query (ex_part (slice c)))) (ExK (KRecords i)),
     get (records_url h i (default_query i (ex_part (slice c)))) (ExK (KRecords i))]"
proof -
  let ?d = "app_do h (ExE (ClickCollection i)) c"
  have d: "isAuthenticated ?d" "nav ?d = (nav c)\<lparr>selectedCollectionId := i\<rparr>" "outbox ?d = outbox c" "slice ?d = slice c"
    using assms(2) by (simp_all add: app_do_def ex_do_def in_simps put_defs zoom_in_def)
  have deps: "deps_of ?d = (deps_of c)\<lparr>d_collection := i\<rparr>"
    using assms(2) by (simp add: deps_of_def d idle_options_def)
  have old: "committed (slice c) = Some (deps_of c)" "d_collection (deps_of c) \<noteq> i"
    using assms(1,4) by (simp_all add: quiescent_def deps_of_def)
  have nq: "\<not> quiescent ?d"
  proof
    assume "quiescent ?d"
    then have "deps_of c = (deps_of c)\<lparr>d_collection := i\<rparr>" by (simp add: quiescent_def d old deps)
    then have "d_collection (deps_of c) = d_collection ((deps_of c)\<lparr>d_collection := i\<rparr>)" by (rule arg_cong)
    with old(2) show False by simp
  qed
  let ?e = "commit h ?d"
  have first: "outbox ?e = outbox c @ [get (records_url h i (query (ex_part (slice c)))) (ExK (KRecords i))]"
    by (simp add: outbox_commit_eq commit_requests_eq sent_def when_changed_def d old deps Let_def record_requests_def)
      (use assms(2,3) old(2) in \<open>auto simp: d\<close>)
  have q: "query_of ?e = (default_query i (ex_part (slice c)), Suc (query_version (ex_part (slice c))))"
    using assms(3) old(2) by (auto simp: commit_query when_changed_def d old deps)
  then have q': "query (ex_part (slice ?e)) = default_query i (ex_part (slice c))"
    "query_version (ex_part (slice ?e)) = Suc (query_version (ex_part (slice c)))"
    by (simp_all add: query_of_def)
  have e: "committed (slice ?e) = Some (deps_of ?d)" "deps_of ?e = (deps_of ?d)\<lparr>d_query := Suc (query_version (ex_part (slice c)))\<rparr>"
    by (simp_all add: deps_commit q')
  have v: "d_query (deps_of ?d) = query_version (ex_part (slice c))" by (simp add: deps_of_def d)
  have nav_e: "nav ?e = nav ?d" "isAuthenticated ?e"
    using stable_commit [of h ?d] d by (simp_all add: stable_def)
  have "\<not> quiescent ?e"
  proof
    assume "quiescent ?e"
    then have "d_query (deps_of ?d) = d_query (deps_of ?e)" by (simp only: quiescent_def e(1) option.inject)
    then show False by (simp add: e(2) v)
  qed
  then have "outbox (refresh h ?d) = outbox (commit h ?e)"
    using nq by (simp add: refresh_def rest_two)
  also have "\<dots> = outbox ?e @ [get (records_url h i (default_query i (ex_part (slice c)))) (ExK (KRecords i))]"
    using assms(3)
    by (simp add: outbox_commit_eq commit_requests_eq sent_def when_changed_def e v Let_def record_requests_def nav_e d q')
  finally show ?thesis using first by simp
qed

theorem selecting_sends_stale_query_witness:
  "let c = rest byte_host ((app_initial 0)\<lparr>isAuthenticated := True\<rparr>) in
   length (outbox (refresh byte_host (app_do byte_host (ExE (ClickCollection ''orders'')) c))) = length (outbox c) + 2"
proof -
  let ?c = "rest byte_host ((app_initial 0)\<lparr>isAuthenticated := True\<rparr>)"
  have "isAuthenticated ?c" "''orders'' \<noteq> selectedCollectionId (nav ?c)" by (simp_all add: app_initial_def)
  from selecting_sends_stale_query [OF rest_quiescent this(1) _ this(2), of byte_host]
  show ?thesis by (simp add: Let_def)
qed

section \<open>Logging in over an open dialogue\<close>

text \<open>The dialogue of the users survives the effects.\<close>

lemma rest_user_dialogue [simp]:
  "isUserModalOpen (user_part (slice (refresh h c))) = isUserModalOpen (user_part (slice c))"
  "editingUser (user_part (slice (refresh h c))) = editingUser (user_part (slice c))"
  "formData (refresh h c) = formData c" "isAuthenticated (refresh h c) = isAuthenticated c"
proof -
  have "(user_part (slice (rest h c)))\<lparr>userDetail := JNull\<rparr> = (user_part (slice c))\<lparr>userDetail := JNull\<rparr>"
    using arg_cong [OF stable_rest [of h c], of sp_user] by (simp add: stable_def)
  then have "isUserModalOpen ((user_part (slice (rest h c)))\<lparr>userDetail := JNull\<rparr>) = isUserModalOpen ((user_part (slice c))\<lparr>userDetail := JNull\<rparr>)"
    "editingUser ((user_part (slice (rest h c)))\<lparr>userDetail := JNull\<rparr>) = editingUser ((user_part (slice c))\<lparr>userDetail := JNull\<rparr>)"
    by (rule arg_cong)+
  then show "isUserModalOpen (user_part (slice (refresh h c))) = isUserModalOpen (user_part (slice c))"
    "editingUser (user_part (slice (refresh h c))) = editingUser (user_part (slice c))"
    by (simp_all add: refresh_def)
qed (simp_all add: refresh_def)

lemma payload_keeps_password:
  assumes "ofield form ''password'' = JStr p"
  shows "\<exists>b. json_value (JObj (user_payload form)) = JObj b \<and> (''password'', JStr p) \<in> set b"
proof -
  have "ofield (user_payload form) ''password'' = JStr p" using assms by (simp add: ofield_user_payload)
  then have "(''password'', JStr p) \<in> set (user_payload form)"
    by (auto simp: ofield_def dest: map_of_SomeD split: option.splits)
  then show ?thesis by force
qed

text \<open>The run: the session expires, the administrator logs in again, and saves the dialogue that is still open.\<close>

definition relogin :: "host \<Rightarrow> response \<Rightarrow> string \<Rightarrow> response \<Rightarrow> app_ctx \<Rightarrow> app_ctx" where
  "relogin h expired p accepted c =
     (let c1 = refresh h (app_resume h (SessionK KKeepalive) (Reply expired) c);
          c2 = refresh h (app_do h (SessionE (TypeLogin ''password'' p)) c1);
          c3 = refresh h (app_do h (SessionE SubmitLogin) c2)
      in refresh h (app_resume h (SessionK KLogin) (Reply accepted) c3))"

text \<open>
  C34. Logging in over an open dialogue leaks the password. The login form and the dialogues
  share one form object. When the session expires while a user is being edited, the dialogue
  stays open behind the login form; after the administrator has logged in again the page
  offers to save it, and saving sends the administrator's password in the user's record.
\<close>

theorem relogin_leaks_password:
  assumes "isUserModalOpen (user_part (slice c))" and "editingUser (user_part (slice c)) = Some u"
    and "authChecked (session_part (slice c))" and "status expired = 401" and "res_ok accepted"
  shows "let d = relogin h expired p accepted c in
    offered h d (UserE ClickSaveUser) \<and>
    (\<exists>b. last (outbox (app_do h (UserE ClickSaveUser) d)) =
       (\<lparr>rmethod = PATCH, rurl = admin_api h @ ''/resources/user/'' @ encodeURIComponent (js_string (uid u)),
         rbody = Some (JObj b)\<rparr>, UserK (KPatchUser (uid u) (users (user_part (slice d))))) \<and>
       (''password'', JStr p) \<in> set b)"
proof -
  let ?d = "relogin h expired p accepted c"
  have d: "isUserModalOpen (user_part (slice ?d))" "editingUser (user_part (slice ?d)) = Some u"
    "authChecked (session_part (slice ?d))" "isAuthenticated ?d" "ofield (formData ?d) ''password'' = JStr p"
    using assms by (simp_all add: relogin_def Let_def app_resume_def app_do_def session_resume_def session_do_def
        in_simps put_defs on_login_eval on_keepalive_eval login_form_change_def handleLogin_def zoom_in_def)
  obtain b where b: "json_value (JObj (user_payload (formData ?d))) = JObj b" "(''password'', JStr p) \<in> set b"
    using payload_keeps_password [OF d(5)] by blast
  have "offered h ?d (UserE ClickSaveUser)"
    by (simp add: offered_def user_offers_def gate_def gate_view_def d Let_def)
  moreover have "last (outbox (app_do h (UserE ClickSaveUser) ?d)) =
       (\<lparr>rmethod = PATCH, rurl = admin_api h @ ''/resources/user/'' @ encodeURIComponent (js_string (uid u)),
         rbody = Some (JObj b)\<rparr>, UserK (KPatchUser (uid u) (users (user_part (slice ?d)))))"
    using b(1) by (simp add: app_do_def user_do_def in_simps saveUser_def Let_def zoom_in_def d del: json_value.simps)
  ultimately show ?thesis using b(2) by (simp add: Let_def)
qed

theorem relogin_leaks_password_witness:
  "let c = (app_initial 0)\<lparr>slice := (slice (app_initial 0))
             \<lparr>session_part := session_initial\<lparr>authChecked := True\<rparr>,
              user_part := user_initial\<lparr>isUserModalOpen := True, editingUser := Some bob\<rparr>\<rparr>\<rparr>
   in offered byte_host (relogin byte_host (json_reply 401 JNull) ''hunter2'' (json_reply 200 JNull) c) (UserE ClickSaveUser)"
proof -
  let ?c = "(app_initial 0)\<lparr>slice := (slice (app_initial 0))
             \<lparr>session_part := session_initial\<lparr>authChecked := True\<rparr>,
              user_part := user_initial\<lparr>isUserModalOpen := True, editingUser := Some bob\<rparr>\<rparr>\<rparr>"
  show ?thesis
    using relogin_leaks_password [of ?c bob "json_reply 401 JNull" "json_reply 200 JNull" byte_host "''hunter2''"]
    by (simp add: res_ok_def Let_def)
qed

end
