(* ===== verification/AppPhases.thy ===== *)
theory AppPhases
  imports AppInvariants
begin

text \<open>
  The console against an abstract session: loading, signed out, signed in. Every step of the
  console is a step of that machine, driven by the replies alone.
\<close>

section \<open>The abstract session\<close>

datatype phase = Loading | SignedOut | SignedIn

definition accepted :: "outcome \<Rightarrow> bool" where
  "accepted out = (case out of Reply r \<Rightarrow> res_ok r | _ \<Rightarrow> False)"

text \<open>The reply that arrives, if the step is one, decides.\<close>

fun phase_next :: "(app_k \<times> outcome) option \<Rightarrow> phase \<Rightarrow> phase" where
  "phase_next None p = p"
| "phase_next (Some (k, out)) Loading =
     (if k = SessionK KBootstrap then if accepted out then SignedIn else SignedOut else Loading)"
| "phase_next (Some (k, out)) SignedOut = (if k = SessionK KLogin \<and> accepted out then SignedIn else SignedOut)"
| "phase_next (Some (k, out)) SignedIn =
     (if k = SessionK KLogout \<or> guarded_request k \<and> unauthorized out then SignedOut else SignedIn)"

definition phase_of :: "app_ctx \<Rightarrow> phase" where
  "phase_of c = (case gate c of LoadingView \<Rightarrow> Loading | LoginView _ \<Rightarrow> SignedOut | ConsoleView \<Rightarrow> SignedIn)"

definition arrival :: "app_ctx \<Rightarrow> env_event \<Rightarrow> (app_k \<times> outcome) option" where
  "arrival c e = (case e of Arrives i out \<Rightarrow> Some (snd (outbox c ! i), out) | _ \<Rightarrow> None)"

lemma phase_of_fields:
  "phase_of c =
     (if \<not> authChecked (session_part (slice c)) then Loading else if isAuthenticated c then SignedIn else SignedOut)"
  by (simp add: phase_of_def gate_def gate_view_def)

lemma phase_refresh [simp]: "phase_of (refresh h c) = phase_of c"
  by (simp add: phase_of_fields) (simp add: refresh_def)

section \<open>The user changes no phase\<close>

lemma do_auth [simp]:
  "isAuthenticated (session_do h s x1) = isAuthenticated x1" "isAuthenticated (user_do h u x2) = isAuthenticated x2"
  "isAuthenticated (admin_do h a x3) = isAuthenticated x3" "isAuthenticated (flag_do h f x4) = isAuthenticated x4"
  "isAuthenticated (ops_do h p x5) = isAuthenticated x5" "isAuthenticated (feat_do h t x6) = isAuthenticated x6"
  "isAuthenticated (ex_do h x x7) = isAuthenticated x7"
proof -
  show "isAuthenticated (session_do h s x1) = isAuthenticated x1"
    by (cases s) (simp_all add: session_do_def login_form_change_def handleLogin_def handleLogout_def Let_def)
  show "isAuthenticated (user_do h u x2) = isAuthenticated x2"
    by (cases u) (simp_all add: user_do_def newUser_def handleEditUser_def closeUserModal_def user_form_change_def saveUser_def
        handleDeleteUser_def setSelectedUserId_def Let_def split: option.split)
  show "isAuthenticated (admin_do h a x3) = isAuthenticated x3"
    by (cases a) (simp_all add: admin_do_def newAdmin_def handleEditAdmin_def closeAdminModal_def admin_form_change_def
        saveAdmin_def handleDeleteAdmin_def Let_def split: option.split)
  show "isAuthenticated (flag_do h f x4) = isAuthenticated x4"
    by (cases f) (simp_all add: flag_do_def newFlag_def handleEditFlag_def closeFlagModal_def flag_form_change_def saveFlag_def
        handleToggleFlag_def setSelectedFlagId_def saveTargetingChanges_def Let_def split: option.split)
  show "isAuthenticated (ops_do h p x5) = isAuthenticated x5"
    by (cases p) (simp_all add: ops_do_def setAppSubTab_def setSetting_def toggleSetting_def saveSettings_def setSystemSubTab_def
        loadJobs_def handleRetryJob_def handleCancelJob_def Let_def)
  show "isAuthenticated (feat_do h t x6) = isAuthenticated x6"
    by (cases t) (simp_all add: feat_do_def selectScreen_def selectCluster_def dismissOrphans_def flushScreenCache_def pressKill_def
        toggleKillSwitch_def setRunAsUser_def setRunAsLocale_def handleRunAs_def Let_def split: option.split prod.split)
  show "isAuthenticated (ex_do h x x7) = isAuthenticated x7"
    by (cases x) (simp_all add: ex_do_def openNewEntry_def openEditRow_def openShowRow_def closeResourceModal_def
        closeShowModal_def saveResource_def handleDeleteResource_def handleCollectionAction_def handleMemberAction_def
        showModalMemberAction_def handleBatchAction_def openRelatedResource_def togglePinning_def toggleFeaturePinning_def
        nav_preference_def Let_def split: option.split)
qed

lemma app_do_auth [simp]: "isAuthenticated (app_do h e c) = isAuthenticated c"
proof (cases e)
  case (ShellE x)
  then show ?thesis
    by (cases x) (simp_all add: app_do_def shell_do_def on_slice_def set_page_def in_simps setSearch_def
        handleResolveIncident_def zoom_in_def)
qed (simp_all add: app_do_def in_simps zoom_in_def)

lemma phase_do: "offered h c e \<Longrightarrow> phase_of (app_do h e c) = phase_of c"
  using offered_checked checked_stays by (simp add: phase_of_fields)

section \<open>The bootstrap is asked for once\<close>

definition asked_once :: "app_ctx \<Rightarrow> bool" where
  "asked_once c =
     (committed (slice c) \<noteq> None \<and>
      (authChecked (session_part (slice c)) \<longrightarrow> SessionK KBootstrap \<notin> snd ` set (outbox c)))"

lemma asked_refresh:
  assumes "committed (slice c) \<noteq> None"
  shows "SessionK KBootstrap \<in> snd ` set (outbox (refresh h c)) \<longleftrightarrow> SessionK KBootstrap \<in> snd ` set (outbox c)"
proof -
  have one: "SessionK KBootstrap \<in> snd ` set (outbox (commit h d)) \<longleftrightarrow> SessionK KBootstrap \<in> snd ` set (outbox d)"
    if "committed (slice d) \<noteq> None" for d
    using that
    by (auto simp: outbox_commit_eq commit_requests_eq sent_def observe_requests_def jobs_requests_def load_requests_def
        incident_requests_def record_requests_def poll_requests_def user_requests_def get_def Let_def split: if_splits)
  have "SessionK KBootstrap \<in> snd ` set (outbox (rest h c)) \<longleftrightarrow> SessionK KBootstrap \<in> snd ` set (outbox c)"
  proof (cases "quiescent c")
    case True
    then show ?thesis by (simp add: rest_id)
  next
    case False
    then show ?thesis
      using one [OF assms] one [of "commit h c"] by (cases "quiescent (commit h c)") (simp_all add: rest_one rest_two)
  qed
  then show ?thesis by (simp add: refresh_def)
qed

lemma wrapped_keys:
  "SessionK KBootstrap \<in> snd ` set (outbox (in_session f1 c)) \<longleftrightarrow>
     SessionK KBootstrap \<in> snd ` set (outbox c) \<or> KBootstrap \<in> snd ` set (outbox (f1 (zoom_in session_part c)))"
  "SessionK KBootstrap \<in> snd ` set (outbox (in_tel f2 c)) \<longleftrightarrow> SessionK KBootstrap \<in> snd ` set (outbox c)"
  "SessionK KBootstrap \<in> snd ` set (outbox (in_ex f3 c)) \<longleftrightarrow> SessionK KBootstrap \<in> snd ` set (outbox c)"
  "SessionK KBootstrap \<in> snd ` set (outbox (in_user f4 c)) \<longleftrightarrow> SessionK KBootstrap \<in> snd ` set (outbox c)"
  "SessionK KBootstrap \<in> snd ` set (outbox (in_admin f5 c)) \<longleftrightarrow> SessionK KBootstrap \<in> snd ` set (outbox c)"
  "SessionK KBootstrap \<in> snd ` set (outbox (in_flag f6 c)) \<longleftrightarrow> SessionK KBootstrap \<in> snd ` set (outbox c)"
  "SessionK KBootstrap \<in> snd ` set (outbox (in_ops f7 c)) \<longleftrightarrow> SessionK KBootstrap \<in> snd ` set (outbox c)"
  "SessionK KBootstrap \<in> snd ` set (outbox (in_feat f8 c)) \<longleftrightarrow> SessionK KBootstrap \<in> snd ` set (outbox c)"
  by (force simp: in_simps)+

lemma session_asks:
  "KBootstrap \<notin> snd ` set (outbox (session_do h s (zoom_in session_part c)))"
  "KBootstrap \<notin> snd ` set (outbox (session_resume j out (zoom_in session_part c)))"
  "KBootstrap \<notin> snd ` set (outbox (keepalive h (zoom_in session_part c)))"
  "KBootstrap \<notin> snd ` set (outbox (handleLogout h (zoom_in session_part c)))"
proof -
  show "KBootstrap \<notin> snd ` set (outbox (session_do h s (zoom_in session_part c)))"
    by (cases s) (simp_all add: session_do_def login_form_change_def handleLogin_def handleLogout_def zoom_in_def Let_def)
  show "KBootstrap \<notin> snd ` set (outbox (session_resume j out (zoom_in session_part c)))"
    by (cases j; cases out)
      (simp_all add: session_resume_def on_bootstrap_eval on_keepalive_eval on_login_eval on_logout_eval zoom_in_def)
qed (simp_all add: keepalive_def handleLogout_def zoom_in_def)

lemma take_keys: "snd ` set (outbox (take_request i c)) \<subseteq> snd ` set (outbox c)"
  by (auto simp: take_request_def dest: in_set_takeD in_set_dropD)

lemma asked_do:
  "SessionK KBootstrap \<in> snd ` set (outbox (app_do h e c)) \<longleftrightarrow> SessionK KBootstrap \<in> snd ` set (outbox c)"
proof (cases e)
  case (ShellE x)
  then show ?thesis
    by (cases x) (simp_all add: app_do_def shell_do_def wrapped_keys on_slice_def set_page_def)
qed (simp_all add: app_do_def wrapped_keys session_asks)

lemma asked_resume:
  "SessionK KBootstrap \<in> snd ` set (outbox (app_resume h k out c)) \<longleftrightarrow> SessionK KBootstrap \<in> snd ` set (outbox c)"
  by (cases k) (simp_all add: app_resume_def wrapped_keys session_asks)

lemma asked_env:
  "SessionK KBootstrap \<in> snd ` set (outbox (env_do h e c)) \<Longrightarrow> SessionK KBootstrap \<in> snd ` set (outbox c)"
proof (cases e)
  case (Arrives i out)
  assume "SessionK KBootstrap \<in> snd ` set (outbox (env_do h e c))"
  with Arrives take_keys [of i c] show ?thesis by (auto simp: env_do_def asked_resume)
next
  case IdleTimer
  assume "SessionK KBootstrap \<in> snd ` set (outbox (env_do h e c))"
  with IdleTimer show ?thesis
    by (simp add: env_do_def idle_timer_runs_def Let_def wrapped_keys session_asks on_slice_def split: if_splits)
qed (simp_all add: env_do_def wrapped_keys session_asks poll_def on_slice_def)

lemma checked_resume_iff:
  "authChecked (session_part (slice (app_resume h k out c))) \<longleftrightarrow> authChecked (session_part (slice c)) \<or> k = SessionK KBootstrap"
proof (cases k)
  case (SessionK j)
  then show ?thesis
    by (cases j; cases out; simp add: app_resume_def in_simps put_defs session_resume_def on_bootstrap_eval
        on_keepalive_eval on_login_eval on_logout_eval zoom_in_def)
qed (simp_all add: app_resume_def in_simps put_defs)

lemma committed_refresh: "committed (slice (refresh h c)) \<noteq> None"
proof -
  have "committed (slice (refresh h c)) = committed (slice (rest h c))" by (simp add: refresh_def)
  then show ?thesis using rest_quiescent [of h c] by (simp add: quiescent_def)
qed

lemma committed_do: "committed (slice (app_do h e c)) = committed (slice c)"
  by (simp add: outside_do)

lemma committed_env: "committed (slice (env_do h e c)) = committed (slice c)"
proof (cases e)
  case IdleTimer
  then show ?thesis by (simp add: env_do_def idle_timer_slices)
qed (simp_all add: env_do_def outside_resume take_request_def outside_in outside_poll on_slice_def)

lemma asked_refresh_free:
  "committed (slice c) \<noteq> None \<Longrightarrow> SessionK KBootstrap \<notin> snd ` set (outbox c) \<Longrightarrow> asked_once (refresh h c)"
  by (simp add: asked_once_def committed_refresh asked_refresh)

lemma asked_step:
  assumes "app_step h c d" and "app_reach h c" and "asked_once c"
  shows "asked_once d"
  using assms(1)
proof (cases rule: app_step.cases)
  case (user e)
  then have "SessionK KBootstrap \<notin> snd ` set (outbox c)"
    using assms(3) offered_checked by (simp add: asked_once_def)
  then show ?thesis
    using user(1) assms(3) asked_refresh_free [of "app_do h e c" h] by (simp add: asked_do committed_do asked_once_def)
next
  case (env e)
  have com: "committed (slice (env_do h e c)) \<noteq> None" using assms(3) by (simp add: asked_once_def committed_env)
  show ?thesis
  proof (cases "authChecked (session_part (slice c))")
    case True
    then have "SessionK KBootstrap \<notin> snd ` set (outbox c)" using assms(3) by (simp add: asked_once_def)
    then show ?thesis using env(1) asked_refresh_free [OF com] asked_env by blast
  next
    case False
    have boot: "\<not> isAuthenticated c" "outbox c = bootstrap_requests h"
      using boot_inv_reach [OF assms(2)] False by (simp_all add: boot_inv_def)
    from possible_unchecked [OF at_rest_reach [OF assms(2)] boot(1) env(3)] show ?thesis
    proof (elim disjE exE)
      fix i out assume e: "e = Arrives i out"
      with env(3) boot(2) have "outbox (take_request i c) = []"
        by (simp add: possible_def take_request_def bootstrap_requests_def)
      then have "SessionK KBootstrap \<notin> snd ` set (outbox (env_do h e c))" by (simp add: e env_do_def asked_resume)
      then show ?thesis using env(1) asked_refresh_free [OF com] by blast
    next
      fix t assume e: "e = TimePasses t"
      then have "\<not> authChecked (session_part (slice d))" using env(1) False by (simp add: env_do_def on_slice_def)
      then show ?thesis using env(1) by (simp add: asked_once_def committed_refresh)
    qed
  qed
qed

lemma asked_reach: "app_reach h c \<Longrightarrow> asked_once c"
proof (induction rule: app_reach.induct)
  case (start now)
  have "\<not> authChecked (session_part (slice (refresh h (app_initial now))))"
    by (simp add: app_initial_def session_initial_def)
  then show ?case by (simp add: asked_once_def committed_refresh)
next
  case (step c d)
  then show ?case by (blast intro: asked_step)
qed

section \<open>The simulation\<close>

lemma phase_arrival:
  assumes "app_reach h c" and "i < length (outbox c)"
  shows "phase_of (env_do h (Arrives i out) c) = phase_next (Some (snd (outbox c ! i), out)) (phase_of c)"
proof -
  let ?k = "snd (outbox c ! i)"
  have k: "?k \<in> snd ` set (outbox c)" using assms(2) by simp
  have auth: "isAuthenticated (env_do h (Arrives i out) c) = session_after ?k out (isAuthenticated c)" for out
    by (simp add: env_do_def resume_session take_request_def)
  have chk: "authChecked (session_part (slice (env_do h (Arrives i out) c))) \<longleftrightarrow>
      authChecked (session_part (slice c)) \<or> ?k = SessionK KBootstrap" for out
    by (simp add: env_do_def checked_resume_iff) (simp add: take_request_def)
  show ?thesis
  proof (cases "authChecked (session_part (slice c))")
    case True
    then have "?k \<noteq> SessionK KBootstrap" using asked_reach [OF assms(1)] k unfolding asked_once_def by metis
    with True show ?thesis
      by (cases out; cases "isAuthenticated c")
        (auto simp: phase_of_fields auth chk session_after_def accepted_def unauthorized_def guarded_request_def
          split: app_k.splits session_k.splits)
  next
    case False
    then have "outbox c = bootstrap_requests h" "\<not> isAuthenticated c"
      using boot_inv_reach [OF assms(1)] by (simp_all add: boot_inv_def)
    then have "?k = SessionK KBootstrap" using assms(2) by (simp add: bootstrap_requests_def get_def)
    with False \<open>\<not> isAuthenticated c\<close> show ?thesis
      by (cases out) (simp_all add: phase_of_fields auth chk session_after_def accepted_def)
  qed
qed

lemma phase_env:
  assumes "app_reach h c" and "possible c e"
  shows "phase_of (env_do h e c) = phase_next (arrival c e) (phase_of c)"
proof (cases e)
  case (Arrives i out)
  with assms phase_arrival [OF assms(1), of i out] show ?thesis by (simp add: arrival_def possible_def)
next
  case IdleTimer
  then show ?thesis
    by (simp add: arrival_def phase_of_fields env_do_def idle_timer_runs_def Let_def in_simps put_defs on_slice_def
        handleLogout_def zoom_in_def)
qed (simp_all add: arrival_def phase_of_fields env_do_def keepalive_def poll_def in_simps put_defs on_slice_def
    fetchDashboardData_def fetchMetricsSummary_def zoom_in_def)

text \<open>
  C2. The console implements the abstract session. Seen through its gate, the console is the
  three-state machine \<open>phase_next\<close>: nothing the user does, no timer and no message of the stream
  changes the phase; a reply changes it exactly as the machine says: the bootstrap leaves the
  loading screen for good, an accepted login signs in, a logout or a 401 of a guarded request
  signs out, and every other reply, whatever it is, changes nothing.
\<close>

theorem console_implements_session:
  assumes "app_reach h c"
  shows "(offered h c x \<longrightarrow> phase_of (refresh h (app_do h x c)) = phase_of c) \<and>
    (possible c e \<longrightarrow> phase_of (refresh h (env_do h e c)) = phase_next (arrival c e) (phase_of c))"
  using assms by (simp add: phase_do phase_env)

theorem console_implements_session_witness:
  "phase_of (refresh byte_host (env_do byte_host (Arrives 0 (Reply (json_reply 200 JNull))) (refresh byte_host (app_initial 0)))) = SignedIn"
proof -
  let ?c = "refresh byte_host (app_initial 0)" and ?e = "Arrives 0 (Reply (json_reply 200 JNull))"
  have r: "app_reach byte_host ?c" by (rule app_reach.start)
  have u: "\<not> authChecked (session_part (slice ?c))" by (simp add: app_initial_def session_initial_def)
  then have o1: "outbox ?c = bootstrap_requests byte_host"
    using boot_inv_reach [OF r] by (simp add: boot_inv_def)
  then have "possible ?c ?e" by (simp add: possible_def bootstrap_requests_def)
  with console_implements_session [OF r, of "SessionE SubmitLogin" ?e] u o1 show ?thesis
    by (simp add: arrival_def phase_of_fields bootstrap_requests_def get_def accepted_def res_ok_def)
qed

end
