(* ===== verification/AppTypes.thy ===== *)
theory AppTypes
  imports AppPhases
begin

text \<open>
  The types of App.tsx that the compiler only declares: the unions of the tabs, the theme, the
  role and the status of a user, and the length of the performance window, in every reachable
  state; the lists of users captured by requests in flight included.
\<close>

section \<open>The types\<close>

definition user_typed :: "app_user \<Rightarrow> bool" where
  "user_typed u = (urole u \<in> {''Admin'', ''User''} \<and> ustatus u \<in> set STATUSES)"

definition users_typed :: "app_user list \<Rightarrow> bool" where
  "users_typed us = list_all user_typed us"

definition captured_typed :: "user_k \<Rightarrow> bool" where
  "captured_typed k =
     (case k of KPatchUser i us \<Rightarrow> users_typed us | KCreateUser us \<Rightarrow> users_typed us
      | KDeleteUser i us sel \<Rightarrow> users_typed us | _ \<Rightarrow> True)"

definition tabs_typed :: "ops_st \<Rightarrow> bool" where
  "tabs_typed s =
     (systemSubTab s \<in> {''keys'', ''admins'', ''workers'', ''jobs'', ''security''} \<and>
      appSubTab s \<in> {''general'', ''onboarding'', ''auth''})"

definition console_typed :: "app_ctx \<Rightarrow> bool" where
  "console_typed c =
     (let b = slice c in
      theme b \<in> {''dark'', ''light''} \<and> tabs_typed (ops_part b) \<and> length (perfData (tel_part b)) \<le> 7 \<and>
      users_typed (users (user_part b)) \<and>
      (\<forall>k. UserK k \<in> snd ` set (outbox c) \<longrightarrow> captured_typed k))"

section \<open>Users\<close>

lemma typed_rows [simp]:
  "users_typed []" "users_typed (u # us) \<longleftrightarrow> user_typed u \<and> users_typed us"
  "users_typed (us @ vs) \<longleftrightarrow> users_typed us \<and> users_typed vs"
  "users_typed us \<Longrightarrow> users_typed (filter p us)"
  by (auto simp: users_typed_def list_all_iff)

lemma roles_typed [simp]: "user_role v = ''Admin'' \<or> user_role v = ''User''" "user_status v \<in> set STATUSES"
  by (auto simp: user_role_def user_status_def STATUSES_def)

lemma rewrite_typed [simp]: "user_typed (rewrite_user h v u)"
  by (simp add: user_typed_def rewrite_user_def)

lemma map_at_typed: "users_typed us \<Longrightarrow> users_typed (map_at uid i (rewrite_user h v) us)"
  by (auto simp: users_typed_def map_at_def list_all_iff)

lemma load_typed: "map_res (load_user h) xs = Inr us \<Longrightarrow> users_typed us"
proof (induction xs arbitrary: us)
  case (Cons x xs)
  then show ?case
    by (auto simp: load_user_def res_bind_def js_get_def user_typed_def split: sum.splits if_splits)
qed simp

lemma resume_users:
  assumes "users_typed (users (slice c))" and "captured_typed k"
  shows "users_typed (users (slice (user_resume h k out c)))"
proof (cases k)
  case KUsers
  then show ?thesis
    using assms(1) load_typed
    by (auto simp: user_resume_def on_users_def guarded_loader_eval store_res_snd split: option.splits sum.splits)
next
  case KUserDetail
  then show ?thesis
    using assms(1)
    by (auto simp: user_resume_def on_user_detail_def guarded_loader_eval store_slice_def when_act_def chain_defs
        split: option.splits)
next
  case KAuditLogs
  then show ?thesis
    using assms(1)
    by (auto simp: user_resume_def on_audit_logs_def guarded_loader_eval store_slice_def when_act_def chain_defs
        split: option.splits)
next
  case (KPatchUser i us)
  then have us: "users_typed us" using assms(2) by (simp add: captured_typed_def)
  show ?thesis
    using assms(1) us
    by (cases out) (auto simp: KPatchUser user_resume_def on_patch_user_def console_error_def res_json_def js_get_def chain_defs
        fetched_def map_at_typed split: sum.splits)
next
  case (KCreateUser us)
  then have us: "users_typed us" using assms(2) by (simp add: captured_typed_def)
  show ?thesis
    using assms(1) us
    by (cases out) (auto simp: KCreateUser user_resume_def on_create_user_def console_error_def res_json_def js_get_def
        chain_defs fetched_def user_typed_def split: sum.splits)
next
  case (KDeleteUser i us sel)
  then have "users_typed us" using assms(2) by (simp add: captured_typed_def)
  then show ?thesis
    using assms(1) by (simp add: KDeleteUser user_resume_def on_delete_user_eval Let_def split: outcome.split)
qed

text \<open>The handlers keep the list; the requests they send capture it.\<close>

lemma do_users: "users (slice (user_do h e c)) = users (slice c)"
  by (cases e) (simp_all add: user_do_def newUser_def handleEditUser_def closeUserModal_def user_form_change_def saveUser_def
      handleDeleteUser_def setSelectedUserId_def Let_def split: option.split)

lemma do_captures:
  "users_typed (users (slice c)) \<Longrightarrow> outbox c = [] \<Longrightarrow> k \<in> snd ` set (outbox (user_do h e c)) \<Longrightarrow> captured_typed k"
  by (cases e) (auto simp: user_do_def newUser_def handleEditUser_def closeUserModal_def user_form_change_def saveUser_def
      handleDeleteUser_def setSelectedUserId_def captured_typed_def Let_def split: option.splits if_splits)

lemma resume_captures: "k \<in> snd ` set (outbox (user_resume h j out c)) \<Longrightarrow> outbox c = [] \<Longrightarrow> captured_typed k"
proof (cases j)
  case (KPatchUser i us)
  then show "k \<in> snd ` set (outbox (user_resume h j out c)) \<Longrightarrow> outbox c = [] \<Longrightarrow> captured_typed k"
    by (cases out) (auto simp: user_resume_def on_patch_user_def console_error_def res_json_def js_get_def chain_defs
        fetched_def split: sum.splits if_splits)
next
  case (KCreateUser us)
  then show "k \<in> snd ` set (outbox (user_resume h j out c)) \<Longrightarrow> outbox c = [] \<Longrightarrow> captured_typed k"
    by (cases out) (auto simp: user_resume_def on_create_user_def console_error_def res_json_def js_get_def chain_defs
        fetched_def split: sum.splits if_splits)
qed (auto simp: user_resume_def user_list.quiet_outbox user_details.quiet_outbox audits.quiet_outbox on_delete_user_eval Let_def
    split: outcome.splits if_splits)

section \<open>Tabs and samples\<close>

lemma do_tabs:
  assumes "tabs_typed (slice c)" and "\<And>t. e = AppTab t \<Longrightarrow> t \<in> {''general'', ''onboarding'', ''auth''}"
    and "\<And>t. e = SystemTab t \<Longrightarrow> t \<in> {''keys'', ''admins'', ''workers'', ''jobs'', ''security''}"
  shows "tabs_typed (slice (ops_do h e c))"
  using assms
  by (cases e) (auto simp: ops_do_def setAppSubTab_def setSetting_def toggleSetting_def saveSettings_def setSystemSubTab_def
      loadJobs_def handleRetryJob_def handleCancelJob_def tabs_typed_def Let_def)

lemma resume_tabs: "tabs_typed (slice c) \<Longrightarrow> tabs_typed (slice (ops_resume h k out c))"
  by (cases k; cases out)
    (auto simp: ops_resume_def on_jobs_def on_job_action_def on_save_settings_def on_settings_def loadJobs_def console_error_def
      guarded_loader_eval store_slice_def when_act_def res_json_def chain_defs fetched_def tabs_typed_def Let_def
      split: sum.splits prod.splits option.splits if_splits)

lemma push_bound: "length prev \<le> 7 \<Longrightarrow> length (sse_message m prev) \<le> 7"
  by (auto simp: sse_message_def perf_push_def Let_def split: sum.splits)

lemma resume_samples: "perfData (slice (tel_resume k out c)) = perfData (slice c)"
  by (cases k; cases out)
    (auto simp: tel_resume_def on_metrics_summary_def on_dashboard_data_def on_providers_def on_incidents_def
      on_resolve_incident_eval guarded_loader_eval store_slice_def when_act_def chain_defs Let_def
      split: option.splits sum.splits if_splits)

section \<open>The whole\<close>

lemma console_typedI:
  assumes "theme (slice c) \<in> {''dark'', ''light''}" and "tabs_typed (ops_part (slice c))"
    and "length (perfData (tel_part (slice c))) \<le> 7" and "users_typed (users (user_part (slice c)))"
    and "\<And>k. UserK k \<in> snd ` set (outbox c) \<Longrightarrow> captured_typed k"
  shows "console_typed c"
  using assms by (simp add: console_typed_def Let_def)

lemma console_typedD:
  assumes "console_typed c"
  shows "theme (slice c) \<in> {''dark'', ''light''}" "tabs_typed (ops_part (slice c))"
    "length (perfData (tel_part (slice c))) \<le> 7" "users_typed (users (user_part (slice c)))"
    "\<And>k. UserK k \<in> snd ` set (outbox c) \<Longrightarrow> captured_typed k"
  using assms by (simp_all add: console_typed_def Let_def)

text \<open>Which requests of the users are in flight after a component has run.\<close>

lemma user_keys:
  "UserK k \<in> snd ` set (outbox (in_user f1 c)) \<longleftrightarrow>
     UserK k \<in> snd ` set (outbox c) \<or> k \<in> snd ` set (outbox (f1 (zoom_in user_part c)))"
  "UserK k \<in> snd ` set (outbox (in_session f2 c)) \<longleftrightarrow> UserK k \<in> snd ` set (outbox c)"
  "UserK k \<in> snd ` set (outbox (in_tel f3 c)) \<longleftrightarrow> UserK k \<in> snd ` set (outbox c)"
  "UserK k \<in> snd ` set (outbox (in_ex f4 c)) \<longleftrightarrow> UserK k \<in> snd ` set (outbox c)"
  "UserK k \<in> snd ` set (outbox (in_admin f5 c)) \<longleftrightarrow> UserK k \<in> snd ` set (outbox c)"
  "UserK k \<in> snd ` set (outbox (in_flag f6 c)) \<longleftrightarrow> UserK k \<in> snd ` set (outbox c)"
  "UserK k \<in> snd ` set (outbox (in_ops f7 c)) \<longleftrightarrow> UserK k \<in> snd ` set (outbox c)"
  "UserK k \<in> snd ` set (outbox (in_feat f8 c)) \<longleftrightarrow> UserK k \<in> snd ` set (outbox c)"
  by (force simp: in_simps)+

lemmas slice_in_simps = in_simps(6,12,18,24,30,36,42,48)

lemma zoom_in_users [simp]: "outbox (zoom_in user_part c) = []" "slice (zoom_in user_part c) = user_part (slice c)"
  by (simp_all add: zoom_in_def)

lemma typed_others:
  assumes "console_typed c"
  shows "console_typed (in_session f1 c)" "console_typed (in_ex f2 c)" "console_typed (in_admin f3 c)"
    "console_typed (in_flag f4 c)" "console_typed (in_feat f5 c)"
  by (rule console_typedI; simp add: slice_in_simps put_defs user_keys console_typedD [OF assms, simplified])+

lemma typed_do:
  assumes "console_typed c" and "offered h c e"
  shows "console_typed (app_do h e c)"
proof -
  note c = console_typedD [OF assms(1)]
  show ?thesis
  proof (cases e)
    case (ShellE x)
    have "theme (slice (app_do h e c)) \<in> {''dark'', ''light''}"
      using c(1) ShellE by (cases x) (auto simp: app_do_def shell_do_def on_slice_def flip_theme_def set_page_def in_simps put_defs)
    moreover have "perfData (tel_part (slice (app_do h e c))) = perfData (tel_part (slice c))"
      using ShellE by (cases x) (simp_all add: app_do_def shell_do_def on_slice_def flip_theme_def set_page_def in_simps put_defs
          handleResolveIncident_def zoom_in_def)
    moreover have "users (user_part (slice (app_do h e c))) = users (user_part (slice c))"
      "ops_part (slice (app_do h e c)) = ops_part (slice c)"
      using ShellE by (cases x; simp add: app_do_def shell_do_def on_slice_def flip_theme_def set_page_def in_simps put_defs
          setSearch_def)+
    moreover have "UserK k \<in> snd ` set (outbox (app_do h e c)) \<longleftrightarrow> UserK k \<in> snd ` set (outbox c)" for k
      using ShellE by (cases x) (simp_all add: app_do_def shell_do_def user_keys on_slice_def set_page_def setSearch_def)
    ultimately show ?thesis using c by (intro console_typedI) simp_all
  next
    case (UserE x)
    have "captured_typed k" if "UserK k \<in> snd ` set (outbox (app_do h e c))" for k
      using that c(5) [of k] do_captures [of "zoom_in user_part c" k h x] c(4)
      by (simp add: UserE app_do_def user_keys) blast
    then show ?thesis
      using c by (intro console_typedI) (simp_all add: UserE app_do_def in_simps put_defs do_users)
  next
    case (OpsE x)
    then have "tabs_typed (slice (ops_do h x (zoom_in ops_part c)))"
      using c(2) assms(2) by (intro do_tabs) (auto simp: offered_def ops_offers_def zoom_in_def Let_def)
    moreover have "UserK i \<in> snd ` set (outbox (app_do h e c)) \<longleftrightarrow> UserK i \<in> snd ` set (outbox c)" for i
      by (simp add: OpsE app_do_def user_keys)
    ultimately show ?thesis
      using c by (intro console_typedI) (simp_all add: OpsE app_do_def in_simps put_defs)
  qed (use typed_others [OF assms(1)] in \<open>simp_all add: app_do_def\<close>)
qed

lemma typed_resume:
  assumes "console_typed c" and "\<And>j. k = UserK j \<Longrightarrow> captured_typed j"
  shows "console_typed (app_resume h k out c)"
proof -
  note c = console_typedD [OF assms(1)]
  show ?thesis
  proof (cases k)
    case (UserK j)
    have "users_typed (users (slice (user_resume h j out (zoom_in user_part c))))"
      by (rule resume_users) (use c(4) assms(2) UserK in simp_all)
    moreover have "captured_typed i" if "UserK i \<in> snd ` set (outbox (app_resume h k out c))" for i
      using that c(5) [of i] resume_captures [of i h j out "zoom_in user_part c"]
      by (simp add: UserK app_resume_def user_keys) blast
    ultimately show ?thesis
      using c by (intro console_typedI) (simp_all add: UserK app_resume_def in_simps put_defs)
  next
    case (OpsK j)
    have "tabs_typed (slice (ops_resume h j out (zoom_in ops_part c)))"
      by (rule resume_tabs) (use c(2) in \<open>simp add: zoom_in_def\<close>)
    moreover have "UserK i \<in> snd ` set (outbox (app_resume h k out c)) \<longleftrightarrow> UserK i \<in> snd ` set (outbox c)" for i
      by (simp add: OpsK app_resume_def user_keys)
    ultimately show ?thesis
      using c by (intro console_typedI) (simp_all add: OpsK app_resume_def in_simps put_defs)
  next
    case (TelK j)
    have "perfData (slice (tel_resume j out (zoom_in tel_part c))) = perfData (tel_part (slice c))"
      by (simp add: resume_samples zoom_in_def)
    moreover have "UserK i \<in> snd ` set (outbox (app_resume h k out c)) \<longleftrightarrow> UserK i \<in> snd ` set (outbox c)" for i
      by (simp add: TelK app_resume_def user_keys)
    ultimately show ?thesis
      using c by (intro console_typedI) (simp_all add: TelK app_resume_def in_simps put_defs)
  qed (use typed_others [OF assms(1)] in \<open>simp_all add: app_resume_def\<close>)
qed

lemma typed_env:
  assumes "console_typed c" and "possible c e"
  shows "console_typed (env_do h e c)"
proof -
  note c = console_typedD [OF assms(1), simplified]
  have tel: "console_typed (in_tel f c)" if "length (perfData (slice (f (zoom_in tel_part c)))) \<le> 7" for f
    by (rule console_typedI; simp add: slice_in_simps put_defs user_keys c that)
  have slice: "console_typed (on_slice g c)" if "\<And>b. theme (g b) = theme b" "\<And>b. ops_part (g b) = ops_part b"
    "\<And>b. tel_part (g b) = tel_part b" "\<And>b. user_part (g b) = user_part b" for g
    by (rule console_typedI; simp add: on_slice_def that c)
  show ?thesis
  proof (cases e)
    case (Arrives i out)
    have t: "console_typed (take_request i c)"
    proof (rule console_typedI)
      show "captured_typed k" if "UserK k \<in> snd ` set (outbox (take_request i c))" for k
        using take_keys [of i c] that c(5) by blast
    qed (use c in \<open>simp_all add: take_request_def\<close>)
    have "captured_typed j" if "snd (outbox c ! i) = UserK j" for j
    proof -
      have "snd (outbox c ! i) \<in> snd ` set (outbox c)" using assms(2) Arrives by (simp add: possible_def)
      with that c(5) [of j] show ?thesis by simp
    qed
    with Arrives typed_resume [OF t] show ?thesis by (simp add: env_do_def)
  next
    case PollTick
    have "console_typed (in_tel (fetchDashboardData h) d)" if "console_typed d" for d
      by (rule console_typedI; simp add: slice_in_simps put_defs user_keys fetchDashboardData_def zoom_in_def
          console_typedD [OF that, simplified])
    moreover have "console_typed (in_tel (fetchMetricsSummary h) c)"
      by (rule tel) (simp add: fetchMetricsSummary_def zoom_in_def c)
    ultimately show ?thesis by (simp add: PollTick env_do_def poll_def)
  next
    case (StreamMessage m)
    then show ?thesis by (simp add: env_do_def tel push_bound zoom_in_def c)
  next
    case IdleTimer
    have "console_typed (on_slice (\<lambda>b. b\<lparr>idle_part := i\<rparr>) c)" for i by (rule slice) simp_all
    then show ?thesis by (simp add: IdleTimer env_do_def idle_timer_runs_def Let_def typed_others)
  qed (simp_all add: env_do_def typed_others assms(1) slice)
qed

section \<open>The effects\<close>

lemma app_tab_parts:
  "keeps (\<lambda>d. appSubTab (ops_part (slice d))) theme_effect" "keeps (\<lambda>d. appSubTab (ops_part (slice d))) reset_effect"
  "keeps (\<lambda>d. appSubTab (ops_part (slice d))) run_as_effect" "keeps (\<lambda>d. appSubTab (ops_part (slice d))) (in_feat (observe_effect h))"
  "keeps (\<lambda>d. appSubTab (ops_part (slice d))) (in_session (bootstrap h))" "keeps (\<lambda>d. appSubTab (ops_part (slice d))) keepalive_effect"
  "keeps (\<lambda>d. appSubTab (ops_part (slice d))) idle_effect" "keeps (\<lambda>d. appSubTab (ops_part (slice d))) (in_ops (jobs_effect h))"
  "keeps (\<lambda>d. appSubTab (ops_part (slice d))) (load_effect h)" "keeps (\<lambda>d. appSubTab (ops_part (slice d))) (records_effect h q)"
  "keeps (\<lambda>d. appSubTab (ops_part (slice d))) sse_effect" "keeps (\<lambda>d. appSubTab (ops_part (slice d))) (poll_effect h)"
  "keeps (\<lambda>d. appSubTab (ops_part (slice d))) (in_user (user_detail_effect h))"
  "keeps (\<lambda>d. appSubTab (ops_part (slice d))) targeting_edit_effect"
  by (simp_all add: keeps_def theme_effect_def keepalive_effect_def idle_effect_def sse_effect_def
      poll_effect_def poll_def load_effect_def component_effects jobs_effect_def loadJobs_def fetchSettings_def on_slice_def
      slice_in_simps put_defs zoom_in_def)

lemma app_tab_commit: "appSubTab (ops_part (slice (commit h c))) = appSubTab (ops_part (slice c))"
proof -
  have "appSubTab (ops_part (slice (fold run_guarded (effects h c) c))) = appSubTab (ops_part (slice c))"
    by (rule keeps_fold [where obs = "\<lambda>d. appSubTab (ops_part (slice d))"]) (auto simp: effects_def Let_def app_tab_parts)
  then show ?thesis by (simp add: commit_def on_slice_def)
qed

lemma app_tab_settle: "settle n h c = Some d \<Longrightarrow> appSubTab (ops_part (slice d)) = appSubTab (ops_part (slice c))"
  by (induction n h c rule: settle.induct) (auto simp: app_tab_commit split: if_splits)

lemma app_tab_rest: "appSubTab (ops_part (slice (rest h c))) = appSubTab (ops_part (slice c))"
  by (auto simp: rest_def dest: app_tab_settle split: option.split)

lemma rest_parts:
  "users (user_part (slice (rest h c))) = users (user_part (slice c))"
  "systemSubTab (ops_part (slice (rest h c))) = systemSubTab (ops_part (slice c))"
proof -
  show "users (user_part (slice (rest h c))) = users (user_part (slice c))"
    using arg_cong [OF stable_rest [of h c], of "\<lambda>s. users (sp_user s)"] by (simp add: stable_def)
  show "systemSubTab (ops_part (slice (rest h c))) = systemSubTab (ops_part (slice c))"
    using stable_rest [of h c] by (simp add: stable_def)
qed

lemma commit_captures:
  "UserK k \<in> snd ` set (commit_requests h c) \<Longrightarrow> captured_typed k"
  by (auto simp: commit_requests_eq sent_def request_defs captured_typed_def Let_def split: if_splits)

lemma rest_captures:
  assumes "UserK k \<in> snd ` set (outbox (rest h c))"
  shows "UserK k \<in> snd ` set (outbox c) \<or> captured_typed k"
proof -
  have one: "UserK k \<in> snd ` set (outbox (commit h d)) \<Longrightarrow> UserK k \<in> snd ` set (outbox d) \<or> captured_typed k" for d
    using commit_captures [of k h d] by (force simp: outbox_commit_eq)
  from assms show ?thesis
    using one [of c] one [of "commit h c"]
    by (cases "quiescent c"; cases "quiescent (commit h c)") (auto simp: rest_id rest_one rest_two)
qed

lemma typed_refresh:
  assumes "console_typed c"
  shows "console_typed (refresh h c)"
proof -
  note c = console_typedD [OF assms, simplified]
  have "console_typed (rest h c)"
  proof (rule console_typedI)
    show "captured_typed k" if "UserK k \<in> snd ` set (outbox (rest h c))" for k
      using rest_captures [OF that] c(5) by blast
  qed (use c in \<open>simp_all add: rest_parts tabs_typed_def app_tab_rest\<close>)
  then show ?thesis by (simp add: refresh_def mount_controls_def typed_others)
qed

section \<open>Every reachable state\<close>

text \<open>
  C9. The declared types hold. In every reachable state, whatever the server has sent: the theme
  is dark or light, each tab is one of its union, the performance window has at most seven
  samples, every user of the list has the role Admin or User and a declared status, and so has
  every user of the lists that the callbacks of requests in flight have captured. The role
  Moderator, which the type and the dialogue offer, occurs in no state.
\<close>

theorem console_well_typed:
  assumes "app_reach h c"
  shows "theme (slice c) \<in> {''dark'', ''light''} \<and> tabs_typed (ops_part (slice c)) \<and>
    length (perfData (tel_part (slice c))) \<le> 7 \<and>
    list_all (\<lambda>u. urole u \<in> {''Admin'', ''User''} \<and> ustatus u \<in> {''Active'', ''Inactive'', ''Pending''})
      (users (user_part (slice c))) \<and>
    list_all (\<lambda>q. case snd q of UserK k \<Rightarrow> captured_typed k | _ \<Rightarrow> True) (outbox c)"
proof -
  have "console_typed c"
    using assms
  proof (induction rule: app_reach.induct)
    case (start now)
    have "console_typed (app_initial now)"
      by (rule console_typedI)
        (simp_all add: app_initial_def tabs_typed_def ops_initial_def tel_initial_def PERFORMANCE_DATA_def user_initial_def)
    then show ?case by (rule typed_refresh)
  next
    case (step c d)
    from step.hyps(2) step.IH show ?case
      by (induction rule: app_step.induct) (auto intro: typed_refresh typed_do typed_env)
  qed
  from console_typedD [OF this] show ?thesis
    by (force simp: users_typed_def user_typed_def [abs_def] STATUSES_def list_all_iff split: app_k.split)
qed

theorem console_well_typed_witness: "length (perfData (tel_part (slice (refresh byte_host (app_initial 0))))) \<le> 7"
  using console_well_typed [OF app_reach.start [of byte_host 0]] by blast

end
