(* ===== verification/AppTimers.thy ===== *)
theory AppTimers
  imports AppPhases
begin

text \<open>
  The timers, the event stream and the theme class over the runs of the console: when each is
  armed, and that nothing else disarms it.
\<close>

section \<open>What coming to rest does to them\<close>

text \<open>The second commit sees the session, the providers and the options of the first.\<close>

lemma commit_same:
  "isAuthenticated (commit h c) = isAuthenticated c" "providers (tel_part (slice (commit h c))) = providers (tel_part (slice c))"
  "idle_options (commit h c) = idle_options c" "clock (slice (commit h c)) = clock (slice c)"
  using stable_commit [of h c] by (simp_all add: stable_def idle_options_def)

lemma rest_same:
  "isAuthenticated (rest h c) = isAuthenticated c" "providers (tel_part (slice (rest h c))) = providers (tel_part (slice c))"
  "idle_options (rest h c) = idle_options c" "clock (slice (rest h c)) = clock (slice c)"
  using stable_rest [of h c] by (simp_all add: stable_def idle_options_def)

lemma rest_cases:
  obtains "quiescent c" "rest h c = c" | "\<not> quiescent c" "rest h c = commit h c" | "rest h c = commit h (commit h c)"
  using rest_id rest_one rest_two by metis

lemma rest_sse:
  "sse_open (slice (rest h c)) =
     (if when_changed (committed (slice c)) (\<lambda>e. (d_auth e, d_providers e)) c
      then isAuthenticated c \<and> can_stream (providers (tel_part (slice c))) else sse_open (slice c))"
proof (cases rule: rest_cases [of c h])
  case 1
  then show ?thesis by (simp add: quiescent_def when_changed_def)
next
  case 3
  then show ?thesis by (simp add: commit_sse commit_same) (simp add: when_changed_def deps_of_def commit_same)
qed (simp add: commit_sse)

lemma rest_idle:
  "timer (idle_part (slice (rest h c))) =
     (if when_changed (committed (slice c)) d_idle c then mounted_timer (idle_options c) (clock (slice c))
      else timer (idle_part (slice c)))"
proof (cases rule: rest_cases [of c h])
  case 1
  then show ?thesis by (simp add: quiescent_def when_changed_def)
next
  case 3
  then show ?thesis by (simp add: commit_idle commit_same) (simp add: when_changed_def deps_of_def commit_same)
qed (simp add: commit_idle)

section \<open>A step\<close>

text \<open>
  The stream and the idle timer after a step from \<open>c\<close> to \<open>d\<close>: opened or closed anew when the
  session or the providers have changed, armed anew when the session or the timeout has; otherwise
  what the event itself has left.
\<close>

definition follows :: "app_ctx \<Rightarrow> bool \<Rightarrow> int option \<Rightarrow> app_ctx \<Rightarrow> bool" where
  "follows c left_open left_timer d =
     (sse_open (slice d) =
        (if isAuthenticated d = isAuthenticated c \<and> providers (tel_part (slice d)) = providers (tel_part (slice c))
         then left_open else isAuthenticated d \<and> can_stream (providers (tel_part (slice d)))) \<and>
      timer (idle_part (slice d)) =
        (if idle_options d = idle_options c then left_timer else mounted_timer (idle_options d) (clock (slice d))))"

lemma follows_refresh:
  assumes "committed (slice x) = Some (deps_of c)"
  shows "follows c (sse_open (slice x)) (timer (idle_part (slice x))) (refresh h x)"
proof -
  have d: "isAuthenticated (refresh h x) = isAuthenticated x" "providers (tel_part (slice (refresh h x))) = providers (tel_part (slice x))"
    "idle_options (refresh h x) = idle_options x" "clock (slice (refresh h x)) = clock (slice x)"
    "sse_open (slice (refresh h x)) = sse_open (slice (rest h x))"
    "timer (idle_part (slice (refresh h x))) = timer (idle_part (slice (rest h x)))"
    by (simp_all add: refresh_def rest_same) (simp_all add: mount_controls_def in_simps put_defs rest_same)
  show ?thesis
    unfolding follows_def d rest_sse rest_idle
    by (auto simp: when_changed_def assms deps_of_def)
qed

text \<open>What an event by itself leaves of the stream and of the timer.\<close>

definition open_after :: "app_ctx \<Rightarrow> env_event \<Rightarrow> bool" where
  "open_after c e = (sse_open (slice c) \<and> e \<noteq> StreamError)"

definition timer_after :: "app_ctx \<Rightarrow> env_event \<Rightarrow> int option" where
  "timer_after c e =
     (case e of
        Activity _ \<Rightarrow> mounted_timer (idle_options c) (clock (slice c))
      | IdleTimer \<Rightarrow> None
      | _ \<Rightarrow> timer (idle_part (slice c)))"

lemma env_leaves:
  assumes "possible c e"
  shows "sse_open (slice (env_do h e c)) = open_after c e" "timer (idle_part (slice (env_do h e c))) = timer_after c e"
proof -
  show "sse_open (slice (env_do h e c)) = open_after c e"
  proof (cases e)
    case IdleTimer
    then show ?thesis by (simp add: env_do_def open_after_def idle_timer_slices)
  qed (simp_all add: env_do_def open_after_def outside_resume take_request_def outside_in outside_poll on_slice_def)
  show "timer (idle_part (slice (env_do h e c))) = timer_after c e"
  proof (cases e)
    case IdleTimer
    then show ?thesis by (simp add: env_do_def timer_after_def idle_timer_slices idle_fire_def Let_def)
  next
    case (Activity a)
    with assms have "enabled (idle_options c)" by (simp add: possible_def)
    with Activity show ?thesis
      by (simp add: env_do_def timer_after_def on_slice_def bump_def mounted_timer_def) (simp add: idle_options_def Let_def)
  qed (simp_all add: env_do_def timer_after_def outside_resume take_request_def outside_in outside_poll on_slice_def)
qed



end
