(* ===== verification/SessionRuns.thy ===== *)
theory SessionRuns
  imports AppPhases
begin

text \<open>
  From steps to runs. A machine whose steps carry the reply that arrived, if one did, and that
  implements an abstract machine step by step, implements it run by run: the abstract state at
  the end is the fold of the replies. Interpreted on the console, this says what a session needs.
\<close>

section \<open>Labelled runs\<close>

inductive labelled_run :: "('c \<Rightarrow> 'l option \<Rightarrow> 'c \<Rightarrow> bool) \<Rightarrow> 'c \<Rightarrow> 'l list \<Rightarrow> 'c \<Rightarrow> bool"
  for stp :: "'c \<Rightarrow> 'l option \<Rightarrow> 'c \<Rightarrow> bool" where
  stay: "labelled_run stp c [] c"
| silent: "labelled_run stp c ls d \<Longrightarrow> stp d None e \<Longrightarrow> labelled_run stp c ls e"
| heard: "labelled_run stp c ls d \<Longrightarrow> stp d (Some l) e \<Longrightarrow> labelled_run stp c (ls @ [l]) e"

locale driven_machine =
  fixes stp :: "'c \<Rightarrow> 'l option \<Rightarrow> 'c \<Rightarrow> bool"
    and inv :: "'c \<Rightarrow> bool"
    and abs :: "'c \<Rightarrow> 'p"
    and nxt :: "'l option \<Rightarrow> 'p \<Rightarrow> 'p"
  assumes inv_stp: "inv c \<Longrightarrow> stp c l d \<Longrightarrow> inv d"
    and abs_stp: "inv c \<Longrightarrow> stp c l d \<Longrightarrow> abs d = nxt l (abs c)"
    and nxt_silent: "nxt None p = p"
begin

lemma run_inv: "labelled_run stp c ls d \<Longrightarrow> inv c \<Longrightarrow> inv d"
  by (induction rule: labelled_run.induct) (auto intro: inv_stp)

lemma run_abs: "labelled_run stp c ls d \<Longrightarrow> inv c \<Longrightarrow> abs d = fold (\<lambda>l. nxt (Some l)) ls (abs c)"
proof (induction rule: labelled_run.induct)
  case (silent c ls d e)
  then show ?case using abs_stp [OF run_inv [OF silent.hyps(1) silent.prems] silent.hyps(2)] by (simp add: nxt_silent)
next
  case (heard c ls d l e)
  then show ?case using abs_stp [OF run_inv [OF heard.hyps(1) heard.prems] heard.hyps(2)] by simp
qed simp

text \<open>A set of abstract states that no reply leaves is not left by a run.\<close>

lemma run_stays:
  assumes "labelled_run stp c ls d" and "inv c" and "P (abs c)" and "\<And>l p. P p \<Longrightarrow> P (nxt (Some l) p)"
  shows "P (abs d)"
proof -
  have "P (fold (\<lambda>l. nxt (Some l)) ls p)" if "P p" for p
    using that assms(4) by (induction ls arbitrary: p) auto
  then show ?thesis using run_abs [OF assms(1,2)] assms(3) by simp
qed

text \<open>A set of abstract states entered by certain replies only needs one of them.\<close>

lemma run_needs:
  assumes "labelled_run stp c ls d" and "inv c" and "\<not> P (abs c)" and "P (abs d)"
    and "\<And>l p. \<not> P p \<Longrightarrow> P (nxt (Some l) p) \<Longrightarrow> Q l"
  shows "list_ex Q ls"
proof -
  have "\<not> list_ex Q ls \<Longrightarrow> \<not> P p \<Longrightarrow> \<not> P (fold (\<lambda>l. nxt (Some l)) ls p)" for p
    using assms(5) by (induction ls arbitrary: p) auto
  then show ?thesis using run_abs [OF assms(1,2)] assms(3,4) by metis
qed

end

section \<open>The runs of the console\<close>

inductive app_act :: "host \<Rightarrow> app_ctx \<Rightarrow> (app_k \<times> outcome) option \<Rightarrow> app_ctx \<Rightarrow> bool" for h :: host where
  user: "running c \<Longrightarrow> offered h c e \<Longrightarrow> app_act h c None (refresh h (app_do h e c))"
| env: "running c \<Longrightarrow> possible c e \<Longrightarrow> app_act h c (arrival c e) (refresh h (env_do h e c))"

text \<open>The labels add nothing to the steps.\<close>

lemma app_act_steps: "app_step h c d \<longleftrightarrow> (\<exists>l. app_act h c l d)"
  by (auto elim!: app_step.cases app_act.cases intro: app_act.intros app_step.intros)

interpretation console: driven_machine "app_act h" "app_reach h" phase_of phase_next
proof unfold_locales
  fix c l d
  assume r: "app_reach h c" and a: "app_act h c l d"
  then show "app_reach h d" using app_act_steps by (blast intro: app_reach.step)
  from a show "phase_of d = phase_next l (phase_of c)"
    by (cases rule: app_act.cases) (simp_all add: phase_do phase_env [OF r])
qed simp

definition admits :: "app_k \<times> outcome \<Rightarrow> bool" where
  "admits l = (fst l \<in> {SessionK KBootstrap, SessionK KLogin} \<and> accepted (snd l))"

lemma leaves_loading: "p \<noteq> Loading \<Longrightarrow> phase_next (Some l) p \<noteq> Loading"
  by (cases "(Some l, p)" rule: phase_next.cases) (auto split: if_splits)

lemma enters_session: "p \<noteq> SignedIn \<Longrightarrow> phase_next (Some l) p = SignedIn \<Longrightarrow> admits l"
  by (cases "(Some l, p)" rule: phase_next.cases) (auto simp: admits_def split: if_splits)

text \<open>
  C5. What a session needs. Over any run of the console, whatever the user does and in whatever
  order the replies arrive: the phase at the end is the fold of the replies over the abstract
  session; the loading screen never comes back; and a run that ends signed in, but did not begin
  so, has heard an accepted reply to the bootstrap or to a login.
\<close>

theorem session_needs_acceptance:
  assumes "app_reach h c" and "labelled_run (app_act h) c ls d"
  shows "phase_of d = fold (\<lambda>l. phase_next (Some l)) ls (phase_of c) \<and>
    (phase_of c \<noteq> Loading \<longrightarrow> phase_of d \<noteq> Loading) \<and>
    (phase_of c \<noteq> SignedIn \<and> phase_of d = SignedIn \<longrightarrow> list_ex admits ls)"
  using console.run_abs [OF assms(2,1)] console.run_stays [OF assms(2,1), of "\<lambda>p. p \<noteq> Loading"] leaves_loading
    console.run_needs [OF assms(2,1), of "\<lambda>p. p = SignedIn" admits] enters_session
  by blast

theorem session_needs_acceptance_witness:
  "phase_of (refresh byte_host (env_do byte_host (Arrives 0 (Reply (json_reply 200 JNull))) (refresh byte_host (app_initial 0)))) = SignedIn"
proof -
  let ?c = "refresh byte_host (app_initial 0)" and ?e = "Arrives 0 (Reply (json_reply 200 JNull))"
  have r: "app_reach byte_host ?c" by (rule app_reach.start)
  have u: "\<not> authChecked (session_part (slice ?c))" by (simp add: app_initial_def session_initial_def)
  then have o1: "outbox ?c = bootstrap_requests byte_host"
    using boot_inv_reach [OF r] by (simp add: boot_inv_def)
  let ?l = "(SessionK KBootstrap, Reply (json_reply 200 JNull))"
  have "running ?c" by (simp add: running_def app_initial_def session_initial_def)
  moreover have "possible ?c ?e" by (simp add: possible_def o1 bootstrap_requests_def)
  ultimately have "app_act byte_host ?c (Some ?l) (refresh byte_host (env_do byte_host ?e ?c))"
    using app_act.env [of ?c ?e byte_host] by (simp add: arrival_def o1 bootstrap_requests_def get_def)
  then have "labelled_run (app_act byte_host) ?c ([] @ [?l]) (refresh byte_host (env_do byte_host ?e ?c))"
    by (blast intro: labelled_run.intros)
  from session_needs_acceptance [OF r this] u show ?thesis
    by (simp add: phase_of_fields accepted_def res_ok_def)
qed

end
