(* ===== verification/Reloads.thy ===== *)
theory Reloads
  imports AppSession
begin

text \<open>
  App.tsx reads the configuration and the feature tree twice over: once in the load effect, once
  in functions of their own that run after a change. The two versions, compared.
\<close>

lemma tree_after:
  assumes "select_first_screen had data c = (x, d)"
  shows "slice d = slice c"
proof -
  have "slice (snd (select_first_screen had data c)) = slice c"
    by (simp add: select_first_screen_def chain_defs split: list.splits sum.splits prod.splits)
  with assms show ?thesis by simp
qed

lemmas reload_defs = load_json_def guard_session_def clearAuthIfUnauthorized_def res_json_def unauthorized_def when_act_def
  chain_defs fetched_def

lemma trees_agree:
  "featureTree (slice (on_features had out c)) = featureTree (slice (on_refresh_features out c))"
  "featureTreeLoading (slice (on_features had out c)) = featureTreeLoading (slice (on_refresh_features out c))"
  "isAuthenticated (on_features had out c) = isAuthenticated (on_refresh_features out c)"
  by (cases out; auto simp: on_features_def on_refresh_features_def set_tree_def tree_error_def reload_defs
      dest: tree_after select_first_screen_keeps split: sum.splits prod.splits)+


text \<open>With a screen selected, the two readers of the tree are the same function.\<close>

lemma tree_readers_agree: "on_features True out c = on_refresh_features out c"
proof -
  have sel: "select_first_screen True data = js_return ()" for data :: jv
    by (simp add: select_first_screen_def split: list.split)
  have "js_then (set_tree data) (\<lambda>_. js_return ()) = set_tree data" for data
    by (rule ext) (simp add: set_tree_def chain_defs)
  then show ?thesis by (simp add: on_features_def on_refresh_features_def sel)
qed

lemma reload_eval:
  "on_reload_config h (Reply r) c =
    (if status r = 401 then c\<lparr>isAuthenticated := False\<rparr>
     else if \<not> res_ok r then c
     else case body_json r of
         Inl _ \<Rightarrow> c
       | Inr config \<Rightarrow>
           if is_array (oget config ''resources'')
           then (case resource_list h (arr_items (oget config ''resources'')) of
               Inl _ \<Rightarrow> set_slice (\<lambda>s. s\<lparr>adminConfig := config\<rparr>) c
             | Inr rs \<Rightarrow> set_slice (\<lambda>s. s\<lparr>collections := rs\<rparr>) (set_slice (\<lambda>s. s\<lparr>adminConfig := config\<rparr>) c))
           else set_slice (\<lambda>s. s\<lparr>adminConfig := config\<rparr>) c)"
proof (cases "status r = 401 \<or> \<not> res_ok r")
  case True
  then show ?thesis by (simp add: on_reload_config_def reload_defs) (auto simp: res_ok_def)
next
  case ok: False
  show ?thesis
  proof (cases "body_json r")
    case (Inl e)
    with ok show ?thesis by (simp add: on_reload_config_def reload_defs)
  next
    case body: (Inr config)
    have arr: "is_array v \<Longrightarrow> truthy v" for v by (cases v) simp_all
    show ?thesis
    proof (cases "is_array (oget config ''resources'')")
      case True
      then show ?thesis
        using ok body arr [OF True]
        by (cases "resource_list h (arr_items (oget config ''resources''))") (simp_all add: on_reload_config_def reload_defs)
    next
      case False
      then show ?thesis
        using ok body
        by (cases "truthy (oget config ''resources'')") (simp_all add: on_reload_config_def reload_defs)
    qed
  qed
qed

lemma config_eval:
  "on_config h (Reply r) c =
    (if status r = 401 then c\<lparr>isAuthenticated := False\<rparr>
     else if \<not> res_ok r then c
     else case body_json r of
         Inl _ \<Rightarrow> c
       | Inr config \<Rightarrow>
           (case (if is_array (oget config ''resources'') then resource_list h (arr_items (oget config ''resources'')) else Inr []) of
               Inl _ \<Rightarrow> set_slice (\<lambda>s. s\<lparr>adminConfig := config\<rparr>) c
             | Inr rs \<Rightarrow>
                 (let d = set_slice (\<lambda>s. s\<lparr>collections := rs\<rparr>) (set_slice (\<lambda>s. s\<lparr>adminConfig := config\<rparr>) c) in
                  case rs of [] \<Rightarrow> d | x # _ \<Rightarrow> d\<lparr>nav := (nav d)\<lparr>selectedCollectionId := cid x\<rparr>\<rparr>)))"
proof (cases "body_json r")
  case (Inr config)
  let ?cs = "if is_array (oget config ''resources'') then resource_list h (arr_items (oget config ''resources'')) else Inr []"
  have "truthy config" if "is_array (oget config ''resources'')"
    using that by (cases config) (auto simp: oget_def is_nullish_def split: if_splits)
  then have cs: "config_collections h config = ?cs" by (auto simp: config_collections_def)
  show ?thesis
  proof (cases ?cs)
    case (Inl e)
    then show ?thesis
      using Inr cs by (simp only: on_config_def guarded_loader_eval loaded_def) (simp add: unauthorized_def store_config_def chain_defs)
  next
    case (Inr rs)
    then show ?thesis
      using \<open>body_json r = Inr config\<close> cs
      by (simp only: on_config_def guarded_loader_eval loaded_def)
        (cases rs; simp add: unauthorized_def store_config_def chain_defs Let_def)
  qed
qed (simp add: on_config_def guarded_loader_eval loaded_def unauthorized_def)

text \<open>The replies whose body lists resources.\<close>

definition lists_resources :: "outcome \<Rightarrow> bool" where
  "lists_resources out =
     (case out of
        NetErr _ \<Rightarrow> False
      | Reply r \<Rightarrow> (case body_json r of Inl _ \<Rightarrow> False | Inr config \<Rightarrow> is_array (oget config ''resources'')))"

text \<open>
  C24. A reload is a first load. For every reply and every failure, reading the configuration
  again leaves the session and the explorer as the load effect would have, except that a body
  without a list of resources keeps the collections (the load effect empties them), and never
  moves the selection; reading the feature tree again leaves the same tree, loading mark and
  session, and, when a screen is selected, is the same function as the load effect's, its error
  included (with none selected the load effect also selects the first screen, and reports an
  error when it cannot read one).
\<close>

theorem reload_is_first_load:
  "slice (on_reload_config h out c) =
     (if lists_resources out then slice (on_config h out c)
      else (slice (on_config h out c))\<lparr>collections := collections (slice c)\<rparr>) \<and>
   isAuthenticated (on_reload_config h out c) = isAuthenticated (on_config h out c) \<and>
   nav (on_reload_config h out c) = nav c \<and>
   featureTree (slice (on_refresh_features out d)) = featureTree (slice (on_features had out d)) \<and>
   featureTreeLoading (slice (on_refresh_features out d)) = featureTreeLoading (slice (on_features had out d)) \<and>
   isAuthenticated (on_refresh_features out d) = isAuthenticated (on_features had out d) \<and>
   on_refresh_features out d = on_features True out d"
proof (cases out)
  case (Reply r)
  have "slice (on_reload_config h out c) =
     (if lists_resources out then slice (on_config h out c)
      else (slice (on_config h out c))\<lparr>collections := collections (slice c)\<rparr>)"
    by (auto simp: Reply reload_eval config_eval lists_resources_def Let_def set_slice_def split: sum.split list.split)
  moreover have "isAuthenticated (on_reload_config h out c) = isAuthenticated (on_config h out c)" "nav (on_reload_config h out c) = nav c"
    by (auto simp: Reply reload_eval config_eval Let_def split: sum.split list.split)
  ultimately show ?thesis by (simp add: trees_agree tree_readers_agree)
next
  case (NetErr e)
  have "on_reload_config h out c = c" "on_config h out c = c"
    by (simp_all add: NetErr on_reload_config_def on_config_def guarded_loader_eval loaded_def reload_defs)
  then show ?thesis by (simp add: trees_agree tree_readers_agree NetErr lists_resources_def)
qed

end
