(* ===== verification/DocsPanels.thy ===== *)
theory DocsPanels
  imports Ctx WebUrl
begin

text \<open>
  The self-contained panels: BffxDocsPanel.tsx (the bundled guide with its small markdown
  renderer), ApiDocsPanel.tsx (loading the API explorer into the page),
  components/AssociationPanel.tsx, RelationPicker.tsx and RelationLink.tsx. Each panel has
  its own state; a fetch of a panel is a request with a continuation, as in the rest of
  the console.
\<close>

section \<open>Markdown\<close>

datatype md_line = MdH1 string | MdH2 string | MdH3 string | MdItem string | MdCode string | MdGap | MdPara string

definition word_char :: "char \<Rightarrow> bool" where
  "word_char c = (is_alnum c \<or> c = CHR ''_'')"

text \<open>The fence is three backquotes: \<open>replace(/^```\w*/, '')\<close> and \<open>replace(/```$/, '')\<close>.\<close>

definition fence :: string where
  "fence = [CHR 0x60, CHR 0x60, CHR 0x60]"

definition strip_fences :: "string \<Rightarrow> string" where
  "strip_fences s =
     (let a = (if startsWith s fence then dropWhile word_char (drop 3 s) else s)
      in if endsWith a fence then take (length a - 3) a else a)"

definition render_line :: "string \<Rightarrow> md_line" where
  "render_line line =
     (let t = trimEnd line in
      if startsWith t ''### '' then MdH3 (drop 4 t)
      else if startsWith t ''## '' then MdH2 (drop 3 t)
      else if startsWith t ''# '' then MdH1 (drop 2 t)
      else if startsWith t ''- '' then MdItem (drop 2 t)
      else if startsWith t fence then MdCode (strip_fences t)
      else if t = [] then MdGap
      else MdPara t)"

definition renderMarkdown :: "string \<Rightarrow> md_line list" where
  "renderMarkdown md = map render_line (split_on (CHR 0x0A) md)"

section \<open>The guide panel\<close>

record guide_st =
  entries :: "jv list"
  selectedPath :: jv
  doc :: jv
  guide_error :: "string option"

definition guide_initial :: guide_st where
  "guide_initial = \<lparr>entries = [], selectedPath = JNull, doc = JNull, guide_error = None\<rparr>"

datatype guide_k = KGuideIndex | KGuideDoc

type_synonym guide_ctx = "(guide_st, guide_k) ctx"

definition guide_mount :: "host \<Rightarrow> guide_ctx \<Rightarrow> guide_ctx" where
  "guide_mount h = issue GET (admin_api h @ ''/docs/guide/index.json'') None KGuideIndex"

text \<open>The closure of the mount effect saw no path selected, so the first entry is taken.\<close>

definition on_guide_index :: "outcome \<Rightarrow> guide_ctx \<Rightarrow> guide_ctx" where
  "on_guide_index out =
     run_chain
       (js_catch
         (js_then
           (js_then (fetched out) (\<lambda>res. if res_ok res then res_json res else js_return (JObj [(''entries'', JArr [])])))
           (\<lambda>data.
             let es = arr_items (oget data ''entries'') in
             js_then (js_modify (set_slice (\<lambda>s. s\<lparr>entries := es\<rparr>))) (\<lambda>_.
             case es of
               [] \<Rightarrow> js_return ()
             | e # _ \<Rightarrow> js_then (js_lift (js_get e ''path'')) (\<lambda>p.
                 js_modify (set_slice (\<lambda>s. s\<lparr>selectedPath := p\<rparr>))))))
         (\<lambda>_. js_modify (set_slice (\<lambda>s. s\<lparr>guide_error := Some ''Failed to load guide index''\<rparr>))))"

text \<open>The effect run when the selected path changes.\<close>

definition guide_doc_effect :: "host \<Rightarrow> guide_ctx \<Rightarrow> guide_ctx" where
  "guide_doc_effect h c =
     (let p = selectedPath (slice c) in
      if \<not> truthy p then set_slice (\<lambda>s. s\<lparr>doc := JNull\<rparr>) c
      else issue GET (admin_api h @ ''/docs/guide/'' @ encodeURI (js_string p)) None KGuideDoc
             (set_slice (\<lambda>s. s\<lparr>guide_error := None\<rparr>) c))"

definition on_guide_doc :: "outcome \<Rightarrow> guide_ctx \<Rightarrow> guide_ctx" where
  "on_guide_doc out =
     run_chain
       (js_catch
         (js_then
           (js_then (fetched out) (\<lambda>res.
             if \<not> res_ok res then js_throw (''HTTP '' @ int_string (status res)) else res_json res))
           (\<lambda>data. js_modify (set_slice (\<lambda>s. s\<lparr>doc := data\<rparr>))))
         (\<lambda>_. js_modify (set_slice (\<lambda>s. s\<lparr>doc := JNull, guide_error := Some ''Failed to load document''\<rparr>))))"

definition selectGuide :: "jv \<Rightarrow> guide_ctx \<Rightarrow> guide_ctx" where
  "selectGuide p = set_slice (\<lambda>s. s\<lparr>selectedPath := p\<rparr>)"

section \<open>The API explorer\<close>

text \<open>
  What the panel uses of the document: the script and stylesheet tags by address, whether
  the explorer's code has run, and the explorer that is shown, by the address of its
  specification. The explorer itself is third-party code.
\<close>

record dom_st =
  script_tags :: "string list"
  css_tags :: "string list"
  bundle_ready :: bool
  shown_ui :: "string option"

record api_panel =
  spec_url :: string
  css_href :: string
  owns_css :: bool
  waiting :: bool
  destroyed :: bool

text \<open>\<open>loadScript\<close>: resolved at once when the tag is there, else when the script has loaded.\<close>

definition loadScript :: "string \<Rightarrow> dom_st \<Rightarrow> bool \<times> dom_st" where
  "loadScript src d =
     (if src \<in> set (script_tags d) then (True, d) else (False, d\<lparr>script_tags := script_tags d @ [src]\<rparr>))"

text \<open>\<open>loadStylesheet\<close>: whether the clean-up it returns removes the tag.\<close>

definition loadStylesheet :: "string \<Rightarrow> dom_st \<Rightarrow> bool \<times> dom_st" where
  "loadStylesheet href d =
     (if href \<in> set (css_tags d) then (False, d) else (True, d\<lparr>css_tags := css_tags d @ [href]\<rparr>))"

text \<open>The callback of the promise.\<close>

definition show_explorer :: "api_panel \<Rightarrow> dom_st \<Rightarrow> dom_st" where
  "show_explorer p d = (if destroyed p \<or> \<not> bundle_ready d then d else d\<lparr>shown_ui := Some (spec_url p)\<rparr>)"

definition api_mount :: "string \<Rightarrow> string \<Rightarrow> dom_st \<Rightarrow> api_panel \<times> dom_st" where
  "api_mount assetBase specUrl d =
     (let (owns, d1) = loadStylesheet (assetBase @ ''/swagger-ui.css'') d;
          (resolved, d2) = loadScript (assetBase @ ''/swagger-ui-bundle.js'') d1;
          p = \<lparr>spec_url = specUrl, css_href = assetBase @ ''/swagger-ui.css'', owns_css = owns,
               waiting = (\<not> resolved), destroyed = False\<rparr>
      in (p, if resolved then show_explorer p d2 else d2))"

text \<open>The script has run (or failed, \<open>False\<close>): the panel that waits for it goes on.\<close>

definition api_script_settled :: "bool \<Rightarrow> api_panel \<Rightarrow> dom_st \<Rightarrow> api_panel \<times> dom_st" where
  "api_script_settled ok p d =
     (let d' = (if ok then d\<lparr>bundle_ready := True\<rparr> else d) in
      if waiting p then (p\<lparr>waiting := False\<rparr>, if ok then show_explorer p d' else d') else (p, d'))"

definition api_unmount :: "api_panel \<Rightarrow> dom_st \<Rightarrow> api_panel \<times> dom_st" where
  "api_unmount p d =
     (p\<lparr>destroyed := True\<rparr>,
      d\<lparr>css_tags := (if owns_css p then remove1 (css_href p) (css_tags d) else css_tags d), shown_ui := None\<rparr>)"

section \<open>Associations and references\<close>

record assoc_st =
  assoc_rows :: "jv list"
  assoc_loading :: bool
  assoc_error :: "string option"

datatype assoc_k = KAssociation

type_synonym assoc_ctx = "(assoc_st, assoc_k) ctx"

definition assoc_initial :: assoc_st where
  "assoc_initial = \<lparr>assoc_rows = [], assoc_loading = True, assoc_error = None\<rparr>"

definition assoc_url :: "host \<Rightarrow> string \<Rightarrow> string \<Rightarrow> string \<Rightarrow> string" where
  "assoc_url h parentResource parentId name =
     admin_api h @ ''/resources/'' @ encodeURIComponent parentResource @ ''/'' @ encodeURIComponent parentId
       @ ''/associations/'' @ encodeURIComponent name"

definition assoc_effect :: "host \<Rightarrow> string \<Rightarrow> string \<Rightarrow> string \<Rightarrow> assoc_ctx \<Rightarrow> assoc_ctx" where
  "assoc_effect h parentResource parentId name c =
     issue GET (assoc_url h parentResource parentId name) None KAssociation
       (set_slice (\<lambda>s. s\<lparr>assoc_loading := True, assoc_error := None\<rparr>) c)"

definition on_association :: "outcome \<Rightarrow> assoc_ctx \<Rightarrow> assoc_ctx" where
  "on_association out =
     run_chain
       (js_finally
         (js_catch
           (js_then
             (js_then (fetched out) (\<lambda>res.
               if \<not> res_ok res then js_throw (''HTTP '' @ int_string (status res)) else res_json res))
             (\<lambda>data. js_modify (set_slice (\<lambda>s. s\<lparr>assoc_rows := arr_items (oget data ''rows'')\<rparr>))))
           (\<lambda>e. js_modify (set_slice (\<lambda>s. s\<lparr>assoc_error := Some e\<rparr>))))
         (set_slice (\<lambda>s. s\<lparr>assoc_loading := False\<rparr>)))"

text \<open>What the panel shows below its heading; an error without a text is not shown.\<close>

datatype assoc_view = AssocLoading | AssocError string | AssocEmpty | AssocRows "(string \<times> string option) list"

definition assoc_row_text :: "jv \<Rightarrow> string \<times> string option" where
  "assoc_row_text row =
     (''#'' @ js_string (oget row ''id''),
      if is_nullish (oget row ''status'') then None else Some (js_string (oget row ''status'')))"

definition assoc_render :: "assoc_st \<Rightarrow> assoc_view list" where
  "assoc_render s =
     (if assoc_loading s then [AssocLoading] else [])
     @ (case assoc_error s of Some e \<Rightarrow> if e \<noteq> [] then [AssocError e] else [] | None \<Rightarrow> [])
     @ (if \<not> assoc_loading s \<and> (assoc_error s = None \<or> assoc_error s = Some []) then
          (if assoc_rows s = [] then [AssocEmpty] else [AssocRows (map assoc_row_text (assoc_rows s))])
        else [])"

record picker_st =
  options :: "jv list"
  picker_loading :: bool

datatype picker_k = KOptions

type_synonym picker_ctx = "(picker_st, picker_k) ctx"

definition picker_effect :: "host \<Rightarrow> string \<Rightarrow> picker_ctx \<Rightarrow> picker_ctx" where
  "picker_effect h target c =
     (if target = [] then c
      else issue GET (admin_api h @ ''/resources/'' @ encodeURIComponent target @ ''?per_page=100'') None KOptions
             (set_slice (\<lambda>s. s\<lparr>picker_loading := True\<rparr>) c))"

definition on_options :: "outcome \<Rightarrow> picker_ctx \<Rightarrow> picker_ctx" where
  "on_options out =
     run_chain
       (js_finally
         (js_catch
           (js_then (js_then (fetched out) res_json)
             (\<lambda>data. when_act (is_array data) (js_modify (set_slice (\<lambda>s. s\<lparr>options := arr_items data\<rparr>)))))
           console_error)
         (set_slice (\<lambda>s. s\<lparr>picker_loading := False\<rparr>)))"

definition option_label :: "jv \<Rightarrow> string" where
  "option_label opt =
     js_string
       (js_or (oget opt ''name'') (js_or (oget opt ''title'') (js_or (oget opt ''email'')
         (js_or (oget opt ''username'') (js_or (oget opt ''key'') (oget opt ''id''))))))
     @ '' ('' @ js_string (oget opt ''id'') @ '')''"

definition picker_choices :: "picker_st \<Rightarrow> (string \<times> string) list" where
  "picker_choices s =
     ([], if picker_loading s then ''Loading options...'' else ''Select reference...'')
     # map (\<lambda>opt. (js_string (oget opt ''id''), option_label opt)) (options s)"

text \<open>A reference without an identifier is a dash; \<open>None\<close>.\<close>

definition RelationLink :: "string \<Rightarrow> string option \<Rightarrow> string option" where
  "RelationLink recordId label =
     (if recordId = [] then None
      else case label of
             Some l \<Rightarrow> if l \<noteq> [] \<and> l \<noteq> recordId then Some l else Some (''#'' @ recordId)
           | None \<Rightarrow> Some (''#'' @ recordId))"

section \<open>What the callbacks come to\<close>

lemma on_association_eval:
  "on_association out c =
     set_slice (\<lambda>s. s\<lparr>assoc_loading := False\<rparr>)
       (case out of
          NetErr e \<Rightarrow> set_slice (\<lambda>s. s\<lparr>assoc_error := Some e\<rparr>) c
        | Reply r \<Rightarrow>
            if \<not> res_ok r then set_slice (\<lambda>s. s\<lparr>assoc_error := Some (''HTTP '' @ int_string (status r))\<rparr>) c
            else (case body_json r of
                    Inl e \<Rightarrow> set_slice (\<lambda>s. s\<lparr>assoc_error := Some e\<rparr>) c
                  | Inr v \<Rightarrow> set_slice (\<lambda>s. s\<lparr>assoc_rows := arr_items (oget v ''rows'')\<rparr>) c))"
  by (auto simp: on_association_def res_json_def chain_defs fetched_def split: outcome.splits sum.splits)

lemma on_guide_doc_eval:
  "on_guide_doc out c =
     (case out of
        Reply r \<Rightarrow>
          (if res_ok r then (case body_json r of
             Inr v \<Rightarrow> set_slice (\<lambda>s. s\<lparr>doc := v\<rparr>) c
           | Inl _ \<Rightarrow> set_slice (\<lambda>s. s\<lparr>doc := JNull, guide_error := Some ''Failed to load document''\<rparr>) c)
           else set_slice (\<lambda>s. s\<lparr>doc := JNull, guide_error := Some ''Failed to load document''\<rparr>) c)
      | NetErr _ \<Rightarrow> set_slice (\<lambda>s. s\<lparr>doc := JNull, guide_error := Some ''Failed to load document''\<rparr>) c)"
  by (auto simp: on_guide_doc_def res_json_def chain_defs fetched_def split: outcome.splits sum.splits)

lemma render_line_text: "trimEnd line = t \<Longrightarrow> t \<noteq> [] \<Longrightarrow> render_line line \<noteq> MdGap"
  by (simp add: render_line_def Let_def)

section \<open>Properties\<close>

text \<open>
  The guide renders every line of the document, once and in order: there is one element
  per line, and only blank lines are gaps.
\<close>

lemma markdown_line_by_line:
  "length (renderMarkdown md) = length (split_on (CHR 0x0A) md) \<and>
   join_with [CHR 0x0A] (split_on (CHR 0x0A) md) = md \<and>
   (\<forall>i. i < length (renderMarkdown md) \<longrightarrow>
      (renderMarkdown md ! i = MdGap \<longleftrightarrow> trimEnd (split_on (CHR 0x0A) md ! i) = []))"
proof (intro conjI allI impI)
  fix i assume "i < length (renderMarkdown md)"
  then show "renderMarkdown md ! i = MdGap \<longleftrightarrow> trimEnd (split_on (CHR 0x0A) md ! i) = []"
    by (simp add: renderMarkdown_def render_line_def Let_def startsWith_def fence_def)
qed (simp_all add: renderMarkdown_def join_split_on)

lemma markdown_line_by_line_instance:
  "renderMarkdown ''# Guide'' ! 0 \<noteq> MdGap"
proof -
  have sp: "split_on (CHR 0x0A) ''# Guide'' = [''# Guide'']"
    by (rule split_on_id) simp
  have "trimEnd ''# Guide'' \<noteq> []"
    by (simp add: trimEnd_def is_space_def char_code_def)
  moreover have "length (renderMarkdown ''# Guide'') = 1"
    by (simp add: renderMarkdown_def sp)
  ultimately show ?thesis
    using markdown_line_by_line [of "''# Guide''"] by (simp add: sp)
qed

text \<open>
  C40. Leaving the API explorer and coming back before its script has loaded leaves it empty
  for good: the second panel takes the tag of the first for a loaded script, finds no
  explorer, and nothing starts it when the script arrives.
\<close>

theorem api_explorer_lost_on_fast_return:
  assumes "assetBase @ ''/swagger-ui-bundle.js'' \<notin> set (script_tags d)" and "\<not> bundle_ready d"
  shows "let (p1, d1) = api_mount assetBase spec d;
             (p1', d2) = api_unmount p1 d1;
             (p2, d3) = api_mount assetBase spec d2;
             (p1'', d4) = api_script_settled True p1' d3;
             (p2', d5) = api_script_settled True p2 d4
         in bundle_ready d5 \<and> \<not> destroyed p2' \<and> \<not> waiting p2' \<and> shown_ui d5 = None"
  using assms
  by (simp add: api_mount_def loadScript_def loadStylesheet_def show_explorer_def api_unmount_def
      api_script_settled_def Let_def split: prod.splits)

theorem api_explorer_lost_on_fast_return_witness:
  "let d = \<lparr>script_tags = [], css_tags = [], bundle_ready = False, shown_ui = None\<rparr>;
       (p1, d1) = api_mount ''/admin'' ''/openapi.json'' d;
       (p1', d2) = api_unmount p1 d1;
       (p2, d3) = api_mount ''/admin'' ''/openapi.json'' d2;
       (p1'', d4) = api_script_settled True p1' d3;
       (p2', d5) = api_script_settled True p2 d4
   in shown_ui d5 = None"
  using api_explorer_lost_on_fast_return [of "''/admin''"
      "\<lparr>script_tags = [], css_tags = [], bundle_ready = False, shown_ui = None\<rparr>" "''/openapi.json''"]
  by (simp add: Let_def split: prod.splits)

text \<open>
  The association panel always settles: after the reply it is no longer loading and
  shows exactly one thing, the rows of a successful reply, the empty note, or the error.
\<close>

lemma association_settles:
  "assoc_render (slice (on_association (Reply r) (assoc_effect h pr pid nm c))) =
     (if \<not> res_ok r then [AssocError (''HTTP '' @ int_string (status r))]
      else (case body_json r of
              Inr v \<Rightarrow> if arr_items (oget v ''rows'') = [] then [AssocEmpty]
                       else [AssocRows (map assoc_row_text (arr_items (oget v ''rows'')))]
            | Inl e \<Rightarrow> if e \<noteq> [] then [AssocError e]
                       else if assoc_rows (slice c) = [] then [AssocEmpty]
                       else [AssocRows (map assoc_row_text (assoc_rows (slice c)))]))"
  by (auto simp: on_association_eval assoc_effect_def assoc_render_def split: sum.splits)

end
