(* ===== verification/Markup.thy ===== *)
theory Markup
  imports JsValue
begin

text \<open>
  What the console renders. A JSX expression is a tree of elements, each with the attributes
  that depend on the state or restrict its use and the listeners it registers; a component of
  another package (a chart, an icon, an editor) is an element with the name of the component.
  Static class names, inline styles, animations and the \<open>div\<close>s that only carry them are
  left out: their children stand in their place, in order. An expression that throws when it is
  evaluated is a node of its own, and so is a value React refuses to show; a tree that holds one
  is not shown: React unmounts it.
\<close>

section \<open>Trees\<close>

text \<open>
  A click listener may stop the propagation, and may ask for a confirmation first: its event
  depends on the answer. A text or check listener gets the new value of its input; a key
  listener gets the name of the key; the one of a select gets the value of one of its options. A chart has its kind, its data, the key of its axis and the
  keys of its series.
\<close>

datatype 'e listener = Click bool "bool \<Rightarrow> 'e" | Submit 'e | Change "string \<Rightarrow> 'e" | Check "bool \<Rightarrow> 'e"
  | KeyDown "string \<Rightarrow> 'e" | Choose "string list" "string \<Rightarrow> 'e"

datatype 'e node = Text string | Elem string "(string \<times> string) list" "'e listener list" "'e node list"
  | Chart string jv string "string list" | Throw string | BadChild

abbreviation onClick :: "'e \<Rightarrow> 'e listener" where "onClick e \<equiv> Click False (\<lambda>_. e)"
abbreviation onClickStop :: "'e \<Rightarrow> 'e listener" where "onClickStop e \<equiv> Click True (\<lambda>_. e)"
abbreviation onAsk :: "(bool \<Rightarrow> 'e) \<Rightarrow> 'e listener" where "onAsk f \<equiv> Click False f"
abbreviation onAskStop :: "(bool \<Rightarrow> 'e) \<Rightarrow> 'e listener" where "onAskStop f \<equiv> Click True f"

abbreviation el :: "string \<Rightarrow> 'e node list \<Rightarrow> 'e node" where "el t cs \<equiv> Elem t [] [] cs"
abbreviation icon :: "string \<Rightarrow> 'e node" where "icon name \<equiv> Elem name [] [] []"
abbreviation button :: "'e \<Rightarrow> 'e node list \<Rightarrow> 'e node" where "button e cs \<equiv> Elem ''button'' [] [onClick e] cs"
abbreviation dead_button :: "'e node list \<Rightarrow> 'e node" where "dead_button cs \<equiv> Elem ''button'' [] [] cs"
abbreviation select :: "string \<Rightarrow> (string \<times> string) list \<Rightarrow> (string \<Rightarrow> 'e) \<Rightarrow> 'e node" where
  "select v opts f \<equiv>
     Elem ''select'' [(''value'', v)] [Choose (map fst opts) f]
       (map (\<lambda>(o_v, l). Elem ''option'' [(''value'', o_v)] [] [Text l]) opts)"
abbreviation input :: "(string \<times> string) list \<Rightarrow> 'e listener list \<Rightarrow> 'e node" where
  "input as ls \<equiv> Elem ''input'' as ls []"

section \<open>Values as children\<close>

text \<open>
  React shows strings and numbers, shows nothing for \<open>undefined\<close>, \<open>null\<close> and
  booleans, renders the elements of an array and throws on any other object.
\<close>

fun child :: "jv \<Rightarrow> 'e node list" where
  "child (JStr s) = (if s = [] then [] else [Text s])"
| "child (JNum n) = [Text (int_string n)]"
| "child (JArr xs) = concat (map child xs)"
| "child (JObj _) = [BadChild]"
| "child _ = []"

text \<open>\<open>{v && ns}\<close>: a value that is not truthy stands for itself.\<close>

definition and_show :: "jv \<Rightarrow> 'e node list \<Rightarrow> 'e node list" where
  "and_show v ns = (if truthy v then ns else child v)"

text \<open>\<open>{b && ns}\<close> for a condition, and \<open>{xs.map(f)}\<close> for a value that may not be an array.\<close>

definition if_show :: "bool \<Rightarrow> 'e node list \<Rightarrow> 'e node list" where
  "if_show b ns = (if b then ns else [])"

definition not_array :: string where
  "not_array = ''map is not a function''"

definition each :: "jv \<Rightarrow> (jv \<Rightarrow> 'e node list) \<Rightarrow> 'e node list" where
  "each v f = (case v of JArr xs \<Rightarrow> concat (map f xs) | _ \<Rightarrow> [Throw not_array])"

text \<open>The same where the callback reads the property \<open>k\<close> of the element.\<close>

definition reading :: "string \<Rightarrow> (jv \<Rightarrow> 'e node list) \<Rightarrow> jv \<Rightarrow> 'e node list" where
  "reading k f x = (if is_nullish x then [Throw (type_error x k)] else f x)"

text \<open>\<open>{v.length}\<close>, and \<open>{v.length > 0 && ns}\<close>, \<open>{v.length === 0 && ns}\<close>.\<close>

definition show_length :: "jv \<Rightarrow> 'e node list" where
  "show_length v = (if is_nullish v then [Throw (type_error v ''length'')] else child (jprop v ''length''))"

definition when_items :: "jv \<Rightarrow> 'e node list \<Rightarrow> 'e node list" where
  "when_items v ns = (if is_nullish v then [Throw (type_error v ''length'')] else if_show (has_items v) ns)"

definition when_empty :: "jv \<Rightarrow> 'e node list \<Rightarrow> 'e node list" where
  "when_empty v ns =
     (if is_nullish v then [Throw (type_error v ''length'')] else if_show (jprop v ''length'' = JNum 0) ns)"

text \<open>Characters outside ASCII, by their UTF-8 bytes: a dash, dots, a middle dot and an arrow.\<close>

definition em_dash :: string where "em_dash = [CHR 0xE2, CHR 0x80, CHR 0x94]"
definition ellipsis :: string where "ellipsis = [CHR 0xE2, CHR 0x80, CHR 0xA6]"
definition middle_dot :: string where "middle_dot = [CHR 0xC2, CHR 0xB7]"
definition arrow :: string where "arrow = [CHR 0xE2, CHR 0x86, CHR 0x97]"

definition shown_res :: "('a \<Rightarrow> 'e node list) \<Rightarrow> 'a res \<Rightarrow> 'e node list" where
  "shown_res f r = (case r of Inl e \<Rightarrow> [Throw e] | Inr x \<Rightarrow> f x)"

text \<open>\<open>v.charAt(0)\<close>, which throws unless the value is a string.\<close>

definition char_at_0 :: "jv \<Rightarrow> string res" where
  "char_at_0 v = (case v of JStr s \<Rightarrow> Inr (take 1 s) | _ \<Rightarrow> Inl ''charAt is not a function'')"

section \<open>What a tree can do\<close>

definition disabled :: "(string \<times> string) list \<Rightarrow> bool" where
  "disabled as = ((''disabled'', []) \<in> set as)"

definition disabled_if :: "bool \<Rightarrow> (string \<times> string) list" where
  "disabled_if b = (if b then [(''disabled'', [])] else [])"

fun fires :: "'e listener \<Rightarrow> 'e set" where
  "fires (Click _ f) = range f"
| "fires (Submit e) = {e}"
| "fires (Change f) = range f"
| "fires (Check f) = range f"
| "fires (KeyDown f) = range f"
| "fires (Choose opts f) = f ` set opts"

text \<open>The events the user can cause; a disabled control has none.\<close>

definition own_events :: "(string \<times> string) list \<Rightarrow> 'e listener list \<Rightarrow> 'e set" where
  "own_events as ls = (if disabled as then {} else \<Union> (fires ` set ls))"

fun events :: "'e node \<Rightarrow> 'e set" where
  "events (Elem t as ls cs) = own_events as ls \<union> \<Union> (events ` set cs)"
| "events _ = {}"

definition events_of :: "'e node list \<Rightarrow> 'e set" where
  "events_of ns = \<Union> (events ` set ns)"

fun crashes :: "'e node \<Rightarrow> bool" where
  "crashes (Throw _) = True"
| "crashes BadChild = True"
| "crashes (Elem t as ls cs) = list_ex crashes cs"
| "crashes _ = False"

text \<open>
  The errors of the evaluation alone: an element that is made but not rendered, like the content
  of a closed dialogue, has only these.
\<close>

fun eval_errors :: "'e node \<Rightarrow> string list" where
  "eval_errors (Throw e) = [e]"
| "eval_errors (Elem t as ls cs) = concat (map eval_errors cs)"
| "eval_errors _ = []"

definition evaluated :: "'e node list \<Rightarrow> 'e node list" where
  "evaluated ns = map Throw (concat (map eval_errors ns))"

definition crashed :: "'e node list \<Rightarrow> bool" where
  "crashed ns = list_ex crashes ns"

text \<open>A tree that crashes is not there to be used.\<close>

definition usable_events :: "'e node list \<Rightarrow> 'e set" where
  "usable_events ns = (if crashed ns then {} else events_of ns)"

fun text_of :: "'e node \<Rightarrow> string" where
  "text_of (Text s) = s"
| "text_of (Elem t as ls cs) = concat (map text_of cs)"
| "text_of _ = []"

section \<open>Clicks\<close>

text \<open>
  A click lands on an element and bubbles: the handlers of the element run, then those of the
  elements around it until one stops it. \<open>taps\<close> lists, for every element of the tree, whether
  the click was stopped and the handlers it ran.
\<close>

fun click_fun :: "'e listener \<Rightarrow> (bool \<times> (bool \<Rightarrow> 'e)) option" where
  "click_fun (Click stop f) = Some (stop, f)"
| "click_fun _ = None"

definition own_clicks :: "(string \<times> string) list \<Rightarrow> 'e listener list \<Rightarrow> (bool \<times> (bool \<Rightarrow> 'e)) list" where
  "own_clicks as ls = (if disabled as then [] else List.map_filter click_fun ls)"

definition bubble :: "(bool \<times> (bool \<Rightarrow> 'e)) list \<Rightarrow> bool \<times> (bool \<Rightarrow> 'e) list \<Rightarrow> bool \<times> (bool \<Rightarrow> 'e) list" where
  "bubble own tap =
     (if fst tap then tap else (list_ex fst own, snd tap @ map snd own))"

fun taps :: "'e node \<Rightarrow> (bool \<times> (bool \<Rightarrow> 'e) list) list" where
  "taps (Elem t as ls cs) = map (bubble (own_clicks as ls)) ((False, []) # concat (map taps cs))"
| "taps _ = []"

definition one_handler :: "'e node \<Rightarrow> bool" where
  "one_handler n = list_all (\<lambda>tap. length (snd tap) \<le> 1) (taps n)"

text \<open>No click inside goes on to the surrounding elements after a handler has run.\<close>

definition contained :: "'e node \<Rightarrow> bool" where
  "contained n = list_all (\<lambda>tap. fst tap \<or> snd tap = []) (taps n)"

text \<open>The buttons without a handler of their own, by their text.\<close>

fun dead_buttons :: "'e node \<Rightarrow> string list" where
  "dead_buttons (Elem t as ls cs) =
     (if t = ''button'' \<and> ls = [] \<and> (''type'', ''submit'') \<notin> set as then [concat (map text_of cs)] else []) @
     concat (map dead_buttons cs)"
| "dead_buttons _ = []"

definition dead_buttons_of :: "'e node list \<Rightarrow> string list" where
  "dead_buttons_of ns = concat (map dead_buttons ns)"

section \<open>Laws\<close>


lemma events_of_simps [simp]:
  "events_of [] = {}"
  "events_of (n # ns) = events n \<union> events_of ns"
  "events_of (ns @ ms) = events_of ns \<union> events_of ms"
  by (auto simp: events_of_def)

lemma events_of_map [simp]: "events_of (map f xs) = (\<Union>x\<in>set xs. events (f x))"
  by (auto simp: events_of_def)

lemma events_of_concat [simp]: "events_of (concat nss) = (\<Union>ns\<in>set nss. events_of ns)"
  by (auto simp: events_of_def)

lemma events_Elem [simp]: "events (Elem t as ls cs) = own_events as ls \<union> events_of cs"
  by (simp add: events_of_def)

declare events.simps(1) [simp del]

lemma own_events_Nil [simp]: "own_events as [] = {}"
  by (simp add: own_events_def)

lemma disabled_simps [simp]: "\<not> disabled []" "disabled (disabled_if b) \<longleftrightarrow> b"
  "disabled (a # as) \<longleftrightarrow> a = (''disabled'', []) \<or> disabled as"
  "disabled (as @ bs) \<longleftrightarrow> disabled as \<or> disabled bs"
  by (auto simp: disabled_def disabled_if_def)

lemma own_events_enabled: "\<not> disabled as \<Longrightarrow> own_events as ls = \<Union> (fires ` set ls)"
  by (simp add: own_events_def)

lemma crashed_simps [simp]:
  "\<not> crashed []"
  "crashed (n # ns) \<longleftrightarrow> crashes n \<or> crashed ns"
  "crashed (ns @ ms) \<longleftrightarrow> crashed ns \<or> crashed ms"
  by (auto simp: crashed_def list_ex_iff)

lemma crashed_map [simp]: "crashed (map f xs) \<longleftrightarrow> (\<exists>x\<in>set xs. crashes (f x))"
  by (auto simp: crashed_def list_ex_iff)

lemma crashed_concat [simp]: "crashed (concat nss) \<longleftrightarrow> (\<exists>ns\<in>set nss. crashed ns)"
  by (auto simp: crashed_def list_ex_iff)

lemma crashes_Elem [simp]: "crashes (Elem t as ls cs) \<longleftrightarrow> crashed cs"
  by (simp add: crashed_def)

declare crashes.simps(3) [simp del]

lemma events_evaluated [simp]: "events_of (evaluated ns) = {}"
  by (auto simp: evaluated_def events_of_def)

lemma eval_errors_crash: "eval_errors n \<noteq> [] \<Longrightarrow> crashes n"
  by (induction n rule: eval_errors.induct) (auto simp: crashed_def list_ex_iff)

lemma crashed_evaluated: "crashed (evaluated ns) \<Longrightarrow> crashed ns"
proof -
  assume "crashed (evaluated ns)"
  then obtain n e where n: "n \<in> set ns" and "e \<in> set (eval_errors n)"
    by (auto simp: evaluated_def crashed_def list_ex_iff)
  then have "crashes n" by (intro eval_errors_crash) auto
  with n show "crashed ns" by (auto simp: crashed_def list_ex_iff)
qed

lemma events_child [simp]: "events_of (child v) = {}"
  by (induction v rule: child.induct) auto

lemma events_shows [simp]:
  "events_of (and_show v ns) = (if truthy v then events_of ns else {})"
  "events_of (if_show b ns) = (if b then events_of ns else {})"
  "events_of (each v f) = (\<Union>x\<in>set (arr_items v). events_of (f x))"
  by (auto simp: and_show_def if_show_def each_def split: jv.splits)

lemma crashed_shows [simp]:
  "crashed (if_show b ns) \<longleftrightarrow> b \<and> crashed ns"
  "crashed (each v f) \<longleftrightarrow> \<not> is_array v \<or> (\<exists>x\<in>set (arr_items v). crashed (f x))"
  by (cases v; auto simp: if_show_def each_def)+

lemma crashed_and_show [simp]: "crashed (and_show v ns) \<longleftrightarrow> truthy v \<and> crashed ns"
proof -
  have "\<not> truthy v \<Longrightarrow> \<not> crashed (child v :: 'a node list)" by (cases v) auto
  then show ?thesis by (auto simp: and_show_def)
qed

lemma shown_res_simps [simp]:
  "events_of (shown_res f r) = (case r of Inl _ \<Rightarrow> {} | Inr x \<Rightarrow> events_of (f x))"
  "crashed (shown_res f r) \<longleftrightarrow> (case r of Inl _ \<Rightarrow> True | Inr x \<Rightarrow> crashed (f x))"
  by (auto simp: shown_res_def split: sum.splits)

lemma reading_simps [simp]:
  "events_of (reading k f x) = (if is_nullish x then {} else events_of (f x))"
  "crashed (reading k f x) \<longleftrightarrow> is_nullish x \<or> crashed (f x)"
  by (auto simp: reading_def)

lemma lengths_events [simp]:
  "events_of (show_length v) = {}"
  "events_of (when_items v ns) = (if \<not> is_nullish v \<and> has_items v then events_of ns else {})"
  "events_of (when_empty v ns) = (if \<not> is_nullish v \<and> jprop v ''length'' = JNum 0 then events_of ns else {})"
  by (auto simp: show_length_def when_items_def when_empty_def)

lemma lengths_crashed [simp]:
  "crashed (when_items v ns) \<longleftrightarrow> is_nullish v \<or> has_items v \<and> crashed ns"
  "crashed (when_empty v ns) \<longleftrightarrow> is_nullish v \<or> jprop v ''length'' = JNum 0 \<and> crashed ns"
  by (auto simp: when_items_def when_empty_def)

section \<open>One handler for a click\<close>

definition one_handlers :: "'e node list \<Rightarrow> bool" where
  "one_handlers ns = list_all one_handler ns"

definition all_contained :: "'e node list \<Rightarrow> bool" where
  "all_contained ns = list_all contained ns"

lemma list_all_concat_map: "list_all P (concat (map f xs)) \<longleftrightarrow> (\<forall>x\<in>set xs. list_all P (f x))"
  by (auto simp: list_all_iff)

text \<open>
  An element without a click handler adds none; one with a single handler needs the clicks
  inside to be contained.
\<close>

lemma bubble_Nil [simp]: "bubble [] = id"
  by (rule ext) (simp add: bubble_def prod_eq_iff)

lemma one_handler_simps [simp]:
  "one_handler (Text s)" "one_handler (Chart k d x y)" "one_handler (Throw e)" "one_handler BadChild"
  "contained (Text s)" "contained (Chart k d x y)" "contained (Throw e)" "contained BadChild"
  by (simp_all add: one_handler_def contained_def)

lemma one_handler_plain:
  assumes "own_clicks as ls = []"
  shows "one_handler (Elem t as ls cs) \<longleftrightarrow> one_handlers cs"
    and "contained (Elem t as ls cs) \<longleftrightarrow> all_contained cs"
  using assms
  by (auto simp: one_handler_def contained_def one_handlers_def all_contained_def list_all_iff)

lemma one_handler_click:
  assumes own: "own_clicks as ls = [(stop, f)]" and inner: "one_handlers cs" "all_contained cs"
  shows "one_handler (Elem t as ls cs)" and "stop \<Longrightarrow> contained (Elem t as ls cs)"
proof -
  have len: "length (snd tap) \<le> 1" and cont: "fst tap \<or> snd tap = []" if "tap \<in> set (concat (map taps cs))" for tap
    using that inner
    by (auto simp: one_handlers_def all_contained_def one_handler_def contained_def list_all_iff)
  show "one_handler (Elem t as ls cs)"
    using len cont by (fastforce simp: one_handler_def own bubble_def list_all_iff)
  show "contained (Elem t as ls cs)" if "stop"
    using len cont that by (fastforce simp: contained_def own bubble_def list_all_iff)
qed

lemma handlers_list_simps [simp]:
  "one_handlers []" "one_handlers (n # ns) \<longleftrightarrow> one_handler n \<and> one_handlers ns"
  "one_handlers (ns @ ms) \<longleftrightarrow> one_handlers ns \<and> one_handlers ms"
  "all_contained []" "all_contained (n # ns) \<longleftrightarrow> contained n \<and> all_contained ns"
  "all_contained (ns @ ms) \<longleftrightarrow> all_contained ns \<and> all_contained ms"
  by (simp_all add: one_handlers_def all_contained_def)

lemma handlers_map_simps [simp]:
  "one_handlers (map f xs) \<longleftrightarrow> (\<forall>x\<in>set xs. one_handler (f x))"
  "all_contained (map f xs) \<longleftrightarrow> (\<forall>x\<in>set xs. contained (f x))"
  "one_handlers (concat nss) \<longleftrightarrow> (\<forall>ns\<in>set nss. one_handlers ns)"
  "all_contained (concat nss) \<longleftrightarrow> (\<forall>ns\<in>set nss. all_contained ns)"
  by (auto simp: one_handlers_def all_contained_def list_all_iff)

lemma handlers_child [simp]: "one_handlers (child v)" "all_contained (child v)"
  by (induction v rule: child.induct) auto

lemma handlers_shows [simp]:
  "one_handlers (if_show b ns) \<longleftrightarrow> b \<longrightarrow> one_handlers ns"
  "all_contained (if_show b ns) \<longleftrightarrow> b \<longrightarrow> all_contained ns"
  "one_handlers (and_show v ns) \<longleftrightarrow> truthy v \<longrightarrow> one_handlers ns"
  "all_contained (and_show v ns) \<longleftrightarrow> truthy v \<longrightarrow> all_contained ns"
  "one_handlers (each v f) \<longleftrightarrow> (\<forall>x\<in>set (arr_items v). one_handlers (f x))"
  "all_contained (each v f) \<longleftrightarrow> (\<forall>x\<in>set (arr_items v). all_contained (f x))"
  "one_handlers (shown_res g r) \<longleftrightarrow> (case r of Inl _ \<Rightarrow> True | Inr x \<Rightarrow> one_handlers (g x))"
  "all_contained (shown_res g r) \<longleftrightarrow> (case r of Inl _ \<Rightarrow> True | Inr x \<Rightarrow> all_contained (g x))"
  by (auto simp: if_show_def and_show_def each_def shown_res_def split: jv.splits sum.splits)

lemma own_clicks_simps [simp]:
  "own_clicks as [] = []"
  "own_clicks as (Submit e # ls) = own_clicks as ls"
  "own_clicks as (Change g # ls) = own_clicks as ls"
  "own_clicks as (Check h # ls) = own_clicks as ls"
  "own_clicks as (KeyDown g # ls) = own_clicks as ls"
  "own_clicks as (Choose opts g # ls) = own_clicks as ls"
  "own_clicks as (Click st h # ls) = (if disabled as then [] else (st, h) # own_clicks as ls)"
  by (simp_all add: own_clicks_def map_filter_simps)

text \<open>The elements the console uses: no click handler, or one handler on contained children.\<close>

lemma one_handler_button [simp]:
  "one_handlers cs \<Longrightarrow> all_contained cs \<Longrightarrow> one_handler (Elem t as [Click st f] cs)"
  "one_handlers cs \<Longrightarrow> all_contained cs \<Longrightarrow> contained (Elem t as [Click True f] cs)"
  "one_handlers cs \<Longrightarrow> all_contained cs \<Longrightarrow> disabled as \<Longrightarrow> contained (Elem t as [Click st f] cs)"
  by (cases "disabled as"; simp add: one_handler_plain one_handler_click)+

lemma one_handler_other [simp]:
  "one_handler (Elem t as [] cs) \<longleftrightarrow> one_handlers cs"
  "contained (Elem t as [] cs) \<longleftrightarrow> all_contained cs"
  "one_handler (Elem t as [Change g] cs) \<longleftrightarrow> one_handlers cs"
  "contained (Elem t as [Change g] cs) \<longleftrightarrow> all_contained cs"
  "one_handler (Elem t as [Check h] cs) \<longleftrightarrow> one_handlers cs"
  "contained (Elem t as [Check h] cs) \<longleftrightarrow> all_contained cs"
  "one_handler (Elem t as [Choose opts g] cs) \<longleftrightarrow> one_handlers cs"
  "contained (Elem t as [Choose opts g] cs) \<longleftrightarrow> all_contained cs"
  "one_handler (Elem t as [Submit e] cs) \<longleftrightarrow> one_handlers cs"
  "contained (Elem t as [Submit e] cs) \<longleftrightarrow> all_contained cs"
  "one_handler (Elem t as [Change g, KeyDown k] cs) \<longleftrightarrow> one_handlers cs"
  "contained (Elem t as [Change g, KeyDown k] cs) \<longleftrightarrow> all_contained cs"
  by (simp_all add: one_handler_plain)

lemma handlers_reading [simp]:
  "one_handlers (reading k f x) \<longleftrightarrow> (\<not> is_nullish x \<longrightarrow> one_handlers (f x))"
  "all_contained (reading k f x) \<longleftrightarrow> (\<not> is_nullish x \<longrightarrow> all_contained (f x))"
  by (auto simp: reading_def)

lemma handlers_lengths [simp]:
  "one_handlers (show_length v)" "all_contained (show_length v)"
  "one_handlers ns \<Longrightarrow> one_handlers (when_items v ns)" "all_contained ns \<Longrightarrow> all_contained (when_items v ns)"
  "one_handlers ns \<Longrightarrow> one_handlers (when_empty v ns)" "all_contained ns \<Longrightarrow> all_contained (when_empty v ns)"
  by (auto simp: show_length_def when_items_def when_empty_def)

lemma handlers_evaluated [simp]: "one_handlers (evaluated ns)" "all_contained (evaluated ns)"
  by (auto simp: evaluated_def)

section \<open>Buttons without a handler\<close>

lemma dead_buttons_of_simps [simp]:
  "dead_buttons_of [] = []"
  "dead_buttons_of (n # ns) = dead_buttons n @ dead_buttons_of ns"
  "dead_buttons_of (ns @ ms) = dead_buttons_of ns @ dead_buttons_of ms"
  by (simp_all add: dead_buttons_of_def)

lemma dead_buttons_child [simp]: "dead_buttons_of (child v) = []"
  by (induction v rule: child.induct) (auto simp: dead_buttons_of_def)

end
