(* ===== verification/Widgets.thy ===== *)
theory Widgets
  imports Markup
begin

text \<open>The presentational components of the console (components/*.tsx), as trees.\<close>

section \<open>Cards, headers and fields\<close>

definition PageHeader :: "string \<Rightarrow> string \<Rightarrow> 'e node list \<Rightarrow> 'e node" where
  "PageHeader title description actions =
     el ''header'' ([el ''h2'' [Text title], el ''p'' [Text description]] @ actions)"

definition StatCard :: "'e node list \<Rightarrow> string \<Rightarrow> string \<Rightarrow> string \<Rightarrow> string \<Rightarrow> 'e node" where
  "StatCard title value trend trendValue ic =
     el ''div'' [el ''span'' title, icon ic, el ''div'' [Text value],
       (if trend = ''up'' then icon ''TrendingUp'' else icon ''TrendingDown''),
       Elem ''span'' [(''class'', if trend = ''up'' then ''text-[#9cf132]'' else ''text-[#ffb4ab]'')] [] [Text trendValue]]"

definition SidebarItem :: "string \<Rightarrow> string \<Rightarrow> bool \<Rightarrow> 'e \<Rightarrow> 'e node" where
  "SidebarItem ic label active e =
     Elem ''button'' [(''class'', if active then ''text-blue-400'' else ''text-[#8c90a1]'')] [onClick e]
       [Elem ic [(''class'', if active then ''text-blue-400'' else ''group-hover:text-white'')] [] [],
        el ''span'' [Text label]]"

definition FormField :: "'e node list \<Rightarrow> 'e node list \<Rightarrow> 'e node" where
  "FormField label cs = el ''div'' (el ''label'' label # cs)"

definition InfoCell :: "string \<Rightarrow> 'e node list \<Rightarrow> 'e node" where
  "InfoCell label value = el ''div'' [el ''p'' [Text label], el ''p'' value]"

section \<open>Dialogues\<close>

text \<open>
  A dialogue is rendered while it is open; while it is closed its content is evaluated all the
  same, for it is an argument. The backdrop and the cross close it; they are not around the
  content, so that a click inside does not.
\<close>

definition Modal :: "bool \<Rightarrow> 'e \<Rightarrow> string \<Rightarrow> 'e node list \<Rightarrow> 'e node list" where
  "Modal isOpen close title cs =
     (if isOpen
      then [el ''div'' [Elem ''backdrop'' [] [onClick close] [],
              el ''dialog'' ([el ''h3'' [Text title], button close [icon ''X'']] @ cs)]]
      else evaluated cs)"

section \<open>Laws\<close>

lemma widget_events [simp]:
  "events (PageHeader t d acts) = events_of acts"
  "events (StatCard ts v tr tv i) = events_of ts"
  "events (SidebarItem i l act e) = {e}"
  "events (FormField ns cs) = events_of ns \<union> events_of cs"
  "events (InfoCell l ws) = events_of ws"
  "events_of (Modal isOpen e t cs) = (if isOpen then {e} \<union> events_of cs else {})"
  by (auto simp: PageHeader_def StatCard_def SidebarItem_def FormField_def InfoCell_def Modal_def own_events_def)

lemma widget_crashes [simp]:
  "crashes (PageHeader t d acts) \<longleftrightarrow> crashed acts"
  "crashes (StatCard ts v tr tv i) \<longleftrightarrow> crashed ts"
  "\<not> crashes (SidebarItem i l act e)"
  "crashes (FormField ns cs) \<longleftrightarrow> crashed ns \<or> crashed cs"
  "crashes (InfoCell l ws) \<longleftrightarrow> crashed ws"
  "crashed (Modal isOpen e t cs) \<longleftrightarrow> (if isOpen then crashed cs else crashed (evaluated cs))"
  by (auto simp: PageHeader_def StatCard_def SidebarItem_def FormField_def InfoCell_def Modal_def)

lemma widget_handlers [simp]:
  "one_handler (PageHeader t d acts) \<longleftrightarrow> one_handlers acts"
  "one_handler (StatCard ts v tr tv i) \<longleftrightarrow> one_handlers ts"
  "one_handler (SidebarItem i l act e)"
  "one_handler (FormField ns cs) \<longleftrightarrow> one_handlers ns \<and> one_handlers cs"
  "one_handler (InfoCell l ws) \<longleftrightarrow> one_handlers ws"
  "one_handlers (Modal isOpen e t cs) \<longleftrightarrow> isOpen \<longrightarrow> one_handlers cs"
  by (auto simp: PageHeader_def StatCard_def SidebarItem_def FormField_def InfoCell_def Modal_def)

lemma widget_contained [simp]:
  "contained (PageHeader t d acts) \<longleftrightarrow> all_contained acts"
  "contained (StatCard ts v tr tv i) \<longleftrightarrow> all_contained ts"
  "contained (FormField ns cs) \<longleftrightarrow> all_contained ns \<and> all_contained cs"
  "contained (InfoCell l ws) \<longleftrightarrow> all_contained ws"
  by (auto simp: PageHeader_def StatCard_def FormField_def InfoCell_def)

end
