(* ===== verification/PagePanels.thy ===== *)
theory PagePanels
  imports DocsPanels Widgets
begin

text \<open>
  What the self-contained panels render from their own state: the guide with its markdown, the
  associations of a record and the picker of a related record. Their events are the arguments
  they give to their own setters.
\<close>

section \<open>The guide\<close>

definition md_node :: "md_line \<Rightarrow> 'e node" where
  "md_node l =
     (case l of
        MdH1 t \<Rightarrow> el ''h1'' [Text t]
      | MdH2 t \<Rightarrow> el ''h2'' [Text t]
      | MdH3 t \<Rightarrow> el ''h3'' [Text t]
      | MdItem t \<Rightarrow> el ''li'' [Text t]
      | MdCode t \<Rightarrow> el ''pre'' [Text t]
      | MdGap \<Rightarrow> el ''div'' []
      | MdPara t \<Rightarrow> el ''p'' [Text t])"

text \<open>\<open>renderMarkdown(doc.markdown)\<close>; only text has a \<open>split\<close>.\<close>

definition article :: "jv \<Rightarrow> 'e node list" where
  "article d =
     (case oget d ''markdown'' of
        JStr md \<Rightarrow> [el ''article'' (map md_node (renderMarkdown md))]
      | _ \<Rightarrow> [Throw ''split is not a function''])"

definition guide_entry :: "guide_st \<Rightarrow> jv \<Rightarrow> jv node list" where
  "guide_entry s e =
     [el ''li''
        [Elem ''button''
           [(''type'', ''button''),
            (''class'', if selectedPath s = oget e ''path'' then ''text-blue-400'' else ''text-text-muted'')]
           [onClick (oget e ''path'')] (child (oget e ''title''))]]"

definition guide_panel :: "guide_st \<Rightarrow> jv node list" where
  "guide_panel s =
     [el ''p'' [Text ''BFFX documentation'']] @
     if_show (entries s = [])
       [el ''p'' [Text ''No guide bundled. Run '', el ''span'' [Text ''bffx update framework --vendor-only''], Text '' '',
          Text ''to copy docs into '', el ''span'' [Text ''.bffx/docs/''], Text ''.'']] @
     [el ''ul'' (concat (map (reading ''id'' (guide_entry s)) (entries s)))] @
     (case guide_error s of Some e \<Rightarrow> if_show (e \<noteq> []) [el ''p'' [Text e]] | None \<Rightarrow> []) @
     and_show (doc s) (article (doc s))"

section \<open>Associations and references\<close>

definition assoc_node :: "assoc_view \<Rightarrow> 'e node" where
  "assoc_node v =
     (case v of
        AssocLoading \<Rightarrow> el ''p'' [Text (''Loading'' @ ellipsis)]
      | AssocError e \<Rightarrow> el ''p'' [Text e]
      | AssocEmpty \<Rightarrow> el ''p'' [Text ''No related records.'']
      | AssocRows rs \<Rightarrow>
          el ''ul'' (map (\<lambda>(i, st). el ''li'' (Text i # (case st of Some t \<Rightarrow> [el ''span'' [Text t]] | None \<Rightarrow> []))) rs))"

definition association_panel :: "string \<Rightarrow> string \<Rightarrow> assoc_st \<Rightarrow> 'e node list" where
  "association_panel label childResource s =
     [el ''p'' [Text label], el ''span'' [Text childResource]] @
     (if \<not> assoc_loading s \<and> list_ex is_nullish (assoc_rows s) then [Throw (type_error JNull ''id'')]
      else map assoc_node (assoc_render s))"

text \<open>The picker calls \<open>onChange\<close> with the identifier of the option.\<close>

definition relation_picker :: "string \<Rightarrow> picker_st \<Rightarrow> string node" where
  "relation_picker value s =
     Elem ''select'' ((''value'', value) # disabled_if (picker_loading s)) [Choose (map fst (picker_choices s)) id]
       (map (\<lambda>(v, l). Elem ''option'' [(''value'', v)] [] [Text l]) (picker_choices s))"

section \<open>What they offer\<close>

lemma guide_panel_events:
  "\<not> crashed (guide_panel s) \<Longrightarrow> events_of (guide_panel s) = (\<lambda>e. oget e ''path'') ` set (entries s)"
  by (auto simp: guide_panel_def guide_entry_def own_events_def article_def md_node_def split: option.splits jv.splits md_line.splits if_splits)

text \<open>While the options load, the picker is disabled and nothing can be picked.\<close>

lemma relation_picker_events:
  "events (relation_picker v s) = (if picker_loading s then {} else fst ` set (picker_choices s))"
  by (auto simp: relation_picker_def own_events_def)

end
