(* ===== verification/GuideRuns.thy ===== *)
theory GuideRuns
  imports PagePanels
begin

text \<open>
  The guide reader at work: the panel is mounted, the user clicks entries of the rendered list,
  replies arrive, and after each of these the document effect runs when the path has changed.
\<close>

section \<open>Runs\<close>

definition guide_commit :: "host \<Rightarrow> guide_ctx \<Rightarrow> guide_ctx \<Rightarrow> guide_ctx" where
  "guide_commit h c d = (if selectedPath (slice d) = selectedPath (slice c) then d else guide_doc_effect h d)"

definition guide_resume :: "guide_k \<Rightarrow> outcome \<Rightarrow> guide_ctx \<Rightarrow> guide_ctx" where
  "guide_resume k out = (case k of KGuideIndex \<Rightarrow> on_guide_index out | KGuideDoc \<Rightarrow> on_guide_doc out)"

definition guide_take :: "nat \<Rightarrow> guide_ctx \<Rightarrow> guide_ctx" where
  "guide_take i c = c\<lparr>outbox := take i (outbox c) @ drop (Suc i) (outbox c)\<rparr>"

definition guide_start :: guide_ctx where
  "guide_start =
     \<lparr>isAuthenticated = True, formData = [],
      nav = \<lparr>activePage = ''bffx-docs'', selectedCollectionId = [], selectedScreenName = None, selectedClusterName = None\<rparr>,
      alerts = [], outbox = [], slice = guide_initial\<rparr>"

text \<open>Both effects run when the panel is mounted.\<close>

definition guide_mounted :: "host \<Rightarrow> guide_ctx" where
  "guide_mounted h = guide_doc_effect h (guide_mount h guide_start)"

text \<open>The documents asked for and not yet answered, by address, oldest first.\<close>

definition docs_asked :: "guide_ctx \<Rightarrow> string list" where
  "docs_asked c = map (\<lambda>q. rurl (fst q)) (filter (\<lambda>q. snd q = KGuideDoc) (outbox c))"

definition doc_url :: "host \<Rightarrow> jv \<Rightarrow> string" where
  "doc_url h p = admin_api h @ ''/docs/guide/'' @ encodeURI (js_string p)"

text \<open>
  A server that serves one document per address, or fails; and replies to documents that arrive
  in the order of the requests.
\<close>

definition serves :: "(string \<Rightarrow> jv) \<Rightarrow> string \<Rightarrow> outcome \<Rightarrow> bool" where
  "serves lib u out =
     (case out of NetErr _ \<Rightarrow> True
      | Reply r \<Rightarrow> \<not> res_ok r \<or> (case body_json r of Inl _ \<Rightarrow> True | Inr v \<Rightarrow> v = lib u))"

definition in_turn :: "guide_ctx \<Rightarrow> nat \<Rightarrow> bool" where
  "in_turn c i = (snd (outbox c ! i) = KGuideDoc \<longrightarrow> list_all (\<lambda>q. snd q \<noteq> KGuideDoc) (take i (outbox c)))"

inductive guide_step :: "host \<Rightarrow> (string \<Rightarrow> jv) \<Rightarrow> bool \<Rightarrow> guide_ctx \<Rightarrow> guide_ctx \<Rightarrow> bool"
  for h :: host and lib :: "string \<Rightarrow> jv" and ordered :: bool where
  pick: "\<not> crashed (guide_panel (slice c)) \<Longrightarrow> p \<in> events_of (guide_panel (slice c)) \<Longrightarrow>
    guide_step h lib ordered c (guide_commit h c (selectGuide p c))"
| reply: "\<not> crashed (guide_panel (slice c)) \<Longrightarrow> i < length (outbox c) \<Longrightarrow> (ordered \<longrightarrow> in_turn c i) \<Longrightarrow> serves lib (rurl (fst (outbox c ! i))) out \<Longrightarrow>
    guide_step h lib ordered c (guide_commit h c (guide_resume (snd (outbox c ! i)) out (guide_take i c)))"

inductive guide_reach :: "host \<Rightarrow> (string \<Rightarrow> jv) \<Rightarrow> bool \<Rightarrow> guide_ctx \<Rightarrow> bool"
  for h :: host and lib :: "string \<Rightarrow> jv" and ordered :: bool where
  mounted: "guide_reach h lib ordered (guide_mounted h)"
| step: "guide_reach h lib ordered c \<Longrightarrow> guide_step h lib ordered c d \<Longrightarrow> guide_reach h lib ordered d"

inductive_cases guide_stepE: "guide_step h lib ordered c d"

section \<open>What the operations do\<close>

lemma docs_asked_issue [simp]:
  "docs_asked (issue m u b k c) = docs_asked c @ (if k = KGuideDoc then [u] else [])"
  by (simp add: docs_asked_def issue_def)

lemma docs_asked_fields [simp]: "docs_asked (set_slice f c) = docs_asked c"
  by (simp add: docs_asked_def)

lemma on_guide_index_keeps:
  "docs_asked (on_guide_index out c) = docs_asked c" "doc (slice (on_guide_index out c)) = doc (slice c)"
  "guide_error (slice c) \<noteq> None \<Longrightarrow> guide_error (slice (on_guide_index out c)) \<noteq> None"
  by (auto simp: on_guide_index_def chain_defs fetched_def res_json_def Let_def
      split: outcome.splits sum.splits list.splits)

lemma on_guide_doc_keeps:
  "docs_asked (on_guide_doc out c) = docs_asked c" "selectedPath (slice (on_guide_doc out c)) = selectedPath (slice c)"
  by (auto simp: on_guide_doc_eval split: outcome.splits sum.splits)

lemma on_guide_doc_shows:
  "serves lib u out \<Longrightarrow>
     doc (slice (on_guide_doc out c)) = lib u \<or>
     doc (slice (on_guide_doc out c)) = JNull \<and> guide_error (slice (on_guide_doc out c)) \<noteq> None"
  by (auto simp: on_guide_doc_eval serves_def split: outcome.splits sum.splits)

lemma guide_take_fields [simp]: "slice (guide_take i c) = slice c"
  by (simp add: guide_take_def)

lemma docs_asked_take:
  assumes "i < length (outbox c)"
  shows "snd (outbox c ! i) = KGuideIndex \<Longrightarrow> docs_asked (guide_take i c) = docs_asked c"
    and "snd (outbox c ! i) = KGuideDoc \<Longrightarrow> in_turn c i \<Longrightarrow> docs_asked c = rurl (fst (outbox c ! i)) # docs_asked (guide_take i c)"
proof -
  have o: "outbox c = take i (outbox c) @ outbox c ! i # drop (Suc i) (outbox c)"
    using assms by (rule id_take_nth_drop)
  show "docs_asked (guide_take i c) = docs_asked c" if "snd (outbox c ! i) = KGuideIndex"
    unfolding docs_asked_def guide_take_def using that by (subst (3) o) simp
  show "docs_asked c = rurl (fst (outbox c ! i)) # docs_asked (guide_take i c)"
    if "snd (outbox c ! i) = KGuideDoc" "in_turn c i"
  proof -
    have "filter (\<lambda>q. snd q = KGuideDoc) (take i (outbox c)) = []"
      using that by (simp add: in_turn_def list_all_iff filter_empty_conv)
    then show ?thesis unfolding docs_asked_def guide_take_def using that(1) by (subst o) simp
  qed
qed

section \<open>The invariant\<close>

text \<open>
  With a path selected, the last document asked for is the one of that path; with none asked for
  any more, the page shows it, or says that it failed.
\<close>

definition guide_fits :: "host \<Rightarrow> (string \<Rightarrow> jv) \<Rightarrow> guide_ctx \<Rightarrow> bool" where
  "guide_fits h lib c =
     (let p = selectedPath (slice c) in
      \<not> truthy p \<or>
      (if docs_asked c = []
       then doc (slice c) = lib (doc_url h p) \<or> doc (slice c) = JNull \<and> guide_error (slice c) \<noteq> None
       else last (docs_asked c) = doc_url h p))"

lemma guide_fits_effect: "guide_fits h lib (guide_doc_effect h c)"
  by (simp add: guide_fits_def guide_doc_effect_def doc_url_def Let_def)

lemma guide_fits_commit:
  "(selectedPath (slice d) = selectedPath (slice c) \<Longrightarrow> guide_fits h lib d) \<Longrightarrow> guide_fits h lib (guide_commit h c d)"
  by (simp add: guide_commit_def guide_fits_effect)

lemma guide_fits_index:
  assumes "guide_fits h lib c" and "i < length (outbox c)" and "snd (outbox c ! i) = KGuideIndex"
    and "selectedPath (slice (on_guide_index out (guide_take i c))) = selectedPath (slice c)"
  shows "guide_fits h lib (on_guide_index out (guide_take i c))"
  using assms on_guide_index_keeps(3) [of "guide_take i c" out]
  by (auto simp: guide_fits_def on_guide_index_keeps(1,2) docs_asked_take(1) Let_def split: if_splits)

lemma guide_fits_doc:
  assumes "guide_fits h lib c" and "i < length (outbox c)" and "snd (outbox c ! i) = KGuideDoc" and "in_turn c i"
    and "serves lib (rurl (fst (outbox c ! i))) out"
  shows "guide_fits h lib (on_guide_doc out (guide_take i c))"
  using assms(1) on_guide_doc_shows [OF assms(5), of "guide_take i c"] docs_asked_take(2) [OF assms(2-4)]
  by (auto simp: guide_fits_def on_guide_doc_keeps Let_def split: if_splits)

lemma guide_fits_step: "guide_step h lib True c d \<Longrightarrow> guide_fits h lib c \<Longrightarrow> guide_fits h lib d"
proof (elim guide_stepE)
  fix p assume c: "guide_fits h lib c" and d: "d = guide_commit h c (selectGuide p c)"
  have "guide_fits h lib (selectGuide p c)" if "selectedPath (slice (selectGuide p c)) = selectedPath (slice c)"
    using c that by (auto simp: guide_fits_def selectGuide_def Let_def split: if_splits)
  then show ?thesis unfolding d by (rule guide_fits_commit)
next
  fix i out
  assume c: "guide_fits h lib c" and d: "d = guide_commit h c (guide_resume (snd (outbox c ! i)) out (guide_take i c))"
    and i: "i < length (outbox c)" "True \<longrightarrow> in_turn c i" and s: "serves lib (rurl (fst (outbox c ! i))) out"
  show ?thesis
    unfolding d
  proof (rule guide_fits_commit, cases "snd (outbox c ! i)")
    case KGuideIndex
    assume "selectedPath (slice (guide_resume (snd (outbox c ! i)) out (guide_take i c))) = selectedPath (slice c)"
    with guide_fits_index [OF c i(1) KGuideIndex, of out]
    show "guide_fits h lib (guide_resume (snd (outbox c ! i)) out (guide_take i c))"
      by (simp add: guide_resume_def KGuideIndex)
  next
    case KGuideDoc
    with guide_fits_doc [OF c i(1) KGuideDoc _ s] i(2)
    show "guide_fits h lib (guide_resume (snd (outbox c ! i)) out (guide_take i c))"
      by (simp add: guide_resume_def)
  qed
qed

section \<open>Properties\<close>

text \<open>
  C23. The guide shows the selected document. When the replies to documents arrive in the order of
  their requests, then whenever none is awaited the page shows the document of the selected path,
  as the server has it, or no document and an error, whatever entries were clicked meanwhile.
\<close>

theorem guide_shows_selected:
  assumes "guide_reach h lib True c" and "selectedPath (slice c) = p" and "truthy p" and "docs_asked c = []"
  shows "(\<exists>top. guide_panel (slice c) = top @ and_show (lib (doc_url h p)) (article (lib (doc_url h p)))) \<or>
    doc (slice c) = JNull \<and> guide_error (slice c) \<noteq> None"
proof -
  have "guide_fits h lib c"
    using assms(1)
    by (induction rule: guide_reach.induct) (auto intro: guide_fits_step simp: guide_mounted_def guide_fits_effect)
  with assms(2-4) have "doc (slice c) = lib (doc_url h p) \<or> doc (slice c) = JNull \<and> guide_error (slice c) \<noteq> None"
    by (simp add: guide_fits_def Let_def)
  then show ?thesis by (auto simp: guide_panel_def)
qed

text \<open>A server with two documents.\<close>

definition guide_item :: "string \<Rightarrow> jv" where
  "guide_item p = JObj [(''id'', JStr p), (''path'', JStr p), (''title'', JStr p)]"

definition two_guides :: "string \<Rightarrow> jv" where
  "two_guides u =
     (if u = ''/admin/api/admin/docs/guide/index.json'' then JObj [(''entries'', JArr [guide_item ''a'', guide_item ''b''])]
      else JObj [(''markdown'', JStr u)])"

definition answered :: "nat \<Rightarrow> (string \<Rightarrow> jv) \<Rightarrow> guide_ctx \<Rightarrow> guide_ctx" where
  "answered i lib c =
     guide_commit byte_host c
       (guide_resume (snd (outbox c ! i)) (Reply (json_reply 200 (lib (rurl (fst (outbox c ! i)))))) (guide_take i c))"

lemma answered_reach:
  assumes "guide_reach byte_host lib ordered c" and "\<not> crashed (guide_panel (slice c))" and "i < length (outbox c)"
    and "ordered \<longrightarrow> in_turn c i"
  shows "guide_reach byte_host lib ordered (answered i lib c)"
  unfolding answered_def
  by (rule guide_reach.step [OF assms(1) guide_step.reply [OF assms(2-4)]])
    (simp add: serves_def json_reply_def)

definition guide_opened :: guide_ctx where
  "guide_opened = answered 0 two_guides (guide_mounted byte_host)"

lemma guide_opened_reach: "guide_reach byte_host two_guides ordered guide_opened"
proof -
  have "\<not> crashed (guide_panel (slice (guide_mounted byte_host)))" "0 < length (outbox (guide_mounted byte_host))"
    "in_turn (guide_mounted byte_host) 0"
    by code_simp+
  then show ?thesis
    unfolding guide_opened_def by (intro answered_reach guide_reach.mounted impI)
qed

theorem guide_shows_selected_witness:
  "let d = answered 0 two_guides guide_opened in
     (\<exists>top. guide_panel (slice d) = top @ and_show (two_guides (doc_url byte_host (JStr ''a''))) (article (two_guides (doc_url byte_host (JStr ''a''))))) \<or>
     doc (slice d) = JNull \<and> guide_error (slice d) \<noteq> None"
proof -
  have o: "\<not> crashed (guide_panel (slice guide_opened))" "0 < length (outbox guide_opened)" "in_turn guide_opened 0"
    by code_simp+
  have d: "selectedPath (slice (answered 0 two_guides guide_opened)) = JStr ''a''"
    "docs_asked (answered 0 two_guides guide_opened) = []"
    by code_simp+
  have "guide_reach byte_host two_guides True (answered 0 two_guides guide_opened)"
    using o by (intro answered_reach guide_opened_reach impI)
  from guide_shows_selected [OF this d(1) _ d(2)] show ?thesis by (simp add: Let_def)
qed

text \<open>
  A late document. Nothing keeps the replies in order: of two entries clicked one after the
  other, the document that arrives last is shown, under the entry that was clicked last.
\<close>

definition guide_second :: guide_ctx where
  "guide_second = guide_commit byte_host guide_opened (selectGuide (JStr ''b'') guide_opened)"

lemma guide_late_document:
  "\<exists>c. guide_reach byte_host two_guides False c \<and> outbox c = [] \<and> selectedPath (slice c) = JStr ''b'' \<and>
     doc (slice c) = two_guides (doc_url byte_host (JStr ''a'')) \<and> doc (slice c) \<noteq> two_guides (doc_url byte_host (JStr ''b''))"
proof -
  let ?c = "answered 1 two_guides guide_second"
  have o: "\<not> crashed (guide_panel (slice guide_opened))" by code_simp
  then have "events_of (guide_panel (slice guide_opened)) = (\<lambda>e. oget e ''path'') ` set (entries (slice guide_opened))"
    by (rule guide_panel_events)
  moreover have "entries (slice guide_opened) = [guide_item ''a'', guide_item ''b'']" by code_simp
  ultimately have "JStr ''b'' \<in> events_of (guide_panel (slice guide_opened))"
    by (simp add: guide_item_def oget_def ofield_def is_nullish_def)
  then have second: "guide_reach byte_host two_guides False guide_second"
    unfolding guide_second_def by (intro guide_reach.step [OF guide_opened_reach] guide_step.pick o)
  have s: "\<not> crashed (guide_panel (slice guide_second))" "1 < length (outbox guide_second)"
    "\<not> crashed (guide_panel (slice ?c))" "0 < length (outbox ?c)"
    by code_simp+
  have "guide_reach byte_host two_guides False (answered 0 two_guides ?c)"
    using s second by (intro answered_reach) simp_all
  moreover have "outbox (answered 0 two_guides ?c) = []" "selectedPath (slice (answered 0 two_guides ?c)) = JStr ''b''"
    "doc (slice (answered 0 two_guides ?c)) = two_guides (doc_url byte_host (JStr ''a''))"
    "two_guides (doc_url byte_host (JStr ''a'')) \<noteq> two_guides (doc_url byte_host (JStr ''b''))"
    by code_simp+
  ultimately show ?thesis by metis
qed

end
