(* ===== verification/PageUsers.thy ===== *)
theory PageUsers
  imports AppRun Widgets
begin

text \<open>
  The member directory and the page of one member, as App.tsx renders them from the state of
  the users.
\<close>

section \<open>The directory\<close>

definition status_class :: "string \<Rightarrow> string" where
  "status_class st =
     (if st = ''Active'' then ''green'' else if st = ''Inactive'' then ''red'' else ''orange'')"

definition directory_row :: "app_user \<Rightarrow> app_event node" where
  "directory_row user =
     Elem ''tr'' [] [onClick (UserE (OpenUser user))]
       [el ''td'' (shown_res (\<lambda>c. [Text c]) (char_at_0 (uname user)) @
          [el ''p'' (child (uname user)), el ''p'' (child (uemail user))]),
        el ''td'' [el ''span'' [Text (urole user)]],
        el ''td'' [Elem ''span'' [(''class'', status_class (ustatus user))] [] [Text (ustatus user)]],
        el ''td'' [Text (ulast user)],
        el ''td''
          [Elem ''button'' [] [onClickStop (UserE (ClickEditUser user))] [icon ''Edit2''],
           Elem ''button'' [] [onAskStop (\<lambda>answer. UserE (ClickDeleteUser answer user))] [icon ''Trash2''],
           icon ''ChevronRight'']]"

definition directory_page :: "string \<Rightarrow> app_user list \<Rightarrow> app_event node list" where
  "directory_page q shown =
     [PageHeader ''Member Directory'' ''Manage platform users and their subscription states.''
        [button (UserE ClickNewUser) [icon ''Plus'', Text ''New User'']],
      dead_button [icon ''Filter''], icon ''Search'',
      input [(''type'', ''text''), (''value'', q)] [Change (\<lambda>v. ShellE (GlobalSearch v))],
      el ''table''
        [el ''tr'' (map (\<lambda>t. el ''th'' [Text t]) [''Member'', ''Role'', ''Status'', ''Last Active'', ''Actions'']),
         el ''tbody'' (map directory_row shown)]]"

section \<open>One member\<close>

definition profile_card :: "clean_user \<Rightarrow> 'e node list" where
  "profile_card u =
     shown_res (\<lambda>c. [Text c]) (char_at_0 (cu_name u)) @
     [el ''h2'' (child (cu_name u)), el ''p'' (child (cu_email u)), el ''span'' [Text (cu_role u)],
      Elem ''span'' [(''class'', if cu_status u = JStr ''Active'' then ''text-blue-400'' else ''text-[#8c90a1]'')] []
        (child (cu_status u))]"

definition core_metadata :: "clean_user \<Rightarrow> 'e node list" where
  "core_metadata u =
     [el ''p'' [Text ''Core Metadata''],
      icon ''MapPin'', el ''span'' (child (cu_location u)),
      icon ''Phone'', el ''span'' (child (cu_phone u)),
      icon ''Calendar'', el ''span'' [Text ''Registered: '', el ''span'' [Text (cu_joined u)]],
      icon ''CreditCard'', el ''span'' [Text ''Subscription: '', el ''span'' (child (cu_subscription u))]]"

definition recent_activity :: "clean_user \<Rightarrow> 'e node list" where
  "recent_activity u =
     [icon ''History'', el ''h4'' [Text ''Recent Activity''],
      el ''p'' [Text ''Last identified session was '', el ''span'' [Text (cu_last u)], Text '' via secure gateway.'']]"

definition biography :: "clean_user \<Rightarrow> 'e node list" where
  "biography u =
     [icon ''UserIcon'', el ''h3'' [Text ''Professional Biography''],
      el ''p'' ([Text [CHR 34]] @ child (cu_bio u) @ [Text [CHR 34]])]"

definition device_row :: "device_view \<Rightarrow> 'e node" where
  "device_row dev =
     el ''div''
       [(if dev_type dev = ''iOS'' then icon ''Smartphone''
         else if dev_type dev = ''Android'' then icon ''Smartphone'' else icon ''Laptop''),
        el ''p'' (child (dev_name dev)), el ''p'' [Text (dev_type dev @ '' Hardware'')],
        el ''p'' [Text (dev_last dev)], el ''span'' [Text ''Linked'']]"

definition devices_section :: "clean_user \<Rightarrow> 'e node list" where
  "devices_section u =
     [el ''h3'' [icon ''Smartphone'', Text '' Authenticated Devices''],
      el ''span'' [Text (int_string (int (length (cu_devices u))) @ '' Assets'')]] @
     map device_row (cu_devices u) @
     if_show (cu_devices u = []) [el ''div'' [Text ''No authorized hardware detected.'']]"

definition audit_row :: "host \<Rightarrow> jv \<Rightarrow> 'e node" where
  "audit_row h audit =
     el ''div''
       [el ''span'' (child (oget audit ''action'') @ [Text '' ''] @
          (if truthy (oget audit ''resource_kind'')
           then [Text (''('' @ js_string (oget audit ''resource_kind'') @ '')'')] else [])),
        el ''span''
          (if truthy (oget audit ''created_at'') then [Text (datetime_str h (oget audit ''created_at''))]
           else child (js_or (oget audit ''timestamp'') (JStr ''Just now'')))]"

text \<open>The filter of the audit log reads \<open>a.actor_id\<close> of every entry.\<close>

definition audit_section :: "host \<Rightarrow> user_st \<Rightarrow> 'e node list" where
  "audit_section h s =
     [el ''h3'' [icon ''Activity'', Text '' Audit Activity''], el ''span'' [Text ''Security Log'']] @
     (if list_ex is_nullish (auditLogs s) then [Throw (type_error JNull ''actor_id'')]
      else if auditsForUser h s = [] then [el ''div'' [Text ''No recent security events recorded.'']]
      else map (audit_row h) (auditsForUser h s))"

text \<open>The orders are a constant empty list, so that only the empty row is rendered.\<close>

definition ledger_section :: "'e node list" where
  "ledger_section =
     [el ''h3'' [icon ''CreditCard'', Text '' Transaction Ledger''], dead_button [Text ''Audit Entries''],
      el ''table''
        [el ''tr'' (map (\<lambda>t. el ''th'' [Text t]) [''Batch ID'', ''Timestamp'', ''State'', ''Value'']),
         el ''tr'' [el ''td'' [Text ''No transaction records present for this user. No payment module configured.'']]]]"

definition member_page :: "host \<Rightarrow> user_st \<Rightarrow> app_event node list" where
  "member_page h s =
     (let u = cleanUser h s in
      [button (UserE BackToDirectory) [icon ''ChevronRight'', el ''span'' [Text ''BACK TO DIRECTORY'']]] @
      profile_card u @ core_metadata u @ recent_activity u @ biography u @ devices_section u @
      audit_section h s @ ledger_section)"

definition users_page :: "host \<Rightarrow> user_st \<Rightarrow> app_event node list" where
  "users_page h s =
     (if \<not> truthy (selectedUserId s)
      then shown_res (directory_page (search s)) (filteredUsers s)
      else member_page h s)"

section \<open>What it offers\<close>

lemma directory_row_events [simp]:
  "events (directory_row u) =
     {UserE (OpenUser u), UserE (ClickEditUser u)} \<union> range (\<lambda>a. UserE (ClickDeleteUser a u))"
  by (auto simp: directory_row_def own_events_def char_at_0_def split: jv.splits)

lemma member_events [simp]:
  "events_of (profile_card u) = {}" "events_of (core_metadata u) = {}" "events_of (recent_activity u) = {}"
  "events_of (biography u) = {}" "events_of (devices_section u) = {}" "events_of (audit_section h s) = {}"
  "events_of ledger_section = {}"
  by (auto simp: profile_card_def core_metadata_def recent_activity_def biography_def devices_section_def
      device_row_def audit_section_def audit_row_def ledger_section_def char_at_0_def split: jv.splits)

lemma users_page_events:
  "events_of (users_page h s) =
     (if truthy (selectedUserId s) then {UserE BackToDirectory}
      else (case filteredUsers s of
              Inl _ \<Rightarrow> {}
            | Inr us \<Rightarrow> {UserE ClickNewUser} \<union> range (\<lambda>v. ShellE (GlobalSearch v)) \<union>
                \<Union> ((\<lambda>u. {UserE (OpenUser u), UserE (ClickEditUser u)} \<union> range (\<lambda>a. UserE (ClickDeleteUser a u))) ` set us)))"
  by (auto simp: users_page_def member_page_def directory_page_def own_events_def Let_def split: sum.splits)

lemma directory_row_one [simp]: "one_handler (directory_row u)"
  by (auto simp: directory_row_def char_at_0_def split: jv.splits)

lemma member_handlers [simp]:
  "one_handlers (profile_card u)" "one_handlers (core_metadata u)" "one_handlers (recent_activity u)"
  "one_handlers (biography u)" "one_handlers (devices_section u)" "one_handlers (audit_section h s)"
  "one_handlers ledger_section"
  by (auto simp: profile_card_def core_metadata_def recent_activity_def biography_def devices_section_def
      device_row_def audit_section_def audit_row_def ledger_section_def char_at_0_def split: jv.splits)

lemma users_page_one [simp]: "one_handlers (users_page h s)"
  by (auto simp: users_page_def member_page_def directory_page_def Let_def split: sum.splits)

end
