(* ===== verification/PageFlags.thy ===== *)
theory PageFlags
  imports AppRun Widgets
begin

text \<open>The feature toggles and the targeting page of one of them, as App.tsx renders them.\<close>

section \<open>The toggles\<close>

definition no_flags_card :: "app_event node" where
  "no_flags_card =
     el ''div''
       [icon ''Flag'', el ''h3'' [Text ''No flags yet''],
        el ''p'' [Text ''Feature flags live in the dedicated '', el ''span'' [Text ''bffx_feature_flag''],
          Text '' store. Create one to start gating rollouts.''],
        el ''p'' [Text ''Migrated from a legacy '', el ''span'' [Text ''feature_flag''],
          Text '' resource? Rows are auto-imported on first boot; refresh this page if you just upgraded the framework.''],
        button (FlagE ClickNewFlag) [icon ''Plus'', Text '' Create your first flag'']]"

text \<open>The trash button of a card has no handler: a click on it goes on to the card.\<close>

definition flag_card :: "flag \<Rightarrow> app_event node" where
  "flag_card f =
     Elem ''div'' [] [onClick (FlagE (OpenFlag f))]
       [el ''p'' (child (flag_key f)), el ''p'' (child (ofield f ''description'')),
        Elem ''button'' [(''class'', if truthy (flag_enabled f) then ''bg-blue-500'' else ''bg-[#2D343C]'')]
          [onClickStop (FlagE (ClickToggleFlag f))] [],
        el ''span'' (child (ofield f ''environment'')),
        Elem ''button'' [] [onClickStop (FlagE (ClickEditFlag f))] [icon ''Edit2''],
        dead_button [icon ''Trash2''], icon ''ChevronRight'']"

definition flags_directory :: "flag list \<Rightarrow> app_event node list" where
  "flags_directory fs =
     [PageHeader ''Feature Toggles'' ''Control system variables and feature rollouts dynamically.''
        [button (FlagE ClickNewFlag) [icon ''Plus'', Text '' Add Toggle'']]] @
     if_show (fs = []) [no_flags_card] @
     map flag_card fs"

section \<open>The targeting page\<close>

definition user_key_tag :: "jv \<Rightarrow> app_event node" where
  "user_key_tag u =
     el ''span'' (child u @ [Text '' '', Elem ''X'' [] [onClick (FlagE (EditTargeting (RemoveKey u)))] []])"

definition user_keys_editor :: "flag_st \<Rightarrow> app_event node list" where
  "user_keys_editor s =
     [el ''p'' [Text ''Target Specific Users'']] @
     (case targetingEdit s of Some t \<Rightarrow> map user_key_tag (tusers t) | None \<Rightarrow> []) @
     [icon ''Plus'',
      input [(''type'', ''text''), (''value'', newUserKey s)]
        [Change (\<lambda>v. FlagE (EditTargeting (TypeKey v))), KeyDown (\<lambda>k. FlagE (EditTargeting (PressKey k)))]]"

definition rollout_shown :: "flag_st \<Rightarrow> jv" where
  "rollout_shown s =
     (case targetingEdit s of Some t \<Rightarrow> js_or (rollout t) (JNum 0) | None \<Rightarrow> JNum 0)"

definition rollout_editor :: "flag_st \<Rightarrow> app_event node list" where
  "rollout_editor s =
     [el ''p'' [Text ''Percentage Rollout''],
      el ''span'' (child (rollout_shown s) @ [Text ''%'']), el ''span'' [Text ''Traffic Allocation''],
      input [(''type'', ''range''), (''min'', ''0''), (''max'', ''100''), (''value'', js_string (rollout_shown s))]
        [Change (\<lambda>v. FlagE (EditTargeting (Slide v)))],
      el ''span'' [Text ''0%''], el ''span'' [Text ''50%''], el ''span'' [Text ''100%'']]"

definition segment_selected :: "flag_st \<Rightarrow> string \<Rightarrow> bool" where
  "segment_selected s g = (case targetingEdit s of Some t \<Rightarrow> JStr g \<in> set (tsegments t) | None \<Rightarrow> False)"

definition segment_tile :: "flag_st \<Rightarrow> string \<Rightarrow> app_event node" where
  "segment_tile s segment =
     Elem ''div'' [(''class'', if segment_selected s segment then ''border-blue-500'' else ''border-border-subtle'')]
       [onClick (FlagE (EditTargeting (ToggleSegment segment)))]
       [Elem ''div'' [(''class'', if segment_selected s segment then ''bg-blue-500'' else ''text-transparent'')] []
          [icon ''Plus''],
        el ''span'' [Text segment]]"

definition segments_editor :: "flag_st \<Rightarrow> app_event node list" where
  "segments_editor s =
     [el ''h3'' [Text ''Segment Targeting''], dead_button [Text ''Manage Segments'']] @
     map (segment_tile s) SEGMENTS"

text \<open>The switches of the environments show the flag's own; they have no handler.\<close>

definition environment_status :: "flag \<Rightarrow> 'e node list" where
  "environment_status f =
     el ''h4'' [Text ''Environment Status''] #
     map (\<lambda>env. el ''div''
        [el ''span'' [Text env],
         Elem ''div'' [(''class'', if JStr env = ofield f ''environment'' then ''bg-blue-500'' else ''bg-[#2D343C]'')] [] []])
       [''Production'', ''Staging'', ''Development'']"

text \<open>The usage figure is a constant of the source.\<close>

definition usage_note :: "'e node list" where
  "usage_note =
     [icon ''Activity'', el ''span'' [Text ''Real-time Usage''],
      el ''p'' [Text ''This flag was evaluated '', el ''span'' [Text ''14,293''],
        Text '' times in the last 15 minutes.'']]"

definition targeting_page :: "flag \<Rightarrow> flag_st \<Rightarrow> app_event node list" where
  "targeting_page f s =
     [button (FlagE BackToFlags) [icon ''X''],
      el ''h2'' (child (flag_key f)), el ''p'' (child (ofield f ''description'')),
      el ''h3'' [Text ''Targeting Rules'']] @
     user_keys_editor s @ rollout_editor s @ segments_editor s @ environment_status f @ usage_note @
     [button (FlagE ClickSaveTargeting) [icon ''Save'', Text '' Save Targeting Changes'']]"

definition flags_page :: "flag_st \<Rightarrow> app_event node list" where
  "flags_page s =
     (if \<not> truthy (selectedFlagId s) then flags_directory (flags s)
      else (case activeFlag s of Some f \<Rightarrow> targeting_page f s | None \<Rightarrow> []))"

section \<open>What it offers\<close>

lemma flag_card_events [simp]:
  "events (flag_card f) = {FlagE (OpenFlag f), FlagE (ClickToggleFlag f), FlagE (ClickEditFlag f)}"
  "events no_flags_card = {FlagE ClickNewFlag}"
  by (auto simp: flag_card_def no_flags_card_def own_events_def)

lemma flags_directory_events:
  "events_of (flags_directory fs) =
     {FlagE ClickNewFlag} \<union> (\<Union>f\<in>set fs. {FlagE (OpenFlag f), FlagE (ClickToggleFlag f), FlagE (ClickEditFlag f)})"
  by (auto simp: flags_directory_def own_events_def)

lemma flag_texts_events [simp]: "events_of (environment_status f) = {}" "events_of usage_note = {}"
  by (simp_all add: environment_status_def usage_note_def)

lemma targeting_parts_events:
  "events_of (user_keys_editor s) = (\<lambda>op. FlagE (EditTargeting op)) `
     ((case targetingEdit s of Some t \<Rightarrow> RemoveKey ` set (tusers t) | None \<Rightarrow> {}) \<union> range TypeKey \<union> range PressKey)"
  "events_of (rollout_editor s) = range (\<lambda>v. FlagE (EditTargeting (Slide v)))"
  "events_of (segments_editor s) = (\<lambda>g. FlagE (EditTargeting (ToggleSegment g))) ` set SEGMENTS"
  by (auto simp: user_keys_editor_def user_key_tag_def rollout_editor_def segments_editor_def segment_tile_def
      own_events_def split: option.splits)

lemma targeting_ops_offered:
  "{op. targeting_op_offered s op} =
     (case targetingEdit s of Some t \<Rightarrow> RemoveKey ` set (tusers t) | None \<Rightarrow> {}) \<union> range TypeKey \<union> range PressKey \<union>
     range Slide \<union> ToggleSegment ` set SEGMENTS"
proof (rule set_eqI)
  fix op
  show "op \<in> {op. targeting_op_offered s op} \<longleftrightarrow>
      op \<in> (case targetingEdit s of Some t \<Rightarrow> RemoveKey ` set (tusers t) | None \<Rightarrow> {}) \<union> range TypeKey \<union> range PressKey \<union>
        range Slide \<union> ToggleSegment ` set SEGMENTS"
    by (cases op) (auto simp: targeting_op_offered_def split: option.splits)
qed

lemma targeting_page_events:
  "events_of (targeting_page f s) =
     {FlagE BackToFlags, FlagE ClickSaveTargeting} \<union> (\<lambda>op. FlagE (EditTargeting op)) ` {op. targeting_op_offered s op}"
  unfolding targeting_ops_offered
  by (auto simp: targeting_page_def targeting_parts_events own_events_def)

lemma flag_handlers [simp]:
  "one_handler (flag_card f)" "one_handler no_flags_card" "one_handlers (environment_status f)" "one_handlers usage_note"
  "one_handlers (user_keys_editor s)" "one_handlers (rollout_editor s)" "one_handlers (segments_editor s)"
  by (auto simp: flag_card_def no_flags_card_def environment_status_def usage_note_def user_keys_editor_def
      user_key_tag_def rollout_editor_def segments_editor_def segment_tile_def split: option.splits)

lemma flags_page_one [simp]: "one_handlers (flags_page s)"
  by (auto simp: flags_page_def flags_directory_def targeting_page_def split: option.splits)

end
