(* ===== verification/JsonText.thy ===== *)
theory JsonText
  imports JsValue
begin

text \<open>
  \<open>JSON.stringify\<close> of a value, for the places of the console that show a record or a result
  as text, with and without indentation.
\<close>

definition hex_digit :: "nat \<Rightarrow> char" where
  "hex_digit n = (if n < 10 then char_of (48 + n) else char_of (87 + n))"

definition json_char :: "char \<Rightarrow> string" where
  "json_char c =
     (let n = char_code c in
      if n = 34 then [CHR 92, CHR 34]
      else if n = 92 then [CHR 92, CHR 92]
      else if n = 8 then [CHR 92, CHR ''b'']
      else if n = 9 then [CHR 92, CHR ''t'']
      else if n = 10 then [CHR 92, CHR ''n'']
      else if n = 12 then [CHR 92, CHR ''f'']
      else if n = 13 then [CHR 92, CHR ''r'']
      else if n < 32 then [CHR 92, CHR ''u'', CHR ''0'', CHR ''0'', hex_digit (n div 16), hex_digit (n mod 16)]
      else [c])"

definition json_quote :: "string \<Rightarrow> string" where
  "json_quote s = [CHR 34] @ concat (map json_char s) @ [CHR 34]"

text \<open>
  The text of a value that \<open>json_value\<close> has cleaned. The indentation is the number of spaces
  of a level, with 0 for the compact text; the depth is that of the value.
\<close>

definition json_break :: "nat \<Rightarrow> nat \<Rightarrow> string" where
  "json_break indent depth = (if indent = 0 then [] else CHR 10 # replicate (indent * depth) (CHR '' ''))"

definition json_block :: "nat \<Rightarrow> nat \<Rightarrow> char \<Rightarrow> char \<Rightarrow> string list \<Rightarrow> string" where
  "json_block indent depth open close parts =
     (if parts = [] then [open, close]
      else [open] @ json_break indent (depth + 1) @ join_with ('','' @ json_break indent (depth + 1)) parts @
           json_break indent depth @ [close])"

fun json_print :: "nat \<Rightarrow> nat \<Rightarrow> jv \<Rightarrow> string" where
  "json_print indent depth (JStr s) = json_quote s"
| "json_print indent depth (JArr xs) =
     json_block indent depth (CHR ''['') (CHR '']'') (map (json_print indent (depth + 1)) xs)"
| "json_print indent depth (JObj kvs) =
     json_block indent depth (CHR ''{'') (CHR ''}'')
       (map (\<lambda>(k, v). json_quote k @ '':'' @ (if indent = 0 then [] else '' '') @ json_print indent (depth + 1) v) kvs)"
| "json_print indent depth v = js_string v"

definition json_text :: "jv \<Rightarrow> string" where
  "json_text v = json_print 0 0 (json_value v)"

definition json_text_indented :: "jv \<Rightarrow> string" where
  "json_text_indented v = json_print 2 0 (json_value v)"

lemma json_text_example:
  "json_text (JObj [(''a'', JArr [JNum 1, JNull]), (''b'', JUndef), (''c'', JStr ''x'')]) =
     ''{'' @ [CHR 34] @ ''a'' @ [CHR 34] @ '':[1,null],'' @ [CHR 34] @ ''c'' @ [CHR 34] @ '':'' @ [CHR 34] @ ''x'' @ [CHR 34] @ ''}''"
  by code_simp

end
