(* ===== verification/PageTelemetry.thy ===== *)
theory PageTelemetry
  imports AppRun Widgets JsonText
begin

text \<open>
  The pages that show live data, as App.tsx renders them: the dashboard with the widgets of the
  configuration or, without any, the built-in view; the performance page; the incidents.
\<close>

section \<open>Widgets of the configuration\<close>

definition widget_kind :: "string \<Rightarrow> jv \<Rightarrow> bool" where
  "widget_kind k w = (oget w ''type'' = JStr k)"

definition metric_card :: "host \<Rightarrow> jv \<Rightarrow> 'e node" where
  "metric_card h w = StatCard (child (oget w ''title'')) (metric_value (num_str h) (oget w ''data'')) ''up'' ''Live'' ''Activity''"

definition chart_panel :: "jv \<Rightarrow> 'e node list" where
  "chart_panel w =
     [el ''h4'' (child (oget w ''title'')), icon ''Activity'',
      Chart ''AreaChart'' (js_or (oget w ''data'') (JArr [])) ''time'' [''value'']]"

text \<open>A cell of a table: objects as JSON, other values as their string.\<close>

definition widget_cell :: "jv \<Rightarrow> jv \<Rightarrow> 'e node" where
  "widget_cell row col =
     (let v = jprop row (js_string col) in
      el ''td'' [Text (if is_object v then json_text v else js_string (js_nullish v (JStr [])))])"

definition widget_row :: "jv \<Rightarrow> jv \<Rightarrow> 'e node list" where
  "widget_row columns row =
     (if is_nullish row then [Throw (type_error row ''id'')]
      else [el ''tr'' (and_show columns (each columns (\<lambda>col. [widget_cell row col])))])"

definition table_panel :: "jv \<Rightarrow> 'e node list" where
  "table_panel w =
     (let columns = oget w ''columns''; rows = oget w ''data'' in
      [el ''h3'' (child (oget w ''title'')),
       el ''table''
         [el ''thead'' [el ''tr'' (and_show columns (each columns (\<lambda>col. [el ''th'' (child col)])))],
          el ''tbody'' (if truthy rows then concat (map (widget_row columns) (arr_items rows)) else child rows)]])"

definition configured_widgets :: "host \<Rightarrow> jv list \<Rightarrow> 'e node list" where
  "configured_widgets h ws =
     (if list_ex is_nullish ws then [Throw (type_error JNull ''type'')]
      else
        map (metric_card h) (filter (widget_kind ''metric'') ws) @
        map (\<lambda>w. el ''div'' (if widget_kind ''chart'' w then chart_panel w else table_panel w))
          (filter (\<lambda>w. widget_kind ''chart'' w \<or> widget_kind ''table'' w) ws))"

section \<open>The built-in view\<close>

text \<open>\<open>v?.toLocaleString() || '0'\<close>.\<close>

definition locale_text :: "host \<Rightarrow> jv \<Rightarrow> string" where
  "locale_text h v =
     (if is_nullish v then ''0''
      else (let s = (case v of JNum n \<Rightarrow> num_str h n | _ \<Rightarrow> js_string v) in if s = [] then ''0'' else s))"

definition summary_cards :: "host \<Rightarrow> jv \<Rightarrow> 'e node list" where
  "summary_cards h m =
     (if is_nullish m then [Throw (type_error m ''total_requests'')]
      else
        [StatCard [Text ''API Volumetric''] (locale_text h (jprop m ''total_requests'')) ''up'' ''Live'' ''RefreshCw'',
         StatCard [Text ''P95 Latency''] (js_string (js_or (jprop m ''avg_latency_ms'') (JNum 0)) @ ''ms'') ''down'' ''Live'' ''Zap'',
         StatCard [Text ''Active Sessions''] (locale_text h (jprop m ''active_sessions'')) ''up'' ''Live'' ''Users'',
         StatCard [Text ''System Health''] (uptime_str h (js_or (jprop m ''error_rate'') (JNum 0)) @ ''%'') ''up'' ''SLA Met'' ''ShieldCheck''])"

definition ingress_panel :: "jv list \<Rightarrow> 'e node list" where
  "ingress_panel perf =
     [icon ''BarChart2'', el ''h3'' [Text ''Ingress Traffic''], el ''p'' [Text ''Live Stream: Global Request Flow''],
      el ''span'' [Text ''4.2k req/s''],
      Chart ''AreaChart'' (JArr perf) ''time'' [''traffic'']]"

text \<open>The provider as the placeholder reads it; a field that is not text has no \<open>trim\<close>.\<close>

definition text_field :: "jv \<Rightarrow> string \<Rightarrow> string option res" where
  "text_field v k =
     (case oget v k of JStr s \<Rightarrow> Inr (Some s) | JUndef \<Rightarrow> Inr None | JNull \<Rightarrow> Inr None | _ \<Rightarrow> Inl ''trim is not a function'')"

definition analytics_of :: "jv \<Rightarrow> analytics_info option res" where
  "analytics_of v =
     (if is_nullish v then Inr None
      else
        res_bind (text_field v ''name'') (\<lambda>n.
          let built_in = Some \<lparr>an_name = n, an_display_name = None, an_vendor_url = None\<rparr> in
          if usesBuiltInAnalytics built_in then Inr built_in
          else
            res_bind (text_field v ''display_name'') (\<lambda>d.
            res_bind (text_field v ''vendor_url'') (\<lambda>u.
              Inr (Some \<lparr>an_name = n, an_display_name = d, an_vendor_url = u\<rparr>)))))"

definition placeholder_nodes :: "string \<Rightarrow> placeholder_view \<Rightarrow> 'e node list" where
  "placeholder_nodes ic v =
     [icon ic, el ''p'' [Text (pv_title v)], el ''p'' [Text (pv_body v)]] @
     (case pv_link v of Some (url, label) \<Rightarrow> [Elem ''a'' [(''href'', url)] [] [Text label]] | None \<Rightarrow> [])"

definition analytics_placeholder :: "analytics_widget \<Rightarrow> jv \<Rightarrow> string \<Rightarrow> 'e node list" where
  "analytics_placeholder widget provs ic =
     shown_res (\<lambda>a. placeholder_nodes ic (AnalyticsWidgetPlaceholder widget a))
       (res_bind (js_get provs ''analytics'') analytics_of)"

definition latency_panel :: "jv list \<Rightarrow> 'e node list" where
  "latency_panel perf =
     [el ''h4'' [Text ''Edge Latency (ms)''], icon ''Zap'', Chart ''LineChart'' (JArr perf) ''time'' [''latency'']]"

definition category_color :: "string \<Rightarrow> string" where
  "category_color code = (if code = ''2xx'' then ''#3b82f6'' else if code = ''4xx'' then ''#f59e0b'' else ''#ef4444'')"

definition categories_panel :: "jv list \<Rightarrow> 'e node list" where
  "categories_panel perf =
     [el ''h4'' [Text ''Response Categories''], icon ''ShieldCheck'',
      Chart ''BarChart''
        (JArr (map (\<lambda>(code, n). JObj [(''code'', JStr code), (''count'', JNum n), (''color'', JStr (category_color code))])
           (response_categories perf)))
        ''code'' [''count'']]"

definition push_panel :: "jv \<Rightarrow> 'e node list" where
  "push_panel provs =
     [el ''h4'' [Text ''Push Propagation''], icon ''Smartphone''] @ analytics_placeholder Push provs ''Smartphone''"

definition compute_panel :: "jv list \<Rightarrow> 'e node list" where
  "compute_panel perf =
     [el ''h4'' [Text ''Compute Infrastructure''], el ''p'' [Text ''Cluster Load Metrics''],
      el ''span'' [Text ''CPU Core''], el ''span'' [Text ''Memory''],
      Chart ''LineChart'' (JArr perf) ''time'' [''cpu'', ''mem'']]"

definition concurrency_panel :: "jv list \<Rightarrow> 'e node list" where
  "concurrency_panel perf =
     [el ''h4'' [Text ''Session Concurrency''], el ''p'' [Text ''Unique Global Handshakes''],
      Chart ''BarChart'' (JArr perf) ''time'' [''users'']]"

definition built_in_view :: "host \<Rightarrow> tel_st \<Rightarrow> 'e node list" where
  "built_in_view h s =
     summary_cards h (metricsSummary s) @ ingress_panel (perfData s) @
     [el ''h3'' [Text ''Node Distribution'']] @ analytics_placeholder Regional (providers s) ''Server'' @
     latency_panel (perfData s) @ categories_panel (perfData s) @ push_panel (providers s) @
     compute_panel (perfData s) @ concurrency_panel (perfData s)"

definition dashboard_page :: "host \<Rightarrow> tel_st \<Rightarrow> app_event node list" where
  "dashboard_page h s =
     [PageHeader ''System Intelligence'' ''Real-time monitoring and advanced infrastructure insights.''
        [dead_button [Text ''Today''], dead_button [icon ''Download'', Text '' Data Export'']]] @
     (if dashboardWidgets s \<noteq> [] then configured_widgets h (dashboardWidgets s) else built_in_view h s)"

section \<open>Performance\<close>

text \<open>The cluster loads and the telemetry figures are constants of the source.\<close>

definition cluster_loads :: "(string \<times> int) list" where
  "cluster_loads = [(''Cluster-A'', 45), (''Cluster-B'', 62), (''Cluster-C'', 28), (''Cluster-D'', 84)]"

definition load_color :: "int \<Rightarrow> string" where
  "load_color n = (if 70 < n then ''#ffb4ab'' else ''#3b82f6'')"

definition load_chart :: "'e node" where
  "load_chart =
     Chart ''BarChart''
       (JArr (map (\<lambda>(n, l). JObj [(''name'', JStr n), (''load'', JNum l), (''fill'', JStr (load_color l))]) cluster_loads))
       ''name'' [''load'']"

definition telemetry_figures :: "'e node list" where
  "telemetry_figures =
     el ''h3'' [Text ''Real-time Telemetry''] #
     map (\<lambda>(label, value). el ''div'' [el ''p'' [Text label], el ''p'' [Text value]])
       [(''CPU Usage'', ''42%''), (''Memory'', ''8.4/16 GB''), (''Disk I/O'', ''124 MB/s''), (''Open Files'', ''1,492'')]"

definition performance_page :: "tel_st \<Rightarrow> app_event node list" where
  "performance_page s =
     [PageHeader ''Performance Vitals'' ''Telemetrics and server health across all clusters.'' [],
      el ''h3'' [Text ''Service Latency (ms)''], Chart ''AreaChart'' (JArr (perfData s)) ''time'' [''latency''],
      el ''h3'' [Text ''Cluster Load Distribution''], load_chart] @ telemetry_figures"

section \<open>Incidents\<close>

datatype severity = Critical | Warning | Other

text \<open>\<open>(inc.severity || '').toLowerCase()\<close>, compared with two words.\<close>

definition severity_of :: "jv \<Rightarrow> severity res" where
  "severity_of inc =
     res_bind (js_get inc ''severity'') (\<lambda>v.
     res_bind (js_toLowerCase (js_or v (JStr []))) (\<lambda>s.
       Inr (if s = ''critical'' then Critical else if s = ''warning'' then Warning else Other)))"

definition severity_class :: "severity \<Rightarrow> string" where
  "severity_class sev = (case sev of Critical \<Rightarrow> ''red'' | Warning \<Rightarrow> ''orange'' | Other \<Rightarrow> ''blue'')"

definition severity_icon :: "severity \<Rightarrow> string" where
  "severity_icon sev = (case sev of Critical \<Rightarrow> ''ShieldAlert'' | Warning \<Rightarrow> ''AlertTriangle'' | Other \<Rightarrow> ''Bell'')"

definition incident_card :: "jv \<Rightarrow> severity \<Rightarrow> app_event node" where
  "incident_card inc sev =
     Elem ''div'' [(''class'', severity_class sev)] []
       ([Elem ''div'' [(''class'', severity_class sev)] [] [icon (severity_icon sev)],
         el ''p'' (child (js_or (oget inc ''title'') (JStr ''Unknown Incident''))),
         el ''span'' (Text ''Severity: '' # child (js_or (oget inc ''severity'') (JStr ''Info''))),
         el ''span'' (Text ''ID: '' # child (oget inc ''id''))] @
        and_show (oget inc ''stack_trace'') [el ''pre'' (child (oget inc ''stack_trace''))] @
        [button (ShellE (ResolveIncident (oget inc ''id''))) [Text ''RESOLVE'']])"

definition alerts_page :: "tel_st \<Rightarrow> app_event node list" where
  "alerts_page s =
     PageHeader ''Incident Alerts'' ''Live feed of system warnings and critical failures.'' [] #
     (if incidents s = []
      then [icon ''ShieldAlert'', el ''p'' [Text ''No active incidents''], el ''p'' [Text ''All systems are operational.'']]
      else concat (map (\<lambda>inc. shown_res (\<lambda>sev. [incident_card inc sev]) (severity_of inc)) (incidents s)))"

section \<open>What they offer\<close>

lemma telemetry_parts_events [simp]:
  "events_of (configured_widgets h ws) = {}" "events_of (built_in_view h s) = {}"
  "events_of telemetry_figures = {}" "events load_chart = {}"
  by (auto simp: configured_widgets_def metric_card_def chart_panel_def table_panel_def widget_row_def widget_cell_def
      Let_def built_in_view_def summary_cards_def ingress_panel_def analytics_placeholder_def placeholder_nodes_def
      latency_panel_def categories_panel_def push_panel_def compute_panel_def concurrency_panel_def
      telemetry_figures_def load_chart_def split: sum.splits option.splits)

lemma dashboard_page_events [simp]: "events_of (dashboard_page h s) = {}"
  by (simp add: dashboard_page_def)

lemma performance_page_events [simp]: "events_of (performance_page s) = {}"
  by (simp add: performance_page_def)

lemma alerts_page_events:
  "events_of (alerts_page s) =
     (\<lambda>inc. ShellE (ResolveIncident (oget inc ''id''))) ` {inc \<in> set (incidents s). \<exists>sev. severity_of inc = Inr sev}"
  by (auto simp: alerts_page_def incident_card_def own_events_def split: sum.splits if_splits)

lemma telemetry_parts_one [simp]:
  "one_handlers (configured_widgets h ws)" "one_handlers (built_in_view h s)"
  "one_handlers telemetry_figures" "one_handler load_chart"
  by (auto simp: configured_widgets_def metric_card_def chart_panel_def table_panel_def widget_row_def widget_cell_def
      Let_def built_in_view_def summary_cards_def ingress_panel_def analytics_placeholder_def placeholder_nodes_def
      latency_panel_def categories_panel_def push_panel_def compute_panel_def concurrency_panel_def
      telemetry_figures_def load_chart_def split: sum.splits option.splits)

lemma telemetry_pages_one [simp]:
  "one_handlers (dashboard_page h s)" "one_handlers (performance_page s)" "one_handlers (alerts_page s)"
  by (auto simp: dashboard_page_def performance_page_def alerts_page_def incident_card_def split: sum.splits)

end
