(* ===== verification/PageResources.thy ===== *)
theory PageResources
  imports AppRun DocsPanels Widgets JsonText
begin

text \<open>
  The resource explorer as App.tsx renders it: the header with the actions of the collection,
  the scopes, the list of collections, the table with its selection, the pager and the drawer
  of the filters.
\<close>

section \<open>Titles\<close>

definition collection_title :: "collection \<Rightarrow> string" where
  "collection_title c = humanizeResourceName (cname c) (Some (displayName c))"

definition action_label :: "jv \<Rightarrow> 'e node list" where
  "action_label act = child (js_or (oget act ''label'') (oget act ''name''))"

section \<open>Header, scopes and collections\<close>

definition switch_class :: "bool \<Rightarrow> string" where
  "switch_class b = (if b then ''bg-blue-500'' else ''bg-[#2D343C]'')"

definition explorer_actions :: "collection \<Rightarrow> app_event node list" where
  "explorer_actions c =
     each (spec_actions c ''collection_actions'') (reading ''name'' (\<lambda>act.
       [Elem ''button'' [] [onAsk (\<lambda>answer. ExE (ClickCollectionAction answer act))] (action_label act)])) @
     [el ''span'' [Text ''Pin to Menu''],
      Elem ''button'' [(''class'', switch_class (pinnedToMenu c))] [onClick (ExE ClickPin)] [],
      button (ExE ClickNewEntry) [icon ''Plus'', Text '' New Entry'']]"

definition scope_tabs :: "collection \<Rightarrow> query_params \<Rightarrow> app_event node list" where
  "scope_tabs c q =
     if_show (has_items (scope_list c))
       (each (scope_list c) (reading ''name'' (\<lambda>sc.
         [Elem ''button'' [(''class'', if JStr (scope q) = oget sc ''name'' then ''border-blue-500'' else ''border-transparent'')]
            [onClick (ExE (ClickScope (js_string (oget sc ''name''))))] (child (oget sc ''name''))])))"

definition collections_sidebar :: "string \<Rightarrow> collection list \<Rightarrow> app_event node list" where
  "collections_sidebar sel cs =
     [el ''p'' [Text ''Collections'']] @
     map (\<lambda>coll. Elem ''button'' [(''class'', if cid coll = sel then ''text-blue-400'' else ''text-[#8c90a1]'')]
       [onClick (ExE (ClickCollection (cid coll)))] [Text (collection_title coll)]) cs @
     [dead_button [Text ''+ Create Collection'']]"

section \<open>The bar above the table\<close>

definition batch_bar :: "collection \<Rightarrow> ex_st \<Rightarrow> app_event node list" where
  "batch_bar c s =
     [el ''span'' [Text (int_string (int (length (selectedRowIds s))) @ '' records selected'')]] @
     each (spec_actions c ''batch_actions'') (reading ''name'' (\<lambda>act.
       [Elem ''button'' [] [onAsk (\<lambda>answer. ExE (ClickBatchAction answer act))] (action_label act)])) @
     [button (ExE CancelSelection) [Text ''Cancel'']]"

definition search_bar :: "collection \<Rightarrow> ex_st \<Rightarrow> app_event node list" where
  "search_bar c s =
     if_show (stringFilter c \<noteq> None)
       [icon ''Search'',
        input [(''type'', ''text''), (''value'', currentSearchVal c s),
               (''placeholder'', ''Search '' @ collection_title c @ ''...'')]
          [Change (\<lambda>v. ExE (TypeSearch v))]] @
     if_show (has_items (filter_list c))
       [Elem ''button'' [(''class'', if isFilterSidebarOpen s then ''text-blue-400'' else ''text-white'')]
          [onClick (ExE ToggleFilters)] [icon ''Filter'', Text '' Filters'']]"

text \<open>\<open>{resourceTotalCount}\<close>; a total that is not a number is shown as \<open>NaN\<close>.\<close>

definition total_text :: "int option \<Rightarrow> string" where
  "total_text tot = (case tot of Some n \<Rightarrow> int_string n | None \<Rightarrow> ''NaN'')"

definition table_bar :: "collection \<Rightarrow> ex_st \<Rightarrow> app_event node list" where
  "table_bar c s =
     (if selectedRowIds s \<noteq> [] then batch_bar c s else search_bar c s) @
     [el ''span'' [Text (''Count: '' @ total_text (resourceTotalCount s) @ '' items'')]]"

section \<open>The table\<close>

definition sort_marks :: "string \<Rightarrow> query_params \<Rightarrow> 'e node list" where
  "sort_marks field q =
     if_show (sort_by q = sort_key field True) [icon ''ChevronUp''] @
     if_show (sort_by q = sort_key field False) [icon ''ChevronDown'']"

definition sort_header :: "string \<Rightarrow> string \<Rightarrow> query_params \<Rightarrow> app_event node" where
  "sort_header field label q =
     Elem ''th'' [] [onClick (ExE (ClickSort field))] (Text label # sort_marks field q)"

definition checked_if :: "bool \<Rightarrow> (string \<times> string) list" where
  "checked_if b = (''type'', ''checkbox'') # (if b then [(''checked'', [])] else [])"

definition select_all_header :: "collection \<Rightarrow> ex_st \<Rightarrow> app_event node list" where
  "select_all_header c s =
     and_show (selectable c) [el ''th'' [input (checked_if (allSelected c s)) [Check (\<lambda>b. ExE (CheckAll b))]]]"

definition table_header :: "collection \<Rightarrow> ex_st \<Rightarrow> app_event node" where
  "table_header c s =
     el ''tr''
       (select_all_header c s @
        [sort_header ''id'' ''ID'' (query s)] @
        map (\<lambda>f. let n = js_string (oget f ''name'') in sort_header n (humanizeResourceName n None) (query s)) (visibleFields c) @
        [el ''th'' [Text ''Actions'']])"

definition link_node :: "string \<Rightarrow> string \<Rightarrow> app_event node" where
  "link_node target recordId =
     (case RelationLink recordId None of
        None \<Rightarrow> el ''span'' [Text em_dash]
      | Some label \<Rightarrow> Elem ''button'' [(''type'', ''button'')] [onClick (ExE (ClickRelated target recordId))] [Text label])"

definition cell_node :: "cell \<Rightarrow> app_event node" where
  "cell_node x =
     (case x of
        CellLink target i \<Rightarrow> link_node target i
      | CellJson v \<Rightarrow> el ''span'' [Text (json_text v)]
      | CellNum n \<Rightarrow> el ''span'' [Text (int_string n)]
      | CellBool b \<Rightarrow> Elem ''span'' [(''class'', if b then ''text-green-400'' else ''text-red-400'')] []
          [Text (if b then ''true'' else ''false'')]
      | CellText t \<Rightarrow> Text t)"

definition row_checkbox :: "collection \<Rightarrow> ex_st \<Rightarrow> jv \<Rightarrow> app_event node list" where
  "row_checkbox c s row =
     and_show (selectable c)
       [el ''td'' [input (checked_if (row_id row \<in> set (selectedRowIds s))) [Check (\<lambda>b. ExE (CheckRow row b))]]]"

definition row_actions :: "collection \<Rightarrow> jv \<Rightarrow> app_event node" where
  "row_actions c row =
     el ''td''
       (each (spec_actions c ''member_actions'') (reading ''name'' (\<lambda>act.
          [Elem ''button'' [] [onAsk (\<lambda>answer. ExE (ClickMemberAction answer act (oget row ''id'')))] (action_label act)])) @
        [button (ExE (ClickShowRow row)) [icon ''Eye''],
         button (ExE (ClickEditRow row)) [icon ''Edit2''],
         Elem ''button'' [] [onAsk (\<lambda>answer. ExE (ClickDeleteRow answer row))] [icon ''Trash2'']])"

definition table_row :: "collection \<Rightarrow> ex_st \<Rightarrow> jv \<Rightarrow> app_event node" where
  "table_row c s row =
     el ''tr''
       (row_checkbox c s row @
        [el ''td'' (Text ''#'' # child (oget row ''id''))] @
        map (\<lambda>f. el ''td'' [cell_node (table_cell c f row)]) (visibleFields c) @
        [row_actions c row])"

definition records_table :: "collection \<Rightarrow> ex_st \<Rightarrow> app_event node list" where
  "records_table c s =
     table_header c s #
     concat (map (reading ''id'' (\<lambda>row. [table_row c s row])) (rows c)) @
     if_show (rows c = []) [el ''tr'' [Elem ''td'' [(''colSpan'', ''100'')] [] [Text ''No records found in this collection.'']]]"

section \<open>The pager\<close>

definition showing_text :: "int option \<Rightarrow> query_params \<Rightarrow> string" where
  "showing_text tot q =
     (case tot of
        Some n \<Rightarrow> ''Showing '' @ int_string (showing_from n q) @ '' to '' @ int_string (showing_to n q) @
          '' of '' @ int_string n @ '' entries''
      | None \<Rightarrow> ''Showing NaN to NaN of NaN entries'')"

definition pager_buttons :: "int option \<Rightarrow> query_params \<Rightarrow> app_event node list" where
  "pager_buttons tot q =
     (let total = totalPages tot (perPage q) in
      if_show (1 < total)
        ([Elem ''button'' (disabled_if (page q \<le> 1)) [onClick (ExE ClickPrev)] [icon ''ChevronLeft'']] @
         map (\<lambda>n. Elem ''button'' [(''class'', if page q = n then ''bg-blue-500'' else ''bg-[#111416]'')]
           [onClick (ExE (ClickPage n))] [Text (int_string n)]) (pageNumbers tot q) @
         [Elem ''button'' (disabled_if (total \<le> page q)) [onClick (ExE ClickNext)] [icon ''ChevronRight'']]))"

definition pager :: "int option \<Rightarrow> query_params \<Rightarrow> app_event node list" where
  "pager tot q =
     [el ''span'' [Text (showing_text tot q)], el ''span'' [Text ''Per page:''],
      select (int_string (perPage q)) (map (\<lambda>n. (int_string n, int_string n)) PER_PAGE)
        (\<lambda>v. ExE (PickPerPage (case parseInt v of Some n \<Rightarrow> n | None \<Rightarrow> 0)))] @
     pager_buttons tot q"

section \<open>The drawer of the filters\<close>

definition filter_value :: "string \<Rightarrow> ex_st \<Rightarrow> string" where
  "filter_value k s = (case map_of (localFilters s) k of Some v \<Rightarrow> v | None \<Rightarrow> [])"

definition select_options :: "jv \<Rightarrow> string list \<Rightarrow> (string \<times> string) list" where
  "select_options f vs =
     (if oget f ''as'' = JStr ''bool'' then [([], ''All''), (''true'', ''True''), (''false'', ''False'')]
      else map (\<lambda>v. (v, if v = [] then ''All'' else v)) vs)"

definition filter_node :: "ex_st \<Rightarrow> jv \<Rightarrow> app_event node list" where
  "filter_node s f =
     (case filter_inputs f of
        None \<Rightarrow> []
      | Some (label, TextFilter k) \<Rightarrow>
          [el ''label'' [Text label],
           input [(''type'', ''text''), (''value'', filter_value k s)] [Change (\<lambda>v. ExE (TypeFilter k v))]]
      | Some (label, SelectFilter k vs) \<Rightarrow>
          [el ''label'' [Text label],
           select (filter_value k s) (select_options f vs) (\<lambda>v. ExE (TypeFilter k v))]
      | Some (label, DateFilter ka kb) \<Rightarrow>
          [el ''label'' [Text label], el ''span'' [Text ''After''],
           input [(''type'', ''date''), (''value'', filter_value ka s)] [Change (\<lambda>v. ExE (TypeFilter ka v))],
           el ''span'' [Text ''Before''],
           input [(''type'', ''date''), (''value'', filter_value kb s)] [Change (\<lambda>v. ExE (TypeFilter kb v))]])"

definition filter_drawer :: "collection \<Rightarrow> ex_st \<Rightarrow> app_event node list" where
  "filter_drawer c s =
     if_show (isFilterSidebarOpen s \<and> has_items (filter_list c))
       ([el ''h4'' [icon ''Filter'', Text '' Filters''], button (ExE CloseFilters) [icon ''X'']] @
        each (filter_list c) (reading ''label'' (filter_node s)) @
        [button (ExE ApplyFilters) [Text ''Apply''], button (ExE ResetFilters) [Text ''Reset'']])"

definition resources_page :: "string \<Rightarrow> ex_st \<Rightarrow> app_event node list" where
  "resources_page sel s =
     (let c = activeCollection sel s in
      [PageHeader ''Resource Explorer'' ''Inspect database collections and associated objects.'' (explorer_actions c)] @
      scope_tabs c (query s) @ collections_sidebar sel (collections s) @ table_bar c s @
      [el ''table'' (records_table c s)] @ pager (resourceTotalCount s) (query s) @ filter_drawer c s)"

section \<open>One click, one handler\<close>

lemma explorer_parts_one [simp]:
  "one_handlers (explorer_actions c)" "one_handlers (scope_tabs c q)" "one_handlers (collections_sidebar sel cs)"
  "one_handlers (table_bar c s)" "one_handlers (pager tot q)" "one_handlers (filter_drawer c s)"
  by (auto simp: explorer_actions_def scope_tabs_def collections_sidebar_def table_bar_def batch_bar_def search_bar_def
      pager_def pager_buttons_def filter_drawer_def filter_node_def action_label_def Let_def
      split: option.splits filter_input.splits)

lemma cell_node_one [simp]: "one_handler (cell_node x)"
  by (auto simp: cell_node_def link_node_def split: cell.splits option.splits)

lemma table_parts_one [simp]: "one_handler (table_header c s)" "one_handler (table_row c s row)"
  by (auto simp: table_header_def select_all_header_def sort_header_def sort_marks_def table_row_def row_checkbox_def
      row_actions_def action_label_def Let_def)

lemma resources_page_one [simp]: "one_handlers (resources_page sel s)"
  by (auto simp: resources_page_def records_table_def Let_def)

end
