(* ===== verification/PageFeatures.thy ===== *)
theory PageFeatures
  imports AppRun Widgets JsonText Labels
begin

text \<open>
  The app features page as App.tsx renders it: the tree of screens and clusters on the left,
  the detail of the selected one on the right, with its caches, metrics, kill switches
  (components/KillSwitchControl.tsx) and the run of a screen as a user.
\<close>

section \<open>The tree\<close>

definition selected_class :: "bool \<Rightarrow> string" where
  "selected_class b = (if b then ''bg-surface-card text-text-main'' else ''text-text-muted'')"

definition pin_control :: "nav_st \<Rightarrow> bool \<Rightarrow> app_event node list" where
  "pin_control n pinned =
     (case selectedFeatureNavPage n of
        None \<Rightarrow> []
      | Some _ \<Rightarrow>
          [el ''span'' [Text ''Pin to Menu''],
           Elem ''button'' [(''type'', ''button''), (''class'', if pinned then ''bg-blue-500'' else ''bg-[#2D343C]'')]
             [onClick (ExE ClickFeaturePin)] []])"

definition error_note :: "string \<Rightarrow> string option \<Rightarrow> 'e node list" where
  "error_note prefix e = (case e of Some m \<Rightarrow> if m = [] then [] else [el ''div'' [Text (prefix @ m)]] | None \<Rightarrow> [])"

definition orphan_item :: "jv \<Rightarrow> 'e node list" where
  "orphan_item o_a =
     [el ''li'' [el ''span'' (child (oget o_a ''name'')),
        el ''span'' (Text (em_dash @ '' '') # child (oget o_a ''route_method'') @ [Text '' ''] @ child (oget o_a ''route_path''))]]"

definition orphan_banner :: "feat_st \<Rightarrow> app_event node list" where
  "orphan_banner s =
     (let os = orphan_actions (featureTree s) in
      if_show (show_orphan_banner s)
        [el ''p'' [Text (int_string (int (length os)) @ '' orphan action'' @ (if length os = 1 then [] else ''s'') @ '' detected.'')],
         el ''p'' [Text ''These Actions are declared in manifests but not referenced by any Screen. They may be safe to delete.''],
         el ''ul'' (concat (map (reading ''name'' orphan_item) os)),
         button (FeatE ClickDismiss) [Text ''Dismiss'']])"

definition screen_item :: "nav_st \<Rightarrow> jv \<Rightarrow> app_event node list" where
  "screen_item n s =
     [el ''li'' [Elem ''button'' [(''class'', selected_class (opt_jv (selectedScreenName n) = oget s ''name''))]
        [onClick (FeatE (ClickScreen (js_string (oget s ''name''))))]
        (icon ''Code2'' # el ''span'' (child (oget s ''name'')) # and_show (oget s ''stream'') [icon ''Radio''])]]"

definition group_block :: "nav_st \<Rightarrow> jv \<Rightarrow> app_event node list" where
  "group_block n g =
     [el ''p'' ([Text (''Screens '' @ em_dash @ '' '')] @ child (oget g ''display_name'') @
        [el ''span'' ([Text ''('' ] @ show_length (oget g ''screens'') @ [Text '')''])]),
      el ''ul'' (each (oget g ''screens'') (reading ''name'' (screen_item n)))]"

definition cluster_item :: "nav_st \<Rightarrow> jv \<Rightarrow> app_event node list" where
  "cluster_item n c =
     (if \<not> is_array (oget c ''actions'') then [Throw ''filter is not a function'']
      else if list_ex is_nullish (arr_items (oget c ''actions'')) then [Throw (type_error JNull ''is_orphan'')]
      else
        let orphans = orphan_count c in
        [el ''li'' [Elem ''button''
           ((''class'', selected_class (opt_jv (selectedClusterName n) = oget c ''name'')) #
            (if 0 < orphans then [(''title'', int_string (int orphans) @ '' action(s) not wired to any Screen'')] else []))
           [onClick (FeatE (ClickCluster (js_string (oget c ''name''))))]
           ([icon ''ComponentIcon'', el ''span'' (child (oget c ''display_name'')),
             el ''span'' (show_length (oget c ''actions''))] @
            if_show (0 < orphans) [Elem ''span'' [(''title'', int_string (int orphans) @ '' orphan action(s)'')] [] []])]])"

definition tree_pane :: "nav_st \<Rightarrow> feat_st \<Rightarrow> app_event node list" where
  "tree_pane n s =
     (let t = featureTree s in
      if_show (featureTreeLoading s) [el ''p'' [Text (''Loading'' @ ellipsis)]] @
      if_show (\<not> featureTreeLoading s \<and> groups t = [] \<and> feature_clusters t = [])
        [el ''p'' [Text ''No screens or features declared.'']] @
      concat (map (reading ''name'' (group_block n)) (groups t)) @
      if_show (feature_clusters t \<noteq> [])
        [el ''p'' [Text (''Features ('' @ int_string (int (length (feature_clusters t))) @ '')'')],
         el ''ul'' (concat (map (reading ''actions'' (cluster_item n)) (feature_clusters t)))])"

section \<open>A cluster\<close>

definition action_item :: "jv \<Rightarrow> 'e node list" where
  "action_item a =
     [el ''li''
       ([Elem ''span'' [(''class'', if truthy (oget a ''is_orphan'') then ''yellow'' else ''blue'')] []
           [Text (if truthy (oget a ''is_orphan'') then ''orphan'' else ''wired'')],
         el ''span'' (child (oget a ''name''))] @
        and_show (oget a ''route_path'')
          [el ''span'' (Text (em_dash @ '' '') # child (oget a ''route_method'') @ [Text '' ''] @ child (oget a ''route_path''))])]"

definition cluster_header :: "jv \<Rightarrow> nat \<Rightarrow> 'e node list" where
  "cluster_header cluster orphans =
     [el ''h3'' (child (oget cluster ''display_name'')),
      el ''p''
        ([Text (''feature group '' @ middle_dot @ '' '')] @ child (js_or (oget cluster ''group'') (JStr ''mobile'')) @
         [Text ('' '' @ middle_dot @ '' '')] @ show_length (oget cluster ''actions'') @
         [Text ('' action'' @ (if jprop (oget cluster ''actions'') ''length'' = JNum 1 then [] else ''s''))] @
         if_show (0 < orphans) [el ''span'' [Text (int_string (int orphans) @ '' not wired to a Screen'')]])]"

definition cluster_screens :: "jv \<Rightarrow> app_event node list" where
  "cluster_screens cluster =
     (let used = oget cluster ''screens_using'' in
      and_show used (if_show (has_items used)
        (el ''p'' [Text ''Used By Screens''] #
         each used (\<lambda>s. [button (FeatE (ClickScreen (js_string s))) (child s)]))))"

definition cluster_resources :: "jv \<Rightarrow> 'e node list" where
  "cluster_resources cluster =
     (let touched = oget cluster ''touches_resources'' in
      and_show touched (if_show (has_items touched)
        (el ''p'' [Text ''Touches Resources''] # each touched (\<lambda>r. [el ''span'' (child r)]))))"

definition cluster_detail :: "jv \<Rightarrow> nat \<Rightarrow> app_event node list" where
  "cluster_detail cluster orphans =
     cluster_header cluster orphans @ cluster_screens cluster @
     [el ''p'' ([Text ''Actions ('' ] @ show_length (oget cluster ''actions'') @ [Text '')'']),
      el ''ul'' (each (oget cluster ''actions'') (reading ''name'' action_item))] @
     cluster_resources cluster"

section \<open>A screen\<close>

definition screen_header :: "jv \<Rightarrow> 'e node list" where
  "screen_header screen =
     [el ''h3'' [Text (humanizeResourceName (js_string (oget screen ''name'')) None)],
      el ''p'' (child (oget screen ''route_method'') @ [Text '' ''] @ child (oget screen ''route_path'')),
      InfoCell ''Nav Type'' (child (js_or (oget screen ''nav_type'') (JStr em_dash))),
      InfoCell ''Requires Auth'' (child (js_or (oget screen ''requires_auth'') (JStr em_dash))),
      InfoCell ''Order'' [Text (js_string (oget screen ''order''))],
      InfoCell ''Streaming'' [Text (if truthy (oget screen ''stream'') then ''yes (eventbus)'' else ''no'')]]"

definition source_class :: "jv \<Rightarrow> string" where
  "source_class kind =
     (if kind = JStr ''action'' then ''blue'' else if kind = JStr ''resource'' then ''purple''
      else if kind = JStr ''builtin'' then ''gray'' else ''red'')"

definition source_item :: "jv \<Rightarrow> 'e node list" where
  "source_item src =
     [el ''li''
       ([Elem ''span'' [(''class'', source_class (oget src ''kind''))] [] (child (oget src ''kind'')),
         el ''span'' (child (oget src ''name''))] @
        and_show (oget src ''route_path'')
          [el ''span'' (child (oget src ''route_method'') @ [Text '' ''] @ child (oget src ''route_path''))])]"

definition section_item :: "jv \<Rightarrow> 'e node list" where
  "section_item sec =
     [el ''li''
       ([el ''span'' (child (oget sec ''key''))] @
        and_show (oget sec ''ui_type'') [el ''span'' (child (oget sec ''ui_type''))] @
        [Elem ''span'' [(''class'', if truthy (oget sec ''default_visible'') then ''green'' else ''muted'')] []
           [Text (if truthy (oget sec ''default_visible'') then ''visible'' else ''hidden'')]])]"

definition screen_lists :: "jv \<Rightarrow> 'e node list" where
  "screen_lists screen =
     (let srcs = oget screen ''sources''; secs = oget screen ''sections''; touched = oget screen ''touches_resources'' in
      [el ''p'' ([Text ''Sources ('' ] @ show_length srcs @ [Text '')'']),
       el ''ul'' (when_empty srcs [el ''li'' [Text ''No sources declared.'']] @ each srcs (reading ''kind'' source_item)),
       el ''p'' ([Text ''Sections ('' ] @ show_length secs @ [Text '')'']),
       el ''ul'' (when_empty secs [el ''li'' [Text ''No sections declared.'']] @ each secs (reading ''key'' section_item))] @
      when_items touched
        (el ''p'' [Text ''Resources Touched''] # each touched (\<lambda>t. [el ''span'' (child t)])))"

definition cache_panel :: "jv \<Rightarrow> feat_st \<Rightarrow> app_event node list" where
  "cache_panel screen s =
     (let name = js_string (oget screen ''name'') in
      [el ''p'' [Text ''Cache''],
       Elem ''button'' (disabled_if (flush_busy screen None s)) [onClick (FeatE (ClickFlush name None))]
         [Text (if flush_busy screen None s then ellipsis else ''Reset Screen Cache'')]] @
      when_items (oget screen ''sections'') (each (oget screen ''sections'') (reading ''key'' (\<lambda>sec.
        let key = js_string (oget sec ''key'') in
        [Elem ''button'' (disabled_if (flush_busy screen (Some key) s)) [onClick (FeatE (ClickFlush name (Some key)))]
           (Text ''flush '' # child (oget sec ''key''))]))) @
      error_note [] (cacheMsg s))"

definition sample_cell :: "string \<Rightarrow> jv \<Rightarrow> 'e node" where
  "sample_cell label v = InfoCell label [Text (js_string (js_nullish v (JStr em_dash)))]"

definition observe_panel :: "feat_st \<Rightarrow> 'e node list" where
  "observe_panel s =
     (let m = observeMetrics s; provider = oget m ''provider''; name = oget provider ''display_name'';
          url = oget provider ''vendor_url''; samples = oget m ''samples'';
          some = truthy m \<and> \<not> is_nullish samples \<and> has_items samples in
      [el ''p'' [Text (''Observe'' @ (if truthy name then '' '' @ em_dash @ '' '' @ js_string name else []))]] @
      and_show url [Elem ''a'' [(''href'', js_string url)] []
        ([Text ''View in ''] @ child (js_or name (JStr ''vendor'')) @ [Text ('' '' @ arrow)])] @
      if_show (observeLoading s) [el ''p'' [Text (''Loading metrics'' @ ellipsis)]] @
      if_show (\<not> observeLoading s \<and> some)
        (reading ''traffic'' (\<lambda>l.
          [sample_cell ''Traffic'' (oget l ''traffic''), sample_cell ''Latency (ms)'' (oget l ''latency''),
           sample_cell ''Errors'' (oget l ''errors''), sample_cell ''Users'' (oget l ''users'')])
          (if arr_items samples = [] then JUndef else last (arr_items samples))) @
      if_show (\<not> observeLoading s \<and> \<not> some)
        [el ''p'' [Text ''No telemetry samples available. Per-screen instrumentation is a follow-up.'']])"

section \<open>Kill switches\<close>

definition kill_node :: "host \<Rightarrow> jv \<Rightarrow> string option \<Rightarrow> feat_st \<Rightarrow> app_event node list" where
  "kill_node h screen sec s =
     (let current = kill_state screen sec; k = control_of screen sec s; v = ks_render current k in
      [Elem ''span'' [(''class'', if kv_killed v then ''red'' else ''green'')] []
         [Text (if kv_killed v then ''KILLED'' else ''live'')],
       input [(''type'', ''text''), (''value'', reason k)] [Change (\<lambda>r. FeatE (TypeReason sec r))]] @
      if_show (kv_expiry_choice v) [select (expiresIn k) EXPIRY_OPTIONS (\<lambda>e. FeatE (PickExpiry sec e))] @
      [Elem ''button'' (disabled_if (kv_disabled v)) [onClick (FeatE (ClickKill sec))]
         [Text (if pending k then ellipsis else kv_button v)]] @
      and_show (oget current ''expires_at'') (if_show (kv_killed v)
        [el ''p'' [Text (''Auto-reverts at '' @ datetime_str h (oget current ''expires_at''))]]) @
      error_note [] (kv_error v))"

definition kill_panel :: "host \<Rightarrow> jv \<Rightarrow> feat_st \<Rightarrow> app_event node list" where
  "kill_panel h screen s =
     [el ''p'' [Text ''Kill Switch'']] @ kill_node h screen None s @
     when_items (oget screen ''sections'')
       (el ''p'' [Text ''Section Kill Switches''] #
        each (oget screen ''sections'') (reading ''key'' (\<lambda>sec.
          el ''p'' (child (oget sec ''key'')) # kill_node h screen (Some (js_string (oget sec ''key''))) s)))"

section \<open>Running a screen\<close>

definition run_as_panel :: "jv \<Rightarrow> feat_st \<Rightarrow> app_event node list" where
  "run_as_panel screen s =
     [el ''p'' [Text (''Inspect '' @ em_dash @ '' Run as user'')],
      input [(''type'', ''text''), (''value'', runAsUserId s)] [Change (\<lambda>v. FeatE (TypeRunAsUser v))],
      input [(''type'', ''text''), (''value'', runAsLocale s)] [Change (\<lambda>v. FeatE (TypeRunAsLocale v))],
      Elem ''button'' (disabled_if (runAsLoading s)) [onClick (FeatE (ClickRun (js_string (oget screen ''name''))))]
        [Text (if runAsLoading s then ''Running'' @ ellipsis else ''Run'')]] @
     error_note [] (runAsError s) @
     and_show (runAsResult s) [el ''pre'' [Text (json_text_indented (runAsResult s))]]"

definition screen_detail :: "host \<Rightarrow> jv \<Rightarrow> feat_st \<Rightarrow> app_event node list" where
  "screen_detail h screen s =
     screen_header screen @ screen_lists screen @ cache_panel screen s @ observe_panel s @
     kill_panel h screen s @ run_as_panel screen s"

definition detail_nodes :: "host \<Rightarrow> nav_st \<Rightarrow> feat_st \<Rightarrow> app_event node list" where
  "detail_nodes h n s =
     (case detail_pane n (featureTree s) of
        ClusterDetail cluster orphans \<Rightarrow> cluster_detail cluster orphans
      | ScreenDetail screen \<Rightarrow> screen_detail h screen s
      | NoDetail \<Rightarrow> [el ''p'' [Text ''Select a screen or feature on the left to view its catalog details.'']])"

definition features_page :: "host \<Rightarrow> nav_st \<Rightarrow> bool \<Rightarrow> feat_st \<Rightarrow> app_event node list" where
  "features_page h n pinned s =
     [PageHeader ''App Features''
        ''Screens, Actions, and Sources powering the mobile (and future web) experience.'' (pin_control n pinned)] @
     error_note ''Failed to load features: '' (featureTreeError s) @
     orphan_banner s @ tree_pane n s @ detail_nodes h n s"

section \<open>One click, one handler\<close>

lemma feature_tree_one [simp]:
  "one_handlers (pin_control n pinned)" "one_handlers (error_note p e)" "one_handlers (orphan_banner s)"
  "one_handlers (tree_pane n s)"
  by (auto simp: pin_control_def error_note_def orphan_banner_def orphan_item_def tree_pane_def group_block_def
      screen_item_def cluster_item_def Let_def split: option.splits)

lemma cluster_detail_one [simp]: "one_handlers (cluster_detail c k)"
  by (auto simp: cluster_detail_def cluster_header_def cluster_screens_def cluster_resources_def action_item_def Let_def)

lemma screen_parts_one [simp]:
  "one_handlers (screen_header x)" "one_handlers (screen_lists x)" "one_handlers (cache_panel x s)"
  "one_handlers (observe_panel s)" "one_handlers (kill_node h x sec s)" "one_handlers (run_as_panel x s)"
  by (auto simp: screen_header_def screen_lists_def source_item_def section_item_def cache_panel_def observe_panel_def
      sample_cell_def kill_node_def run_as_panel_def Let_def)

lemma kill_panel_one [simp]: "one_handlers (kill_panel h x s)"
  by (simp add: kill_panel_def)

lemma features_page_one [simp]: "one_handlers (features_page h n pinned s)"
  by (auto simp: features_page_def detail_nodes_def screen_detail_def split: feature_detail.splits)

end
