(* ===== verification/PageSettings.thy ===== *)
theory PageSettings
  imports AppRun Widgets JsonText
begin

text \<open>
  The settings of the app and of the system, as App.tsx renders them: the tabs, the switches
  and fields of the configuration, the administrators and the background jobs. The tables of
  API keys, workers and addresses are constants of the source.
\<close>

section \<open>Tabs\<close>

definition tab_button :: "string \<Rightarrow> (string \<Rightarrow> app_event) \<Rightarrow> string \<times> string \<times> string \<Rightarrow> app_event node" where
  "tab_button current e tab =
     (case tab of (i, label, ic) \<Rightarrow>
        Elem ''button'' [(''class'', if current = i then ''bg-blue-500'' else ''text-[#8c90a1]'')] [onClick (e i)]
          [icon ic, el ''span'' [Text label]])"

definition APP_TABS :: "(string \<times> string \<times> string) list" where
  "APP_TABS =
     [(''general'', ''Service Control'', ''Smartphone''), (''onboarding'', ''UX & Content'', ''Monitor''),
      (''auth'', ''Access & Auth'', ''ShieldCheck'')]"

definition SYSTEM_TABS :: "(string \<times> string \<times> string) list" where
  "SYSTEM_TABS =
     [(''keys'', ''API Keys'', ''Key''), (''admins'', ''Admin Access'', ''Lock''), (''workers'', ''Worker Nodes'', ''Cpu''),
      (''jobs'', ''Background Jobs'', ''Activity''), (''security'', ''Hardening'', ''ShieldCheck'')]"

section \<open>The configuration of the app\<close>

definition setting_text :: "ops_st \<Rightarrow> string \<Rightarrow> string" where
  "setting_text s k = js_string (js_or (ofield (settings s) k) (JStr []))"

definition setting_input :: "ops_st \<Rightarrow> string \<Rightarrow> app_event node" where
  "setting_input s k = input [(''type'', ''text''), (''value'', setting_text s k)] [Change (\<lambda>v. OpsE (TypeSetting k v))]"

definition setting_switch :: "ops_st \<Rightarrow> string \<Rightarrow> string \<Rightarrow> app_event node" where
  "setting_switch s k on =
     Elem ''button'' [(''class'', if setting_on k s then on else ''bg-[#2D343C]'')] [onClick (OpsE (FlipSetting k))]
       [Elem ''div'' [(''class'', if setting_on k s then ''right'' else ''left'')] [] []]"

definition SERVICE_SWITCHES :: "(string \<times> string \<times> string) list" where
  "SERVICE_SWITCHES =
     [(''maintenance'', ''Maintenance Mode'', ''Prevents users from accessing the app during updates.''),
      (''force_update'', ''Force Update'', ''Require users to update to the latest version.''),
      (''push_notifs'', ''Global Notifications'', ''Toggle all transactional and marketing push messages.''),
      (''analytics'', ''Internal Tracking'', ''Collect anonymous usage metrics for product refinement.'')]"

definition service_switch :: "ops_st \<Rightarrow> string \<times> string \<times> string \<Rightarrow> app_event node" where
  "service_switch s item =
     (case item of (k, label, desc) \<Rightarrow>
        el ''div'' [el ''p'' [Text label], el ''p'' [Text desc], setting_switch s k ''bg-blue-500''])"

definition theme_button :: "ops_st \<Rightarrow> string \<Rightarrow> app_event node" where
  "theme_button s t =
     Elem ''button'' [(''class'', if ofield (settings s) ''theme_override'' = JStr t then ''bg-blue-500'' else ''text-[#8c90a1]'')]
       [onClick (OpsE (TypeSetting ''theme_override'' t))] [Text t]"

definition general_tab :: "ops_st \<Rightarrow> app_event node list" where
  "general_tab s =
     el ''h3'' [Text ''Service Continuity''] # map (service_switch s) SERVICE_SWITCHES @
     [el ''h3'' [Text ''Device Support''],
      FormField [Text ''Min iOS Build''] [setting_input s ''min_ios_build''],
      FormField [Text ''Min Android SDK''] [setting_input s ''min_android_sdk''],
      el ''h3'' [Text ''Theme Overrides'']] @ map (theme_button s) THEMES"

definition onboarding_tab :: "ops_st \<Rightarrow> app_event node list" where
  "onboarding_tab s =
     [el ''h3'' [Text ''Digital Experience''], icon ''CheckCircle2'', el ''span'' [Text ''Production Walkthrough Stable''],
      dead_button [Text ''Re-record Flow''],
      FormField [Text ''Welcome Sequence Copy'']
        [Elem ''textarea'' [(''value'', setting_text s ''welcome_copy'')]
           [Change (\<lambda>v. OpsE (TypeSetting ''welcome_copy'' v))] []],
      el ''p'' [Text ''Mobile Launcher Icon''], icon ''Smartphone'', el ''span'' [Text ''1024x1024''],
      el ''p'' [Text ''Splash Screen Asset''], icon ''Monitor'', el ''span'' [Text ''Upload (PNG/SVG)''],
      FormField [Text ''CTA Button Text''] [setting_input s ''cta_button_text''],
      FormField [Text ''Accent Color (HEX)'']
        [Elem ''div'' [(''backgroundColor'', js_string (js_or (ofield (settings s) ''accent_color'') (JStr ''#3b82f6'')))] [] [],
         setting_input s ''accent_color'']]"

definition auth_tab :: "ops_st \<Rightarrow> app_event node list" where
  "auth_tab s =
     [el ''h3'' [Text ''Access Policies''],
      el ''p'' [Text ''Disable Guest Sign-up''], el ''p'' [Text ''Experimental''],
      setting_switch s ''disable_guest_signup'' ''bg-red-500'',
      el ''p'' [Text ''Biometric Enforcement''],
      el ''p'' [Text ''Require FaceID/Fingerprint for high-value transactions.''],
      setting_switch s ''biometric_enforcement'' ''bg-blue-500'',
      el ''h3'' [Text ''SSO Integration'']] @
     map (\<lambda>p. el ''span'' [Text p]) [''Google'', ''Apple'', ''Github'']"

definition app_settings_page :: "ops_st \<Rightarrow> app_event node list" where
  "app_settings_page s =
     [PageHeader ''App Configuration'' ''Global mobile application parameters and behavioral overrides.'' []] @
     map (tab_button (appSubTab s) (\<lambda>t. OpsE (AppTab t))) APP_TABS @
     if_show (appSubTab s = ''general'') (general_tab s) @
     if_show (appSubTab s = ''onboarding'') (onboarding_tab s) @
     if_show (appSubTab s = ''auth'') (auth_tab s) @
     [button (OpsE Deploy) [icon ''Save'', Text '' Deploy Global Configuration'']]"

section \<open>The system settings\<close>

definition API_KEYS :: "(string \<times> string \<times> string) list" where
  "API_KEYS =
     [(''Production Mobile App'', ''obs_live_9a2f...1e4d'', ''Oct 12, 2023''),
      (''Staging Environment'', ''obs_test_88c1...99x3'', ''Jan 05, 2024''),
      (''Analytic Exporter Service'', ''obs_ext_11z0...aa7c'', ''Mar 18, 2024'')]"

definition header_row :: "string list \<Rightarrow> 'e node" where
  "header_row ts = el ''tr'' (map (\<lambda>t. el ''th'' [Text t]) ts)"

definition keys_tab :: "app_event node list" where
  "keys_tab =
     [el ''h3'' [icon ''Key'', Text '' API Access Keys''], dead_button [icon ''Plus'', Text '' Generate Key''],
      el ''table''
        (header_row [''Client Name'', ''Key Value'', ''Created'', ''Revoke''] #
         map (\<lambda>(name, key, date).
           el ''tr'' [el ''td'' [Text name], el ''td'' [el ''code'' [Text key]], el ''td'' [Text date],
             el ''td'' [dead_button [Text ''Revoke'']]]) API_KEYS)]"

definition admin_row :: "admin_user \<Rightarrow> app_event node" where
  "admin_row adm =
     el ''tr''
       [el ''td'' [icon ''Lock'', el ''p'' [Text (aname adm)], el ''p'' (child (aemail adm))],
        el ''td'' [el ''span'' (child (atier adm))],
        el ''td'' [Text (atime adm)],
        el ''td''
          [button (AdminE (ClickEditAdmin adm)) [Text ''Edit''],
           Elem ''button'' [] [onAsk (\<lambda>answer. AdminE (ClickRevoke answer adm))] [Text ''Revoke'']]]"

definition admins_tab :: "admin_st \<Rightarrow> app_event node list" where
  "admins_tab a =
     [el ''h3'' [icon ''Lock'', Text '' Admin Access Control''],
      button (AdminE ClickGrant) [icon ''ShieldCheck'', Text '' Grant Privilege''],
      el ''table'' (header_row [''Administrator'', ''Tier'', ''Session'', ''Actions''] # map admin_row (adminUsers a))]"

definition workers_tab :: "app_event node list" where
  "workers_tab =
     [el ''h3'' [icon ''Cpu'', Text '' Worker Configuration'']] @
     map (\<lambda>w. dead_button [Text w]) [''Email Delivery'', ''Image Processing'', ''Log Aggregator'', ''Push Dispatcher''] @
     [dead_button [Text ''+ Register Worker''],
      FormField [Text ''Endpoint URL''] [input [(''type'', ''text''), (''defaultValue'', ''https://workers.obsidian.io/v1/mail'')] []],
      FormField [Text ''Secret Token''] [input [(''type'', ''password''), (''defaultValue'', ''***************'')] []],
      FormField [Text ''Concurrency Level''] [input [(''type'', ''number''), (''defaultValue'', ''4'')] []],
      FormField [Text ''Retry Strategy'']
        [el ''select'' (map (\<lambda>t. el ''option'' [Text t]) [''Exponential Backoff'', ''Linear Wait'', ''Immediate Fail''])],
      dead_button [icon ''Save'', Text '' Update Worker'']]"

definition status_color :: "jv \<Rightarrow> string" where
  "status_color st =
     (if st = JStr ''done'' then ''green'' else if st = JStr ''failed'' then ''red''
      else if st = JStr ''running'' then ''blue'' else if st = JStr ''pending'' then ''yellow'' else [])"

definition job_outcome :: "jv \<Rightarrow> 'e node" where
  "job_outcome job =
     (if truthy (oget job ''error'') then el ''span'' (child (oget job ''error''))
      else if truthy (oget job ''result'') then el ''code'' [Text (json_text (oget job ''result''))]
      else el ''span'' [Text ''-''])"

definition job_button_node :: "jv \<Rightarrow> job_button \<Rightarrow> app_event node" where
  "job_button_node job b =
     (case b of
        RetryButton \<Rightarrow> button (OpsE (ClickRetry (oget job ''id''))) [icon ''Play'']
      | CancelButton \<Rightarrow> button (OpsE (ClickCancelJob (oget job ''id''))) [icon ''Square''])"

definition job_node :: "jv \<Rightarrow> job_row \<Rightarrow> app_event node" where
  "job_node job row =
     el ''tr''
       [el ''td'' [Text (jr_id row)],
        el ''td'' (child (js_or (oget job ''user_id'') (JStr ''system''))),
        el ''td'' [el ''span'' (child (oget job ''name'')), el ''span'' (child (oget job ''kind''))],
        el ''td'' [Elem ''span'' [(''class'', status_color (oget job ''status''))] [] (child (oget job ''status''))],
        el ''td'' [job_outcome job],
        el ''td'' [Text (jr_created row)],
        el ''td'' (map (job_button_node job) (jr_buttons row))]"

definition jobs_tab :: "host \<Rightarrow> ops_st \<Rightarrow> app_event node list" where
  "jobs_tab h s =
     [el ''h3'' [icon ''Activity'', Text '' Background Execution Jobs''],
      button (OpsE RefreshJobs)
        [Elem ''RefreshCw'' [(''class'', if isLoadingJobs s then ''animate-spin'' else [])] [] [], Text '' Refresh''],
      el ''table''
        (header_row [''Job ID'', ''User ID'', ''Kind & Name'', ''Status'', ''Result / Error'', ''Created'', ''Actions''] #
         (if jobs s = []
          then [el ''tr'' [Elem ''td'' [(''colSpan'', ''7'')] []
                  [Text (if isLoadingJobs s then ''Loading background jobs...'' else ''No background jobs registered.'')]]]
          else concat (map (\<lambda>job. shown_res (\<lambda>row. [job_node job row]) (job_row_of h job)) (jobs s))))]"

definition security_tab :: "app_event node list" where
  "security_tab =
     [el ''h3'' [Text ''IP Management''],
      el ''p'' [Text ''Restrict administrative access to specific IP addresses for increased security hardening.'']] @
     map (\<lambda>ip. el ''span'' [Text ip, Text '' '', icon ''X'']) [''192.168.1.1'', ''10.0.0.12'', ''72.14.99.102''] @
     [input [(''type'', ''text'')] [], dead_button [Text ''Whitelist''],
      dead_button [icon ''ShieldAlert'', Text '' Remove All Whitelisted IPs''],
      icon ''ShieldCheck'', el ''h4'' [Text ''Platform Hardening''],
      el ''span'' [Text ''TLS 1.3 Strict Mode''], el ''span'' [Text ''Rate Limiting (Shield)''],
      dead_button [icon ''RefreshCw'', Text '' Clear System Cache'']]"

definition system_settings_page :: "host \<Rightarrow> ops_st \<Rightarrow> admin_st \<Rightarrow> app_event node list" where
  "system_settings_page h s a =
     [PageHeader ''Infrastructure Control'' ''Manage engine variables, keys, and backend endpoints.'' []] @
     map (tab_button (systemSubTab s) (\<lambda>t. OpsE (SystemTab t))) SYSTEM_TABS @
     if_show (systemSubTab s = ''keys'') keys_tab @
     if_show (systemSubTab s = ''admins'') (admins_tab a) @
     if_show (systemSubTab s = ''workers'') workers_tab @
     if_show (systemSubTab s = ''jobs'') (jobs_tab h s) @
     if_show (systemSubTab s = ''security'') security_tab"

section \<open>What the constant tabs offer\<close>

lemma constant_tabs_events [simp]:
  "events_of keys_tab = {}" "events_of workers_tab = {}" "events_of security_tab = {}"
  by (auto simp: keys_tab_def header_row_def workers_tab_def security_tab_def)

lemma settings_parts_one [simp]:
  "one_handler (setting_switch s k on)" "one_handler (setting_input s k)" "one_handler (tab_button cur e tab)"
  "one_handler (admin_row adm)" "one_handler (job_node job row)" "one_handler (header_row ts)"
  by (auto simp: setting_switch_def setting_input_def tab_button_def admin_row_def job_node_def job_outcome_def
      job_button_node_def header_row_def split: prod.splits job_button.splits)

lemma settings_tabs_one [simp]:
  "one_handlers (general_tab s)" "one_handlers (onboarding_tab s)" "one_handlers (auth_tab s)"
  "one_handlers keys_tab" "one_handlers (admins_tab a)" "one_handlers workers_tab" "one_handlers (jobs_tab h s)"
  "one_handlers security_tab"
  by (auto simp: general_tab_def onboarding_tab_def auth_tab_def service_switch_def theme_button_def keys_tab_def
      admins_tab_def workers_tab_def jobs_tab_def security_tab_def split: prod.splits sum.splits)

lemma settings_pages_one [simp]: "one_handlers (app_settings_page s)" "one_handlers (system_settings_page h s a)"
  by (auto simp: app_settings_page_def system_settings_page_def)

end
