(* ===== verification/Dialogs.thy ===== *)
theory Dialogs
  imports AppRun PageResources
begin

text \<open>
  The five dialogues of App.tsx. They stand beside the pages: an open one covers whatever page
  is shown, a closed one is evaluated all the same. All of them edit the one form.
\<close>

section \<open>Fields\<close>

definition form_text :: "obj \<Rightarrow> string \<Rightarrow> string \<Rightarrow> string" where
  "form_text form k dflt = js_string (js_or (ofield form k) (JStr dflt))"

definition form_input :: "string \<Rightarrow> obj \<Rightarrow> string \<Rightarrow> (string \<Rightarrow> app_event) \<Rightarrow> app_event node" where
  "form_input typ form k e = input [(''type'', typ), (''value'', form_text form k [])] [Change e]"

definition same_options :: "string list \<Rightarrow> (string \<times> string) list" where
  "same_options vs = map (\<lambda>v. (v, v)) vs"

definition dialog_buttons :: "app_event \<Rightarrow> app_event \<Rightarrow> string \<Rightarrow> app_event node list" where
  "dialog_buttons cancel save label = [button cancel [Text ''Cancel''], button save [Text label]]"

section \<open>Administrators\<close>

definition admin_dialog :: "obj \<Rightarrow> admin_st \<Rightarrow> app_event node list" where
  "admin_dialog form s =
     Modal (isAdminModalOpen s) (AdminE CancelAdmin)
       (if editingAdmin s \<noteq> None then ''Modify Access Tier'' else ''Grant Administrative Access'')
       ([FormField [Text ''Staff Name''] [form_input ''text'' form ''name'' (\<lambda>v. AdminE (TypeAdmin ''name'' v))],
         FormField [Text ''Internal Email''] [form_input ''email'' form ''email'' (\<lambda>v. AdminE (TypeAdmin ''email'' v))],
         FormField [Text ''Permission Tier'']
           [select (form_text form ''tier'' []) (([], ''Select Tier'') # same_options TIERS) (\<lambda>v. AdminE (TypeAdmin ''tier'' v))]] @
        dialog_buttons (AdminE CancelAdmin) (AdminE ClickSaveAdmin) ''Update Privileges'')"

section \<open>Members\<close>

definition user_dialog :: "obj \<Rightarrow> user_st \<Rightarrow> app_event node list" where
  "user_dialog form s =
     Modal (isUserModalOpen s) (UserE CancelUser)
       (if editingUser s \<noteq> None then ''Edit Member Profile'' else ''Register New Member'')
       ([FormField [Text ''Full Name''] [form_input ''text'' form ''name'' (\<lambda>v. UserE (TypeUser ''name'' v))],
         FormField [Text ''Email Address''] [form_input ''email'' form ''email'' (\<lambda>v. UserE (TypeUser ''email'' v))],
         FormField [Text ''Role''] [select (form_text form ''role'' ''User'') (same_options ROLES) (\<lambda>v. UserE (TypeUser ''role'' v))],
         FormField [Text ''Account Status'']
           [select (form_text form ''status'' ''Active'') (same_options STATUSES) (\<lambda>v. UserE (TypeUser ''status'' v))]] @
        dialog_buttons (UserE CancelUser) (UserE ClickSaveUser) ''Save Member'')"

section \<open>Flags\<close>

definition flag_dialog :: "obj \<Rightarrow> flag_st \<Rightarrow> app_event node list" where
  "flag_dialog form s =
     Modal (isFlagModalOpen s) (FlagE CancelFlag)
       (if editingFlag s \<noteq> None then ''Modify Feature Toggle'' else ''Initialize Feature Toggle'')
       ([FormField [Text ''Flag Key (System ID)''] [form_input ''text'' form ''key'' (\<lambda>v. FlagE (TypeFlag ''key'' v))],
         FormField [Text ''Objective description'']
           [Elem ''textarea'' [(''value'', form_text form ''description'' [])] [Change (\<lambda>v. FlagE (TypeFlag ''description'' v))] []],
         FormField [Text ''Environment'']
           [select (form_text form ''environment'' ''Production'') (same_options ENVIRONMENTS)
              (\<lambda>v. FlagE (TypeFlag ''environment'' v))]] @
        dialog_buttons (FlagE CancelFlag) (FlagE ClickSaveFlag) ''Implement Toggle'')"

section \<open>Records\<close>

text \<open>
  The value an input of the record form shows, and the input itself. \<open>JSON.parse\<close> is the host's.
\<close>

definition bool_text :: "obj \<Rightarrow> string \<Rightarrow> string" where
  "bool_text form k = (if ofield form k = JUndef then [] else js_string (ofield form k))"

definition date_text :: "obj \<Rightarrow> string \<Rightarrow> string" where
  "date_text form k = (if truthy (ofield form k) then take 16 (js_string (ofield form k)) else [])"

definition json_field_text :: "obj \<Rightarrow> string \<Rightarrow> string" where
  "json_field_text form k =
     (if is_object (ofield form k) then json_text_indented (ofield form k) else form_text form k [])"

definition field_change :: "host \<Rightarrow> string \<Rightarrow> input_kind \<Rightarrow> string \<Rightarrow> app_event" where
  "field_change h k kind v = ExE (TypeField k (input_value kind v (parse_json h v)))"

definition field_node :: "host \<Rightarrow> obj \<Rightarrow> string \<Rightarrow> input_kind \<Rightarrow> app_event node" where
  "field_node h form k kind =
     (case kind of
        RelationInput target \<Rightarrow>
          Elem ''RelationPicker'' [(''targetResource'', target), (''value'', form_text form k [])] [Change (field_change h k kind)] []
      | SelectInput vs \<Rightarrow>
          select (form_text form k []) (map (\<lambda>v. (v, if v = [] then ''Select option...'' else v)) vs) (field_change h k kind)
      | BoolInput \<Rightarrow>
          select (bool_text form k) [([], ''Select...''), (''true'', ''True''), (''false'', ''False'')] (field_change h k kind)
      | DateInput time \<Rightarrow>
          input [(''type'', if time then ''datetime-local'' else ''date''), (''value'', date_text form k)] [Change (field_change h k kind)]
      | JsonInput \<Rightarrow> Elem ''textarea'' [(''value'', json_field_text form k)] [Change (field_change h k kind)] []
      | PasswordInput \<Rightarrow> input [(''type'', ''password''), (''value'', form_text form k [])] [Change (field_change h k kind)]
      | TextInput email \<Rightarrow>
          input [(''type'', if email then ''email'' else ''text''), (''value'', form_text form k [])] [Change (field_change h k kind)])"

definition form_field :: "host \<Rightarrow> collection \<Rightarrow> bool \<Rightarrow> obj \<Rightarrow> jv \<Rightarrow> app_event node list" where
  "form_field h c editing form inp =
     (case input_kind_of c editing inp of
        None \<Rightarrow> []
      | Some kind \<Rightarrow> [FormField (child (oget inp ''field'')) [field_node h form (input_field inp) kind]])"

text \<open>\<open>spec?.form?.inputs || ...\<close>; inputs that are not a list have no \<open>map\<close>.\<close>

definition inputs_list :: "collection \<Rightarrow> jv" where
  "inputs_list c =
     (let inputs = oget (oget (spec c) ''form'') ''inputs'' in if truthy inputs then inputs else JArr (form_inputs c))"

definition record_title :: "collection \<Rightarrow> bool \<Rightarrow> string" where
  "record_title c editing =
     (if editing then ''Edit '' @ collection_title c else ''New '' @ collection_title c @ '' Entry'')"

definition record_dialog :: "host \<Rightarrow> obj \<Rightarrow> collection \<Rightarrow> ex_st \<Rightarrow> app_event node list" where
  "record_dialog h form c s =
     (let editing = (editingResource s \<noteq> None) in
      Modal (isResourceModalOpen s) (ExE CancelResource) (record_title c editing)
        (each (inputs_list c) (reading ''field'' (form_field h c editing form)) @
         dialog_buttons (ExE CancelResource) (ExE ClickSaveResource) ''Save Record''))"

text \<open>A cell of the details shows JSON on several lines, and numbers as text.\<close>

definition detail_cell :: "cell \<Rightarrow> app_event node" where
  "detail_cell x = (case x of CellJson v \<Rightarrow> el ''pre'' [Text (json_text_indented v)] | _ \<Rightarrow> cell_node x)"

definition detail_row :: "collection \<Rightarrow> jv \<Rightarrow> jv \<Rightarrow> app_event node" where
  "detail_row c r f =
     el ''div''
       [el ''span'' [Text (humanizeResourceName (js_string (oget f ''name'')) None)],
        el ''span'' [detail_cell (show_cell c f r)]]"

definition association_node :: "collection \<Rightarrow> jv \<Rightarrow> jv \<Rightarrow> 'e node list" where
  "association_node c r assoc =
     [Elem ''AssociationPanel''
        [(''parentResource'', cname c), (''parentId'', row_id r), (''name'', js_string (oget assoc ''name'')),
         (''label'', js_string (js_or (oget assoc ''label'') (oget assoc ''name''))),
         (''childResource'', js_string (oget assoc ''resource''))] [] []]"

definition show_content :: "collection \<Rightarrow> jv \<Rightarrow> app_event node list" where
  "show_content c r =
     map (detail_row c r) (show_fields c) @
     each (spec_actions c ''associations'') (reading ''name'' (association_node c r)) @
     each (spec_actions c ''member_actions'') (reading ''name'' (\<lambda>act.
       [Elem ''button'' [] [onAsk (\<lambda>answer. ExE (ClickShowAction answer act))] (action_label act)])) @
     [button (ExE CloseShow) [Text ''Close'']]"

definition show_dialog :: "collection \<Rightarrow> ex_st \<Rightarrow> app_event node list" where
  "show_dialog c s =
     Modal (isShowModalOpen s) (ExE CloseShow) (collection_title c @ '' Details'')
       (and_show (showingResource s) (show_content c (showingResource s)))"

definition dialogs :: "host \<Rightarrow> app_ctx \<Rightarrow> app_event node list" where
  "dialogs h c =
     (let b = slice c; coll = activeCollection (selectedCollectionId (nav c)) (ex_part b) in
      admin_dialog (formData c) (admin_part b) @
      record_dialog h (formData c) coll (ex_part b) @
      show_dialog coll (ex_part b) @
      user_dialog (formData c) (user_part b) @
      flag_dialog (formData c) (flag_part b))"

section \<open>One click, one handler\<close>

lemma dialog_parts_one [simp]:
  "one_handler (form_input t f k e)" "one_handler (field_node h f k kind)" "one_handlers (dialog_buttons x y l)"
  "one_handler (detail_row c r fd)"
  by (auto simp: form_input_def field_node_def dialog_buttons_def detail_row_def detail_cell_def
      split: input_kind.splits cell.splits)

lemma one_handlers_Modal_cases: "one_handlers cs \<Longrightarrow> one_handlers (Modal b e t cs)"
  by simp

lemma dialogs_one [simp]: "one_handlers (dialogs h c)"
  by (auto simp: dialogs_def admin_dialog_def record_dialog_def show_dialog_def show_content_def association_node_def
      user_dialog_def flag_dialog_def form_field_def action_label_def Let_def split: option.splits)

end
