(* ===== verification/ConsoleView.thy ===== *)
theory ConsoleView
  imports PageUsers PageFlags PageTelemetry PageResources PageFeatures PageSettings Dialogs PagePanels
begin

text \<open>
  What App.tsx renders as a whole: the gate, the sidebar, the header, the page and the dialogues.
\<close>

section \<open>The gate\<close>

definition loading_screen :: "app_event node list" where
  "loading_screen = [el ''div'' [Text ''Loading Admin Console...'']]"

definition login_screen :: "string option \<Rightarrow> app_event node list" where
  "login_screen msg =
     [el ''h1'' [Text ''BFFX Console''], el ''p'' [Text ''Sign in to control room''],
      Elem ''form'' [] [Submit (SessionE SubmitLogin)]
        ([el ''label'' [Text ''Username''],
          input [(''type'', ''text''), (''required'', ''true'')] [Change (\<lambda>v. SessionE (TypeLogin ''username'' v))],
          el ''label'' [Text ''Password''],
          input [(''type'', ''password''), (''required'', ''true'')] [Change (\<lambda>v. SessionE (TypeLogin ''password'' v))]] @
         error_note [] msg @
         [Elem ''button'' [(''type'', ''submit'')] [] [Text ''Access Dashboard'']])]"

section \<open>The shell\<close>

definition nav_icon_name :: "nav_icon \<Rightarrow> string" where
  "nav_icon_name i =
     (case i of LayoutDashboard \<Rightarrow> ''LayoutDashboard'' | UsersIcon \<Rightarrow> ''Users'' | FlagIcon \<Rightarrow> ''Flag''
      | ActivityIcon \<Rightarrow> ''Activity'' | BellIcon \<Rightarrow> ''Bell'' | LayersIcon \<Rightarrow> ''Layers'' | ComponentIcon \<Rightarrow> ''Component''
      | MonitorIcon \<Rightarrow> ''Monitor'' | SettingsIcon \<Rightarrow> ''Settings'' | BookOpenIcon \<Rightarrow> ''BookOpen'' | DatabaseIcon \<Rightarrow> ''Database'')"

fun nav_tree :: "nav_node \<Rightarrow> app_event node list" where
  "nav_tree (NavLeaf item i active call) =
     [SidebarItem (nav_icon_name i) (mlabel item) active (ShellE (ClickMenu item))]"
| "nav_tree (NavGroup label depth ns) = el ''p'' [Text label] # concat (map nav_tree ns)"

definition nav_panel :: "app_ctx \<Rightarrow> app_event node list" where
  "nav_panel c =
     (let config = adminConfig (ex_part (slice c)) in
      case AdminNav (config_menu config) (config_features config) (providers (tel_part (slice c))) (nav c) of
        None \<Rightarrow> []
      | Some (heading, ns) \<Rightarrow> el ''p'' [Text heading] # concat (map nav_tree ns))"

definition site_title :: "jv \<Rightarrow> jv" where
  "site_title config = js_or (oget (oget config ''site'') ''title'') (JStr ''Obsidian'')"

definition sidebar :: "app_ctx \<Rightarrow> app_event node list" where
  "sidebar c =
     [icon ''Server'', el ''h1'' (child (site_title (adminConfig (ex_part (slice c))))), el ''p'' [Text ''Backend Console'']] @
     nav_panel c @
     [icon ''img'', el ''p'' [Text ''Admin User''], el ''p'' [Text ''System Root''],
      Elem ''LogOut'' [] [onClick (SessionE PressLogout)] []]"

text \<open>\<open>activePage.replace('-', ' ')\<close> replaces the first dash.\<close>

fun replace_dash :: "string \<Rightarrow> string" where
  "replace_dash [] = []"
| "replace_dash (x # xs) = (if x = CHR ''-'' then CHR '' '' # xs else x # replace_dash xs)"

definition header_button :: "app_ctx \<Rightarrow> string \<Rightarrow> shell_event \<Rightarrow> string \<Rightarrow> string \<Rightarrow> app_event node" where
  "header_button c pg e title ic =
     Elem ''button'' [(''type'', ''button''), (''title'', title), (''class'', if on_page pg c then ''text-blue-400'' else ''text-[#8c90a1]'')]
       [onClick (ShellE e)] [icon ic]"

definition theme_switch :: "string \<Rightarrow> app_event node" where
  "theme_switch th =
     Elem ''button'' [(''title'', if th = ''dark'' then ''Switch to Light Mode'' else ''Switch to Dark Mode'')]
       [onClick (ShellE ToggleTheme)] [icon (if th = ''dark'' then ''Sun'' else ''Moon'')]"

definition top_bar :: "app_ctx \<Rightarrow> app_event node list" where
  "top_bar c =
     [dead_button [icon ''Database''], el ''span'' [Text (replace_dash (activePage (nav c)))],
      el ''span'' [Text ''/''], el ''span'' [Text ''Live''], icon ''Search'',
      input [(''type'', ''text''), (''value'', search (user_part (slice c)))] [Change (\<lambda>v. ShellE (GlobalSearch v))],
      theme_switch (theme (slice c)),
      header_button c ''alerts'' OpenAlerts ''Alerts'' ''Bell'',
      header_button c ''system-settings'' OpenSystemSettings ''System settings'' ''Settings'']"

section \<open>The page\<close>

definition api_docs_page :: "host \<Rightarrow> string \<Rightarrow> app_event node list" where
  "api_docs_page h assetBase =
     [PageHeader ''API Reference'' ''Interactive OpenAPI explorer for this project (development only).'' [],
      Elem ''ApiDocsPanel'' [(''assetBase'', assetBase), (''specUrl'', admin_api h @ ''/docs/openapi.json'')] [] []]"

definition guide_page :: "host \<Rightarrow> app_event node list" where
  "guide_page h =
     [PageHeader ''BFFX Guide'' ''Bundled framework documentation from .bffx/docs/ (development only).'' [],
      Elem ''BffxDocsPanel'' [(''adminApiUrl'', admin_api h)] [] []]"

definition PAGES :: "string list" where
  "PAGES = [''dashboard'', ''users'', ''feature-flags'', ''performance'', ''alerts'', ''resources'', ''app-features'',
     ''app-settings'', ''system-settings'', ''api-docs'', ''bffx-docs'']"

text \<open>The pages stand side by side, each behind its own test of \<open>activePage\<close>.\<close>

definition page_part :: "host \<Rightarrow> string \<Rightarrow> app_ctx \<Rightarrow> string \<Rightarrow> app_event node list" where
  "page_part h assetBase c p =
     (let b = slice c in
      if p = ''dashboard'' then dashboard_page h (tel_part b)
      else if p = ''users'' then users_page h (user_part b)
      else if p = ''feature-flags'' then flags_page (flag_part b)
      else if p = ''performance'' then performance_page (tel_part b)
      else if p = ''alerts'' then alerts_page (tel_part b)
      else if p = ''resources'' then resources_page (selectedCollectionId (nav c)) (ex_part b)
      else if p = ''app-features'' then
        features_page h (nav c) (isSelectedFeaturePinned (zoom_in ex_part c)) (feat_part b)
      else if p = ''app-settings'' then app_settings_page (ops_part b)
      else if p = ''system-settings'' then system_settings_page h (ops_part b) (admin_part b)
      else if p = ''api-docs'' then api_docs_page h assetBase
      else guide_page h)"

definition page_content :: "host \<Rightarrow> string \<Rightarrow> app_ctx \<Rightarrow> app_event node list" where
  "page_content h assetBase c =
     concat (map (\<lambda>p. if_show (activePage (nav c) = p) (page_part h assetBase c p)) PAGES)"

definition console :: "host \<Rightarrow> string \<Rightarrow> app_ctx \<Rightarrow> app_event node list" where
  "console h assetBase c = sidebar c @ top_bar c @ page_content h assetBase c @ dialogs h c"

text \<open>
  The component: the list of users is filtered before the gate is looked at, so that a throw
  there takes the login form away as well.
\<close>

definition App :: "host \<Rightarrow> string \<Rightarrow> app_ctx \<Rightarrow> app_event node list" where
  "App h assetBase c =
     shown_res (\<lambda>_. case gate c of
         LoadingView \<Rightarrow> loading_screen
       | LoginView msg \<Rightarrow> login_screen msg
       | ConsoleView \<Rightarrow> console h assetBase c)
       (filteredUsers (user_part (slice c)))"

lemma page_content_simp:
  "page_content h a c = (if activePage (nav c) \<in> set PAGES then page_part h a c (activePage (nav c)) else [])"
  by (auto simp: page_content_def PAGES_def if_show_def)

section \<open>One click, one handler\<close>

lemma nav_tree_one [simp]: "one_handlers (nav_tree n)"
  by (induction n rule: nav_tree.induct) auto

lemma shell_one [simp]: "one_handlers (sidebar c)" "one_handlers (top_bar c)" "one_handlers (login_screen e)"
    "one_handlers loading_screen"
  by (auto simp: sidebar_def nav_panel_def top_bar_def header_button_def theme_switch_def login_screen_def loading_screen_def
      Let_def split: option.splits)

lemma page_part_one [simp]: "one_handlers (page_part h a c p)"
  by (simp add: page_part_def api_docs_page_def guide_page_def Let_def)

lemma App_one: "one_handlers (App h a c)"
  by (auto simp: App_def console_def page_content_simp split: sum.splits screen_view.splits)

end
