(* ===== verification/ViewEvents.thy ===== *)
theory ViewEvents
  imports ConsoleView
begin

text \<open>
  The events of the rendered tree, page by page: the run model offers the events of the page,
  and the page has the events the run model offers.
\<close>

section \<open>The shell\<close>

lemma nav_tree_events [simp]: "events_of (nav_tree n) = (\<lambda>i. ShellE (ClickMenu i)) ` set (node_leaves n)"
proof (induction n rule: nav_tree.induct)
  case (2 label depth ns)
  then show ?case by (auto simp: shown_items_def)
qed simp

lemma nav_panel_events: "events_of (nav_panel c) = (\<lambda>i. ShellE (ClickMenu i)) ` set (sidebar_items c)"
  by (auto simp: nav_panel_def sidebar_items_def shown_items_def Let_def split: option.splits)

lemma sidebar_events: "events_of (sidebar c) = insert (SessionE PressLogout) ((\<lambda>i. ShellE (ClickMenu i)) ` set (sidebar_items c))"
  by (auto simp: sidebar_def nav_panel_events own_events_def)

lemma top_bar_events:
  "events_of (top_bar c) = {ShellE ToggleTheme, ShellE OpenAlerts, ShellE OpenSystemSettings} \<union> range (\<lambda>v. ShellE (GlobalSearch v))"
  by (auto simp: top_bar_def header_button_def theme_switch_def own_events_def)

lemma login_screen_events:
  "events_of (login_screen msg) =
     insert (SessionE SubmitLogin) (range (\<lambda>v. SessionE (TypeLogin ''username'' v)) \<union> range (\<lambda>v. SessionE (TypeLogin ''password'' v)))"
  by (auto simp: login_screen_def error_note_def own_events_def split: option.splits)

section \<open>Settings\<close>

lemma tab_events:
  "events_of (map (tab_button cur e) tabs) = e ` fst ` set tabs"
  by (force simp: tab_button_def own_events_def split: prod.splits)

lemma setting_controls_events [simp]:
  "events (setting_input s k) = range (\<lambda>v. OpsE (TypeSetting k v))"
  "events (setting_switch s k on) = {OpsE (FlipSetting k)}"
  "events (theme_button s t) = {OpsE (TypeSetting ''theme_override'' t)}"
  by (auto simp: setting_input_def setting_switch_def theme_button_def own_events_def)

lemma general_tab_events:
  "events_of (general_tab s) =
     {OpsE (TypeSetting k v) | k v. setting_typed ''general'' k v} \<union> {OpsE (FlipSetting k) | k. setting_flipped ''general'' k}"
  by (auto simp: general_tab_def service_switch_def SERVICE_SWITCHES_def setting_typed_def setting_flipped_def own_events_def)

lemma onboarding_tab_events:
  "events_of (onboarding_tab s) =
     {OpsE (TypeSetting k v) | k v. setting_typed ''onboarding'' k v} \<union> {OpsE (FlipSetting k) | k. setting_flipped ''onboarding'' k}"
  by (auto simp: onboarding_tab_def setting_typed_def setting_flipped_def own_events_def)

lemma auth_tab_events:
  "events_of (auth_tab s) =
     {OpsE (TypeSetting k v) | k v. setting_typed ''auth'' k v} \<union> {OpsE (FlipSetting k) | k. setting_flipped ''auth'' k}"
  by (auto simp: auth_tab_def setting_typed_def setting_flipped_def own_events_def)

lemma other_tab_settings:
  "setting_typed t k v \<Longrightarrow> t = ''general'' \<or> t = ''onboarding''"
  "setting_flipped t k \<Longrightarrow> t = ''general'' \<or> t = ''auth''"
  by (auto simp: setting_typed_def setting_flipped_def)

lemma app_settings_events:
  "events_of (app_settings_page s) =
     (\<lambda>t. OpsE (AppTab t)) ` {''general'', ''onboarding'', ''auth''} \<union> {OpsE Deploy} \<union>
     {OpsE (TypeSetting k v) | k v. setting_typed (appSubTab s) k v} \<union> {OpsE (FlipSetting k) | k. setting_flipped (appSubTab s) k}"
  by (cases "appSubTab s \<in> {''general'', ''onboarding'', ''auth''}")
    (auto simp: app_settings_page_def general_tab_events onboarding_tab_events auth_tab_events APP_TABS_def
      tab_button_def own_events_def dest: other_tab_settings)

lemma admins_tab_events:
  "events_of (admins_tab a) =
     {AdminE ClickGrant} \<union> AdminE ` ClickEditAdmin ` set (adminUsers a) \<union>
     {AdminE (ClickRevoke answer adm) | answer adm. adm \<in> set (adminUsers a)}"
  by (auto simp: admins_tab_def header_row_def admin_row_def own_events_def)

lemma jobs_tab_events:
  "events_of (jobs_tab h s) =
     {OpsE RefreshJobs} \<union>
     {OpsE (ClickRetry (oget job ''id'')) | job. job \<in> set (jobs s) \<and> (\<exists>row. job_row_of h job = Inr row \<and> RetryButton \<in> set (jr_buttons row))} \<union>
     {OpsE (ClickCancelJob (oget job ''id'')) | job. job \<in> set (jobs s) \<and> (\<exists>row. job_row_of h job = Inr row \<and> CancelButton \<in> set (jr_buttons row))}"
proof -
  have btn: "events (job_button_node job b) =
      {case b of RetryButton \<Rightarrow> OpsE (ClickRetry (oget job ''id'')) | CancelButton \<Rightarrow> OpsE (ClickCancelJob (oget job ''id''))}" for job b
    by (cases b) (simp_all add: job_button_node_def own_events_def)
  have row: "events (job_node job r) = (\<Union>b\<in>set (jr_buttons r). events (job_button_node job b))" for job r
    by (simp add: job_node_def job_outcome_def)
  have each: "events_of (shown_res (\<lambda>r. [job_node job r]) (job_row_of h job)) =
      {OpsE (ClickRetry (oget job ''id'')) | r. job_row_of h job = Inr r \<and> RetryButton \<in> set (jr_buttons r)} \<union>
      {OpsE (ClickCancelJob (oget job ''id'')) | r. job_row_of h job = Inr r \<and> CancelButton \<in> set (jr_buttons r)}" for job
    by (auto simp: row btn split: sum.splits job_button.splits) (metis job_button.exhaust)+
  show ?thesis
    by (auto simp: jobs_tab_def header_row_def each own_events_def simp del: shown_res_simps)
qed

lemma system_settings_events:
  "events_of (system_settings_page h s a) =
     (\<lambda>t. OpsE (SystemTab t)) ` {''keys'', ''admins'', ''workers'', ''jobs'', ''security''} \<union>
     (if systemSubTab s = ''admins'' then events_of (admins_tab a) else {}) \<union>
     (if systemSubTab s = ''jobs'' then events_of (jobs_tab h s) else {})"
  by (auto simp: system_settings_page_def SYSTEM_TABS_def tab_button_def own_events_def)

section \<open>The resource explorer\<close>

lemma labels_events [simp]: "events_of (action_label act) = {}" "events_of (sort_marks f q) = {}"
  by (auto simp: action_label_def sort_marks_def)

lemma explorer_actions_events:
  "\<not> crashed (explorer_actions c) \<Longrightarrow>
   events_of (explorer_actions c) =
     {ExE (ClickCollectionAction b act) | b act. act \<in> set (arr_items (spec_actions c ''collection_actions''))} \<union>
     {ExE ClickPin, ExE ClickNewEntry}"
  by (auto simp: explorer_actions_def own_events_def)

lemma scope_tabs_events:
  "\<not> crashed (scope_tabs c q) \<Longrightarrow>
   events_of (scope_tabs c q) =
     {ExE (ClickScope (js_string (oget sc ''name''))) | sc. has_items (scope_list c) \<and> sc \<in> set (arr_items (scope_list c))}"
  by (auto simp: scope_tabs_def own_events_def)

lemma collections_sidebar_events: "events_of (collections_sidebar sel cs) = ExE ` ClickCollection ` cid ` set cs"
  by (auto simp: collections_sidebar_def own_events_def)

lemma table_bar_events:
  "\<not> crashed (table_bar c s) \<Longrightarrow>
   events_of (table_bar c s) =
     (if selectedRowIds s \<noteq> []
      then insert (ExE CancelSelection) {ExE (ClickBatchAction b act) | b act. act \<in> set (arr_items (spec_actions c ''batch_actions''))}
      else (if stringFilter c \<noteq> None then range (\<lambda>v. ExE (TypeSearch v)) else {}) \<union>
           (if has_items (filter_list c) then {ExE ToggleFilters} else {}))"
  by (auto simp: table_bar_def batch_bar_def search_bar_def own_events_def)

lemma table_header_events:
  "events (table_header c s) =
     (if truthy (selectable c) then range (\<lambda>b. ExE (CheckAll b)) else {}) \<union>
     ExE ` ClickSort ` insert ''id'' ((\<lambda>x. js_string (oget x ''name'')) ` set (visibleFields c))"
  by (auto simp: table_header_def select_all_header_def sort_header_def checked_if_def own_events_def Let_def)

lemma cell_node_events:
  "events (cell_node x) = (case x of CellLink target i \<Rightarrow> if i = [] then {} else {ExE (ClickRelated target i)} | _ \<Rightarrow> {})"
  by (auto simp: cell_node_def link_node_def RelationLink_def own_events_def split: cell.splits option.splits)

lemma table_row_events:
  "\<not> crashes (table_row c s row) \<Longrightarrow>
   events (table_row c s row) =
     (if truthy (selectable c) then range (\<lambda>b. ExE (CheckRow row b)) else {}) \<union>
     {ExE (ClickRelated target i) | target i f. f \<in> set (visibleFields c) \<and> table_cell c f row = CellLink target i \<and> i \<noteq> []} \<union>
     {ExE (ClickMemberAction b act (oget row ''id'')) | b act. act \<in> set (arr_items (spec_actions c ''member_actions''))} \<union>
     {ExE (ClickShowRow row), ExE (ClickEditRow row)} \<union> range (\<lambda>b. ExE (ClickDeleteRow b row))"
  by (auto simp: table_row_def row_checkbox_def row_actions_def cell_node_events checked_if_def own_events_def
      split: cell.splits if_splits)

lemma pager_buttons_events:
  "events_of (pager_buttons tot q) =
     {e. 1 < totalPages tot (perPage q) \<and>
        (e = ExE ClickPrev \<and> 1 < page q \<or> e = ExE ClickNext \<and> page q < totalPages tot (perPage q) \<or>
         e \<in> ExE ` ClickPage ` set (pageNumbers tot q))}"
  by (auto simp: pager_buttons_def own_events_def Let_def)

lemma per_page_parse: "n \<in> set PER_PAGE \<Longrightarrow> parseInt (int_string n) = Some n"
proof -
  have "list_all (\<lambda>n. parseInt (int_string n) = Some n) PER_PAGE" by code_simp
  then show "n \<in> set PER_PAGE \<Longrightarrow> parseInt (int_string n) = Some n" by (simp add: list_all_iff)
qed

lemma pager_events:
  "events_of (pager tot q) = ExE ` PickPerPage ` set PER_PAGE \<union> events_of (pager_buttons tot q)"
  by (auto simp: pager_def own_events_def per_page_parse image_image)

lemma records_table_events:
  "\<not> crashed (records_table c s) \<Longrightarrow>
   events_of (records_table c s) = events (table_header c s) \<union> (\<Union>row\<in>set (rows c). events (table_row c s row))"
  by (auto simp: records_table_def)

lemma select_options_values:
  "filter_inputs f = Some (l, SelectFilter k vs) \<Longrightarrow> map fst (select_options f vs) = vs"
  by (auto simp: filter_inputs_def select_options_def Let_def o_def split: if_splits)

lemma filter_node_events: "events_of (filter_node s f) = {ExE (TypeFilter k v) | k v. filter_typed f k v}"
proof (cases "filter_inputs f")
  case (Some li)
  obtain l i where li: "li = (l, i)" by (cases li)
  show ?thesis
  proof (cases i)
    case (SelectFilter k vs)
    with Some li have "fst ` set (select_options f vs) = set vs"
      using select_options_values by (metis list.set_map)
    with SelectFilter Some li show ?thesis
      by (auto simp: filter_node_def filter_typed_def own_events_def image_iff)
  qed (use Some li in \<open>auto simp: filter_node_def filter_typed_def own_events_def\<close>)
qed (simp add: filter_node_def filter_typed_def)

lemma filter_drawer_events:
  "\<not> crashed (filter_drawer c s) \<Longrightarrow>
   events_of (filter_drawer c s) =
     {e. isFilterSidebarOpen s \<and> has_items (filter_list c) \<and>
        (e \<in> {ExE CloseFilters, ExE ApplyFilters, ExE ResetFilters} \<or>
         (\<exists>f\<in>set (arr_items (filter_list c)). \<exists>k v. e = ExE (TypeFilter k v) \<and> filter_typed f k v))}"
  by (auto simp: filter_drawer_def filter_node_events own_events_def)

text \<open>What a row offers, as a set of events of the explorer.\<close>

definition row_offers :: "collection \<Rightarrow> jv \<Rightarrow> ex_event \<Rightarrow> bool" where
  "row_offers c row x =
     (case x of
        CheckRow r _ \<Rightarrow> truthy (selectable c) \<and> r = row
      | ClickRelated target i \<Rightarrow> i \<noteq> [] \<and> (\<exists>f \<in> set (visibleFields c). table_cell c f row = CellLink target i)
      | ClickMemberAction _ act i \<Rightarrow> act \<in> set (arr_items (spec_actions c ''member_actions'')) \<and> i = oget row ''id''
      | ClickShowRow r \<Rightarrow> r = row
      | ClickEditRow r \<Rightarrow> r = row
      | ClickDeleteRow _ r \<Rightarrow> r = row
      | _ \<Rightarrow> False)"

lemma table_row_offers:
  assumes "\<not> crashes (table_row c s row)"
  shows "e \<in> events (table_row c s row) \<longleftrightarrow> (\<exists>x. e = ExE x \<and> row_offers c row x)"
proof (cases "\<exists>x. e = ExE x")
  case True
  then obtain x where e: "e = ExE x" by blast
  show ?thesis unfolding table_row_events [OF assms] e
    by (cases x) (auto simp: row_offers_def)
qed (auto simp: table_row_events [OF assms])

text \<open>The parts around the table.\<close>

definition bars_offers :: "string \<Rightarrow> collection \<Rightarrow> ex_st \<Rightarrow> app_event set" where
  "bars_offers sel c s =
     events_of (explorer_actions c) \<union> events_of (scope_tabs c (query s)) \<union>
     events_of (collections_sidebar sel (collections s)) \<union> events_of (table_bar c s)"

definition foot_offers :: "collection \<Rightarrow> ex_st \<Rightarrow> app_event set" where
  "foot_offers c s =
     events (table_header c s) \<union> events_of (pager (resourceTotalCount s) (query s)) \<union> events_of (filter_drawer c s)"

lemma bars_offers_mem:
  assumes "\<not> crashed (explorer_actions c)" and "\<not> crashed (scope_tabs c (query s))" and "\<not> crashed (table_bar c s)"
  shows "e \<in> bars_offers sel c s \<longleftrightarrow>
    (\<exists>b act. e = ExE (ClickCollectionAction b act) \<and> act \<in> set (arr_items (spec_actions c ''collection_actions''))) \<or>
    e = ExE ClickPin \<or> e = ExE ClickNewEntry \<or>
    (\<exists>sc. e = ExE (ClickScope (js_string (oget sc ''name''))) \<and> has_items (scope_list c) \<and> sc \<in> set (arr_items (scope_list c))) \<or>
    (\<exists>cl \<in> set (collections s). e = ExE (ClickCollection (cid cl))) \<or>
    (e = ExE CancelSelection \<and> selectedRowIds s \<noteq> []) \<or>
    (\<exists>b act. e = ExE (ClickBatchAction b act) \<and> selectedRowIds s \<noteq> [] \<and> act \<in> set (arr_items (spec_actions c ''batch_actions''))) \<or>
    (\<exists>v. e = ExE (TypeSearch v) \<and> selectedRowIds s = [] \<and> stringFilter c \<noteq> None) \<or>
    (e = ExE ToggleFilters \<and> selectedRowIds s = [] \<and> has_items (filter_list c))"
  unfolding bars_offers_def explorer_actions_events [OF assms(1)] scope_tabs_events [OF assms(2)]
    collections_sidebar_events table_bar_events [OF assms(3)]
  by (auto split: if_splits)

lemma foot_offers_mem:
  assumes "\<not> crashed (filter_drawer c s)"
  shows "e \<in> foot_offers c s \<longleftrightarrow>
    (\<exists>b. e = ExE (CheckAll b) \<and> truthy (selectable c)) \<or>
    (\<exists>f. e = ExE (ClickSort f) \<and> (f = ''id'' \<or> f \<in> (\<lambda>x. js_string (oget x ''name'')) ` set (visibleFields c))) \<or>
    (\<exists>n \<in> set PER_PAGE. e = ExE (PickPerPage n)) \<or>
    (1 < totalPages (resourceTotalCount s) (perPage (query s)) \<and>
      (e = ExE ClickPrev \<and> 1 < page (query s) \<or>
       e = ExE ClickNext \<and> page (query s) < totalPages (resourceTotalCount s) (perPage (query s)) \<or>
       (\<exists>n \<in> set (pageNumbers (resourceTotalCount s) (query s)). e = ExE (ClickPage n)))) \<or>
    (isFilterSidebarOpen s \<and> has_items (filter_list c) \<and>
      (e \<in> {ExE CloseFilters, ExE ApplyFilters, ExE ResetFilters} \<or>
       (\<exists>f\<in>set (arr_items (filter_list c)). \<exists>k v. e = ExE (TypeFilter k v) \<and> filter_typed f k v)))"
  unfolding foot_offers_def table_header_events pager_events pager_buttons_events filter_drawer_events [OF assms]
  by (auto split: if_splits)

lemma explorer_offers_parts:
  assumes "\<not> crashed (explorer_actions c)" and "\<not> crashed (scope_tabs c (query s))" and "\<not> crashed (table_bar c s)"
    and "\<not> crashed (filter_drawer c s)"
  shows "ExE x \<in> bars_offers sel c s \<or> ExE x \<in> foot_offers c s \<or> (\<exists>row \<in> set (rows c). row_offers c row x) \<longleftrightarrow>
    explorer_offers c s x"
  by (cases x) (auto simp: bars_offers_mem [OF assms(1-3)] foot_offers_mem [OF assms(4)] row_offers_def explorer_offers_def Let_def)

lemma resources_page_events:
  assumes "\<not> crashed (resources_page sel s)"
  shows "e \<in> events_of (resources_page sel s) \<longleftrightarrow> (\<exists>x. e = ExE x \<and> explorer_offers (activeCollection sel s) s x)"
proof -
  let ?c = "activeCollection sel s"
  have parts: "\<not> crashed (explorer_actions ?c)" "\<not> crashed (scope_tabs ?c (query s))" "\<not> crashed (table_bar ?c s)"
      "\<not> crashed (records_table ?c s)" "\<not> crashed (filter_drawer ?c s)"
    using assms by (simp_all add: resources_page_def Let_def)
  have rows: "\<not> crashes (table_row ?c s row)" if "row \<in> set (rows ?c)" for row
    using parts(4) that by (auto simp: records_table_def)
  have "e \<in> events_of (resources_page sel s) \<longleftrightarrow>
      e \<in> bars_offers sel ?c s \<or> e \<in> foot_offers ?c s \<or> (\<exists>row\<in>set (rows ?c). e \<in> events (table_row ?c s row))"
    using parts(4) by (auto simp: resources_page_def Let_def records_table_events bars_offers_def foot_offers_def)
  also have "\<dots> \<longleftrightarrow> e \<in> bars_offers sel ?c s \<or> e \<in> foot_offers ?c s \<or>
      (\<exists>x. e = ExE x \<and> (\<exists>row\<in>set (rows ?c). row_offers ?c row x))"
    using rows table_row_offers by blast
  also have "\<dots> \<longleftrightarrow> (\<exists>x. e = ExE x \<and> explorer_offers ?c s x)"
  proof (cases "\<exists>x. e = ExE x")
    case True
    then show ?thesis using explorer_offers_parts [OF parts(1-3,5)] by blast
  next
    case False
    then show ?thesis by (auto simp: bars_offers_mem [OF parts(1-3)] foot_offers_mem [OF parts(5)])
  qed
  finally show ?thesis .
qed

end
