(* ===== verification/ViewFeatures.thy ===== *)
theory ViewFeatures
  imports ConsoleView
begin

text \<open>The events of the app features page and of the dialogues.\<close>

section \<open>The tree\<close>

lemma note_events [simp]: "events_of (error_note p e) = {}"
  by (auto simp: error_note_def split: option.splits)

lemma pin_control_events:
  "events_of (pin_control n pinned) = (if selectedFeatureNavPage n = None then {} else {ExE ClickFeaturePin})"
  by (auto simp: pin_control_def own_events_def split: option.splits)

lemma orphan_banner_events:
  "events_of (orphan_banner s) = (if show_orphan_banner s then {FeatE ClickDismiss} else {})"
  by (auto simp: orphan_banner_def orphan_item_def own_events_def Let_def split: if_splits)

lemma screen_item_events [simp]: "events_of (screen_item n x) = {FeatE (ClickScreen (js_string (oget x ''name'')))}"
  by (auto simp: screen_item_def own_events_def)

lemma group_block_events:
  "\<not> crashed (group_block n g) \<Longrightarrow>
   events_of (group_block n g) = (\<lambda>x. FeatE (ClickScreen (js_string (oget x ''name'')))) ` set (arr_items (oget g ''screens''))"
  by (auto simp: group_block_def)

lemma cluster_item_events:
  "\<not> crashed (cluster_item n c) \<Longrightarrow> events_of (cluster_item n c) = {FeatE (ClickCluster (js_string (oget c ''name'')))}"
  by (cases "is_array (oget c ''actions'')"; cases "list_ex is_nullish (arr_items (oget c ''actions''))")
    (auto simp: cluster_item_def own_events_def Let_def split: if_splits)

lemma tree_pane_events:
  assumes "\<not> crashed (tree_pane n s)"
  shows "events_of (tree_pane n s) =
     (\<lambda>x. FeatE (ClickScreen (js_string (oget x ''name'')))) ` set (all_screens (featureTree s)) \<union>
     (\<lambda>x. FeatE (ClickCluster (js_string (oget x ''name'')))) ` set (feature_clusters (featureTree s))"
proof -
  have g: "\<not> is_nullish g \<and> \<not> crashed (group_block n g)" if "g \<in> set (groups (featureTree s))" for g
    using assms that by (auto simp: tree_pane_def Let_def)
  have c: "\<not> is_nullish c \<and> \<not> crashed (cluster_item n c)" if "c \<in> set (feature_clusters (featureTree s))" for c
    using assms that by (auto simp: tree_pane_def Let_def)
  have "events_of (tree_pane n s) =
      (\<Union>g\<in>set (groups (featureTree s)). events_of (group_block n g)) \<union>
      (\<Union>c\<in>set (feature_clusters (featureTree s)). events_of (cluster_item n c))"
    using g c by (auto simp: tree_pane_def Let_def)
  also have "\<dots> = (\<Union>g\<in>set (groups (featureTree s)).
        (\<lambda>x. FeatE (ClickScreen (js_string (oget x ''name'')))) ` set (arr_items (oget g ''screens''))) \<union>
      (\<Union>c\<in>set (feature_clusters (featureTree s)). {FeatE (ClickCluster (js_string (oget c ''name'')))})"
    using g c by (simp add: group_block_events cluster_item_events)
  finally show ?thesis by (auto simp: all_screens_def)
qed

section \<open>The detail\<close>

lemma cluster_detail_events:
  assumes "\<not> crashed (cluster_detail cl k)"
  shows "events_of (cluster_detail cl k) = (\<lambda>x. FeatE (ClickScreen (js_string x))) ` set (arr_items (oget cl ''screens_using''))"
proof -
  have "events_of (cluster_detail cl k) = events_of (cluster_screens cl)"
    by (auto simp: cluster_detail_def cluster_header_def action_item_def cluster_resources_def Let_def split: if_splits)
  also have "\<dots> = (\<lambda>x. FeatE (ClickScreen (js_string x))) ` set (arr_items (oget cl ''screens_using''))"
    by (cases "oget cl ''screens_using''") (auto simp: cluster_screens_def own_events_def has_items_def Let_def)
  finally show ?thesis .
qed

lemma screen_texts_events [simp]:
  "events_of (screen_header x) = {}" "events_of (screen_lists x) = {}" "events_of (observe_panel s) = {}"
  by (auto simp: screen_header_def screen_lists_def source_item_def section_item_def observe_panel_def sample_cell_def
      Let_def split: if_splits)

abbreviation section_keys :: "jv \<Rightarrow> string set" where
  "section_keys screen \<equiv> (\<lambda>sec. js_string (oget sec ''key'')) ` set (arr_items (oget screen ''sections''))"

lemma has_items_array: "is_array v \<Longrightarrow> has_items v \<longleftrightarrow> arr_items v \<noteq> []"
  by (cases v) (auto simp: has_items_def)

lemma when_each_events:
  assumes "\<not> crashed (when_items v (ms @ each v (reading k f)))"
  shows "events_of (when_items v (ms @ each v (reading k f))) =
    (if arr_items v = [] then {} else events_of ms) \<union> (\<Union>x\<in>set (arr_items v). events_of (f x))"
proof (cases "has_items v")
  case True
  with assms have "is_array v" and "\<forall>x\<in>set (arr_items v). \<not> is_nullish x" by auto
  with assms True show ?thesis by (auto simp: has_items_array)
next
  case False
  then have "arr_items v = []" by (cases v) (auto simp: has_items_def)
  with False assms show ?thesis by simp
qed

lemma cache_panel_events:
  assumes "\<not> crashed (cache_panel screen s)"
  shows "e \<in> events_of (cache_panel screen s) \<longleftrightarrow>
    (\<exists>sec. e = FeatE (ClickFlush (js_string (oget screen ''name'')) sec) \<and> sec \<in> insert None (Some ` section_keys screen) \<and>
       \<not> flush_busy screen sec s)"
proof -
  define f where "f = (\<lambda>sec. let key = js_string (oget sec ''key'') in
      [Elem ''button'' (disabled_if (flush_busy screen (Some key) s))
         [onClick (FeatE (ClickFlush (js_string (oget screen ''name'')) (Some key)))]
         (Text ''flush '' # child (oget sec ''key''))])"
  let ?v = "oget screen ''sections''"
  have f: "events_of (f sec) = (let key = js_string (oget sec ''key'') in
      if flush_busy screen (Some key) s then {} else {FeatE (ClickFlush (js_string (oget screen ''name'')) (Some key))})" for sec
    by (simp add: f_def Let_def own_events_def)
  have "\<not> crashed (when_items ?v ([] @ each ?v (reading ''key'' f)))"
    using assms by (simp add: cache_panel_def f_def Let_def)
  from when_each_events [OF this]
  have "events_of (cache_panel screen s) =
      (if flush_busy screen None s then {} else {FeatE (ClickFlush (js_string (oget screen ''name'')) None)}) \<union>
      (\<Union>x\<in>set (arr_items ?v). events_of (f x))"
    by (simp add: cache_panel_def f_def [symmetric] own_events_def Let_def [of "js_string (oget screen ''name'')"])
  then show ?thesis by (auto simp: f Let_def split: if_splits)
qed

lemma kill_node_events:
  "events_of (kill_node h screen sec s) =
     range (\<lambda>r. FeatE (TypeReason sec r)) \<union>
     (if ks_active (kill_state screen sec) then {} else (\<lambda>v. FeatE (PickExpiry sec v)) ` fst ` set EXPIRY_OPTIONS) \<union>
     (if pending (control_of screen sec s) then {} else {FeatE (ClickKill sec)})"
  by (auto simp: kill_node_def ks_render_def own_events_def Let_def split: if_splits)

lemma kill_node_mem:
  "e \<in> events_of (kill_node h screen sec s) \<longleftrightarrow>
     (case e of
        FeatE (TypeReason k r) \<Rightarrow> k = sec
      | FeatE (PickExpiry k v) \<Rightarrow> k = sec \<and> \<not> ks_active (kill_state screen sec) \<and> v \<in> fst ` set EXPIRY_OPTIONS
      | FeatE (ClickKill k) \<Rightarrow> k = sec \<and> \<not> pending (control_of screen sec s)
      | _ \<Rightarrow> False)"
  by (auto simp: kill_node_events split: app_event.splits feat_event.splits)

lemma kill_panel_events:
  assumes "\<not> crashed (kill_panel h screen s)"
  shows "events_of (kill_panel h screen s) =
    (\<Union>sec\<in>insert None (Some ` section_keys screen). events_of (kill_node h screen sec s))"
proof -
  define f where "f = (\<lambda>sec. el ''p'' (child (oget sec ''key'')) # kill_node h screen (Some (js_string (oget sec ''key''))) s)"
  let ?v = "oget screen ''sections''"
  have f: "events_of (f sec) = events_of (kill_node h screen (Some (js_string (oget sec ''key''))) s)" for sec
    by (simp add: f_def)
  have "\<not> crashed (when_items ?v ([el ''p'' [Text ''Section Kill Switches'']] @ each ?v (reading ''key'' f)))"
    using assms by (simp add: kill_panel_def f_def)
  from when_each_events [OF this]
  show ?thesis by (simp add: kill_panel_def f_def [symmetric] f)
qed

lemma run_as_panel_events:
  "events_of (run_as_panel screen s) =
     range (\<lambda>v. FeatE (TypeRunAsUser v)) \<union> range (\<lambda>v. FeatE (TypeRunAsLocale v)) \<union>
     (if runAsLoading s then {} else {FeatE (ClickRun (js_string (oget screen ''name'')))})"
  by (auto simp: run_as_panel_def own_events_def split: if_splits)

lemma run_as_panel_mem:
  "e \<in> events_of (run_as_panel screen s) \<longleftrightarrow>
     (case e of
        FeatE (TypeRunAsUser v) \<Rightarrow> True
      | FeatE (TypeRunAsLocale v) \<Rightarrow> True
      | FeatE (ClickRun m) \<Rightarrow> m = js_string (oget screen ''name'') \<and> \<not> runAsLoading s
      | _ \<Rightarrow> False)"
  by (auto simp: run_as_panel_events split: app_event.splits feat_event.splits)

lemma screen_keys: "set (control_keys (ScreenDetail screen)) = insert None (Some ` section_keys screen)"
  by (auto simp: control_keys_def)

lemma detail_nodes_events:
  assumes "\<not> crashed (detail_nodes h n s)"
  shows "e \<in> events_of (detail_nodes h n s) \<longleftrightarrow>
    (case detail_pane n (featureTree s) of
       ClusterDetail cl _ \<Rightarrow> e \<in> (\<lambda>x. FeatE (ClickScreen (js_string x))) ` set (arr_items (oget cl ''screens_using''))
     | ScreenDetail screen \<Rightarrow>
         (\<exists>sec \<in> insert None (Some ` section_keys screen).
            e = FeatE (ClickFlush (js_string (oget screen ''name'')) sec) \<and> \<not> flush_busy screen sec s \<or>
            e \<in> events_of (kill_node h screen sec s)) \<or>
         e \<in> events_of (run_as_panel screen s)
     | NoDetail \<Rightarrow> False)"
proof (cases "detail_pane n (featureTree s)")
  case (ClusterDetail cl k)
  with assms show ?thesis by (simp add: detail_nodes_def cluster_detail_events)
next
  case (ScreenDetail screen)
  with assms have c: "\<not> crashed (cache_panel screen s)" "\<not> crashed (kill_panel h screen s)"
    by (simp_all add: detail_nodes_def screen_detail_def)
  show ?thesis
    using ScreenDetail
    by (auto simp: detail_nodes_def screen_detail_def cache_panel_events [OF c(1)] kill_panel_events [OF c(2)])
next
  case NoDetail
  then show ?thesis by (simp add: detail_nodes_def)
qed

lemma features_page_events:
  assumes "\<not> crashed (features_page h n pinned s)"
  shows "e \<in> events_of (features_page h n pinned s) \<longleftrightarrow>
    e = ExE ClickFeaturePin \<and> selectedFeatureNavPage n \<noteq> None \<or> (\<exists>x. e = FeatE x \<and> features_offers n s x)"
proof -
  have c: "\<not> crashed (tree_pane n s)" "\<not> crashed (detail_nodes h n s)"
    using assms by (simp_all add: features_page_def)
  have "e \<in> events_of (features_page h n pinned s) \<longleftrightarrow>
      e \<in> events_of (pin_control n pinned) \<or> e \<in> events_of (orphan_banner s) \<or> e \<in> events_of (tree_pane n s) \<or>
      e \<in> events_of (detail_nodes h n s)"
    by (auto simp: features_page_def)
  also have "\<dots> \<longleftrightarrow> e = ExE ClickFeaturePin \<and> selectedFeatureNavPage n \<noteq> None \<or> (\<exists>x. e = FeatE x \<and> features_offers n s x)"
  proof (cases "detail_pane n (featureTree s)")
    case (ClusterDetail cl k)
    show ?thesis
      unfolding pin_control_events orphan_banner_events tree_pane_events [OF c(1)] detail_nodes_events [OF c(2)] ClusterDetail
      by (cases e; (rename_tac x, case_tac x)?)
        (auto simp: features_offers_def ClusterDetail control_keys_def Let_def)
  next
    case (ScreenDetail screen)
    show ?thesis
      unfolding pin_control_events orphan_banner_events tree_pane_events [OF c(1)] detail_nodes_events [OF c(2)] ScreenDetail
        kill_node_mem run_as_panel_mem
      by (cases e; (rename_tac x, case_tac x)?)
        (auto simp: features_offers_def ScreenDetail screen_keys pane_screen_def Let_def simp del: set_simps)
  next
    case NoDetail
    show ?thesis
      unfolding pin_control_events orphan_banner_events tree_pane_events [OF c(1)] detail_nodes_events [OF c(2)] NoDetail
      by (cases e; (rename_tac x, case_tac x)?)
        (auto simp: features_offers_def NoDetail control_keys_def Let_def)
  qed
  finally show ?thesis .
qed

end
