(* ===== verification/ViewDialogs.thy ===== *)
theory ViewDialogs
  imports ConsoleView
begin

text \<open>The events of the dialogues: those of their fields and buttons, while they are open.\<close>

section \<open>The dialogues with fixed fields\<close>

lemma form_input_events [simp]: "events (form_input t f k e) = range e"
  by (auto simp: form_input_def own_events_def)

lemma option_events [simp]: "events (case p of (v, l) \<Rightarrow> Elem ''option'' [(''value'', v)] [] [Text l]) = {}"
  by (simp split: prod.split)

lemma dialog_buttons_events [simp]: "events_of (dialog_buttons x y l) = {x, y}"
  by (auto simp: dialog_buttons_def own_events_def)

lemma same_options_values [simp]: "fst ` set (same_options vs) = set vs"
  by (force simp: same_options_def)

lemma admin_dialog_events:
  "e \<in> events_of (admin_dialog form s) \<longleftrightarrow> isAdminModalOpen s \<and>
     (case e of
        AdminE (TypeAdmin k v) \<Rightarrow> k \<in> {''name'', ''email''} \<or> k = ''tier'' \<and> (v = [] \<or> v \<in> set TIERS)
      | AdminE CancelAdmin \<Rightarrow> True
      | AdminE ClickSaveAdmin \<Rightarrow> True
      | _ \<Rightarrow> False)"
  by (cases e; (rename_tac x, case_tac x)?)
    (auto simp: admin_dialog_def own_events_def)

lemma user_dialog_events:
  "e \<in> events_of (user_dialog form s) \<longleftrightarrow> isUserModalOpen s \<and>
     (case e of
        UserE (TypeUser k v) \<Rightarrow> k \<in> {''name'', ''email''} \<or> k = ''role'' \<and> v \<in> set ROLES \<or> k = ''status'' \<and> v \<in> set STATUSES
      | UserE CancelUser \<Rightarrow> True
      | UserE ClickSaveUser \<Rightarrow> True
      | _ \<Rightarrow> False)"
  by (cases e; (rename_tac x, case_tac x)?)
    (auto simp: user_dialog_def own_events_def)

lemma flag_dialog_events:
  "e \<in> events_of (flag_dialog form s) \<longleftrightarrow> isFlagModalOpen s \<and>
     (case e of
        FlagE (TypeFlag k v) \<Rightarrow> k \<in> {''key'', ''description''} \<or> k = ''environment'' \<and> v \<in> set ENVIRONMENTS
      | FlagE CancelFlag \<Rightarrow> True
      | FlagE ClickSaveFlag \<Rightarrow> True
      | _ \<Rightarrow> False)"
  by (cases e; (rename_tac x, case_tac x)?)
    (auto simp: flag_dialog_def own_events_def)

section \<open>The dialogues of the explorer\<close>

lemma field_node_events:
  "events (field_node h form k kind) =
     field_change h k kind `
       (case kind of SelectInput vs \<Rightarrow> set vs | BoolInput \<Rightarrow> {[], ''true'', ''false''} | _ \<Rightarrow> UNIV)"
  by (auto simp: field_node_def own_events_def image_image split: input_kind.splits)

lemma field_change_offered:
  assumes "v \<in> (case kind of SelectInput vs \<Rightarrow> set vs | BoolInput \<Rightarrow> {[], ''true'', ''false''} | _ \<Rightarrow> UNIV)"
  shows "value_typed kind (input_value kind v p)"
  using assms by (auto simp: value_typed_def input_value_def split: input_kind.splits)

lemma inputs_list_items [simp]: "arr_items (inputs_list c) = form_inputs c"
  by (simp add: inputs_list_def form_inputs_def Let_def)

lemma record_dialog_fields:
  assumes "\<not> crashed (record_dialog h form c s)" and "isResourceModalOpen s"
  shows "events_of (record_dialog h form c s) = {ExE CancelResource, ExE ClickSaveResource} \<union>
    (\<Union>inp\<in>set (form_inputs c). events_of (form_field h c (editingResource s \<noteq> None) form inp))"
  using assms by (auto simp: record_dialog_def Let_def)

lemma record_dialog_offered:
  assumes "\<not> crashed (record_dialog h form c s)" and "e \<in> events_of (record_dialog h form c s)"
  shows "\<exists>x. e = ExE x \<and> record_form_offers c s x"
proof -
  have o_p: "isResourceModalOpen s"
    using assms(2) by (auto simp: record_dialog_def Let_def split: if_splits)
  from assms(2) consider "e = ExE CancelResource" | "e = ExE ClickSaveResource"
    | inp where "inp \<in> set (form_inputs c)" "e \<in> events_of (form_field h c (editingResource s \<noteq> None) form inp)"
    by (auto simp: record_dialog_fields [OF assms(1) o_p])
  then show ?thesis
  proof cases
    case 3
    then obtain kind v where k: "input_kind_of c (editingResource s \<noteq> None) inp = Some kind"
        and e: "e = field_change h (input_field inp) kind v"
        and v: "v \<in> (case kind of SelectInput vs \<Rightarrow> set vs | BoolInput \<Rightarrow> {[], ''true'', ''false''} | _ \<Rightarrow> UNIV)"
      by (auto simp: form_field_def field_node_events split: option.splits)
    have "record_form_offers c s (TypeField (input_field inp) (input_value kind v (parse_json h v)))"
      using 3(1) k field_change_offered [OF v] o_p by (auto simp: record_form_offers_def)
    with e show ?thesis by (auto simp: field_change_def)
  qed (auto simp: record_form_offers_def o_p)
qed

lemma record_dialog_has:
  assumes "\<not> crashed (record_dialog h form c s)" and "record_form_offers c s x" and "\<forall>k v. x \<noteq> TypeField k v"
  shows "ExE x \<in> events_of (record_dialog h form c s)"
proof -
  have "x \<in> {CancelResource, ClickSaveResource} \<and> isResourceModalOpen s"
    using assms(2,3) by (auto simp: record_form_offers_def split: ex_event.splits)
  then show ?thesis using record_dialog_fields [OF assms(1)] by auto
qed

lemma detail_row_events:
  "events (detail_row c r f) =
     (case show_cell c f r of CellLink target i \<Rightarrow> if i = [] then {} else {ExE (ClickRelated target i)} | _ \<Rightarrow> {})"
  by (auto simp: detail_row_def detail_cell_def cell_node_def link_node_def RelationLink_def own_events_def
      split: cell.splits option.splits)

lemma association_node_events [simp]: "events_of (association_node c r a) = {}"
  by (simp add: association_node_def)

lemma show_content_events:
  assumes "\<not> crashed (show_content c r)"
  shows "e \<in> events_of (show_content c r) \<longleftrightarrow>
    (\<exists>f \<in> set (show_fields c). e \<in> events (detail_row c r f)) \<or>
    (\<exists>act \<in> set (arr_items (spec_actions c ''member_actions'')). \<exists>b. e = ExE (ClickShowAction b act)) \<or> e = ExE CloseShow"
proof -
  have "ExE (ClickShowAction b act) \<in> range (\<lambda>answer. ExE (ClickShowAction answer x)) \<longleftrightarrow> act = x" for b act x
    by auto
  with assms show ?thesis
    by (cases e; (rename_tac x, case_tac x)?) (auto simp: show_content_def action_label_def own_events_def)
qed

lemma detail_row_mem:
  "e \<in> events (detail_row c r f) \<longleftrightarrow>
    (case e of ExE (ClickRelated target i) \<Rightarrow> i \<noteq> [] \<and> show_cell c f r = CellLink target i | _ \<Rightarrow> False)"
  by (cases "show_cell c f r") (auto simp: detail_row_events split: app_event.splits ex_event.splits)

lemma show_dialog_events:
  assumes "\<not> crashed (show_dialog c s)"
  shows "e \<in> events_of (show_dialog c s) \<longleftrightarrow> (\<exists>x. e = ExE x \<and> details_offers c s x)"
proof (cases "isShowModalOpen s \<and> truthy (showingResource s)")
  case True
  let ?r = "showingResource s"
  have "\<not> crashed (show_content c ?r)" using assms True by (simp add: show_dialog_def)
  note mem = show_content_events [OF this]
  from True have "e \<in> events_of (show_dialog c s) \<longleftrightarrow> e = ExE CloseShow \<or> e \<in> events_of (show_content c ?r)"
    by (simp add: show_dialog_def and_show_def)
  with True show ?thesis
    by (cases e; (rename_tac x, case_tac x)?) (simp_all add: mem detail_row_mem details_offers_def)
next
  case False
  then have "e \<in> events_of (show_dialog c s) \<longleftrightarrow> isShowModalOpen s \<and> e = ExE CloseShow"
    by (auto simp: show_dialog_def and_show_def)
  with False show ?thesis
    by (cases e; (rename_tac x, case_tac x)?) (auto simp: details_offers_def)
qed

section \<open>All of them\<close>

lemma dialogs_crashed:
  assumes "\<not> crashed (dialogs h c)"
  shows "\<not> crashed (record_dialog h (formData c) (activeCollection (selectedCollectionId (nav c)) (ex_part (slice c))) (ex_part (slice c)))"
    and "\<not> crashed (show_dialog (activeCollection (selectedCollectionId (nav c)) (ex_part (slice c))) (ex_part (slice c)))"
  using assms by (simp_all add: dialogs_def Let_def)

end
