(* ===== verification/ViewTheorems.thy ===== *)
theory ViewTheorems
  imports ViewEvents ViewFeatures ViewDialogs
begin

text \<open>
  The page against the run model: what the tree of App.tsx lets the user do is what a run may do,
  and each click does one thing.
\<close>

section \<open>The page\<close>

lemma page_crashed:
  assumes "\<not> crashed (page_content h a c)"
  shows "on_page ''resources'' c \<Longrightarrow> \<not> crashed (resources_page (selectedCollectionId (nav c)) (ex_part (slice c)))"
    and "on_page ''app-features'' c \<Longrightarrow>
      \<not> crashed (features_page h (nav c) (isSelectedFeaturePinned (zoom_in ex_part c)) (feat_part (slice c)))"
    and "on_page ''alerts'' c \<Longrightarrow> \<not> crashed (alerts_page (tel_part (slice c)))"
  using assms by (simp_all add: page_content_simp page_part_def PAGES_def on_page_def)

lemma alerts_severities:
  "\<not> crashed (alerts_page s) \<Longrightarrow> inc \<in> set (incidents s) \<Longrightarrow> \<exists>sev. severity_of inc = Inr sev"
  by (cases "severity_of inc") (auto simp: alerts_page_def split: if_splits sum.splits)

lemma alerts_page_ok_events:
  assumes "\<not> crashed (alerts_page s)"
  shows "events_of (alerts_page s) = (\<lambda>inc. ShellE (ResolveIncident (oget inc ''id''))) ` set (incidents s)"
proof -
  have "{inc \<in> set (incidents s). \<exists>sev. severity_of inc = Inr sev} = set (incidents s)"
    using alerts_severities [OF assms] by blast
  then show ?thesis by (simp add: alerts_page_events)
qed

lemma other_pages_events [simp]:
  "events_of (api_docs_page h a) = {}" "events_of (guide_page h) = {}"
  by (simp_all add: api_docs_page_def guide_page_def)

text \<open>The page shown, by the event.\<close>

lemma page_content_events:
  assumes "\<not> crashed (page_content h a c)"
  shows "e \<in> events_of (page_content h a c) \<longleftrightarrow>
    (on_page ''users'' c \<and> e \<in> events_of (users_page h (user_part (slice c)))) \<or>
    (on_page ''feature-flags'' c \<and> e \<in> events_of (flags_page (flag_part (slice c)))) \<or>
    (on_page ''alerts'' c \<and> e \<in> (\<lambda>inc. ShellE (ResolveIncident (oget inc ''id''))) ` set (incidents (tel_part (slice c)))) \<or>
    (on_page ''resources'' c \<and>
      (\<exists>x. e = ExE x \<and> explorer_offers (activeCollection (selectedCollectionId (nav c)) (ex_part (slice c))) (ex_part (slice c)) x)) \<or>
    (on_page ''app-features'' c \<and>
      (e = ExE ClickFeaturePin \<and> selectedFeatureNavPage (nav c) \<noteq> None \<or>
       (\<exists>x. e = FeatE x \<and> features_offers (nav c) (feat_part (slice c)) x))) \<or>
    (on_page ''app-settings'' c \<and> e \<in> events_of (app_settings_page (ops_part (slice c)))) \<or>
    (on_page ''system-settings'' c \<and> e \<in> events_of (system_settings_page h (ops_part (slice c)) (admin_part (slice c))))"
proof (cases "activePage (nav c) \<in> set PAGES")
  case True
  note ok = page_crashed [OF assms]
  from True have "on_page ''dashboard'' c \<or> on_page ''users'' c \<or> on_page ''feature-flags'' c \<or> on_page ''performance'' c \<or>
      on_page ''alerts'' c \<or> on_page ''resources'' c \<or> on_page ''app-features'' c \<or> on_page ''app-settings'' c \<or>
      on_page ''system-settings'' c \<or> on_page ''api-docs'' c \<or> on_page ''bffx-docs'' c"
    by (simp add: PAGES_def on_page_def)
  then show ?thesis
    using ok
    by (elim disjE)
      (simp_all add: on_page_def page_content_simp page_part_def PAGES_def alerts_page_ok_events resources_page_events
        features_page_events Let_def)
next
  case False
  then show ?thesis by (auto simp: page_content_simp PAGES_def on_page_def)
qed

section \<open>The whole console\<close>

lemma console_crashed:
  "\<not> crashed (console h a c) \<Longrightarrow> \<not> crashed (page_content h a c) \<and> \<not> crashed (dialogs h c)"
  by (simp add: console_def)

lemma console_events:
  "e \<in> events_of (console h a c) \<longleftrightarrow>
     e \<in> events_of (sidebar c) \<or> e \<in> events_of (top_bar c) \<or> e \<in> events_of (page_content h a c) \<or> e \<in> events_of (dialogs h c)"
  by (auto simp: console_def)

abbreviation shown_collection :: "app_ctx \<Rightarrow> collection" where
  "shown_collection c \<equiv> activeCollection (selectedCollectionId (nav c)) (ex_part (slice c))"

lemma dialogs_events:
  assumes "\<not> crashed (dialogs h c)"
  shows "e \<in> events_of (dialogs h c) \<longleftrightarrow>
    e \<in> events_of (admin_dialog (formData c) (admin_part (slice c))) \<or>
    e \<in> events_of (record_dialog h (formData c) (shown_collection c) (ex_part (slice c))) \<or>
    (\<exists>x. e = ExE x \<and> details_offers (shown_collection c) (ex_part (slice c)) x) \<or>
    e \<in> events_of (user_dialog (formData c) (user_part (slice c))) \<or>
    e \<in> events_of (flag_dialog (formData c) (flag_part (slice c)))"
  using show_dialog_events [OF dialogs_crashed(2) [OF assms]] by (auto simp: dialogs_def Let_def)

text \<open>Only the dialogue of the records has events of the explorer in its fields.\<close>

lemma record_dialog_only:
  assumes "\<not> crashed (dialogs h c)" and "\<forall>x. e \<noteq> ExE x"
  shows "e \<notin> events_of (record_dialog h (formData c) (shown_collection c) (ex_part (slice c)))"
  using record_dialog_offered [OF dialogs_crashed(1) [OF assms(1)]] assms(2) by blast

text \<open>Which part an event is in, by its kind.\<close>

lemma dialog_kinds:
  assumes "\<not> crashed (dialogs h c)"
  shows "SessionE q \<notin> events_of (dialogs h c)" and "ShellE r \<notin> events_of (dialogs h c)"
    and "OpsE o_e \<notin> events_of (dialogs h c)" and "FeatE f_e \<notin> events_of (dialogs h c)"
    and "UserE u \<in> events_of (dialogs h c) \<longleftrightarrow> UserE u \<in> events_of (user_dialog (formData c) (user_part (slice c)))"
    and "AdminE ad \<in> events_of (dialogs h c) \<longleftrightarrow> AdminE ad \<in> events_of (admin_dialog (formData c) (admin_part (slice c)))"
    and "FlagE fl \<in> events_of (dialogs h c) \<longleftrightarrow> FlagE fl \<in> events_of (flag_dialog (formData c) (flag_part (slice c)))"
    and "ExE x \<in> events_of (dialogs h c) \<longleftrightarrow>
      ExE x \<in> events_of (record_dialog h (formData c) (shown_collection c) (ex_part (slice c))) \<or>
      details_offers (shown_collection c) (ex_part (slice c)) x"
  using record_dialog_only [OF assms]
  by (simp_all add: dialogs_events [OF assms] user_dialog_events admin_dialog_events flag_dialog_events)

lemma users_kinds:
  "UserE u \<in> events_of (users_page h s) \<longleftrightarrow>
     (if truthy (selectedUserId s) then u = BackToDirectory
      else case filteredUsers s of
         Inl _ \<Rightarrow> False
       | Inr us \<Rightarrow> (case u of ClickNewUser \<Rightarrow> True | OpenUser v \<Rightarrow> v \<in> set us | ClickEditUser v \<Rightarrow> v \<in> set us
                    | ClickDeleteUser _ v \<Rightarrow> v \<in> set us | _ \<Rightarrow> False))"
  "e \<in> events_of (users_page h s) \<Longrightarrow> (\<exists>u. e = UserE u) \<or> (\<exists>v. e = ShellE (GlobalSearch v))"
  by (auto simp: users_page_events split: sum.splits user_event.splits if_splits)

lemma flags_kinds:
  "FlagE fl \<in> events_of (flags_page s) \<longleftrightarrow>
     (if \<not> truthy (selectedFlagId s)
      then (case fl of ClickNewFlag \<Rightarrow> True | OpenFlag f \<Rightarrow> f \<in> set (flags s) | ClickToggleFlag f \<Rightarrow> f \<in> set (flags s)
            | ClickEditFlag f \<Rightarrow> f \<in> set (flags s) | _ \<Rightarrow> False)
      else activeFlag s \<noteq> None \<and>
        (case fl of BackToFlags \<Rightarrow> True | ClickSaveTargeting \<Rightarrow> True | EditTargeting op \<Rightarrow> targeting_op_offered s op | _ \<Rightarrow> False))"
  "e \<in> events_of (flags_page s) \<Longrightarrow> \<exists>fl. e = FlagE fl"
  by (auto simp: flags_page_def flags_directory_events targeting_page_events split: option.splits flag_event.splits if_splits)

lemma app_settings_kinds:
  "OpsE x \<in> events_of (app_settings_page s) \<longleftrightarrow>
     (case x of AppTab t \<Rightarrow> t \<in> {''general'', ''onboarding'', ''auth''} | TypeSetting k v \<Rightarrow> setting_typed (appSubTab s) k v
      | FlipSetting k \<Rightarrow> setting_flipped (appSubTab s) k | Deploy \<Rightarrow> True | _ \<Rightarrow> False)"
  "e \<in> events_of (app_settings_page s) \<Longrightarrow> \<exists>x. e = OpsE x"
  by (auto simp: app_settings_events split: ops_event.splits)

definition job_offered :: "host \<Rightarrow> ops_st \<Rightarrow> job_button \<Rightarrow> jv \<Rightarrow> bool" where
  "job_offered h s b i =
     (\<exists>job \<in> set (jobs s). oget job ''id'' = i \<and>
        (case job_row_of h job of Inr row \<Rightarrow> b \<in> set (jr_buttons row) | Inl _ \<Rightarrow> False))"

lemma job_offered_iff:
  "job_offered h s b i \<longleftrightarrow>
     (\<exists>job \<in> set (jobs s). i = oget job ''id'' \<and> (\<exists>row. job_row_of h job = Inr row \<and> b \<in> set (jr_buttons row)))"
  unfolding job_offered_def by (intro bex_cong refl) (auto split: sum.splits)

lemma tabs_kinds:
  "OpsE x \<in> events_of (jobs_tab h s) \<longleftrightarrow>
     (case x of RefreshJobs \<Rightarrow> True | ClickRetry i \<Rightarrow> job_offered h s RetryButton i
      | ClickCancelJob i \<Rightarrow> job_offered h s CancelButton i | _ \<Rightarrow> False)"
  "AdminE y \<notin> events_of (jobs_tab h s)"
  "AdminE y \<in> events_of (admins_tab a) \<longleftrightarrow>
     (case y of ClickGrant \<Rightarrow> True | ClickEditAdmin u \<Rightarrow> u \<in> set (adminUsers a) | ClickRevoke _ u \<Rightarrow> u \<in> set (adminUsers a) | _ \<Rightarrow> False)"
  "OpsE x \<notin> events_of (admins_tab a)"
  by (cases x; simp add: jobs_tab_events job_offered_iff; blast)
    (simp_all add: jobs_tab_events, cases y, auto simp: admins_tab_events)

lemma system_settings_kinds:
  "OpsE x \<in> events_of (system_settings_page h s a) \<longleftrightarrow>
     (case x of SystemTab t \<Rightarrow> t \<in> {''keys'', ''admins'', ''workers'', ''jobs'', ''security''}
      | RefreshJobs \<Rightarrow> systemSubTab s = ''jobs''
      | ClickRetry i \<Rightarrow> systemSubTab s = ''jobs'' \<and> job_offered h s RetryButton i
      | ClickCancelJob i \<Rightarrow> systemSubTab s = ''jobs'' \<and> job_offered h s CancelButton i
      | _ \<Rightarrow> False)"
  "AdminE y \<in> events_of (system_settings_page h s a) \<longleftrightarrow>
     systemSubTab s = ''admins'' \<and>
     (case y of ClickGrant \<Rightarrow> True | ClickEditAdmin u \<Rightarrow> u \<in> set (adminUsers a) | ClickRevoke _ u \<Rightarrow> u \<in> set (adminUsers a) | _ \<Rightarrow> False)"
  by (auto simp: system_settings_events tabs_kinds split: ops_event.splits)

lemma system_settings_only:
  "e \<in> events_of (system_settings_page h s a) \<Longrightarrow> (\<exists>x. e = OpsE x) \<or> (\<exists>y. e = AdminE y)"
  by (auto simp: system_settings_events admins_tab_events jobs_tab_events split: if_splits)

lemma page_kinds:
  assumes "\<not> crashed (page_content h a c)"
  shows "SessionE q \<notin> events_of (page_content h a c)"
    and "ShellE r \<in> events_of (page_content h a c) \<longleftrightarrow>
      on_page ''users'' c \<and> ShellE r \<in> events_of (users_page h (user_part (slice c))) \<or>
      on_page ''alerts'' c \<and> r \<in> ResolveIncident ` (\<lambda>x. oget x ''id'') ` set (incidents (tel_part (slice c)))"
    and "UserE u \<in> events_of (page_content h a c) \<longleftrightarrow> on_page ''users'' c \<and> UserE u \<in> events_of (users_page h (user_part (slice c)))"
    and "AdminE ad \<in> events_of (page_content h a c) \<longleftrightarrow>
      on_page ''system-settings'' c \<and> AdminE ad \<in> events_of (system_settings_page h (ops_part (slice c)) (admin_part (slice c)))"
    and "FlagE fl \<in> events_of (page_content h a c) \<longleftrightarrow> on_page ''feature-flags'' c \<and> FlagE fl \<in> events_of (flags_page (flag_part (slice c)))"
    and "OpsE o_e \<in> events_of (page_content h a c) \<longleftrightarrow>
      on_page ''app-settings'' c \<and> OpsE o_e \<in> events_of (app_settings_page (ops_part (slice c))) \<or>
      on_page ''system-settings'' c \<and> OpsE o_e \<in> events_of (system_settings_page h (ops_part (slice c)) (admin_part (slice c)))"
    and "FeatE f_e \<in> events_of (page_content h a c) \<longleftrightarrow> feat_offers c f_e"
    and "ExE x \<in> events_of (page_content h a c) \<longleftrightarrow>
      on_page ''resources'' c \<and> explorer_offers (shown_collection c) (ex_part (slice c)) x \<or>
      x = ClickFeaturePin \<and> on_page ''app-features'' c \<and> selectedFeatureNavPage (nav c) \<noteq> None"
  using users_kinds(2) flags_kinds(2) app_settings_kinds(2) system_settings_only
  by (fastforce simp: page_content_events [OF assms] feat_offers_def)+

section \<open>Tree and runs\<close>

text \<open>The events of the console that a run does not have, and the reverse: none, but for the texts of a JSON field.\<close>

definition types_field :: "app_event \<Rightarrow> bool" where
  "types_field e = (case e of ExE (TypeField k v) \<Rightarrow> True | _ \<Rightarrow> False)"

lemma console_has:
  assumes "\<not> crashed (console h a c)" and "filteredUsers (user_part (slice c)) = Inr us" and "gate c = ConsoleView"
    and "\<not> types_field e"
  shows "e \<in> events_of (console h a c) \<longleftrightarrow> offered h c e"
proof -
  from console_crashed [OF assms(1)] have p: "\<not> crashed (page_content h a c)" and d: "\<not> crashed (dialogs h c)" by simp_all
  have mem: "d \<in> events_of (console h a c) \<longleftrightarrow>
      d \<in> events_of (sidebar c) \<union> events_of (top_bar c) \<or> d \<in> events_of (page_content h a c) \<or> d \<in> events_of (dialogs h c)" for d
    by (auto simp: console_events)
  show ?thesis
  proof (cases e)
    case (SessionE q)
    then show ?thesis
      by (cases q) (auto simp: mem sidebar_events top_bar_events page_kinds [OF p] dialog_kinds [OF d] offered_def session_offers_def assms(3))
  next
    case (ShellE r)
    then show ?thesis
      by (cases r) (auto simp: mem sidebar_events top_bar_events page_kinds [OF p] dialog_kinds [OF d] offered_def shell_offers_def assms(3)
          users_page_events split: if_splits sum.splits)
  next
    case (UserE u)
    then show ?thesis
      by (cases u) (auto simp: mem sidebar_events top_bar_events page_kinds [OF p] dialog_kinds [OF d] offered_def user_offers_def assms(2,3)
          users_kinds user_dialog_events Let_def)
  next
    case (AdminE ad)
    then show ?thesis
      by (cases ad) (auto simp: mem sidebar_events top_bar_events page_kinds [OF p] dialog_kinds [OF d] offered_def admin_offers_def assms(3)
          system_settings_kinds admin_dialog_events Let_def)
  next
    case (FlagE fl)
    then show ?thesis
      by (cases fl) (auto simp: mem sidebar_events top_bar_events page_kinds [OF p] dialog_kinds [OF d] offered_def flag_offers_def assms(3)
          flags_kinds flag_dialog_events Let_def)
  next
    case (OpsE o_e)
    then show ?thesis
      by (cases o_e) (auto simp: mem sidebar_events top_bar_events page_kinds [OF p] dialog_kinds [OF d] offered_def ops_offers_def assms(3)
          app_settings_kinds system_settings_kinds job_offered_def on_page_def Let_def)
  next
    case (FeatE f_e)
    then show ?thesis
      by (auto simp: mem sidebar_events top_bar_events page_kinds [OF p] dialog_kinds [OF d] offered_def assms(3))
  next
    case (ExE x)
    with assms(4) have x: "\<forall>k v. x \<noteq> TypeField k v" by (auto simp: types_field_def)
    have "ExE x \<in> events_of (record_dialog h (formData c) (shown_collection c) (ex_part (slice c))) \<longleftrightarrow>
        record_form_offers (shown_collection c) (ex_part (slice c)) x"
      using record_dialog_offered [OF dialogs_crashed(1) [OF d]] record_dialog_has [OF dialogs_crashed(1) [OF d] _ x] by blast
    then show ?thesis
      by (auto simp: ExE mem sidebar_events top_bar_events page_kinds [OF p] dialog_kinds [OF d] offered_def ex_offers_def assms(3) Let_def)
  qed
qed

lemma console_typed:
  assumes "\<not> crashed (console h a c)" and "gate c = ConsoleView" and "types_field e" and "e \<in> events_of (console h a c)"
  shows "offered h c e"
proof -
  from assms(3) obtain k v where e: "e = ExE (TypeField k v)"
    by (auto simp: types_field_def split: app_event.splits ex_event.splits)
  from console_crashed [OF assms(1)] have p: "\<not> crashed (page_content h a c)" and d: "\<not> crashed (dialogs h c)" by simp_all
  have "e \<in> events_of (record_dialog h (formData c) (shown_collection c) (ex_part (slice c)))"
    using assms(4)
    by (auto simp: e sidebar_events top_bar_events console_events page_kinds [OF p] dialog_kinds [OF d] explorer_offers_def details_offers_def Let_def)
  from record_dialog_offered [OF dialogs_crashed(1) [OF d] this] show ?thesis
    by (auto simp: e offered_def ex_offers_def assms(2) Let_def)
qed

lemma App_ok:
  assumes "\<not> crashed (App h a c)"
  obtains us where "filteredUsers (user_part (slice c)) = Inr us"
    and "App h a c = (case gate c of LoadingView \<Rightarrow> loading_screen | LoginView msg \<Rightarrow> login_screen msg | ConsoleView \<Rightarrow> console h a c)"
  using assms by (cases "filteredUsers (user_part (slice c))") (auto simp: App_def shown_res_def)

lemma App_events:
  assumes "\<not> crashed (App h a c)" and "\<not> types_field e"
  shows "e \<in> events_of (App h a c) \<longleftrightarrow> offered h c e"
proof -
  from App_ok [OF assms(1)] obtain us where us: "filteredUsers (user_part (slice c)) = Inr us"
    and App: "App h a c = (case gate c of LoadingView \<Rightarrow> loading_screen | LoginView msg \<Rightarrow> login_screen msg | ConsoleView \<Rightarrow> console h a c)"
    by blast
  show ?thesis
  proof (cases "gate c")
    case LoadingView
    then show ?thesis
      by (auto simp: App loading_screen_def offered_def session_offers_def split: app_event.splits session_event.splits)
  next
    case (LoginView msg)
    then show ?thesis
      by (auto simp: App login_screen_events offered_def session_offers_def split: app_event.splits session_event.splits)
  next
    case ConsoleView
    with console_has [OF _ us ConsoleView assms(2)] assms(1) show ?thesis by (simp add: App)
  qed
qed

lemma App_typed:
  assumes "\<not> crashed (App h a c)" and "types_field e" and "e \<in> events_of (App h a c)"
  shows "offered h c e"
proof -
  from App_ok [OF assms(1)] have
    App: "App h a c = (case gate c of LoadingView \<Rightarrow> loading_screen | LoginView msg \<Rightarrow> login_screen msg | ConsoleView \<Rightarrow> console h a c)"
    by blast
  with assms(2,3) have "gate c = ConsoleView"
    by (auto simp: loading_screen_def login_screen_events types_field_def split: screen_view.splits)
  with console_typed [OF _ this assms(2)] assms(1,3) show ?thesis by (simp add: App)
qed

end
