(* ===== verification/ViewButtons.thy ===== *)
theory ViewButtons
  imports ViewTheorems
begin

text \<open>
  The buttons of the console that have no handler: page by page, all of them. Every other button
  the pages render does something.
\<close>

section \<open>Trees\<close>

lemma dead_buttons_Elem [simp]:
  "dead_buttons (Elem t as ls cs) =
     (if t = ''button'' \<and> ls = [] \<and> (''type'', ''submit'') \<notin> set as then [concat (map text_of cs)] else []) @ dead_buttons_of cs"
  by (simp add: dead_buttons_of_def)

declare dead_buttons.simps(1) [simp del]

lemma dead_buttons_lists [simp]:
  "dead_buttons_of (map f xs) = concat (map (\<lambda>x. dead_buttons (f x)) xs)"
  "dead_buttons_of (concat nss) = concat (map dead_buttons_of nss)"
  "dead_buttons_of (if_show b ns) = (if b then dead_buttons_of ns else [])"
  "dead_buttons_of (and_show v ns) = (if truthy v then dead_buttons_of ns else [])"
  "dead_buttons_of (each v r) = concat (map (\<lambda>x. dead_buttons_of (r x)) (arr_items v))"
  "dead_buttons_of (shown_res g t) = (case t of Inl _ \<Rightarrow> [] | Inr x \<Rightarrow> dead_buttons_of (g x))"
  "dead_buttons_of (reading k r x) = (if is_nullish x then [] else dead_buttons_of (r x))"
  "dead_buttons_of (when_items v ns) = (if \<not> is_nullish v \<and> has_items v then dead_buttons_of ns else [])"
  "dead_buttons_of (when_empty v ns) = (if \<not> is_nullish v \<and> jprop v ''length'' = JNum 0 then dead_buttons_of ns else [])"
  "dead_buttons_of (show_length v) = []"
proof -
  show "dead_buttons_of (map f xs) = concat (map (\<lambda>x. dead_buttons (f x)) xs)"
    by (simp add: dead_buttons_of_def o_def)
  show c: "dead_buttons_of (concat nss) = concat (map dead_buttons_of nss)" for nss :: "'x node list list"
    by (induction nss) simp_all
  show "dead_buttons_of (each v r) = concat (map (\<lambda>x. dead_buttons_of (r x)) (arr_items v))"
    by (cases v) (simp_all add: each_def c o_def)
qed (auto simp: if_show_def and_show_def shown_res_def reading_def when_items_def when_empty_def show_length_def split: sum.splits)

text \<open>An icon has the name of its component, which is not a button.\<close>

lemma dead_widgets [simp]:
  "dead_buttons (PageHeader t d acts) = dead_buttons_of acts"
  "i \<noteq> ''button'' \<Longrightarrow> dead_buttons (StatCard ts v tr tv i) = dead_buttons_of ts"
  "i \<noteq> ''button'' \<Longrightarrow> dead_buttons (SidebarItem i l act e) = []"
  "dead_buttons (FormField ns cs) = dead_buttons_of ns @ dead_buttons_of cs"
  "dead_buttons (InfoCell l cs) = dead_buttons_of cs"
  by (simp_all add: InfoCell_def PageHeader_def StatCard_def SidebarItem_def FormField_def)

lemma concat_nils [simp]: "concat (map (\<lambda>x. []) xs) = []"
  by (induction xs) auto

section \<open>Pages\<close>

lemma dead_dashboard: "dead_buttons_of (dashboard_page h s) = [''Today'', '' Data Export'']"
  by (auto simp: dashboard_page_def configured_widgets_def metric_card_def chart_panel_def table_panel_def widget_row_def
      widget_cell_def built_in_view_def summary_cards_def ingress_panel_def latency_panel_def categories_panel_def
      push_panel_def compute_panel_def concurrency_panel_def analytics_placeholder_def placeholder_nodes_def Let_def
      split: sum.splits option.splits)

lemma dead_telemetry: "dead_buttons_of (performance_page s) = []" "dead_buttons_of (alerts_page s) = []"
  by (auto simp: performance_page_def load_chart_def telemetry_figures_def alerts_page_def incident_card_def severity_icon_def
      split: sum.splits severity.splits)

lemma dead_users:
  "filteredUsers s = Inr us \<Longrightarrow>
   dead_buttons_of (users_page h s) = [if truthy (selectedUserId s) then ''Audit Entries'' else []]"
  by (auto simp: users_page_def directory_page_def directory_row_def member_page_def profile_card_def core_metadata_def
      recent_activity_def biography_def devices_section_def device_row_def audit_section_def audit_row_def ledger_section_def
      Let_def split: sum.splits)

lemma dead_flags:
  "dead_buttons_of (flags_page s) =
     (if \<not> truthy (selectedFlagId s) then map (\<lambda>_. []) (flags s)
      else if activeFlag s = None then [] else [''Manage Segments''])"
proof -
  have "dead_buttons (flag_card f) = [[]]" for f
    by (simp add: flag_card_def)
  then show ?thesis
    by (auto simp: flags_page_def flags_directory_def no_flags_card_def targeting_page_def user_keys_editor_def
        user_key_tag_def rollout_editor_def segments_editor_def segment_tile_def environment_status_def usage_note_def
        split: option.splits)
qed

lemma dead_explorer_parts [simp]:
  "dead_buttons_of (action_label act) = []"
  "dead_buttons_of (explorer_actions c) = []"
  "dead_buttons_of (scope_tabs c q) = []"
  "dead_buttons_of (table_bar c s) = []"
  "dead_buttons (table_header c s) = []"
  "dead_buttons (cell_node x) = []"
  "dead_buttons_of (pager tot q) = []"
  "dead_buttons_of (filter_node s f) = []"
  by (auto simp: action_label_def explorer_actions_def scope_tabs_def table_bar_def batch_bar_def search_bar_def table_header_def
      select_all_header_def sort_header_def sort_marks_def cell_node_def link_node_def pager_def pager_buttons_def
      filter_node_def Let_def split: option.splits filter_input.splits cell.splits)

lemma dead_table_row [simp]: "dead_buttons (table_row c s row) = []"
  by (auto simp: table_row_def row_checkbox_def row_actions_def)

lemma dead_resources: "dead_buttons_of (resources_page sel s) = [''+ Create Collection'']"
  by (auto simp: resources_page_def collections_sidebar_def records_table_def filter_drawer_def Let_def)

lemma dead_app_settings:
  "dead_buttons_of (app_settings_page s) = (if appSubTab s = ''onboarding'' then [''Re-record Flow''] else [])"
  by (auto simp: app_settings_page_def APP_TABS_def tab_button_def general_tab_def onboarding_tab_def auth_tab_def service_switch_def
      setting_switch_def setting_input_def theme_button_def split: prod.splits)

lemma dead_system_settings:
  "dead_buttons_of (system_settings_page h s a) =
     (let t = systemSubTab s in
      if t = ''keys'' then '' Generate Key'' # map (\<lambda>_. ''Revoke'') API_KEYS
      else if t = ''workers'' then
        [''Email Delivery'', ''Image Processing'', ''Log Aggregator'', ''Push Dispatcher'', ''+ Register Worker'', '' Update Worker'']
      else if t = ''security'' then [''Whitelist'', '' Remove All Whitelisted IPs'', '' Clear System Cache'']
      else [])"
  by (auto simp: system_settings_page_def SYSTEM_TABS_def tab_button_def keys_tab_def header_row_def API_KEYS_def admins_tab_def admin_row_def
      workers_tab_def jobs_tab_def job_node_def job_outcome_def job_button_node_def security_tab_def Let_def
      split: prod.splits sum.splits job_button.splits)

lemma dead_lists [simp]:
  "dead_buttons_of (when_items v (ms @ each w f)) =
     (if \<not> is_nullish v \<and> has_items v then dead_buttons_of ms @ concat (map (\<lambda>x. dead_buttons_of (f x)) (arr_items w)) else [])"
  by simp

lemma dead_feature_parts [simp]:
  "dead_buttons_of (error_note as m) = []"
  "dead_buttons_of (pin_control n pinned) = []"
  "dead_buttons_of (orphan_banner s) = []"
  "dead_buttons_of (group_block n g) = []"
  "dead_buttons_of (cluster_item n cl) = []"
  "dead_buttons_of (cluster_detail cl k) = []"
  by (auto simp: error_note_def pin_control_def orphan_banner_def orphan_item_def group_block_def screen_item_def
      cluster_item_def cluster_detail_def cluster_header_def action_item_def cluster_resources_def cluster_screens_def
      Let_def split: option.splits)

lemma dead_screen_parts [simp]:
  "dead_buttons_of (screen_header x) = []"
  "dead_buttons_of (screen_lists x) = []"
  "dead_buttons_of (observe_panel s) = []"
  "dead_buttons_of (cache_panel x s) = []"
  "dead_buttons_of (kill_node h x sec s) = []"
  "dead_buttons_of (run_as_panel x s) = []"
  by (auto simp: screen_header_def screen_lists_def source_item_def section_item_def observe_panel_def sample_cell_def
      cache_panel_def kill_node_def ks_render_def run_as_panel_def Let_def split: option.splits)

lemma dead_features [simp]: "dead_buttons_of (features_page h n pinned s) = []"
  by (auto simp: features_page_def tree_pane_def detail_nodes_def screen_detail_def kill_panel_def Let_def
      split: feature_detail.splits)

section \<open>The shell\<close>

lemma nav_icon_names [simp]: "nav_icon_name i \<noteq> ''button''"
  by (cases i) (simp_all add: nav_icon_name_def)

lemma dead_nav_tree [simp]: "dead_buttons_of (nav_tree n) = []"
  by (induction n rule: nav_tree.induct) auto

lemma dead_shell:
  "dead_buttons_of (sidebar c) = []" "dead_buttons_of (top_bar c) = [[]]"
  by (auto simp: sidebar_def nav_panel_def top_bar_def header_button_def theme_switch_def Let_def split: option.splits)

lemma dead_Modal [simp]: "dead_buttons_of (Modal b e t cs) = (if b then dead_buttons_of cs else [])"
  by (simp add: Modal_def evaluated_def)

lemma dead_dialog_parts [simp]:
  "dead_buttons (form_input t f k e) = []" "dead_buttons_of (dialog_buttons x y l) = []"
  "dead_buttons (field_node h f k kind) = []" "dead_buttons (detail_row c r fd) = []"
  "dead_buttons_of (association_node c r a) = []"
  by (auto simp: form_input_def dialog_buttons_def field_node_def detail_row_def detail_cell_def association_node_def
      split: input_kind.splits cell.splits)

lemma dead_each_dialog [simp]:
  "dead_buttons_of (admin_dialog form sa) = []" "dead_buttons_of (user_dialog form su) = []"
  "dead_buttons_of (flag_dialog form sf) = []"
  "dead_buttons_of (form_field h c editing form inp) = []" "dead_buttons_of (record_dialog h form c s) = []"
  "dead_buttons_of (show_content c r) = []" "dead_buttons_of (show_dialog c s) = []"
  by (auto simp: admin_dialog_def user_dialog_def flag_dialog_def form_field_def record_dialog_def show_content_def
      show_dialog_def Let_def split: option.splits)

lemma dead_dialogs: "dead_buttons_of (dialogs h c) = []"
  by (simp add: dialogs_def Let_def)

text \<open>The dead buttons of the page shown, by their text; a button that is an icon only has none.\<close>

definition page_dead_buttons :: "app_ctx \<Rightarrow> string list" where
  "page_dead_buttons c =
     (let b = slice c; p = activePage (nav c); t = systemSubTab (ops_part b) in
      if p = ''dashboard'' then [''Today'', '' Data Export'']
      else if p = ''users'' then [if truthy (selectedUserId (user_part b)) then ''Audit Entries'' else []]
      else if p = ''feature-flags'' then
        (if \<not> truthy (selectedFlagId (flag_part b)) then map (\<lambda>_. []) (flags (flag_part b))
         else if activeFlag (flag_part b) = None then [] else [''Manage Segments''])
      else if p = ''resources'' then [''+ Create Collection'']
      else if p = ''app-settings'' then (if appSubTab (ops_part b) = ''onboarding'' then [''Re-record Flow''] else [])
      else if p = ''system-settings'' then
        (if t = ''keys'' then '' Generate Key'' # map (\<lambda>_. ''Revoke'') API_KEYS
         else if t = ''workers'' then
           [''Email Delivery'', ''Image Processing'', ''Log Aggregator'', ''Push Dispatcher'', ''+ Register Worker'', '' Update Worker'']
         else if t = ''security'' then [''Whitelist'', '' Remove All Whitelisted IPs'', '' Clear System Cache'']
         else [])
      else [])"

lemma dead_page:
  assumes "filteredUsers (user_part (slice c)) = Inr us"
  shows "dead_buttons_of (page_content h a c) = page_dead_buttons c"
  by (simp add: page_content_simp page_part_def page_dead_buttons_def PAGES_def dead_dashboard dead_telemetry
      dead_users [OF assms] dead_flags dead_resources dead_app_settings dead_system_settings api_docs_page_def guide_page_def
      Let_def)

end
