(* ===== verification/ViewProperties.thy ===== *)
theory ViewProperties
  imports ViewButtons
begin

text \<open>The properties of the rendered console.\<close>

section \<open>What the page lets the user do\<close>

text \<open>A signed-in console on a page.\<close>

definition signed_in :: "string \<Rightarrow> app_ctx" where
  "signed_in p =
     (app_initial 0)\<lparr>isAuthenticated := True,
       nav := (nav (app_initial 0))\<lparr>activePage := p\<rparr>,
       slice := (slice (app_initial 0))\<lparr>session_part := session_initial\<lparr>authChecked := True\<rparr>\<rparr>\<rparr>"

lemma signed_in_gate [simp]: "gate (signed_in p) = ConsoleView"
  by (simp add: signed_in_def gate_def gate_view_def)

lemma signed_in_fields [simp]:
  "filteredUsers (user_part (slice (signed_in p))) = Inr []" "activePage (nav (signed_in p)) = p"
  by (simp_all add: filteredUsers_def signed_in_def app_initial_def user_initial_def)

text \<open>
  C3. The page is the run model. Unless rendering throws, the controls the console shows are
  exactly what a run of the model may do next: every event of the rendered tree (buttons,
  inputs, selects, check boxes, keys; disabled controls have none) is offered, so it is a step
  of the run, and every event the model offers has a control on the page. For the inputs of the
  record form only the first half holds: the model allows every value for a JSON field, the page
  those that parsing can give.
\<close>

theorem page_is_run_model:
  assumes "\<not> crashed (App h a c)"
  shows "{e \<in> events_of (App h a c). \<not> types_field e} = {e. offered h c e \<and> \<not> types_field e} \<and>
    events_of (App h a c) \<subseteq> {e. offered h c e} \<and>
    (running c \<longrightarrow> (\<forall>e \<in> events_of (App h a c). app_step h c (refresh h (app_do h e c))))"
proof -
  have sub: "events_of (App h a c) \<subseteq> {e. offered h c e}"
    using App_events [OF assms] App_typed [OF assms] by blast
  moreover have "{e \<in> events_of (App h a c). \<not> types_field e} = {e. offered h c e \<and> \<not> types_field e}"
    using App_events [OF assms] by blast
  ultimately show ?thesis by (blast intro: app_step.user)
qed

lemma signed_in_shown: "\<not> crashed (App byte_host [] (signed_in ''system-settings''))"
  by code_simp

theorem page_is_run_model_witness:
  "{e \<in> events_of (App byte_host [] (signed_in ''system-settings'')). \<not> types_field e} =
     {e. offered byte_host (signed_in ''system-settings'') e \<and> \<not> types_field e}"
  using page_is_run_model [OF signed_in_shown] by blast

section \<open>Clicks\<close>

text \<open>
  C8. One click, one action. Wherever the user clicks in the console, whatever its state, at most
  one handler runs: the buttons inside the clickable rows and cards stop the click before it
  reaches the row, and the dialogues are not inside anything clickable.
\<close>

theorem one_click_one_handler:
  "list_all (\<lambda>n. list_all (\<lambda>tap. length (snd tap) \<le> 1) (taps n)) (App h a c)"
  using App_one [of h a c] by (simp add: one_handlers_def one_handler_def list_all_iff)

text \<open>
  C22. Buttons that do nothing. On the console, whatever its state, the buttons without a handler
  are the database icon of the header and, page by page, those of \<open>page_dead_buttons\<close>: the
  dashboard's Today and Data Export, the filter icon of the directory, a member's Audit Entries,
  the trash icon of every flag card, Manage Segments, Create Collection, Re-record Flow, and
  every button of the API key, worker and hardening tabs. Every other button of the console has
  a handler.
\<close>

theorem dead_buttons_exact:
  assumes "gate c = ConsoleView" and "filteredUsers (user_part (slice c)) = Inr us"
  shows "dead_buttons_of (App h a c) = [] # page_dead_buttons c"
  using assms by (simp add: App_def console_def shown_res_def dead_shell dead_page dead_dialogs)

theorem dead_buttons_exact_witness:
  "dead_buttons_of (App byte_host [] (signed_in ''dashboard'')) = [[], ''Today'', '' Data Export'']"
  using dead_buttons_exact [of "signed_in ''dashboard''" "[]" byte_host "[]"]
  by (simp add: page_dead_buttons_def Let_def)

section \<open>Blank pages\<close>

text \<open>
  C35. A malformed form blanks the console. When the configuration of the selected collection has
  form inputs that are not a list, rendering throws on every page: the dialogue is closed, but
  its content is an argument and is evaluated all the same. Nothing is left to click, not even
  another collection.
\<close>

theorem malformed_form_blanks_console:
  assumes "gate c = ConsoleView"
    and "truthy (oget (oget (spec (shown_collection c)) ''form'') ''inputs'')"
    and "\<not> is_array (oget (oget (spec (shown_collection c)) ''form'') ''inputs'')"
    and "\<not> isResourceModalOpen (ex_part (slice c))"
  shows "crashed (App h a c) \<and> usable_events (App h a c) = {}"
proof -
  have "Throw not_array \<in> set (record_dialog h (formData c) (shown_collection c) (ex_part (slice c)))"
    using assms(2-4)
    by (cases "oget (oget (spec (shown_collection c)) ''form'') ''inputs''")
      (auto simp: record_dialog_def Modal_def evaluated_def inputs_list_def each_def Let_def)
  then have "crashed (record_dialog h (formData c) (shown_collection c) (ex_part (slice c)))"
    by (force simp: crashed_def list_ex_iff)
  then have "crashed (dialogs h c)"
    by (simp add: dialogs_def Let_def)
  then have "crashed (App h a c)"
    using assms(1) by (cases "filteredUsers (user_part (slice c))") (simp_all add: App_def console_def shown_res_def)
  then show ?thesis by (simp add: usable_events_def)
qed

definition broken_form :: app_ctx where
  "broken_form =
     on_slice (\<lambda>b. b\<lparr>ex_part := ex_initial
         \<lparr>collections := [empty_collection\<lparr>spec := JObj [(''form'', JObj [(''inputs'', JObj [])])]\<rparr>]\<rparr>\<rparr>)
       (signed_in ''alerts'')"

theorem malformed_form_blanks_console_witness: "usable_events (App byte_host [] broken_form) = {}"
  using malformed_form_blanks_console [of broken_form byte_host "[]"]
  by (simp add: broken_form_def on_slice_def signed_in_def app_initial_def gate_def gate_view_def activeCollection_def
      ofield_def ex_initial_def)

text \<open>
  C36. A member whose name is not text blanks the login form. The search of the directory runs in
  every rendering, before the gate is looked at, so that one record whose name or e-mail the
  search cannot read takes away every page and the login form as well, whatever the session.
\<close>

theorem unreadable_member_blanks_everything:
  assumes "u \<in> set (users (user_part (slice c)))" and "\<forall>n. uname u \<noteq> JStr n"
  shows "\<exists>m. App h a c = [Throw m] \<and> usable_events (App h a c) = {}"
proof -
  have bad: "\<exists>m. user_matches q u = Inl m" for q
    using assms(2) by (cases "uname u") (auto simp: user_matches_def js_toLowerCase_def)
  have "\<exists>m. filter_res (user_matches q) us = Inl m" if "u \<in> set us" for q us
    using that
  proof (induction us)
    case (Cons x xs)
    show ?case
    proof (cases "user_matches q x")
      case (Inr b)
      with bad [of q] Cons.prems have "u \<in> set xs" by auto
      with Cons.IH Inr show ?thesis by auto
    qed simp
  qed simp
  from this [OF assms(1), of "search (user_part (slice c))"] show ?thesis
    by (auto simp: App_def filteredUsers_def shown_res_def usable_events_def crashed_def)
qed

definition numbered_member :: app_ctx where
  "numbered_member = on_slice (\<lambda>b. b\<lparr>user_part := user_initial\<lparr>users := [bob, bob\<lparr>uname := JNum 7\<rparr>]\<rparr>\<rparr>) (app_initial 0)"

theorem unreadable_member_blanks_everything_witness:
  "usable_events (App byte_host [] numbered_member) = {}"
proof -
  have "bob\<lparr>uname := JNum 7\<rparr> \<in> set (users (user_part (slice numbered_member)))"
    by (simp add: numbered_member_def on_slice_def)
  from unreadable_member_blanks_everything [OF this] show ?thesis by auto
qed

end
