(* ===== verification/Spec2Isabelle.thy ===== *)
theory Spec2Isabelle
  imports AppTheorems AppTypes AppTimers SessionRuns Reloads GuideRuns ViewProperties AdminNav Labels KillSwitch DocsPanels
begin

text \<open>
  The administration console of BFFX, verified as it is written.

  THE PROGRAM. The console is the React single page application under
  src/pkg/admin/ui-v2/src: App.tsx holds the whole state in \<open>useState\<close> hooks, loads it with
  \<open>fetch\<close> from the administration API of the server and renders the pages; AdminNav.tsx is
  the sidebar; BffxDocsPanel.tsx and ApiDocsPanel.tsx are the documentation pages;
  components/ holds the kill switch control, the association list, the relation picker and
  link, and the analytics placeholder; lib/ holds the session guard, the idle logout, the
  menu search, the labels and the analytics copy. The Go server under src/pkg is the
  environment: whatever it answers is an argument of the model, so the theorems quantify
  over every reply, in every order, and over network failures.

  HOW IT IS MODELLED.
  JavaScript strings are strings of bytes and JavaScript values are \<open>jv\<close> (theory JsValue,
  with truthiness, optional chaining, spread and JSON serialisation); the string library is
  theory JsPrelude, the URL functions are theory WebUrl. Numbers are integers: the console
  computes with counts, pages and times only; a number that is not one is outside the model, and
  so are a page of the menu that is not text and a single resource whose name is not text.
  A component's operation is a function on a context (\<open>ctx\<close>, theory Ctx): the session flag,
  the form object all dialogues share, the navigation state, the alerts, the requests in
  flight and the component's own data. A \<open>fetch\<close> puts a request in \<open>outbox\<close> together with a
  continuation, a value of a datatype with one constructor per promise chain whose arguments
  are what the chain's closures captured (so stale closures are modelled); the function
  \<open>..._resume\<close> runs the continuation on an outcome, written with \<open>js_then\<close>, \<open>js_catch\<close> and
  \<open>js_finally\<close> as the source chains them. \<open>window.confirm\<close> is a boolean argument. The locale
  functions of the browser (\<open>localeCompare\<close>, date and number formats, the uptime text and
  \<open>JSON.parse\<close>) are the fields of \<open>host\<close>, arguments of the definitions that use them.
  What a component renders is a tree of nodes (theory Markup): elements with the attributes
  that depend on the state, their listeners, text, charts with the series they are given, and
  \<open>Throw\<close> where evaluating the JSX throws. From a tree one reads the events it lets the user
  make, the handlers a click runs as it bubbles, the buttons without a handler, and whether
  rendering throws, which blanks the page, for no error boundary is above it.

  THE THEORIES.
  JsPrelude, JsValue, WebUrl, Ctx: the language and the browser, and the contracts
  \<open>session_guarded\<close> (a 401 and nothing else ends the session, the form is left alone) and
  \<open>quiet_loader\<close> (a failure changes no data), interpreted on every loader of the code.
  Labels (lib/labels.ts), IdleSession (lib/adminIdleSession.ts, a step relation over time with
  the 32 bit delay of \<open>setTimeout\<close>), AdminNav (AdminNav.tsx, lib/adminNavMenu.ts and the page
  switch of App.tsx), Dashboard (lib/dashboardAnalytics.ts, the placeholder, widgets and
  performance window), KillSwitch (components/KillSwitchControl.tsx, a step relation).
  Telemetry, Collections, Records, Users, Admins, Flags, Session, Ops, Features: the parts of
  App.tsx, each with its state record, its requests, its handlers and its callbacks.
  DocsPanels: the documentation pages, association lists, relation pickers and links.
  AppState: the state of App.tsx as a whole, components embedded by the lenses of
  \<open>part_lens\<close>; its effects in the order of the source, each guarded by its dependency list.
  AppEffects: what effects may touch, and that they come to rest. AppRequests: what a commit
  sends. AppSession: which replies begin and end the session. AppRun: every event a page
  offers, replies, timers and stream as the step relation \<open>app_step\<close>, and its reachable
  states. AppInvariants: the invariants of those. AppTheorems: the properties of the whole.
  AppPhases: the abstract session and the simulation of its steps; SessionRuns: the contract
  \<open>driven_machine\<close>, which carries such a simulation over to runs. AppTypes: the declared types as an
  invariant of the reachable states. AppTimers: when the timers and the stream are armed.
  Reloads: the two ways the code reads the configuration and the feature tree, compared.
  GuideRuns: the guide reader as a panel that is mounted, clicked and answered.
  Markup, Widgets (components/Modal.tsx and the cards, headers and fields beside it), JsonText
  (\<open>JSON.stringify\<close>): what rendering is. PageTelemetry (dashboard, performance, alerts),
  PageUsers, PageFlags, PageResources, PageFeatures, PageSettings, Dialogs, PagePanels (the
  guide reader, the association list, the picker): the JSX of each page and dialogue as a
  function of the state. ConsoleView: the loading screen, the login form, the sidebar, the
  header and the tree \<open>App\<close> that App.tsx returns. ViewEvents, ViewFeatures, ViewDialogs,
  ViewTheorems: the events of that tree, page by page, against those the run offers.
  ViewButtons: the buttons without a handler. ViewProperties: the properties of the rendered
  console.

  WHAT IS SHOWN. Refinements: the rendered console offers exactly the events of the run model,
  the run model implements a three-state session, the rendered sidebar is the flat
  specification of the menu. The declared types and the state invariants (pager, targeting
  rules, kill switch, timers following the session) hold in every reachable state. Functional
  behaviour on every branch (replies and the session, search, sidebar clicks, requests sent by
  a login, dead buttons), one handler per click, round trips (query strings, targeting rules),
  equivalences (the performance chart is the last seven samples, a reload is a first load).
  Where the code does not do what it means to, theorems show what it does instead: a login
  over an open dialogue sends the password, a malformed form or one odd member blanks every
  page, a selected collection is asked for with the old query, a late document, lost
  updates, error replies stored as rows.

  BOUNDS. \<open>settle\<close> runs commits with fuel; 3 is enough, as \<open>effects_come_to_rest\<close> proves: the
  first commit may reset the query, the second then reloads the records, and nothing is
  left. Every other recursion is structural or has a termination proof.

  NOT MODELLED. Class names that depend on nothing, inline styles, animations (an element is
  gone when its condition is, \<open>AnimatePresence\<close> keeps it for the length of its exit) and how the
  chart package draws the series it is given; the mock records at the head of App.tsx, which
  nothing reads; main.tsx, which mounts \<open>App\<close>, and the class name helper lib/utils.ts, both
  calls of other packages; the page reload after a logout, which ends a run. The internal state
  of the documentation panels, association lists and pickers is modelled, rendered and, for
  the guide, run by itself and not mounted in the whole, where they are elements; Swagger UI is shown or not
  shown. React's batching is modelled as one commit after each handler or callback.
\<close>

end
